(* ===== verification/Prelude.thy ===== *)
theory Prelude
  imports Complex_Main "HOL-Library.Multiset" "HOL-Library.Word"
begin

text \<open>
  Shared material of the development: fixed-width integers of the C++ code read as
  \<open>int\<close> with the wrap-around written out, the ASCII character classes and number
  conversions of the C and C++ standard library that the sources call, and a stable
  sort by an arbitrary C++ comparator with the contract of a strict weak ordering
  stated as a locale.
\<close>

named_theorems cpp_int "range facts of the fixed-width integers"
named_theorems inv_intro "invariant preservation, one fact per operation"

section \<open>Fixed-width integers\<close>

text \<open>
  An \<open>int32_t\<close> or \<open>int64_t\<close> is an \<open>int\<close>; the narrowing \<open>static_cast\<close> and the
  two's-complement wrap-around are \<open>wrap32\<close> and \<open>wrap64\<close>.
\<close>

definition wrap32 :: "int \<Rightarrow> int" where
  "wrap32 x = signed_take_bit 31 x"

definition wrap64 :: "int \<Rightarrow> int" where
  "wrap64 x = signed_take_bit 63 x"

definition is_i32 :: "int \<Rightarrow> bool" where
  "is_i32 x \<longleftrightarrow> - (2 ^ 31) \<le> x \<and> x < 2 ^ 31"

definition is_i64 :: "int \<Rightarrow> bool" where
  "is_i64 x \<longleftrightarrow> - (2 ^ 63) \<le> x \<and> x < 2 ^ 63"

lemma is_i32_wrap32 [simp, cpp_int]: "is_i32 (wrap32 x)"
  using signed_take_bit_int_greater_eq_minus_exp [of 31 x] signed_take_bit_int_less_exp [of 31 x]
  by (simp add: is_i32_def wrap32_def)

lemma is_i64_wrap64 [simp, cpp_int]: "is_i64 (wrap64 x)"
  using signed_take_bit_int_greater_eq_minus_exp [of 63 x] signed_take_bit_int_less_exp [of 63 x]
  by (simp add: is_i64_def wrap64_def)

lemma wrap32_id [simp]: "is_i32 x \<Longrightarrow> wrap32 x = x"
  unfolding wrap32_def is_i32_def
  by (rule signed_take_bit_int_eq_self) simp_all

lemma wrap64_id [simp]: "is_i64 x \<Longrightarrow> wrap64 x = x"
  unfolding wrap64_def is_i64_def
  by (rule signed_take_bit_int_eq_self) simp_all

lemma is_i32_is_i64 [cpp_int]: "is_i32 x \<Longrightarrow> is_i64 x"
  by (simp add: is_i32_def is_i64_def)

text \<open>The two readings agree with the machine words of the library.\<close>

lemma wrap32_word: "wrap32 x = sint (word_of_int x :: 32 word)"
  by (simp add: wrap32_def sint_sbintrunc')

lemma wrap64_word: "wrap64 x = sint (word_of_int x :: 64 word)"
  by (simp add: wrap64_def sint_sbintrunc')

text \<open>\<open>std::llabs\<close>, division and truncation towards zero, as C++ rounds.\<close>

definition cdiv :: "int \<Rightarrow> int \<Rightarrow> int" where
  "cdiv a b = sgn a * sgn b * (\<bar>a\<bar> div \<bar>b\<bar>)"

definition trunc_rat :: "rat \<Rightarrow> int" where
  "trunc_rat q = (if 0 \<le> q then \<lfloor>q\<rfloor> else \<lceil>q\<rceil>)"

text \<open>
  \<open>static_cast<int64_t>\<close> of a \<open>double\<close>. A finite double is a rational. The cast of a
  value outside the 64-bit range is undefined in C++; the model wraps it.
\<close>

definition double_to_i64 :: "rat \<Rightarrow> int" where
  "double_to_i64 q = wrap64 (trunc_rat q)"

section \<open>Characters and decimal numbers\<close>

definition ccode :: "char \<Rightarrow> nat" where
  "ccode c = of_char c"

definition isdigit :: "char \<Rightarrow> bool" where
  "isdigit c \<longleftrightarrow> 48 \<le> ccode c \<and> ccode c \<le> 57"

definition isspace :: "char \<Rightarrow> bool" where
  "isspace c \<longleftrightarrow> ccode c = 32 \<or> (9 \<le> ccode c \<and> ccode c \<le> 13)"

definition digit_val :: "char \<Rightarrow> int" where
  "digit_val c = int (ccode c) - 48"

definition digit_char :: "nat \<Rightarrow> char" where
  "digit_char d = char_of (48 + d)"

definition tolower :: "char \<Rightarrow> char" where
  "tolower c = (if 65 \<le> ccode c \<and> ccode c \<le> 90 then char_of (ccode c + 32) else c)"

definition nul :: char where
  "nul = char_of (0::nat)"

text \<open>What \<open>s.c_str()\<close> shows to a C function: the bytes before the first NUL.\<close>

definition c_str :: "string \<Rightarrow> string" where
  "c_str s = takeWhile (\<lambda>c. c \<noteq> nul) s"

lemma ccode_digit_char [simp]: "d < 10 \<Longrightarrow> ccode (digit_char d) = 48 + d"
  by (simp add: ccode_def digit_char_def)

lemma isdigit_digit_char [simp]: "d < 10 \<Longrightarrow> isdigit (digit_char d)"
  by (simp add: isdigit_def)

lemma digit_val_digit_char [simp]: "d < 10 \<Longrightarrow> digit_val (digit_char d) = int d"
  by (simp add: digit_val_def)

lemma not_isdigit_space: "isdigit c \<Longrightarrow> \<not> isspace c"
  by (auto simp: isdigit_def isspace_def)

lemma ccode_nul [simp]: "ccode nul = 0"
  by (simp add: ccode_def nul_def)

lemma isdigit_not_nul: "isdigit c \<Longrightarrow> c \<noteq> nul"
  by (auto simp: isdigit_def)

lemma nul_CHR: "nul = CHR 0x00"
  by (simp add: nul_def char_of_def)

lemma c_str_id [simp]: "nul \<notin> set s \<Longrightarrow> c_str s = s"
  by (auto simp: c_str_def takeWhile_eq_all_conv)

text \<open>\<open>std::to_string\<close> of an integer.\<close>

fun dec_digits :: "nat \<Rightarrow> string" where
  "dec_digits n = (if n < 10 then [digit_char n] else dec_digits (n div 10) @ [digit_char (n mod 10)])"

declare dec_digits.simps [simp del]

definition to_string :: "int \<Rightarrow> string" where
  "to_string i = (if i < 0 then CHR ''-'' # dec_digits (nat (- i)) else dec_digits (nat i))"

text \<open>The value of a run of digits, most significant first.\<close>

definition digits_val :: "string \<Rightarrow> int" where
  "digits_val ds = foldl (\<lambda>v c. 10 * v + digit_val c) 0 ds"

lemma digits_val_snoc [simp]: "digits_val (ds @ [c]) = 10 * digits_val ds + digit_val c"
  by (simp add: digits_val_def)

lemma digits_val_dec [simp]: "digits_val (dec_digits n) = int n"
proof (induction n rule: dec_digits.induct)
  case (1 n)
  show ?case
  proof (cases "n < 10")
    case True
    then show ?thesis by (simp add: dec_digits.simps [of n] digits_val_def)
  next
    case False
    then have IH: "digits_val (dec_digits (n div 10)) = int (n div 10)"
      using 1 by blast
    have "digits_val (dec_digits n) = 10 * int (n div 10) + int (n mod 10)"
      using False IH by (simp add: dec_digits.simps [of n])
    also have "\<dots> = int n" by presburger
    finally show ?thesis .
  qed
qed

lemma dec_digits_isdigit: "c \<in> set (dec_digits n) \<Longrightarrow> isdigit c"
proof (induction n rule: dec_digits.induct)
  case (1 n)
  then show ?case
    by (cases "n < 10") (auto simp: dec_digits.simps [of n])
qed

lemma dec_digits_not_Nil [simp]: "dec_digits n \<noteq> []"
  by (simp add: dec_digits.simps [of n])

lemma takeWhile_dec_digits [simp]:
  "takeWhile isdigit (dec_digits n) = dec_digits n" "dropWhile isdigit (dec_digits n) = []"
  by (auto simp: takeWhile_eq_all_conv dropWhile_eq_Nil_conv dest: dec_digits_isdigit)

text \<open>
  \<open>strtoll(text, &end, 10)\<close>: leading white space, an optional sign, digits; the value
  saturates at the ends of \<open>int64_t\<close>. The second component is the rest that \<open>end\<close>
  points at, or \<open>None\<close> when there was nothing to convert and \<open>end\<close> is the start.
\<close>

definition clamp64 :: "int \<Rightarrow> int" where
  "clamp64 v = max (- (2 ^ 63)) (min (2 ^ 63 - 1) v)"

definition scan_sign :: "string \<Rightarrow> int \<times> string" where
  "scan_sign s = (case s of
      [] \<Rightarrow> (1, [])
    | c # cs \<Rightarrow> if c = CHR ''-'' then (- 1, cs) else if c = CHR ''+'' then (1, cs) else (1, s))"

definition scan_integer :: "string \<Rightarrow> (int \<times> string) option" where
  "scan_integer text =
     (let (sg, s) = scan_sign (dropWhile isspace (c_str text)); ds = takeWhile isdigit s
      in if ds = [] then None else Some (sg * digits_val ds, dropWhile isdigit s))"

definition strtoll :: "string \<Rightarrow> int \<times> string option" where
  "strtoll text = (case scan_integer text of
      None \<Rightarrow> (0, None)
    | Some (v, rest) \<Rightarrow> (clamp64 v, Some rest))"

text \<open>\<open>std::stoll\<close>: an exception (\<open>None\<close>) when nothing converts or the value is out of range.\<close>

definition stoll :: "string \<Rightarrow> int option" where
  "stoll text = (case scan_integer text of
      None \<Rightarrow> None
    | Some (v, rest) \<Rightarrow> if is_i64 v then Some v else None)"

lemma is_i64_clamp64 [simp, cpp_int]: "is_i64 (clamp64 v)"
  by (simp add: is_i64_def clamp64_def)

lemma clamp64_id [simp]: "is_i64 v \<Longrightarrow> clamp64 v = v"
  by (simp add: is_i64_def clamp64_def)

lemma dec_digits_Cons_isdigit:
  assumes "dec_digits n = c # cs"
  shows "isdigit c"
  using assms dec_digits_isdigit [of c n] by simp

lemma dec_digits_no_nul [simp]: "nul \<notin> set (dec_digits n)"
  by (auto dest: dec_digits_isdigit isdigit_not_nul)

lemma minus_not_nul: "CHR ''-'' \<noteq> nul"
proof
  assume "CHR ''-'' = nul"
  then have "ccode (CHR ''-'') = ccode nul" by simp
  then show False by (simp add: ccode_def nul_def)
qed

lemma scan_sign_dec [simp]: "scan_sign (dec_digits n) = (1, dec_digits n)"
proof (cases "dec_digits n")
  case Nil
  then show ?thesis by simp
next
  case (Cons c cs)
  then have "isdigit c" by (rule dec_digits_Cons_isdigit)
  then have "c \<noteq> CHR ''-''" "c \<noteq> CHR ''+''"
    by (auto simp: isdigit_def ccode_def)
  with Cons show ?thesis by (simp add: scan_sign_def)
qed

lemma dropWhile_isspace_dec [simp]: "dropWhile isspace (dec_digits n) = dec_digits n"
  by (cases "dec_digits n") (auto dest: dec_digits_Cons_isdigit not_isdigit_space)

lemma scan_integer_to_string: "scan_integer (to_string i) = Some (i, [])"
proof (cases "i < 0")
  case True
  have sp: "\<not> isspace (CHR ''-'')" by (simp add: isspace_def ccode_def)
  have "c_str (CHR ''-'' # dec_digits (nat (- i))) = CHR ''-'' # dec_digits (nat (- i))"
    using minus_not_nul by simp
  then show ?thesis using True sp
    by (simp add: scan_integer_def to_string_def scan_sign_def)
next
  case False
  then show ?thesis
    by (simp add: scan_integer_def to_string_def)
qed

lemma stoll_to_string [simp]: "is_i64 i \<Longrightarrow> stoll (to_string i) = Some i"
  by (simp add: stoll_def scan_integer_to_string)

lemma strtoll_to_string [simp]: "is_i64 i \<Longrightarrow> strtoll (to_string i) = (i, Some [])"
  by (simp add: strtoll_def scan_integer_to_string)

lemma is_i64_stoll [cpp_int]: "stoll s = Some v \<Longrightarrow> is_i64 v"
  by (auto simp: stoll_def split: option.splits if_splits)

lemma to_string_no_nul [simp]: "nul \<notin> set (to_string i)"
  using minus_not_nul by (auto simp: to_string_def)

lemma to_string_not_Nil [simp]: "to_string i \<noteq> []"
  by (simp add: to_string_def)

section \<open>Stable sorting by a comparator\<close>

text \<open>
  \<open>std::stable_sort\<close> by a comparator: insertion that keeps the order of elements the
  comparator does not separate. The contract the standard asks of a comparator is a
  strict weak ordering; under it the result is determined by "sorted, a permutation,
  and stable", so any implementation of \<open>std::stable_sort\<close> computes this function.
\<close>

fun insort_by :: "('a \<Rightarrow> 'a \<Rightarrow> bool) \<Rightarrow> 'a \<Rightarrow> 'a list \<Rightarrow> 'a list" where
  "insort_by lt x [] = [x]"
| "insort_by lt x (y # ys) = (if lt y x then y # insort_by lt x ys else x # y # ys)"

definition stable_sort :: "('a \<Rightarrow> 'a \<Rightarrow> bool) \<Rightarrow> 'a list \<Rightarrow> 'a list" where
  "stable_sort lt xs = foldr (insort_by lt) xs []"

definition ordered_by :: "('a \<Rightarrow> 'a \<Rightarrow> bool) \<Rightarrow> 'a list \<Rightarrow> bool" where
  "ordered_by lt xs \<longleftrightarrow> sorted_wrt (\<lambda>a b. \<not> lt b a) xs"

lemma mset_insort_by [simp]: "mset (insort_by lt x xs) = add_mset x (mset xs)"
  by (induction xs) auto

lemma mset_stable_sort [simp]: "mset (stable_sort lt xs) = mset xs"
  unfolding stable_sort_def by (induction xs) auto

lemma set_insort_by [simp]: "set (insort_by lt x xs) = insert x (set xs)"
  by (induction xs) auto

lemma set_stable_sort [simp]: "set (stable_sort lt xs) = set xs"
  by (rule mset_eq_setD) simp

lemma length_stable_sort [simp]: "length (stable_sort lt xs) = length xs"
  by (rule mset_eq_length) simp

lemma distinct_map_mset: "mset xs = mset ys \<Longrightarrow> distinct (map f xs) \<longleftrightarrow> distinct (map f ys)"
  by (metis mset_eq_imp_distinct_iff mset_map)

locale strict_weak_order =
  fixes lt :: "'a \<Rightarrow> 'a \<Rightarrow> bool"
  assumes lt_irrefl: "\<not> lt x x"
    and lt_trans: "lt x y \<Longrightarrow> lt y z \<Longrightarrow> lt x z"
    and lt_cotrans: "lt x z \<Longrightarrow> lt x y \<or> lt y z"
begin

lemma lt_asym: "lt x y \<Longrightarrow> \<not> lt y x"
  using lt_irrefl lt_trans by blast

lemma ordered_insort_by: "ordered_by lt xs \<Longrightarrow> ordered_by lt (insort_by lt x xs)"
proof (induction xs)
  case Nil
  then show ?case by (simp add: ordered_by_def)
next
  case (Cons y ys)
  then show ?case
    by (auto simp: ordered_by_def dest: lt_asym lt_cotrans)
qed

lemma ordered_stable_sort: "ordered_by lt (stable_sort lt xs)"
  unfolding stable_sort_def
  by (induction xs) (auto simp: ordered_insort_by, simp add: ordered_by_def)

lemma insort_by_front: "\<forall>y \<in> set ys. \<not> lt y x \<Longrightarrow> insort_by lt x ys = x # ys"
  by (cases ys) auto

lemma stable_sort_ordered: "ordered_by lt xs \<Longrightarrow> stable_sort lt xs = xs"
  unfolding stable_sort_def ordered_by_def
  by (induction xs) (auto simp: insort_by_front)

lemma stable_sort_idem: "stable_sort lt (stable_sort lt xs) = stable_sort lt xs"
  by (rule stable_sort_ordered) (rule ordered_stable_sort)

text \<open>Stability: elements the comparator does not separate keep their order.\<close>

lemma filter_insort_by_eq:
  assumes "\<not> lt x k" "\<not> lt k x"
  shows "filter (\<lambda>y. \<not> lt y k \<and> \<not> lt k y) (insort_by lt x ys)
       = x # filter (\<lambda>y. \<not> lt y k \<and> \<not> lt k y) ys"
  using assms by (induction ys) (auto dest: lt_cotrans)

lemma filter_insort_by_neq:
  "\<not> P x \<Longrightarrow> filter P (insort_by lt x ys) = filter P ys"
  by (induction ys) auto

lemma stable_sort_stable:
  "filter (\<lambda>y. \<not> lt y k \<and> \<not> lt k y) (stable_sort lt xs)
   = filter (\<lambda>y. \<not> lt y k \<and> \<not> lt k y) xs"
  unfolding stable_sort_def
proof (induction xs)
  case Nil
  then show ?case by simp
next
  case (Cons x xs)
  then show ?case
    by (cases "\<not> lt x k \<and> \<not> lt k x") (auto simp: filter_insort_by_eq filter_insort_by_neq)
qed

end

section \<open>Lists keyed by an identifier\<close>

lemma map_of_filter_fst:
  "map_of (filter (\<lambda>p. P (fst p)) xs) k = (if P k then map_of xs k else None)"
  by (induction xs) auto

lemma find_append: "List.find P (xs @ ys) = (case List.find P xs of Some x \<Rightarrow> Some x | None \<Rightarrow> List.find P ys)"
  by (induction xs) auto

lemma find_Some_set: "List.find P xs = Some x \<Longrightarrow> x \<in> set xs \<and> P x"
  by (metis find_Some_iff nth_mem)

lemma find_distinct_key:
  assumes "distinct (map f xs)" and "x \<in> set xs"
  shows "List.find (\<lambda>y. f y = f x) xs = Some x"
  using assms by (induction xs) auto

end
