(* ===== verification/Stores.thy ===== *)
theory Stores
  imports Prelude
begin

text \<open>
  Interfaces that several components share. A \<open>keyed_store\<close> promises what a lookup
  returns after a value was stored under the key it carries; the conversation cache, the
  metadata table and the outbound table provide it, the sync engine and the managers
  rely on it. An \<open>erasable_store\<close> can also forget a key.
\<close>

locale keyed_store =
  fixes key :: "'v \<Rightarrow> 'k"
    and lookup :: "'k \<Rightarrow> 's \<Rightarrow> 'v option"
    and store :: "'v \<Rightarrow> 's \<Rightarrow> 's"
    and invar :: "'s \<Rightarrow> bool"
  assumes lookup_store: "invar s \<Longrightarrow> lookup k (store v s) = (if k = key v then Some v else lookup k s)"
    and invar_store: "invar s \<Longrightarrow> invar (store v s)"
    and lookup_key: "invar s \<Longrightarrow> lookup k s = Some v \<Longrightarrow> key v = k"
begin

lemma invar_fold_store: "invar s \<Longrightarrow> invar (fold store vs s)"
  by (induction vs arbitrary: s) (auto intro: invar_store)

text \<open>After a batch of stores, a key holds the last value the batch gave it.\<close>

lemma lookup_fold_store:
  "invar s \<Longrightarrow> lookup k (fold store vs s) =
     (case List.find (\<lambda>v. key v = k) (rev vs) of Some v \<Rightarrow> Some v | None \<Rightarrow> lookup k s)"
proof (induction vs arbitrary: s)
  case Nil
  then show ?case by simp
next
  case (Cons v vs)
  show ?case
    using Cons.IH [OF invar_store [OF Cons.prems]] Cons.prems
    by (auto simp: find_append lookup_store split: option.splits)
qed

lemma store_idem: "invar s \<Longrightarrow> lookup k (store v (store v s)) = lookup k (store v s)"
  by (simp add: lookup_store invar_store)

lemma store_commute:
  "invar s \<Longrightarrow> key v \<noteq> key w \<Longrightarrow> lookup k (store v (store w s)) = lookup k (store w (store v s))"
  by (simp add: lookup_store invar_store)

end

locale erasable_store = keyed_store key lookup store invar
  for key :: "'v \<Rightarrow> 'k" and lookup :: "'k \<Rightarrow> 's \<Rightarrow> 'v option" and store :: "'v \<Rightarrow> 's \<Rightarrow> 's"
    and invar :: "'s \<Rightarrow> bool" +
  fixes erase :: "'k \<Rightarrow> 's \<Rightarrow> 's"
  assumes lookup_erase: "invar s \<Longrightarrow> lookup k (erase k' s) = (if k = k' then None else lookup k s)"
    and invar_erase: "invar s \<Longrightarrow> invar (erase k s)"
begin

lemma erase_store: "invar s \<Longrightarrow> lookup k (erase (key v) (store v s)) = lookup k (erase (key v) s)"
  by (simp add: lookup_erase lookup_store invar_store)

end

section \<open>Tables with a primary key\<close>

text \<open>
  A table is the list of its rows in the order in which a scan returns them; SQLite does
  not document an order, so nothing is proved from it beyond what an ORDER BY gives.
\<close>

definition row_with :: "('r \<Rightarrow> 'k) \<Rightarrow> 'k \<Rightarrow> 'r list \<Rightarrow> 'r option" where
  "row_with key k rows = List.find (\<lambda>r. key r = k) rows"

definition update_rows :: "('r \<Rightarrow> bool) \<Rightarrow> ('r \<Rightarrow> 'r) \<Rightarrow> 'r list \<Rightarrow> 'r list" where
  "update_rows P f rows = map (\<lambda>r. if P r then f r else r) rows"

definition delete_rows :: "('r \<Rightarrow> bool) \<Rightarrow> 'r list \<Rightarrow> 'r list" where
  "delete_rows P rows = filter (\<lambda>r. \<not> P r) rows"

definition has_row :: "('r \<Rightarrow> 'k) \<Rightarrow> 'k \<Rightarrow> 'r list \<Rightarrow> bool" where
  "has_row key k rows \<longleftrightarrow> list_ex (\<lambda>r. key r = k) rows"

text \<open>INSERT with \<open>ON CONFLICT(key) DO UPDATE SET ...\<close>, \<open>upd\<close> being the SET list.\<close>

definition upsert_row :: "('r \<Rightarrow> 'k) \<Rightarrow> 'r \<Rightarrow> ('r \<Rightarrow> 'r) \<Rightarrow> 'r list \<Rightarrow> 'r list" where
  "upsert_row key new upd rows =
     (if has_row key (key new) rows
      then update_rows (\<lambda>r. key r = key new) upd rows
      else rows @ [new])"

definition insert_or_ignore :: "('r \<Rightarrow> 'k) \<Rightarrow> 'r \<Rightarrow> 'r list \<Rightarrow> 'r list" where
  "insert_or_ignore key new rows = (if has_row key (key new) rows then rows else rows @ [new])"

definition insert_or_replace :: "('r \<Rightarrow> 'k) \<Rightarrow> 'r \<Rightarrow> 'r list \<Rightarrow> 'r list" where
  "insert_or_replace key new rows = delete_rows (\<lambda>r. key r = key new) rows @ [new]"

definition unique :: "('r \<Rightarrow> 'k) \<Rightarrow> 'r list \<Rightarrow> bool" where
  "unique key rows \<longleftrightarrow> distinct (map key rows)"

lemma has_row_iff: "has_row key k rows \<longleftrightarrow> k \<in> key ` set rows"
  by (auto simp: has_row_def list_ex_iff)

lemma row_with_None: "row_with key k rows = None \<longleftrightarrow> \<not> has_row key k rows"
  by (auto simp: row_with_def has_row_iff find_None_iff)

lemma row_with_key: "row_with key k rows = Some r \<Longrightarrow> r \<in> set rows \<and> key r = k"
  unfolding row_with_def by (rule find_Some_set)

lemma row_with_append: "row_with key k (xs @ ys) =
    (case row_with key k xs of None \<Rightarrow> row_with key k ys | Some r \<Rightarrow> Some r)"
  unfolding row_with_def by (induction xs) auto

lemma row_with_single [simp]: "row_with key k [r] = (if key r = k then Some r else None)"
  by (simp add: row_with_def)

lemma row_with_update:
  "(\<And>r. key r = k' \<Longrightarrow> key (upd r) = k') \<Longrightarrow>
   row_with key k (update_rows (\<lambda>r. key r = k') upd rows)
     = (if k = k' then map_option upd (row_with key k rows) else row_with key k rows)"
  unfolding row_with_def update_rows_def by (induction rows) auto

lemma row_with_delete:
  "row_with key k (delete_rows (\<lambda>r. key r = k') rows) = (if k = k' then None else row_with key k rows)"
  unfolding row_with_def delete_rows_def by (induction rows) auto

lemma row_with_upsert:
  assumes "\<And>r. key r = key new \<Longrightarrow> key (upd r) = key new"
  shows "row_with key k (upsert_row key new upd rows) =
    (if k = key new then Some (case row_with key k rows of None \<Rightarrow> new | Some r \<Rightarrow> upd r)
     else row_with key k rows)"
proof (cases "has_row key (key new) rows")
  case True
  then obtain r where "row_with key (key new) rows = Some r"
    using row_with_None [of key "key new" rows] by auto
  then show ?thesis using True assms by (simp add: upsert_row_def row_with_update)
next
  case False
  then have "row_with key (key new) rows = None" by (simp add: row_with_None)
  then show ?thesis using False
    by (auto simp: upsert_row_def row_with_append split: option.splits)
qed

lemma unique_update: "(\<And>r. P r \<Longrightarrow> key (f r) = key r) \<Longrightarrow> unique key (update_rows P f rows) = unique key rows"
proof -
  assume a: "\<And>r. P r \<Longrightarrow> key (f r) = key r"
  have "map key (update_rows P f rows) = map key rows"
    using a by (induction rows) (auto simp: update_rows_def)
  then show ?thesis by (simp add: unique_def)
qed

lemma unique_append: "unique key (rows @ [r]) \<longleftrightarrow> unique key rows \<and> \<not> has_row key (key r) rows"
  by (auto simp: unique_def has_row_iff)

lemma unique_delete [simp]: "unique key rows \<Longrightarrow> unique key (delete_rows P rows)"
  by (simp add: unique_def delete_rows_def distinct_map_filter)

lemma unique_upsert:
  "unique key rows \<Longrightarrow> (\<And>r. key r = key new \<Longrightarrow> key (upd r) = key new) \<Longrightarrow>
   unique key (upsert_row key new upd rows)"
  by (cases "has_row key (key new) rows")
    (simp_all add: upsert_row_def unique_append unique_update [where P = "\<lambda>r. key r = key new"])

text \<open>A second unique column under an upsert that replaces the whole row.\<close>

lemma unique_upsert_other:
  assumes "unique key rows" and "unique key' rows" and "\<And>q. q \<in> set rows \<Longrightarrow> key' q = key' r \<Longrightarrow> key q = key r"
  shows "unique key' (upsert_row key r (\<lambda>_. r) rows)"
proof (cases "has_row key (key r) rows")
  case True
  define h where "h q = (if key q = key r then r else q)" for q
  have "distinct (map (\<lambda>q. key' (h q)) rows)"
    using assms
  proof (induction rows)
    case Nil
    then show ?case by simp
  next
    case (Cons q rows)
    have IH: "distinct (map (\<lambda>q. key' (h q)) rows)"
      using Cons.prems by (intro Cons.IH) (auto simp: unique_def)
    have "key' (h q) \<noteq> key' (h p)" if "p \<in> set rows" for p
    proof -
      have "key p \<in> key ` set rows" "key' p \<in> key' ` set rows" using that by simp_all
      then have "key p \<noteq> key q" "key' p \<noteq> key' q" using Cons.prems(1,2) by (auto simp: unique_def simp del: imageI)
      then show ?thesis using Cons.prems(3) [of q] Cons.prems(3) [of p] that by (auto simp: h_def)
    qed
    then have "key' (h q) \<notin> (\<lambda>q. key' (h q)) ` set rows" by blast
    then show ?case using IH by simp
  qed
  then show ?thesis using True by (simp add: upsert_row_def update_rows_def unique_def h_def o_def)
next
  case False
  have "\<not> has_row key' (key' r) rows"
  proof
    assume "has_row key' (key' r) rows"
    then obtain q where "q \<in> set rows" "key' q = key' r" by (auto simp: has_row_iff image_iff)
    then show False using assms(3) False by (auto simp: has_row_iff image_iff)
  qed
  then show ?thesis using False assms(2) by (simp add: upsert_row_def unique_append)
qed

lemma list_all_upsert: "list_all P rows \<Longrightarrow> P r \<Longrightarrow> list_all P (upsert_row key r (\<lambda>_. r) rows)"
  by (auto simp: upsert_row_def update_rows_def list_all_iff)

lemma unique_insert_or_ignore [simp]: "unique key rows \<Longrightarrow> unique key (insert_or_ignore key new rows)"
  by (simp add: insert_or_ignore_def unique_append)

lemma unique_insert_or_replace [simp]: "unique key rows \<Longrightarrow> unique key (insert_or_replace key new rows)"
  unfolding insert_or_replace_def
  by (subst unique_append) (auto simp: has_row_iff, auto simp: delete_rows_def)

lemma keys_upsert:
  "(\<And>r. key r = key new \<Longrightarrow> key (upd r) = key new) \<Longrightarrow>
   key ` set (upsert_row key new upd rows) = insert (key new) (key ` set rows)"
proof (cases "has_row key (key new) rows")
  case True
  assume upd: "\<And>r. key r = key new \<Longrightarrow> key (upd r) = key new"
  have "map key (update_rows (\<lambda>r. key r = key new) upd rows) = map key rows"
    by (auto simp: update_rows_def intro: upd)
  then have "key ` set (update_rows (\<lambda>r. key r = key new) upd rows) = key ` set rows"
    by (metis set_map)
  then show ?thesis using True by (simp add: upsert_row_def has_row_iff insert_absorb)
next
  case False
  then show ?thesis by (simp add: upsert_row_def)
qed

text \<open>A table whose upsert replaces every column is an erasable keyed store.\<close>

definition table_store :: "('r \<Rightarrow> 'k) \<Rightarrow> 'r \<Rightarrow> 'r list \<Rightarrow> 'r list" where
  "table_store key r rows = upsert_row key r (\<lambda>_. r) rows"

interpretation table: erasable_store key "row_with key" "table_store key" "unique key"
    "\<lambda>k. delete_rows (\<lambda>r. key r = k)" for key :: "'r \<Rightarrow> 'k"
proof unfold_locales
  fix rows :: "'r list" and k k' v w
  show "row_with key k (table_store key v rows) = (if k = key v then Some v else row_with key k rows)"
    by (simp add: table_store_def row_with_upsert split: option.split)
  show "row_with key k (delete_rows (\<lambda>r. key r = k') rows) = (if k = k' then None else row_with key k rows)"
    by (rule row_with_delete)
  show "row_with key k rows = Some w \<Longrightarrow> key w = k"
    by (drule row_with_key) (rule conjunct2)
  show "unique key rows \<Longrightarrow> unique key (table_store key v rows)"
    unfolding table_store_def by (rule unique_upsert) auto
  show "unique key rows \<Longrightarrow> unique key (delete_rows (\<lambda>r. key r = k) rows)" by simp
qed

end
