(* ===== verification/SdkTypes.thy ===== *)
theory SdkTypes
  imports Prelude
begin

text \<open>
  The data types of \<open>core/src/sdk_types.h\<close> that the modelled components use: enums as
  datatypes, structs as records. Each struct has its value-initialised instance
  (\<open>new_...\<close>), what a default constructed object holds before its fields are assigned.
\<close>

datatype connection_state = Disconnected | Connecting | Connected | Reconnecting

datatype message_type = MT_Text | MT_Image | MT_File | MT_Audio | MT_Video

record user_info =
  ui_user_id :: string
  ui_username :: string
  ui_avatar_url :: string
  ui_signature :: string
  ui_gender :: int
  ui_region :: string
  ui_is_friend :: bool
  ui_is_blocked :: bool

definition new_user_info :: user_info where
  "new_user_info = \<lparr>ui_user_id = [], ui_username = [], ui_avatar_url = [], ui_signature = [],
     ui_gender = 0, ui_region = [], ui_is_friend = False, ui_is_blocked = False\<rparr>"

section \<open>Messages\<close>

record message =
  m_message_id :: string
  m_local_id :: string
  m_conv_id :: string
  m_sender_id :: string
  m_content_type :: int
  m_type :: message_type
  m_content :: string
  m_seq :: int
  m_reply_to :: string
  m_timestamp_ms :: int
  m_status :: int
  m_send_state :: int
  m_is_read :: bool

definition new_message :: message where
  "new_message = \<lparr>m_message_id = [], m_local_id = [], m_conv_id = [], m_sender_id = [],
     m_content_type = 0, m_type = MT_Text, m_content = [], m_seq = 0, m_reply_to = [],
     m_timestamp_ms = 0, m_status = 0, m_send_state = 0, m_is_read = False\<rparr>"

record message_offline_result =
  mo_messages :: "message list"
  mo_has_more :: bool
  mo_next_seq :: int

record message_search_result =
  ms_messages :: "message list"
  ms_total :: int

record group_message_read_member =
  gm_user_id :: string
  gm_nickname :: string
  gm_read_at_ms :: int

record group_message_read_state =
  gs_read_count :: int
  gs_unread_count :: int
  gs_read_members :: "group_message_read_member list"

record message_read_receipt_event =
  rr_conversation_id :: string
  rr_from_user_id :: string
  rr_message_id :: string
  rr_last_read_seq :: int
  rr_last_read_message_id :: string
  rr_read_at_ms :: int

record message_typing_event =
  ty_conversation_id :: string
  ty_from_user_id :: string
  ty_typing :: bool
  ty_expire_at_ms :: int
  ty_device_id :: string

section \<open>Authentication\<close>

record auth_token =
  access_token :: string
  refresh_token :: string
  expires_at_ms :: int

definition new_auth_token :: auth_token where
  "new_auth_token = \<lparr>access_token = [], refresh_token = [], expires_at_ms = 0\<rparr>"

record verification_code_result =
  vc_code_id :: string
  vc_expires_in :: int

record auth_device =
  ad_device_id :: string
  ad_device_type :: int
  ad_client_version :: string
  ad_last_login_ip :: string
  ad_last_login_at_ms :: int
  ad_is_current :: bool

section \<open>Conversations\<close>

datatype conversation_type = Private | Group

record conversation =
  c_conv_id :: string
  c_conv_type :: conversation_type
  c_target_id :: string
  c_last_msg_id :: string
  c_last_msg_text :: string
  c_last_msg_time_ms :: int
  c_unread_count :: int
  c_is_pinned :: bool
  c_is_muted :: bool
  c_burn_after_reading :: int
  c_auto_delete_duration :: int
  c_pin_time_ms :: int
  c_local_seq :: int
  c_updated_at_ms :: int

definition new_conversation :: conversation where
  "new_conversation = \<lparr>c_conv_id = [], c_conv_type = Private, c_target_id = [], c_last_msg_id = [],
     c_last_msg_text = [], c_last_msg_time_ms = 0, c_unread_count = 0, c_is_pinned = False,
     c_is_muted = False, c_burn_after_reading = 0, c_auto_delete_duration = 0, c_pin_time_ms = 0,
     c_local_seq = 0, c_updated_at_ms = 0\<rparr>"

record conversation_unread_state =
  us_unread_count :: int
  us_last_message_seq :: int
  us_has_last_message :: bool
  us_last_message :: message

record conversation_read_receipt =
  cr_user_id :: string
  cr_last_read_seq :: int
  cr_last_read_message_id :: string
  cr_read_at_ms :: int
  cr_user_info :: user_info

record conversation_mark_read_result =
  mk_accepted_ids :: "string list"
  mk_ignored_ids :: "string list"
  mk_advanced_last_read_seq :: int

section \<open>Friends\<close>

record friend_info =
  f_user_id :: string
  f_remark :: string
  f_updated_at_ms :: int
  f_is_deleted :: bool
  f_user_info :: user_info

record friend_request =
  fr_request_id :: int
  fr_from_user_id :: string
  fr_to_user_id :: string
  fr_message :: string
  fr_source :: int
  fr_status :: int
  fr_created_at_ms :: int
  fr_from_user_info :: user_info

record blacklist_item =
  bl_id :: int
  bl_user_id :: string
  bl_blocked_user_id :: string
  bl_created_at_ms :: int
  bl_blocked_user_info :: user_info

section \<open>Calls\<close>

datatype call_type = Audio | Video

datatype call_status = Ringing | CallConnected | Ended | Rejected | Missed | Cancelled

record call_session =
  cs_call_id :: string
  cs_caller_id :: string
  cs_callee_id :: string
  cs_call_type :: call_type
  cs_status :: call_status
  cs_room_name :: string
  cs_token :: string
  cs_started_at :: int
  cs_connected_at :: int
  cs_ended_at :: int
  cs_duration :: int

record meeting_room =
  mr_room_id :: string
  mr_creator_id :: string
  mr_title :: string
  mr_room_name :: string
  mr_token :: string
  mr_has_password :: bool
  mr_max_participants :: int
  mr_is_active :: bool
  mr_started_at :: int
  mr_created_at_ms :: int

definition new_meeting_room :: meeting_room where
  "new_meeting_room = \<lparr>mr_room_id = [], mr_creator_id = [], mr_title = [], mr_room_name = [],
     mr_token = [], mr_has_password = False, mr_max_participants = 0, mr_is_active = True,
     mr_started_at = 0, mr_created_at_ms = 0\<rparr>"

record call_log_result =
  cl_calls :: "call_session list"
  cl_total :: int

record meeting_list_result =
  ml_rooms :: "meeting_room list"
  ml_total :: int

section \<open>Groups\<close>

text \<open>The enumerator's number is \<open>role_code\<close>.\<close>

datatype group_role = RoleUnspecified | Owner | Admin | Member

definition role_code :: "group_role \<Rightarrow> int" where
  "role_code r = (case r of RoleUnspecified \<Rightarrow> 0 | Owner \<Rightarrow> 1 | Admin \<Rightarrow> 2 | Member \<Rightarrow> 3)"

record group_info =
  g_group_id :: string
  g_name :: string
  g_display_name :: string
  g_avatar_url :: string
  g_announcement :: string
  g_description :: string
  g_group_remark :: string
  g_owner_id :: string
  g_member_count :: int
  g_max_members :: int
  g_my_role :: group_role
  g_join_verify :: bool
  g_is_muted :: bool
  g_created_at_ms :: int
  g_updated_at_ms :: int

record group_member =
  gmb_user_id :: string
  gmb_group_nickname :: string
  gmb_role :: group_role
  gmb_is_muted :: bool
  gmb_muted_until_ms :: int
  gmb_joined_at_ms :: int
  gmb_user_info :: user_info

record group_join_request =
  gj_request_id :: int
  gj_group_id :: string
  gj_user_id :: string
  gj_inviter_id :: string
  gj_message :: string
  gj_status :: int
  gj_created_at_ms :: int
  gj_user_info :: user_info

record group_qrcode =
  gq_group_id :: string
  gq_token :: string
  gq_deep_link :: string
  gq_expire_at_ms :: int

section \<open>Files\<close>

record file_info =
  fi_file_id :: string
  fi_file_name :: string
  fi_file_type :: int
  fi_file_size_bytes :: int
  fi_mime_type :: string
  fi_download_url :: string
  fi_created_at_ms :: int

definition new_file_info :: file_info where
  "new_file_info = \<lparr>fi_file_id = [], fi_file_name = [], fi_file_type = 0, fi_file_size_bytes = 0,
     fi_mime_type = [], fi_download_url = [], fi_created_at_ms = 0\<rparr>"

record file_list_result =
  flr_files :: "file_info list"
  flr_total :: int
  flr_page :: int
  flr_page_size :: int

section \<open>Users\<close>

record user_profile =
  up_user_id :: string
  up_nickname :: string
  up_avatar_url :: string
  up_phone :: string
  up_email :: string
  up_signature :: string
  up_region :: string
  up_gender :: int
  up_birthday_ms :: int
  up_qrcode_url :: string
  up_created_at_ms :: int

record user_settings =
  st_user_id :: string
  st_notification_enabled :: bool
  st_sound_enabled :: bool
  st_vibration_enabled :: bool
  st_message_preview_enabled :: bool
  st_friend_verify_required :: bool
  st_search_by_phone :: bool
  st_search_by_id :: bool
  st_language :: string

record user_qrcode =
  uq_qrcode_url :: string
  uq_expires_at_ms :: int

record bind_phone_result =
  bpr_phone_number :: string
  bpr_is_primary :: bool

record change_phone_result =
  cpr_old_phone_number :: string
  cpr_new_phone_number :: string

record bind_email_result =
  ber_email :: string
  ber_is_primary :: bool

record change_email_result =
  cer_old_email :: string
  cer_new_email :: string

record user_status_event =
  use_user_id :: string
  use_status :: int
  use_last_active_at_ms :: int
  use_platform :: int

definition new_user_status_event :: user_status_event where
  "new_user_status_event = \<lparr>use_user_id = [], use_status = 0, use_last_active_at_ms = 0, use_platform = 0\<rparr>"

record user_search_result =
  usr_users :: "user_info list"
  usr_total :: int

section \<open>Versions\<close>

record version_update_info =
  vu_title :: string
  vu_content :: string
  vu_download_url :: string
  vu_file_size :: int
  vu_file_hash :: string

definition new_version_update_info :: version_update_info where
  "new_version_update_info = \<lparr>vu_title = [], vu_content = [], vu_download_url = [], vu_file_size = 0, vu_file_hash = []\<rparr>"

record version_check_result =
  vcr_has_update :: bool
  vcr_latest_version :: string
  vcr_latest_build_number :: int
  vcr_force_update :: bool
  vcr_min_version :: string
  vcr_min_build_number :: int
  vcr_update_info :: version_update_info

record app_version_info =
  av_id :: int
  av_platform :: int
  av_version :: string
  av_build_number :: int
  av_version_code :: int
  av_min_version :: string
  av_min_build_number :: int
  av_force_update :: bool
  av_release_type :: int
  av_title :: string
  av_content :: string
  av_download_url :: string
  av_file_size :: int
  av_file_hash :: string
  av_published_at_ms :: int

record version_list_result =
  vlr_versions :: "app_version_info list"
  vlr_total :: int
  vlr_page :: int
  vlr_page_size :: int

end
