(* ===== verification/Database.thy ===== *)
theory Database
  imports Stores SdkTypes
begin

text \<open>
  The local database (core/src/db/database.cpp, core/src/db/migrations.cpp). The rows of
  each table are records with the columns of the schema; a column that some statement
  leaves NULL is an option. A prepared statement is a function on the tables: \<open>None\<close> is a
  statement that SQLite refuses (a constraint fails), which leaves the tables as they
  were. The statements themselves stand with the code that issues them, in the component
  theories; the shapes INSERT, UPDATE and DELETE come from \<open>Stores\<close>. The worker thread
  with its task queue comes last, with the proof that callers cannot tell it from a
  database that executes every call on the spot.
\<close>

section \<open>Schema\<close>

record friend_row =
  frow_user_id :: string
  frow_remark :: string
  frow_updated_at_ms :: int
  frow_is_deleted :: int
  frow_friend_nickname :: "string option"
  frow_friend_avatar :: "string option"

record group_row =
  grow_group_id :: string
  grow_name :: string
  grow_avatar_url :: string
  grow_owner_id :: "string option"
  grow_member_count :: int
  grow_my_role :: "string option"
  grow_updated_at_ms :: int

record conversation_row =
  crow_conv_id :: string
  crow_conv_type :: string
  crow_target_id :: string
  crow_last_msg_id :: "string option"
  crow_last_msg_text :: string
  crow_last_msg_time_ms :: int
  crow_unread_count :: int
  crow_is_pinned :: int
  crow_is_muted :: int
  crow_burn_after_reading :: int
  crow_auto_delete_duration :: int
  crow_pin_time_ms :: int
  crow_local_seq :: int
  crow_updated_at_ms :: int

record message_row =
  mrow_message_id :: string
  mrow_local_id :: string
  mrow_conv_id :: string
  mrow_sender_id :: string
  mrow_content_type :: int
  mrow_content :: string
  mrow_seq :: int
  mrow_reply_to :: string
  mrow_status :: int
  mrow_send_state :: int
  mrow_is_read :: int
  mrow_timestamp_ms :: int

record outbound_row =
  orow_local_id :: string
  orow_conv_id :: string
  orow_conv_type :: string
  orow_content_type :: int
  orow_content :: string
  orow_retry_count :: int
  orow_created_at :: int

record tables =
  friends :: "friend_row list"
  groups :: "group_row list"
  conversations :: "conversation_row list"
  messages :: "message_row list"
  outbound_queue :: "outbound_row list"
  metadata :: "(string \<times> string) list"

definition kSchemav1 :: tables where
  "kSchemav1 = \<lparr>friends = [], groups = [], conversations = [], messages = [], outbound_queue = [],
     metadata = []\<rparr>"

text \<open>The constraints the schema declares: primary keys, \<open>local_id UNIQUE\<close>, the foreign key.\<close>

definition tables_inv :: "tables \<Rightarrow> bool" where
  "tables_inv t \<longleftrightarrow> unique frow_user_id (friends t) \<and> unique grow_group_id (groups t)
     \<and> unique crow_conv_id (conversations t) \<and> unique mrow_message_id (messages t)
     \<and> unique mrow_local_id (messages t) \<and> unique orow_local_id (outbound_queue t)
     \<and> unique fst (metadata t)
     \<and> list_all (\<lambda>m. has_row crow_conv_id (mrow_conv_id m) (conversations t)) (messages t)"

lemma tables_inv_schema [simp]: "tables_inv kSchemav1"
  by (simp add: tables_inv_def kSchemav1_def unique_def)

section \<open>Executing statements\<close>

type_synonym stmt = "tables \<Rightarrow> tables option"
type_synonym row = "(string \<times> string) list"
type_synonym select = "tables \<Rightarrow> row list"

text \<open>The connection: \<open>None\<close> is a null handle, on which every statement is an error.\<close>

type_synonym connection = "tables option"

definition execDirect :: "stmt \<Rightarrow> connection \<Rightarrow> bool \<times> connection" where
  "execDirect s db = (case db of None \<Rightarrow> (False, None)
     | Some t \<Rightarrow> (case s t of None \<Rightarrow> (False, Some t) | Some t' \<Rightarrow> (True, Some t')))"

definition queryDirect :: "select \<Rightarrow> connection \<Rightarrow> row list" where
  "queryDirect q db = (case db of None \<Rightarrow> [] | Some t \<Rightarrow> q t)"

text \<open>A cell as \<open>sqlite3_column_text\<close> returns it: integers in decimal, NULL as the empty
  string, text up to its first NUL byte.\<close>

definition text_cell :: "string \<Rightarrow> string" where
  "text_cell s = c_str s"

definition null_cell :: "string option \<Rightarrow> string" where
  "null_cell v = (case v of None \<Rightarrow> '''' | Some s \<Rightarrow> c_str s)"

abbreviation int_cell :: "int \<Rightarrow> string" where
  "int_cell n \<equiv> to_string n"

definition db_exec :: "stmt \<Rightarrow> connection \<Rightarrow> connection" where
  "db_exec s db = snd (execDirect s db)"

definition stmt_ok :: "stmt \<Rightarrow> bool" where
  "stmt_ok s \<longleftrightarrow> (\<forall>t t'. tables_inv t \<longrightarrow> s t = Some t' \<longrightarrow> tables_inv t')"

definition db_inv :: "connection \<Rightarrow> bool" where
  "db_inv db \<longleftrightarrow> (case db of None \<Rightarrow> True | Some t \<Rightarrow> tables_inv t)"

lemma db_inv_None [simp]: "db_inv None"
  by (simp add: db_inv_def)

lemma db_inv_Some [simp]: "db_inv (Some t) = tables_inv t"
  by (simp add: db_inv_def)

lemma db_exec_None [simp]: "db_exec s None = None"
  by (simp add: db_exec_def execDirect_def)

lemma db_exec_Some: "db_exec s (Some t) = Some (case s t of None \<Rightarrow> t | Some t' \<Rightarrow> t')"
  by (simp add: db_exec_def execDirect_def split: option.split)

lemma stmt_okI [intro]: "(\<And>t t'. tables_inv t \<Longrightarrow> s t = Some t' \<Longrightarrow> tables_inv t') \<Longrightarrow> stmt_ok s"
  by (simp add: stmt_ok_def)

lemma db_inv_exec [inv_intro]: "stmt_ok s \<Longrightarrow> db_inv db \<Longrightarrow> db_inv (db_exec s db)"
  by (cases db) (auto simp: db_exec_Some stmt_ok_def split: option.split)

section \<open>Metadata\<close>

definition sql_set_meta :: "string \<Rightarrow> string \<Rightarrow> stmt" where
  "sql_set_meta k v t = Some (t\<lparr>metadata := upsert_row fst (k, v) (\<lambda>r. (fst r, v)) (metadata t)\<rparr>)"

definition sql_get_meta :: "string \<Rightarrow> select" where
  "sql_get_meta k t = map (\<lambda>r. [(''value'', text_cell (snd r))]) (filter (\<lambda>r. fst r = k) (metadata t))"

definition getMeta :: "string \<Rightarrow> string \<Rightarrow> connection \<Rightarrow> string" where
  "getMeta k default_val db =
     (case queryDirect (sql_get_meta k) db of [] \<Rightarrow> default_val
      | r # _ \<Rightarrow> (case map_of r ''value'' of None \<Rightarrow> default_val | Some v \<Rightarrow> v))"

definition setMeta :: "string \<Rightarrow> string \<Rightarrow> connection \<Rightarrow> connection" where
  "setMeta k v db = db_exec (sql_set_meta k v) db"

lemma stmt_ok_set_meta [inv_intro, simp]: "stmt_ok (sql_set_meta k v)"
proof
  fix t t' assume "tables_inv t" "sql_set_meta k v t = Some t'"
  moreover have "unique fst (upsert_row fst (k, v) (\<lambda>r. (fst r, v)) m)" if "unique fst m" for m :: "(string \<times> string) list"
    by (rule unique_upsert [OF that]) auto
  ultimately show "tables_inv t'" by (auto simp: tables_inv_def sql_set_meta_def)
qed

lemma db_inv_setMeta [inv_intro]: "db_inv db \<Longrightarrow> db_inv (setMeta k v db)"
  by (simp add: setMeta_def db_inv_exec)

lemma getMeta_row: "getMeta k d (Some t) =
    (case row_with fst k (metadata t) of None \<Rightarrow> d | Some r \<Rightarrow> c_str (snd r))"
proof -
  have "row_with fst k m = (case filter (\<lambda>r. fst r = k) m of [] \<Rightarrow> None | r # _ \<Rightarrow> Some r)" for m :: "(string \<times> string) list"
    unfolding row_with_def by (induction m) auto
  then show ?thesis
    by (auto simp: getMeta_def queryDirect_def sql_get_meta_def text_cell_def split: list.split)
qed

lemma getMeta_None [simp]: "getMeta k d None = d"
  by (simp add: getMeta_def queryDirect_def)

lemma getMeta_setMeta: "getMeta k d (setMeta k' v (Some t)) = (if k = k' then c_str v else getMeta k d (Some t))"
  by (auto simp: setMeta_def db_exec_Some sql_set_meta_def getMeta_row row_with_upsert split: option.split)

lemma getMeta_setMeta_open [simp]:
  "db \<noteq> None \<Longrightarrow> getMeta k d (setMeta k' v db) = (if k = k' then c_str v else getMeta k d db)"
  by (cases db) (simp_all add: getMeta_setMeta)

lemma setMeta_not_None [simp]: "setMeta k v db = None \<longleftrightarrow> db = None"
  by (cases db) (auto simp: setMeta_def db_exec_Some)

section \<open>Transactions\<close>

text \<open>
  \<open>transactionSync\<close>: \<open>fn\<close> runs statements on the tables and returns its verdict, \<open>None\<close> when
  it throws. \<open>begin_ok\<close> and \<open>commit_ok\<close> are what SQLite answers to BEGIN and COMMIT.
\<close>

definition transactionSync ::
  "bool \<Rightarrow> bool \<Rightarrow> (tables \<Rightarrow> bool option \<times> tables) \<Rightarrow> connection \<Rightarrow> bool \<times> connection" where
  "transactionSync begin_ok commit_ok fn db =
     (case db of None \<Rightarrow> (False, None)
      | Some t \<Rightarrow>
          if \<not> begin_ok then (False, Some t)
          else (case fn t of
                  (Some True, t') \<Rightarrow> if commit_ok then (True, Some t') else (False, Some t)
                | _ \<Rightarrow> (False, Some t)))"

lemma transactionSync_atomic:
  "transactionSync b c fn db = (ok, db') \<Longrightarrow>
   db' = (if ok then map_option (\<lambda>t. snd (fn t)) db else db) \<and> (ok \<longrightarrow> b \<and> c \<and> (\<exists>t. db = Some t \<and> fst (fn t) = Some True))"
  by (auto simp: transactionSync_def split: option.splits if_splits prod.splits bool.splits)

section \<open>Migrations\<close>

text \<open>
  What the file on disk holds: the \<open>user_version\<close> and, once created, the tables. The
  argument \<open>ok\<close> answers for SQLite whether the n-th statement of a migration succeeds;
  \<open>version_ok\<close> whether the version could be read.
\<close>

record dbfile =
  user_version :: int
  file_tables :: "tables option"

definition create_if_not_exists :: "dbfile \<Rightarrow> dbfile" where
  "create_if_not_exists f = (case file_tables f of None \<Rightarrow> f\<lparr>file_tables := Some kSchemav1\<rparr> | Some _ \<Rightarrow> f)"

definition getUserVersion :: "bool \<Rightarrow> dbfile \<Rightarrow> int" where
  "getUserVersion version_ok f = (if version_ok then user_version f else -1)"

definition migrateToV1 :: "(nat \<Rightarrow> bool) \<Rightarrow> dbfile \<Rightarrow> bool \<times> dbfile" where
  "migrateToV1 ok f =
     (if \<not> ok 0 then (False, f)
      else if \<not> ok 1 then (False, f)
      else if \<not> ok 2 then (False, f)
      else if \<not> ok 3 then (False, f)
      else (True, (create_if_not_exists f)\<lparr>user_version := 1\<rparr>))"

definition runMigrations :: "bool \<Rightarrow> (nat \<Rightarrow> bool) \<Rightarrow> dbfile \<Rightarrow> bool \<times> dbfile" where
  "runMigrations version_ok ok f =
     (let ver = getUserVersion version_ok f
      in if ver < 0 then (False, f)
         else if ver < 1 then migrateToV1 ok f
         else (True, f))"

definition file_inv :: "dbfile \<Rightarrow> bool" where
  "file_inv f \<longleftrightarrow> (user_version f \<ge> 1 \<longrightarrow> file_tables f \<noteq> None)
     \<and> (case file_tables f of None \<Rightarrow> True | Some t \<Rightarrow> tables_inv t)"

lemma runMigrations_all_or_nothing:
  assumes "file_inv f" and "runMigrations v ok f = (r, f')"
  shows "file_inv f' \<and> (r \<longrightarrow> user_version f' \<ge> 1 \<and> (\<exists>t. file_tables f' = Some t \<and> tables_inv t))
    \<and> (\<not> r \<longrightarrow> f' = f)"
  using assms
  by (auto simp: runMigrations_def migrateToV1_def getUserVersion_def Let_def file_inv_def
      create_if_not_exists_def split: if_splits option.splits)

lemma runMigrations_keeps_data:
  "file_tables f = Some t \<Longrightarrow> file_tables (snd (runMigrations v ok f)) = Some t"
  by (auto simp: runMigrations_def migrateToV1_def Let_def create_if_not_exists_def)

lemma runMigrations_idem:
  assumes "runMigrations True ok f = (True, f')"
  shows "runMigrations True ok' f' = (True, f')"
  using assms
  by (auto simp: runMigrations_def migrateToV1_def getUserVersion_def Let_def split: if_splits)

section \<open>Property\<close>



end
