(* ===== verification/ConversationCache.thy ===== *)
theory ConversationCache
  imports SdkTypes
begin

text \<open>
  \<open>core/src/cache/conversation_cache.h\<close>: the in-memory conversation list, kept sorted
  (pinned first by pin time, then by last activity). The state is the vector \<open>convs_\<close>;
  each public method runs under the mutex, so it is one function from vector to vector.
\<close>

type_synonym conversation_cache = "conversation list"

text \<open>The comparator that \<open>sort()\<close> hands to \<open>std::stable_sort\<close>.\<close>

definition conv_less :: "conversation \<Rightarrow> conversation \<Rightarrow> bool" where
  "conv_less a b =
     (if c_is_pinned a \<noteq> c_is_pinned b then c_is_pinned a
      else if c_is_pinned a \<and> c_is_pinned b then c_pin_time_ms a > c_pin_time_ms b
      else c_last_msg_time_ms a > c_last_msg_time_ms b)"

definition cc_sort :: "conversation_cache \<Rightarrow> conversation_cache" where
  "cc_sort convs = stable_sort conv_less convs"

definition cc_setAll :: "conversation list \<Rightarrow> conversation_cache" where
  "cc_setAll convs = cc_sort convs"

text \<open>The loop of \<open>upsert\<close>, \<open>incrementUnread\<close>, \<open>clearUnread\<close> and \<open>setLastMessage\<close>:
  the first conversation with the identifier is rewritten in place.\<close>

fun update_first :: "string \<Rightarrow> (conversation \<Rightarrow> conversation) \<Rightarrow> conversation list \<Rightarrow> conversation list" where
  "update_first conv_id f [] = []"
| "update_first conv_id f (c # cs) =
     (if c_conv_id c = conv_id then f c # cs else c # update_first conv_id f cs)"

definition cc_has :: "string \<Rightarrow> conversation_cache \<Rightarrow> bool" where
  "cc_has conv_id convs \<longleftrightarrow> list_ex (\<lambda>c. c_conv_id c = conv_id) convs"

definition cc_upsert :: "conversation \<Rightarrow> conversation_cache \<Rightarrow> conversation_cache" where
  "cc_upsert conv convs =
     (if cc_has (c_conv_id conv) convs
      then cc_sort (update_first (c_conv_id conv) (\<lambda>_. conv) convs)
      else cc_sort (convs @ [conv]))"

definition cc_remove :: "string \<Rightarrow> conversation_cache \<Rightarrow> conversation_cache" where
  "cc_remove conv_id convs = filter (\<lambda>c. c_conv_id c \<noteq> conv_id) convs"

definition cc_getAll :: "conversation_cache \<Rightarrow> conversation list" where
  "cc_getAll convs = convs"

definition cc_get :: "string \<Rightarrow> conversation_cache \<Rightarrow> conversation option" where
  "cc_get conv_id convs = List.find (\<lambda>c. c_conv_id c = conv_id) convs"

definition cc_incrementUnread :: "string \<Rightarrow> conversation_cache \<Rightarrow> conversation_cache" where
  "cc_incrementUnread conv_id convs = update_first conv_id
     (\<lambda>c. if \<not> c_is_muted c then c\<lparr>c_unread_count := wrap32 (c_unread_count c + 1)\<rparr> else c) convs"

definition cc_clearUnread :: "string \<Rightarrow> conversation_cache \<Rightarrow> conversation_cache" where
  "cc_clearUnread conv_id convs = update_first conv_id (\<lambda>c. c\<lparr>c_unread_count := 0\<rparr>) convs"

definition cc_setLastMessage ::
  "string \<Rightarrow> string \<Rightarrow> string \<Rightarrow> int \<Rightarrow> conversation_cache \<Rightarrow> conversation_cache" where
  "cc_setLastMessage conv_id msg_id txt timestamp_ms convs =
     (if cc_has conv_id convs
      then cc_sort (update_first conv_id
             (\<lambda>c. c\<lparr>c_last_msg_id := msg_id, c_last_msg_text := txt, c_last_msg_time_ms := timestamp_ms\<rparr>) convs)
      else convs)"

definition cc_clear :: "conversation_cache \<Rightarrow> conversation_cache" where
  "cc_clear convs = []"

section \<open>The comparator is a strict weak ordering\<close>

interpretation conv_order: strict_weak_order conv_less
  by unfold_locales (auto simp: conv_less_def split: if_splits)

section \<open>The invariant\<close>

definition cc_inv :: "conversation_cache \<Rightarrow> bool" where
  "cc_inv convs \<longleftrightarrow> ordered_by conv_less convs \<and> distinct (map c_conv_id convs)"

definition cc_ids :: "conversation_cache \<Rightarrow> string set" where
  "cc_ids convs = c_conv_id ` set convs"

lemma cc_has_iff: "cc_has k convs \<longleftrightarrow> k \<in> cc_ids convs"
  by (auto simp: cc_has_def cc_ids_def list_ex_iff)

lemma ordered_cc_sort [simp]: "ordered_by conv_less (cc_sort convs)"
  by (simp add: cc_sort_def conv_order.ordered_stable_sort)

lemma set_cc_sort [simp]: "set (cc_sort convs) = set convs"
  by (simp add: cc_sort_def)

lemma distinct_cc_sort [simp]: "distinct (map c_conv_id (cc_sort convs)) = distinct (map c_conv_id convs)"
  by (rule distinct_map_mset) (simp add: cc_sort_def)

lemma map_id_update_first [simp]:
  "(\<And>c. c_conv_id c = k \<Longrightarrow> c_conv_id (f c) = k) \<Longrightarrow>
   map c_conv_id (update_first k f convs) = map c_conv_id convs"
  by (induction convs) auto

text \<open>Rewriting fields the comparator does not read keeps the order.\<close>

lemma ordered_update_first:
  assumes "\<And>c. c_is_pinned (f c) = c_is_pinned c" "\<And>c. c_pin_time_ms (f c) = c_pin_time_ms c"
    "\<And>c. c_last_msg_time_ms (f c) = c_last_msg_time_ms c"
  shows "ordered_by conv_less (update_first k f convs) = ordered_by conv_less convs"
proof -
  define key :: "conversation \<Rightarrow> bool \<times> int \<times> int" where
    "key = (\<lambda>c. (c_is_pinned c, c_pin_time_ms c, c_last_msg_time_ms c))"
  define le :: "bool \<times> int \<times> int \<Rightarrow> bool \<times> int \<times> int \<Rightarrow> bool" where
    "le = (\<lambda>p q. \<not> (if fst q \<noteq> fst p then fst q
      else if fst q \<and> fst p then fst (snd q) > fst (snd p) else snd (snd q) > snd (snd p)))"
  have less: "(\<lambda>a b. \<not> conv_less b a) = (\<lambda>a b. le (key a) (key b))"
    by (simp add: fun_eq_iff conv_less_def key_def le_def)
  have "ordered_by conv_less xs = sorted_wrt le (map key xs)" for xs
    by (simp add: ordered_by_def less sorted_wrt_map)
  moreover have "map key (update_first k f convs) = map key convs"
    by (induction convs) (auto simp: key_def assms)
  ultimately show ?thesis by simp
qed

lemma cc_inv_setAll [inv_intro]: "distinct (map c_conv_id convs) \<Longrightarrow> cc_inv (cc_setAll convs)"
  by (simp add: cc_inv_def cc_setAll_def)

lemma cc_inv_upsert [inv_intro]: "cc_inv convs \<Longrightarrow> cc_inv (cc_upsert c convs)"
  by (auto simp: cc_inv_def cc_upsert_def cc_has_iff cc_ids_def)

lemma cc_inv_remove [inv_intro]: "cc_inv convs \<Longrightarrow> cc_inv (cc_remove k convs)"
  by (auto simp: cc_inv_def cc_remove_def ordered_by_def sorted_wrt_filter distinct_map inj_on_def)

lemma cc_inv_incrementUnread [inv_intro]: "cc_inv convs \<Longrightarrow> cc_inv (cc_incrementUnread k convs)"
  by (simp add: cc_inv_def cc_incrementUnread_def ordered_update_first)

lemma cc_inv_clearUnread [inv_intro]: "cc_inv convs \<Longrightarrow> cc_inv (cc_clearUnread k convs)"
  by (simp add: cc_inv_def cc_clearUnread_def ordered_update_first)

lemma cc_inv_setLastMessage [inv_intro]: "cc_inv convs \<Longrightarrow> cc_inv (cc_setLastMessage k m t ts convs)"
  by (simp add: cc_inv_def cc_setLastMessage_def)

lemma cc_inv_clear [inv_intro]: "cc_inv (cc_clear convs)"
  by (simp add: cc_inv_def cc_clear_def ordered_by_def)

text \<open>
  The order alone: \<open>setAll\<close> takes whatever list it is given, so a list with a repeated
  identifier leaves the cache sorted but not without duplicates.
\<close>

definition cc_ordered :: "conversation_cache \<Rightarrow> bool" where
  "cc_ordered convs \<longleftrightarrow> ordered_by conv_less convs"

lemma cc_ordered_Nil [simp]: "cc_ordered []"
  by (simp add: cc_ordered_def ordered_by_def)

lemma cc_ordered_ops [inv_intro]: "cc_ordered (cc_setAll convs)" "cc_ordered (cc_upsert c convs)"
    "cc_ordered convs \<Longrightarrow> cc_ordered (cc_remove k convs)" "cc_ordered convs \<Longrightarrow> cc_ordered (cc_incrementUnread k convs)"
    "cc_ordered convs \<Longrightarrow> cc_ordered (cc_clearUnread k convs)"
    "cc_ordered convs \<Longrightarrow> cc_ordered (cc_setLastMessage k m t ts convs)"
  by (simp_all add: cc_ordered_def cc_setAll_def cc_upsert_def cc_incrementUnread_def cc_clearUnread_def
      cc_setLastMessage_def ordered_update_first)
    (simp add: cc_remove_def ordered_by_def sorted_wrt_filter)

section \<open>The abstract view: a finite map from identifiers\<close>

definition cc_abs :: "conversation_cache \<Rightarrow> string \<rightharpoonup> conversation" where
  "cc_abs convs k = cc_get k convs"

lemma cc_get_Some: "distinct (map c_conv_id convs) \<Longrightarrow>
    cc_get k convs = Some c \<longleftrightarrow> c \<in> set convs \<and> c_conv_id c = k"
  unfolding cc_get_def
  using find_Some_set find_distinct_key [of c_conv_id convs] by fastforce

lemma cc_get_id: "cc_get k convs = Some c \<Longrightarrow> c_conv_id c = k"
  unfolding cc_get_def by (drule find_Some_set) simp

lemma cc_get_None: "cc_get k convs = None \<longleftrightarrow> k \<notin> cc_ids convs"
  by (auto simp: cc_get_def cc_ids_def find_None_iff)

lemma cc_get_mset:
  assumes "distinct (map c_conv_id xs)" "set xs = set ys" "distinct (map c_conv_id ys)"
  shows "cc_get k xs = cc_get k ys"
proof (cases "cc_get k xs")
  case None
  then show ?thesis using assms(2) cc_get_None [of k xs] cc_get_None [of k ys] by (simp add: cc_ids_def)
next
  case (Some c)
  then have "cc_get k ys = Some c" using assms by (simp add: cc_get_Some)
  with Some show ?thesis by simp
qed

lemma cc_get_sort [simp]: "distinct (map c_conv_id convs) \<Longrightarrow> cc_get k (cc_sort convs) = cc_get k convs"
  by (rule cc_get_mset) simp_all

lemma cc_get_update_first:
  "(\<And>c. c_conv_id c = k' \<Longrightarrow> c_conv_id (f c) = k') \<Longrightarrow>
   cc_get k (update_first k' f convs) = (if k = k' then map_option f (cc_get k convs) else cc_get k convs)"
  unfolding cc_get_def by (induction convs) auto

lemma cc_get_append [simp]: "cc_get k (xs @ ys) = (case cc_get k xs of None \<Rightarrow> cc_get k ys | Some c \<Rightarrow> Some c)"
  unfolding cc_get_def by (induction xs) auto

lemma cc_abs_upsert: "cc_inv convs \<Longrightarrow> cc_abs (cc_upsert c convs) = (cc_abs convs)(c_conv_id c \<mapsto> c)"
proof -
  assume inv: "cc_inv convs"
  then have d: "distinct (map c_conv_id convs)" by (simp add: cc_inv_def)
  show ?thesis
  proof (cases "c_conv_id c \<in> cc_ids convs")
    case True
    then obtain c' where "cc_get (c_conv_id c) convs = Some c'"
      using cc_get_None [of "c_conv_id c" convs] by auto
    then show ?thesis using True d
      by (auto simp: cc_abs_def fun_eq_iff cc_upsert_def cc_has_iff cc_get_update_first)
  next
    case False
    then have "distinct (map c_conv_id (convs @ [c]))" using d by (simp add: cc_ids_def)
    moreover have "cc_get k [c] = (if k = c_conv_id c then Some c else None)" for k
      by (auto simp: cc_get_def)
    moreover have "cc_get (c_conv_id c) convs = None" using False by (simp add: cc_get_None)
    ultimately show ?thesis using False
      by (auto simp: cc_abs_def fun_eq_iff cc_upsert_def cc_has_iff split: option.splits)
  qed
qed

lemma cc_abs_remove: "cc_abs (cc_remove k convs) = (cc_abs convs)(k := None)"
proof
  fix k'
  show "cc_abs (cc_remove k convs) k' = ((cc_abs convs)(k := None)) k'"
    unfolding cc_abs_def cc_get_def cc_remove_def by (induction convs) auto
qed

lemma cc_abs_clearUnread:
  "cc_abs (cc_clearUnread k convs) = (cc_abs convs)(k := map_option (\<lambda>c. c\<lparr>c_unread_count := 0\<rparr>) (cc_abs convs k))"
  by (simp add: cc_abs_def fun_eq_iff cc_clearUnread_def cc_get_update_first)

lemma cc_abs_incrementUnread:
  "cc_abs (cc_incrementUnread k convs) = (cc_abs convs)(k := map_option
     (\<lambda>c. if \<not> c_is_muted c then c\<lparr>c_unread_count := wrap32 (c_unread_count c + 1)\<rparr> else c) (cc_abs convs k))"
  by (simp add: cc_abs_def fun_eq_iff cc_incrementUnread_def cc_get_update_first)

lemma cc_abs_setLastMessage:
  assumes "cc_inv convs"
  shows "cc_abs (cc_setLastMessage k m t ts convs) = (cc_abs convs)(k := map_option
     (\<lambda>c. c\<lparr>c_last_msg_id := m, c_last_msg_text := t, c_last_msg_time_ms := ts\<rparr>) (cc_abs convs k))"
  using assms cc_get_None [of k convs]
  by (auto simp: cc_abs_def fun_eq_iff cc_setLastMessage_def cc_has_iff cc_get_update_first cc_inv_def)

section \<open>Refinement of a finite map\<close>

text \<open>The operations on the cache, as data.\<close>

datatype cc_op =
    CcSetAll "conversation list"
  | CcUpsert conversation
  | CcRemove string
  | CcIncrementUnread string
  | CcClearUnread string
  | CcSetLastMessage string string string int
  | CcClear

fun cc_step :: "cc_op \<Rightarrow> conversation_cache \<Rightarrow> conversation_cache" where
  "cc_step (CcSetAll convs) = (\<lambda>_. cc_setAll convs)"
| "cc_step (CcUpsert c) = cc_upsert c"
| "cc_step (CcRemove k) = cc_remove k"
| "cc_step (CcIncrementUnread k) = cc_incrementUnread k"
| "cc_step (CcClearUnread k) = cc_clearUnread k"
| "cc_step (CcSetLastMessage k m t ts) = cc_setLastMessage k m t ts"
| "cc_step CcClear = cc_clear"

text \<open>What each operation does to the finite map.\<close>

fun cc_spec :: "cc_op \<Rightarrow> (string \<rightharpoonup> conversation) \<Rightarrow> (string \<rightharpoonup> conversation)" where
  "cc_spec (CcSetAll convs) M = map_of (map (\<lambda>c. (c_conv_id c, c)) convs)"
| "cc_spec (CcUpsert c) M = M(c_conv_id c \<mapsto> c)"
| "cc_spec (CcRemove k) M = M(k := None)"
| "cc_spec (CcIncrementUnread k) M = M(k := map_option
     (\<lambda>c. if \<not> c_is_muted c then c\<lparr>c_unread_count := wrap32 (c_unread_count c + 1)\<rparr> else c) (M k))"
| "cc_spec (CcClearUnread k) M = M(k := map_option (\<lambda>c. c\<lparr>c_unread_count := 0\<rparr>) (M k))"
| "cc_spec (CcSetLastMessage k m t ts) M = M(k := map_option
     (\<lambda>c. c\<lparr>c_last_msg_id := m, c_last_msg_text := t, c_last_msg_time_ms := ts\<rparr>) (M k))"
| "cc_spec CcClear M = Map.empty"

fun cc_ok :: "cc_op \<Rightarrow> bool" where
  "cc_ok (CcSetAll convs) = distinct (map c_conv_id convs)"
| "cc_ok _ = True"

lemma cc_abs_map_of: "cc_abs convs = map_of (map (\<lambda>c. (c_conv_id c, c)) convs)"
  unfolding cc_abs_def cc_get_def by (rule ext) (induction convs, auto)

lemma cc_step_refines:
  assumes "cc_ok op" and "cc_inv convs"
  shows "cc_inv (cc_step op convs) \<and> cc_abs (cc_step op convs) = cc_spec op (cc_abs convs)"
proof (cases op)
  case (CcSetAll cs)
  then have "cc_abs (cc_setAll cs) = cc_abs cs"
    using assms(1) by (simp add: cc_abs_def fun_eq_iff cc_setAll_def)
  then show ?thesis using CcSetAll assms by (simp add: cc_inv_setAll cc_abs_map_of)
next
  case CcClear
  then show ?thesis by (simp add: cc_clear_def cc_abs_map_of cc_inv_def ordered_by_def)
qed (use assms in \<open>simp_all add: cc_inv_upsert cc_inv_remove cc_inv_incrementUnread cc_inv_clearUnread
      cc_inv_setLastMessage cc_abs_upsert cc_abs_remove cc_abs_incrementUnread cc_abs_clearUnread cc_abs_setLastMessage\<close>)

lemma cc_run_refines:
  "list_all cc_ok ops \<Longrightarrow> cc_inv convs \<Longrightarrow>
   cc_inv (fold cc_step ops convs) \<and> cc_abs (fold cc_step ops convs) = fold cc_spec ops (cc_abs convs)"
  by (induction ops arbitrary: convs) (auto simp: cc_step_refines)

text \<open>
  C25: The cached list refines a finite map from conversation ids: after any sequence of
  operations (a server's list without repeated ids, single updates, removals, unread
  counters, previews) a lookup gives what the map gives, and the list is the map's range,
  without repetitions, in the order the user sees: pinned first, then by time.
\<close>

theorem conversation_cache_refines:
  assumes "list_all cc_ok ops"
  shows "cc_abs (fold cc_step ops []) = fold cc_spec ops Map.empty
    \<and> set (cc_getAll (fold cc_step ops [])) = ran (fold cc_spec ops Map.empty)
    \<and> distinct (map c_conv_id (cc_getAll (fold cc_step ops [])))
    \<and> ordered_by conv_less (cc_getAll (fold cc_step ops []))"
proof -
  have "cc_inv []" "cc_abs [] = Map.empty" by (simp_all add: cc_inv_def ordered_by_def cc_abs_map_of)
  then have inv: "cc_inv (fold cc_step ops [])" and abs: "cc_abs (fold cc_step ops []) = fold cc_spec ops Map.empty"
    using cc_run_refines [OF assms, of "[]"] by auto
  let ?c = "fold cc_step ops []"
  have dist: "distinct (map c_conv_id ?c)" using inv by (simp add: cc_inv_def)
  then have "ran (map_of (map (\<lambda>c. (c_conv_id c, c)) ?c)) = set ?c"
    by (subst ran_distinct) (auto simp: comp_def image_image)
  then have "set (cc_getAll ?c) = ran (cc_abs ?c)" by (simp add: cc_getAll_def cc_abs_map_of)
  then show ?thesis using inv dist unfolding abs by (simp add: cc_inv_def cc_getAll_def)
qed

theorem conversation_cache_refines_witness:
  "let a = new_conversation\<lparr>c_conv_id := ''a''\<rparr>; b = new_conversation\<lparr>c_conv_id := ''b'', c_last_msg_time_ms := 9\<rparr>;
       ops = [CcSetAll [a, b], CcIncrementUnread ''a'', CcRemove ''b'']
   in cc_abs (fold cc_step ops []) = [''a'' \<mapsto> a\<lparr>c_unread_count := 1\<rparr>]"
  using conversation_cache_refines [of "[CcSetAll [new_conversation\<lparr>c_conv_id := ''a''\<rparr>,
      new_conversation\<lparr>c_conv_id := ''b'', c_last_msg_time_ms := 9\<rparr>], CcIncrementUnread ''a'', CcRemove ''b'']"]
  by (simp add: Let_def new_conversation_def wrap32_def fun_upd_twist fun_eq_iff)

end
