(* ===== verification/MessageCache.thy ===== *)
theory MessageCache
  imports SdkTypes
begin

text \<open>
  \<open>core/src/cache/message_cache.h\<close>: the most recent messages of each conversation. A
  bucket is sorted by \<open>seq\<close> and holds at most \<open>bucket_size_\<close> messages.

  \<open>buckets_\<close> is an unordered map; the model keeps it as an association list whose order
  is the iteration order of the hash table. \<open>std::sort\<close> does not fix the order of
  messages with equal \<open>seq\<close>: the sorting routine of the standard library is a component
  of the state, and the invariant says only that it sorts.
\<close>

definition kDefaultBucketSize :: nat where
  "kDefaultBucketSize = 100"

record message_cache =
  bucket_size :: nat
  buckets :: "(string \<times> message list) list"
  std_sort :: "message list \<Rightarrow> message list"

definition seq_less :: "message \<Rightarrow> message \<Rightarrow> bool" where
  "seq_less a b \<longleftrightarrow> m_seq a < m_seq b"

definition mc_new :: "nat \<Rightarrow> (message list \<Rightarrow> message list) \<Rightarrow> message_cache" where
  "mc_new sz srt = \<lparr>bucket_size = sz, buckets = [], std_sort = srt\<rparr>"

text \<open>\<open>buckets_[conv_id]\<close> creates an empty bucket when there is none.\<close>

definition mc_bucket :: "string \<Rightarrow> message_cache \<Rightarrow> message list option" where
  "mc_bucket conv_id c = map_of (buckets c) conv_id"

fun put_bucket :: "string \<Rightarrow> message list \<Rightarrow> (string \<times> message list) list \<Rightarrow> (string \<times> message list) list" where
  "put_bucket k b [] = [(k, b)]"
| "put_bucket k b ((k', b') # bs) = (if k' = k then (k, b) # bs else (k', b') # put_bucket k b bs)"

definition insert_bucket :: "nat \<Rightarrow> (message list \<Rightarrow> message list) \<Rightarrow> message \<Rightarrow> message list \<Rightarrow> message list" where
  "insert_bucket sz srt msg bucket =
     (if list_ex (\<lambda>m. m_message_id m = m_message_id msg) bucket then bucket
      else let sorted_bucket = srt (bucket @ [msg])
           in if length sorted_bucket > sz then tl sorted_bucket else sorted_bucket)"

definition mc_insert :: "message \<Rightarrow> message_cache \<Rightarrow> message_cache" where
  "mc_insert msg c =
     (let bucket = (case mc_bucket (m_conv_id msg) c of None \<Rightarrow> [] | Some b \<Rightarrow> b)
      in c\<lparr>buckets := put_bucket (m_conv_id msg)
              (insert_bucket (bucket_size c) (std_sort c) msg bucket) (buckets c)\<rparr>)"

definition mc_get :: "string \<Rightarrow> message_cache \<Rightarrow> message list" where
  "mc_get conv_id c = (case mc_bucket conv_id c of None \<Rightarrow> [] | Some b \<Rightarrow> b)"

definition mc_maxSeq :: "string \<Rightarrow> message_cache \<Rightarrow> int" where
  "mc_maxSeq conv_id c = (case mc_bucket conv_id c of
      None \<Rightarrow> 0
    | Some b \<Rightarrow> if b = [] then 0 else m_seq (last b))"

definition mc_hasGapBefore :: "string \<Rightarrow> int \<Rightarrow> message_cache \<Rightarrow> bool" where
  "mc_hasGapBefore conv_id s c = (case mc_bucket conv_id c of
      None \<Rightarrow> s > 1
    | Some b \<Rightarrow> if b = [] then s > 1 else s > m_seq (last b) + 1)"

definition mc_removeConversation :: "string \<Rightarrow> message_cache \<Rightarrow> message_cache" where
  "mc_removeConversation conv_id c = c\<lparr>buckets := filter (\<lambda>p. fst p \<noteq> conv_id) (buckets c)\<rparr>"

text \<open>\<open>updateMessageById\<close>: the first match in iteration order is rewritten in place. The
  model returns what the closure saw and stored, for closures that read it back.\<close>

fun update_in_bucket :: "string \<Rightarrow> (message \<Rightarrow> message) \<Rightarrow> message list \<Rightarrow> (message list \<times> message) option" where
  "update_in_bucket message_id f [] = None"
| "update_in_bucket message_id f (m # ms) =
     (if m_message_id m = message_id then Some (f m # ms, f m)
      else map_option (\<lambda>(ms', m'). (m # ms', m')) (update_in_bucket message_id f ms))"

fun update_in_buckets ::
  "string \<Rightarrow> (message \<Rightarrow> message) \<Rightarrow> (string \<times> message list) list
   \<Rightarrow> ((string \<times> message list) list \<times> message) option" where
  "update_in_buckets message_id f [] = None"
| "update_in_buckets message_id f ((k, b) # bs) =
     (case update_in_bucket message_id f b of
        Some (b', m') \<Rightarrow> Some ((k, b') # bs, m')
      | None \<Rightarrow> map_option (\<lambda>(bs', m'). ((k, b) # bs', m')) (update_in_buckets message_id f bs))"

definition mc_updateMessageById ::
  "string \<Rightarrow> (message \<Rightarrow> message) \<Rightarrow> message_cache \<Rightarrow> message option \<times> message_cache" where
  "mc_updateMessageById message_id updater c =
     (case update_in_buckets message_id updater (buckets c) of
        None \<Rightarrow> (None, c)
      | Some (bs, m) \<Rightarrow> (Some m, c\<lparr>buckets := bs\<rparr>))"

definition mc_clear :: "message_cache \<Rightarrow> message_cache" where
  "mc_clear c = c\<lparr>buckets := []\<rparr>"

section \<open>The contract of \<open>std::sort\<close>\<close>

locale sorting =
  fixes srt :: "'a list \<Rightarrow> 'a list" and lt :: "'a \<Rightarrow> 'a \<Rightarrow> bool"
  assumes sort_perm: "mset (srt xs) = mset xs"
    and sort_ordered: "ordered_by lt (srt xs)"
begin

lemma sort_set: "set (srt xs) = set xs"
  by (rule mset_eq_setD) (rule sort_perm)

lemma sort_length: "length (srt xs) = length xs"
  by (rule mset_eq_length) (rule sort_perm)

lemma sort_distinct_map: "distinct (map f (srt xs)) = distinct (map f xs)"
  by (rule distinct_map_mset) (rule sort_perm)

end

interpretation seq_order: strict_weak_order seq_less
  by unfold_locales (auto simp: seq_less_def)

text \<open>The library's stable sort is one admissible \<open>std::sort\<close>.\<close>

interpretation seq_stable: sorting "stable_sort seq_less" seq_less
  by unfold_locales (simp_all add: seq_order.ordered_stable_sort)

lemma ordered_seq: "ordered_by seq_less b \<longleftrightarrow> sorted (map m_seq b)"
  by (simp add: ordered_by_def seq_less_def sorted_wrt_map not_less)

section \<open>The invariant\<close>

text \<open>
  A bucket is sorted and bounded and has no two messages with the same identifier; the
  keys of the table are distinct.
\<close>

definition bucket_inv :: "nat \<Rightarrow> message list \<Rightarrow> bool" where
  "bucket_inv sz b \<longleftrightarrow> sorted (map m_seq b) \<and> distinct (map m_message_id b) \<and> length b \<le> sz"

definition mc_inv :: "message_cache \<Rightarrow> bool" where
  "mc_inv c \<longleftrightarrow> sorting (std_sort c) seq_less \<and> distinct (map fst (buckets c)) \<and>
     (\<forall>b \<in> snd ` set (buckets c). bucket_inv (bucket_size c) b)"

text \<open>
  Every message sits in the bucket of its own conversation. Some handlers of the message
  manager rewrite the conversation of a cached message, so this is not part of the
  invariant.
\<close>

definition mc_homed :: "message_cache \<Rightarrow> bool" where
  "mc_homed c \<longleftrightarrow> (\<forall>(k, b) \<in> set (buckets c). \<forall>m \<in> set b. m_conv_id m = k)"

lemma mc_inv_new: "sorting srt seq_less \<Longrightarrow> mc_inv (mc_new sz srt)"
  by (simp add: mc_inv_def mc_new_def)

lemma set_put_bucket:
  "distinct (map fst bs) \<Longrightarrow> set (put_bucket k b bs) = insert (k, b) {p \<in> set bs. fst p \<noteq> k}"
  by (induction k b bs rule: put_bucket.induct) auto

lemma keys_put_bucket: "fst ` set (put_bucket k b bs) = insert k (fst ` set bs)"
  by (induction k b bs rule: put_bucket.induct) auto

lemma distinct_put_bucket: "distinct (map fst bs) \<Longrightarrow> distinct (map fst (put_bucket k b bs))"
  by (induction k b bs rule: put_bucket.induct) (auto simp: keys_put_bucket image_iff dest: set_put_bucket)

lemma map_of_put_bucket [simp]: "map_of (put_bucket k b bs) = (map_of bs)(k \<mapsto> b)"
  by (induction k b bs rule: put_bucket.induct) auto

lemma bucket_inv_insert:
  assumes srt: "sorting srt seq_less" and b: "bucket_inv sz b"
  shows "bucket_inv sz (insert_bucket sz srt msg b)"
proof (cases "m_message_id msg \<in> m_message_id ` set b")
  case True
  then show ?thesis using b by (auto simp: insert_bucket_def list_ex_iff)
next
  case False
  have s: "sorted (map m_seq (srt (b @ [msg])))"
    using sorting.sort_ordered [OF srt] by (simp add: ordered_seq)
  have d: "distinct (map m_message_id (srt (b @ [msg])))"
    using b False by (simp add: sorting.sort_distinct_map [OF srt] bucket_inv_def)
  have l: "length (srt (b @ [msg])) = Suc (length b)"
    by (simp add: sorting.sort_length [OF srt])
  show ?thesis using False b s d l
    by (auto simp: insert_bucket_def Let_def list_ex_iff bucket_inv_def map_tl sorted_tl distinct_tl)
qed

lemma bucket_inv_mc_bucket: "mc_inv c \<Longrightarrow> mc_bucket k c = Some b \<Longrightarrow> bucket_inv (bucket_size c) b"
  unfolding mc_inv_def mc_bucket_def by (force dest: map_of_SomeD)

lemma bucket_inv_Nil [simp]: "bucket_inv sz []"
  by (simp add: bucket_inv_def)

lemma mc_inv_put_bucket:
  assumes "mc_inv c" "bucket_inv (bucket_size c) b"
  shows "mc_inv (c\<lparr>buckets := put_bucket k b (buckets c)\<rparr>)"
  using assms by (auto simp: mc_inv_def distinct_put_bucket set_put_bucket)

lemma mc_inv_insert [inv_intro]: "mc_inv c \<Longrightarrow> mc_inv (mc_insert msg c)"
proof -
  assume inv: "mc_inv c"
  then have s: "sorting (std_sort c) seq_less" by (simp add: mc_inv_def)
  show ?thesis
  proof (cases "mc_bucket (m_conv_id msg) c")
    case None
    then show ?thesis using mc_inv_put_bucket [OF inv bucket_inv_insert [OF s bucket_inv_Nil]]
      by (simp add: mc_insert_def)
  next
    case (Some b)
    then show ?thesis
      using mc_inv_put_bucket [OF inv bucket_inv_insert [OF s bucket_inv_mc_bucket [OF inv Some]]]
      by (simp add: mc_insert_def)
  qed
qed

lemma mc_inv_removeConversation [inv_intro]: "mc_inv c \<Longrightarrow> mc_inv (mc_removeConversation k c)"
  by (auto simp: mc_inv_def mc_removeConversation_def distinct_map_filter)

lemma mc_inv_clear [inv_intro]: "mc_inv c \<Longrightarrow> mc_inv (mc_clear c)"
  by (simp add: mc_inv_def mc_clear_def)

text \<open>An updater that leaves the identifier and the sequence number alone keeps the invariant.\<close>

definition keeps_place :: "(message \<Rightarrow> message) \<Rightarrow> bool" where
  "keeps_place f \<longleftrightarrow> (\<forall>m. m_message_id (f m) = m_message_id m \<and> m_seq (f m) = m_seq m)"

lemma update_in_bucket_maps:
  assumes "keeps_place f" "update_in_bucket i f b = Some (b', m')"
  shows "map m_message_id b' = map m_message_id b \<and> map m_seq b' = map m_seq b"
  using assms(2)
  by (induction b arbitrary: b')
    (use assms(1) in \<open>auto simp: keeps_place_def split: if_splits\<close>)

lemma bucket_inv_update:
  assumes "keeps_place f" "update_in_bucket i f b = Some (b', m')" "bucket_inv sz b"
  shows "bucket_inv sz b'"
  using update_in_bucket_maps [OF assms(1,2)] assms(3)
  unfolding bucket_inv_def by (metis length_map)

lemma update_in_buckets_inv:
  assumes f: "keeps_place f" and u: "update_in_buckets i f bs = Some (bs', m')"
    and inv: "\<forall>b \<in> snd ` set bs. bucket_inv sz b"
  shows "map fst bs' = map fst bs \<and> (\<forall>b \<in> snd ` set bs'. bucket_inv sz b)"
  using u inv
proof (induction bs arbitrary: bs')
  case Nil
  then show ?case by simp
next
  case (Cons p bs)
  obtain k b where p: "p = (k, b)" by (cases p)
  show ?case
  proof (cases "update_in_bucket i f b")
    case None
    then show ?thesis using Cons p by fastforce
  next
    case (Some r)
    obtain b' m where r: "r = (b', m)" by (cases r)
    have "bucket_inv sz b'" using bucket_inv_update [OF f Some [unfolded r]] Cons.prems p by simp
    then show ?thesis using Cons.prems p Some r by auto
  qed
qed

lemma mc_inv_updateMessageById [inv_intro]:
  assumes "mc_inv c" "keeps_place f"
  shows "mc_inv (snd (mc_updateMessageById i f c))"
proof (cases "update_in_buckets i f (buckets c)")
  case None
  then show ?thesis using assms by (simp add: mc_updateMessageById_def)
next
  case (Some r)
  obtain bs m where r: "r = (bs, m)" by (cases r)
  have inv: "\<forall>b \<in> snd ` set (buckets c). bucket_inv (bucket_size c) b" using assms(1) by (simp add: mc_inv_def)
  have "map fst bs = map fst (buckets c) \<and> (\<forall>b \<in> snd ` set bs. bucket_inv (bucket_size c) b)"
    using update_in_buckets_inv [OF assms(2) Some [unfolded r] inv] .
  then show ?thesis using assms(1) Some r by (simp add: mc_updateMessageById_def mc_inv_def)
qed

section \<open>What the operations return\<close>

lemma mc_get_insert_other: "k \<noteq> m_conv_id msg \<Longrightarrow> mc_get k (mc_insert msg c) = mc_get k c"
  by (simp add: mc_get_def mc_insert_def mc_bucket_def Let_def)

lemma mc_get_insert_same:
  "mc_get (m_conv_id msg) (mc_insert msg c)
   = insert_bucket (bucket_size c) (std_sort c) msg (mc_get (m_conv_id msg) c)"
  by (simp add: mc_get_def mc_insert_def mc_bucket_def)

lemma bucket_inv_mc_get: "mc_inv c \<Longrightarrow> bucket_inv (bucket_size c) (mc_get k c)"
  by (auto simp: mc_get_def bucket_inv_mc_bucket split: option.splits)

text \<open>Insertion keeps the newest: what is dropped is at most one message, and none that is
  kept has a lower sequence number.\<close>

lemma insert_bucket_keeps_newest:
  assumes srt: "sorting srt seq_less" and b: "bucket_inv sz b"
    and new: "m_message_id msg \<notin> m_message_id ` set b"
  obtains dropped where
    "mset (insert_bucket sz srt msg b) + mset dropped = add_mset msg (mset b)"
    "length dropped = (if length b < sz then 0 else 1)"
    "\<forall>d \<in> set dropped. \<forall>m \<in> set (insert_bucket sz srt msg b). m_seq d \<le> m_seq m"
proof -
  let ?s = "srt (b @ [msg])"
  have s: "sorted (map m_seq ?s)" using sorting.sort_ordered [OF srt] by (simp add: ordered_seq)
  have l: "length ?s = Suc (length b)" by (simp add: sorting.sort_length [OF srt])
  have m: "mset ?s = add_mset msg (mset b)" by (simp add: sorting.sort_perm [OF srt])
  have ib: "insert_bucket sz srt msg b = (if length ?s > sz then tl ?s else ?s)"
  proof -
    have "\<not> list_ex (\<lambda>m. m_message_id m = m_message_id msg) b"
      using new by (metis (mono_tags, lifting) imageI list_ex_iff)
    then show ?thesis by (simp add: insert_bucket_def Let_def)
  qed
  show thesis
  proof (cases "length b < sz")
    case True
    then show thesis using that [of "[]"] ib l m by simp
  next
    case False
    obtain h t where ht: "?s = h # t" using l by (cases ?s) auto
    have "\<forall>x \<in> set t. m_seq h \<le> m_seq x" using s ht by auto
    then show thesis using that [of "[h]"] ib l m False ht by simp
  qed
qed

lemma last_sorted_Max:
  assumes "sorted xs" "xs \<noteq> []"
  shows "last xs = Max (set xs)"
  using assms by (induction xs) (auto simp: max_def intro: Max_ge [THEN antisym] dest: last_in_set)

lemma mc_maxSeq_Max:
  assumes "mc_inv c" "mc_get k c \<noteq> []"
  shows "mc_maxSeq k c = Max (m_seq ` set (mc_get k c))"
proof -
  obtain b where b: "mc_bucket k c = Some b" "b \<noteq> []"
    using assms(2) by (auto simp: mc_get_def split: option.splits)
  then have "sorted (map m_seq b)" using bucket_inv_mc_bucket [OF assms(1) b(1)] by (simp add: bucket_inv_def)
  then have "last (map m_seq b) = Max (set (map m_seq b))" using b(2) by (intro last_sorted_Max) simp_all
  then show ?thesis using b by (simp add: mc_maxSeq_def mc_get_def last_map)
qed

lemma mc_hasGapBefore_maxSeq:
  "mc_hasGapBefore k s c \<longleftrightarrow> s > (if mc_get k c = [] then 1 else mc_maxSeq k c + 1)"
  by (auto simp: mc_hasGapBefore_def mc_maxSeq_def mc_get_def split: option.splits)

section \<open>What a conversation's bucket holds\<close>

text \<open>A message is covered by a bucket that holds one with its identifier, or that is full of
  messages at least as new.\<close>

definition covered :: "nat \<Rightarrow> message list \<Rightarrow> message \<Rightarrow> bool" where
  "covered sz b m \<longleftrightarrow> m_message_id m \<in> m_message_id ` set b \<or> length b = sz \<and> (\<forall>x \<in> set b. m_seq m \<le> m_seq x)"

lemma covered_insert:
  assumes srt: "sorting srt seq_less" and b: "bucket_inv sz b" and m: "m = msg \<or> covered sz b m"
    and same: "\<And>x. x \<in> insert msg (set b) \<Longrightarrow> m_message_id x = m_message_id m \<Longrightarrow> m_seq x = m_seq m"
  shows "covered sz (insert_bucket sz srt msg b) m"
proof (cases "m_message_id msg \<in> m_message_id ` set b")
  case True
  then have "insert_bucket sz srt msg b = b" by (auto simp: insert_bucket_def list_ex_iff)
  then show ?thesis using m True by (auto simp: covered_def)
next
  case False
  let ?b = "insert_bucket sz srt msg b"
  obtain dropped where eq: "mset ?b + mset dropped = add_mset msg (mset b)"
    and len: "length dropped = (if length b < sz then 0 else 1)"
    and low: "\<forall>d \<in> set dropped. \<forall>x \<in> set ?b. m_seq d \<le> m_seq x"
    using insert_bucket_keeps_newest [OF srt b False] by metis
  have sets: "set ?b \<union> set dropped = insert msg (set b)"
    using arg_cong [OF eq, of set_mset] by simp
  have lens: "length ?b + length dropped = Suc (length b)"
    using arg_cong [OF eq, of size] by simp
  have full: "length ?b = sz" if "x \<in> set dropped" for x
  proof -
    have "length dropped \<noteq> 0" using that by auto
    then show ?thesis using len lens b by (auto simp: bucket_inv_def split: if_splits)
  qed
  have gone: "covered sz ?b m" if "x \<in> set dropped" "m_message_id x = m_message_id m" for x
  proof -
    have "x \<in> insert msg (set b)" using that(1) unfolding sets [symmetric] by blast
    then have "m_seq x = m_seq m" using same that(2) by blast
    then show ?thesis using low full [OF that(1)] that(1) by (auto simp: covered_def)
  qed
  show ?thesis
  proof (cases "m_message_id m \<in> m_message_id ` insert msg (set b)")
    case True
    then obtain x where "x \<in> set ?b \<union> set dropped" "m_message_id x = m_message_id m" unfolding sets by (metis imageE)
    then show ?thesis
    proof (cases "x \<in> set ?b")
      case True
      then have "m_message_id x \<in> m_message_id ` set ?b" by (rule imageI)
      then show ?thesis using \<open>m_message_id x = m_message_id m\<close> by (simp add: covered_def)
    qed (use gone [of x] in blast)
  next
    case new: False
    then have old: "length b = sz" "\<forall>x \<in> set b. m_seq m \<le> m_seq x" using m by (auto simp: covered_def)
    then obtain d where d: "dropped = [d]" using len by (auto simp: length_Suc_conv)
    have "m_seq m \<le> m_seq y" if y: "y \<in> set ?b" for y
    proof (cases "y \<in> set b")
      case True
      then show ?thesis using old by blast
    next
      case notb: False
      then have "y = msg" using y sets by blast
      have "d \<in> set b"
      proof (rule ccontr)
        assume "d \<notin> set b"
        then have "d = msg" using d sets by auto
        then have "mset ?b = mset b" using eq d by simp
        then show False using y notb mset_eq_setD by blast
      qed
      then show ?thesis using old low d y by force
    qed
    then show ?thesis using full [of d] d by (simp add: covered_def)
  qed
qed

lemma mc_inv_sort: "mc_inv c \<Longrightarrow> sorting (std_sort c) seq_less"
  by (simp add: mc_inv_def)

lemma set_insert_bucket:
  assumes "sorting srt seq_less"
  shows "set (insert_bucket sz srt msg b) \<subseteq> insert msg (set b)"
  by (auto simp: insert_bucket_def Let_def sorting.sort_set [OF assms] split: if_splits dest!: list.set_sel(2) [rotated])

lemma mc_insert_covered:
  assumes inv: "mc_inv c" and k: "m_conv_id m = k" and m: "m = msg \<or> covered (bucket_size c) (mc_get k c) m"
    and same: "\<And>x. x \<in> insert msg (set (mc_get k c)) \<Longrightarrow> m_message_id x = m_message_id m \<Longrightarrow> m_seq x = m_seq m"
  shows "covered (bucket_size c) (mc_get k (mc_insert msg c)) m"
proof (cases "m_conv_id msg = k")
  case True
  then show ?thesis
    using covered_insert [OF mc_inv_sort [OF inv] bucket_inv_mc_get [OF inv] m same] mc_get_insert_same [of msg c] by simp
next
  case False
  then show ?thesis using m k by (auto simp: mc_get_insert_other)
qed

lemma mc_insert_same_fields [simp]:
  "bucket_size (mc_insert msg c) = bucket_size c" "std_sort (mc_insert msg c) = std_sort c"
  by (simp_all add: mc_insert_def Let_def)

lemma set_mc_get_insert:
  assumes "mc_inv c"
  shows "set (mc_get k (mc_insert msg c)) \<subseteq> insert msg (set (mc_get k c))"
proof (cases "m_conv_id msg = k")
  case True
  then show ?thesis using set_insert_bucket [OF mc_inv_sort [OF assms]] mc_get_insert_same [of msg c] by simp
qed (auto simp: mc_get_insert_other)

lemma mc_inserts_covered:
  assumes "\<forall>x \<in> S. m_message_id x = m_message_id m \<longrightarrow> m_seq x = m_seq m" and "m_conv_id m = k"
  shows "mc_inv c \<Longrightarrow> m \<in> set ms \<or> covered (bucket_size c) (mc_get k c) m \<Longrightarrow> set ms \<subseteq> S \<Longrightarrow> set (mc_get k c) \<subseteq> S
    \<Longrightarrow> mc_inv (fold mc_insert ms c) \<and> bucket_size (fold mc_insert ms c) = bucket_size c
      \<and> covered (bucket_size c) (mc_get k (fold mc_insert ms c)) m"
proof (induction ms arbitrary: c)
  case (Cons x ms)
  have inv: "mc_inv (mc_insert x c)" by (rule mc_inv_insert [OF Cons.prems(1)])
  have sub: "set (mc_get k (mc_insert x c)) \<subseteq> S" using set_mc_get_insert [OF Cons.prems(1), of k x] Cons.prems(3,4) by auto
  have "m \<in> set ms \<or> covered (bucket_size (mc_insert x c)) (mc_get k (mc_insert x c)) m"
  proof (cases "m \<in> set ms")
    case False
    then have "m = x \<or> covered (bucket_size c) (mc_get k c) m" using Cons.prems(2) by auto
    then have "covered (bucket_size c) (mc_get k (mc_insert x c)) m"
      by (rule mc_insert_covered [OF Cons.prems(1) assms(2)]) (use Cons.prems(3,4) assms(1) in auto)
    then show ?thesis by simp
  qed simp
  then show ?case using Cons.IH [OF inv _ _ sub] Cons.prems(3) by simp
qed simp

text \<open>
  C26: After any insertions into a new cache, the bucket of a conversation is sorted, has no
  identifier twice and is within its size; every inserted message is in it, unless it is full
  of messages that are at least as new; and \<open>maxSeq\<close> is the greatest sequence number in it.
\<close>

theorem message_cache_newest:
  assumes "sorting srt seq_less" and "m \<in> set ms" and "m_conv_id m = k"
    and "\<forall>x \<in> set ms. m_message_id x = m_message_id m \<longrightarrow> m_seq x = m_seq m"
  shows "let c = fold mc_insert ms (mc_new sz srt); b = mc_get k c in
    sorted (map m_seq b) \<and> distinct (map m_message_id b) \<and> length b \<le> sz
    \<and> (m_message_id m \<in> m_message_id ` set b \<or> length b = sz \<and> (\<forall>x \<in> set b. m_seq m \<le> m_seq x))
    \<and> (b \<noteq> [] \<longrightarrow> mc_maxSeq k c = Max (m_seq ` set b))"
proof -
  have "bucket_size (mc_new sz srt) = sz" "mc_get k (mc_new sz srt) = []" by (simp_all add: mc_new_def mc_get_def mc_bucket_def)
  then have run: "mc_inv (fold mc_insert ms (mc_new sz srt)) \<and> bucket_size (fold mc_insert ms (mc_new sz srt)) = sz
      \<and> covered sz (mc_get k (fold mc_insert ms (mc_new sz srt))) m"
    using mc_inserts_covered [OF assms(4,3) mc_inv_new [OF assms(1), of sz]] assms(2) by auto
  then show ?thesis
    using bucket_inv_mc_get [of "fold mc_insert ms (mc_new sz srt)" k] mc_maxSeq_Max [of "fold mc_insert ms (mc_new sz srt)" k]
    by (simp add: bucket_inv_def covered_def Let_def)
qed

theorem message_cache_newest_witness:
  "let msg = (\<lambda>i s. new_message\<lparr>m_message_id := i, m_conv_id := ''c'', m_seq := s\<rparr>);
       b = mc_get ''c'' (fold mc_insert [msg ''x'' 1, msg ''y'' 3, msg ''z'' 2] (mc_new 2 (stable_sort seq_less)))
   in ''x'' \<in> m_message_id ` set b \<or> length b = 2 \<and> (\<forall>m \<in> set b. 1 \<le> m_seq m)"
  using message_cache_newest [OF seq_stable.sorting_axioms, of "new_message\<lparr>m_message_id := ''x'', m_conv_id := ''c'', m_seq := 1\<rparr>"
      "[new_message\<lparr>m_message_id := ''x'', m_conv_id := ''c'', m_seq := 1\<rparr>,
        new_message\<lparr>m_message_id := ''y'', m_conv_id := ''c'', m_seq := 3\<rparr>,
        new_message\<lparr>m_message_id := ''z'', m_conv_id := ''c'', m_seq := 2\<rparr>]" "''c''" 2]
  by (simp add: Let_def)

end
