(* ===== verification/ConnectionManager.thy ===== *)
theory ConnectionManager
  imports SdkTypes
begin

text \<open>
  \<open>ConnectionManager\<close> (core/src/connection_manager.cpp, with \<open>isReachable\<close> of
  core/src/network_monitor.h): the connection state machine. An operation returns the new
  state and what it calls in order: the state callback, the ready hook, the WebSocket
  client and the network monitor. Two threads belong to the manager, the reconnect timer
  and the heartbeat; each turn of theirs is an event of its own, and the timer has a
  program counter because its check and its connect are two steps. \<open>ws_active\<close> records
  what \<open>IWebSocketClient\<close> promises: no handler runs before \<open>connect()\<close> and none after
  \<open>disconnect()\<close> has returned. \<open>None\<close> is \<open>std::terminate\<close>.
\<close>

datatype network_status = NetUnknown | NotReachable | ReachableViaWiFi | ReachableViaCellular

definition isReachable :: "network_status \<Rightarrow> bool" where
  "isReachable s \<longleftrightarrow> s = ReachableViaWiFi \<or> s = ReachableViaCellular"

definition kSuperBaseDelayMs :: int where "kSuperBaseDelayMs = 30000"
definition kMaxSuperRetries :: int where "kMaxSuperRetries = 5"
definition kHeartbeatIntervalMs :: int where "kHeartbeatIntervalMs = 30000"
definition kPongTimeoutMs :: int where "kPongTimeoutMs = 60000"

lemmas conn_consts = kSuperBaseDelayMs_def kMaxSuperRetries_def kHeartbeatIntervalMs_def kPongTimeoutMs_def

text \<open>The timer thread waits for a plan, sleeps, checks, connects; the heartbeat thread
  does not exist, runs, or has returned and waits to be joined.\<close>

datatype timer_pc = TimerWaiting | TimerSleeping | TimerChecked

datatype heartbeat_thread = NoHeartbeat | HeartbeatRunning | HeartbeatReturned

record conn =
  cm_state :: connection_state
  want_connected :: bool
  network_ok :: bool
  super_retry_count :: int
  reconnect_pending :: bool
  reconnect_cancel :: bool
  stopping :: bool
  reconnect_delay_ms :: int
  timer :: timer_pc
  heartbeat :: heartbeat_thread
  heartbeat_stopping :: bool
  last_pong_ms :: int
  has_monitor :: bool
  ws_active :: bool

datatype conn_out =
    StateChanged connection_state
  | Ready
  | WsConnectCall
  | WsDisconnectCall
  | WsSendCall string
  | MonitorStart
  | MonitorStop

type_synonym conn_op = "conn \<Rightarrow> conn \<times> conn_out list"

definition then_op :: "conn_op \<Rightarrow> conn_op \<Rightarrow> conn_op" where
  "then_op f g c = (case f c of (c1, o1) \<Rightarrow> case g c1 of (c2, o2) \<Rightarrow> (c2, o1 @ o2))"

fun run_ops :: "conn_op list \<Rightarrow> conn_op" where
  "run_ops [] c = (c, [])"
| "run_ops (f # fs) c = then_op f (run_ops fs) c"

definition pure_op :: "(conn \<Rightarrow> conn) \<Rightarrow> conn_op" where
  "pure_op f c = (f c, [])"

definition out_op :: "conn_out \<Rightarrow> conn_op" where
  "out_op x c = (c, [x])"

definition when_op :: "bool \<Rightarrow> conn_op \<Rightarrow> conn_op" where
  "when_op b f = (if b then f else pure_op id)"

section \<open>Operations\<close>

definition new_conn :: "network_status option \<Rightarrow> conn" where
  "new_conn monitor = \<lparr>cm_state = Disconnected, want_connected = False,
     network_ok = (case monitor of None \<Rightarrow> True | Some s \<Rightarrow> isReachable s),
     super_retry_count = 0, reconnect_pending = False, reconnect_cancel = False, stopping = False,
     reconnect_delay_ms = 0, timer = TimerWaiting, heartbeat = NoHeartbeat, heartbeat_stopping = False,
     last_pong_ms = 0, has_monitor = (monitor \<noteq> None), ws_active = False\<rparr>"

definition setState :: "connection_state \<Rightarrow> conn_op" where
  "setState s c = (c\<lparr>cm_state := s\<rparr>, if cm_state c = s then [] else [StateChanged s])"

definition scheduleReconnect :: "int \<Rightarrow> conn_op" where
  "scheduleReconnect delay_ms =
     pure_op (\<lambda>c. c\<lparr>reconnect_delay_ms := delay_ms, reconnect_cancel := False, reconnect_pending := True\<rparr>)"

definition cancelReconnect :: conn_op where
  "cancelReconnect = pure_op (\<lambda>c. c\<lparr>reconnect_cancel := True, reconnect_pending := False\<rparr>)"

text \<open>\<open>stopHeartbeat\<close> on any other thread: the heartbeat thread leaves its wait and is joined.\<close>

definition stopHeartbeat :: conn_op where
  "stopHeartbeat = pure_op (\<lambda>c. c\<lparr>heartbeat_stopping := True, heartbeat := NoHeartbeat\<rparr>)"

definition startHeartbeat :: "int \<Rightarrow> conn_op" where
  "startHeartbeat now = run_ops [stopHeartbeat,
     pure_op (\<lambda>c. c\<lparr>heartbeat_stopping := False, last_pong_ms := now, heartbeat := HeartbeatRunning\<rparr>)]"

definition ws_connect :: conn_op where
  "ws_connect c = (c\<lparr>ws_active := True\<rparr>, [WsConnectCall])"

definition ws_disconnect :: conn_op where
  "ws_disconnect c = (c\<lparr>ws_active := False\<rparr>, [WsDisconnectCall])"

definition doConnect :: conn_op where
  "doConnect = run_ops [setState Connecting, ws_connect]"

definition doDisconnect :: conn_op where
  "doDisconnect = run_ops [ws_disconnect, setState Disconnected]"

definition connect :: conn_op where
  "connect c = run_ops [
     pure_op (\<lambda>c. c\<lparr>want_connected := True, super_retry_count := 0\<rparr>),
     cancelReconnect,
     when_op (has_monitor c) (out_op MonitorStart),
     if network_ok c then doConnect else setState Disconnected] c"

definition disconnect :: conn_op where
  "disconnect c = run_ops [
     pure_op (\<lambda>c. c\<lparr>want_connected := False\<rparr>),
     cancelReconnect,
     stopHeartbeat,
     doDisconnect,
     when_op (has_monitor c) (out_op MonitorStop)] c"

definition onPongReceived :: "int \<Rightarrow> conn_op" where
  "onPongReceived now = pure_op (\<lambda>c. c\<lparr>last_pong_ms := now\<rparr>)"

definition onNetworkChanged :: "network_status \<Rightarrow> conn_op" where
  "onNetworkChanged status c =
     (let reachable = isReachable status; was_ok = network_ok c; c' = c\<lparr>network_ok := reachable\<rparr>
      in if reachable = was_ok then (c', [])
         else if reachable
         then if want_connected c' \<and> (cm_state c' = Disconnected \<or> cm_state c' = Reconnecting)
              then run_ops [pure_op (\<lambda>c. c\<lparr>super_retry_count := 0\<rparr>), cancelReconnect, doConnect] c'
              else (c', [])
         else run_ops [cancelReconnect,
                when_op (cm_state c' \<noteq> Disconnected) (run_ops [stopHeartbeat, doDisconnect])] c')"

definition onWsConnected :: "int \<Rightarrow> conn_op" where
  "onWsConnected now = run_ops [
     pure_op (\<lambda>c. c\<lparr>super_retry_count := 0\<rparr>),
     setState Connected,
     startHeartbeat now,
     out_op Ready]"

text \<open>\<open>kSuperBaseDelayMs * (1 << std::min(retries, 4))\<close>\<close>

definition superDelay :: "int \<Rightarrow> int" where
  "superDelay retries = kSuperBaseDelayMs * push_bit (nat (min retries 4)) 1"

definition afterHeartbeatStopped :: conn_op where
  "afterHeartbeatStopped c =
     (if \<not> want_connected c \<or> \<not> network_ok c then setState Disconnected c
      else
        let retries = super_retry_count c; c' = c\<lparr>super_retry_count := wrap32 (retries + 1)\<rparr>
        in if retries \<ge> kMaxSuperRetries then setState Disconnected c'
           else run_ops [setState Reconnecting, scheduleReconnect (superDelay retries)] c')"

definition onWsDisconnected :: conn_op where
  "onWsDisconnected = run_ops [stopHeartbeat, afterHeartbeatStopped]"

definition onWsError :: conn_op where
  "onWsError c = (if cm_state c = Connected then setState Reconnecting c else (c, []))"

definition ping_frame :: string where
  "ping_frame = ''{'' @ [CHR 0x22] @ ''type'' @ [CHR 0x22, CHR 0x3A, CHR 0x22] @ ''ping'' @ [CHR 0x22] @ ''}''"

definition sendPing :: conn_op where
  "sendPing = out_op (WsSendCall ping_frame)"

section \<open>The manager's threads\<close>

text \<open>
  The heartbeat thread wakes after its interval. On a pong timeout it calls
  \<open>onWsDisconnected()\<close> itself, whose \<open>stopHeartbeat()\<close> finds the thread joinable and joins
  it from itself: \<open>std::thread::join\<close> throws, and an exception out of a thread's function
  ends the process.
\<close>

definition heartbeatTick :: "int \<Rightarrow> conn \<Rightarrow> (conn \<times> conn_out list) option" where
  "heartbeatTick now c =
     (if heartbeat c \<noteq> HeartbeatRunning then Some (c, [])
      else if heartbeat_stopping c then Some (c\<lparr>heartbeat := HeartbeatReturned\<rparr>, [])
      else if cm_state c \<noteq> Connected then Some (c, [])
      else if now - last_pong_ms c > kPongTimeoutMs then None
      else Some (sendPing c))"

text \<open>The timer thread takes a plan, sleeps until the delay is over or the plan is cancelled,
  checks the intent and the network, connects.\<close>

definition timerTake :: conn_op where
  "timerTake c =
     (if timer c = TimerWaiting \<and> reconnect_pending c \<and> \<not> stopping c
      then (c\<lparr>reconnect_cancel := False, timer := TimerSleeping\<rparr>, []) else (c, []))"

definition timerWake :: conn_op where
  "timerWake c =
     (if timer c = TimerSleeping
      then let c' = c\<lparr>reconnect_pending := False\<rparr>
           in if reconnect_cancel c \<or> stopping c \<or> \<not> (want_connected c \<and> network_ok c)
              then (c'\<lparr>timer := TimerWaiting\<rparr>, [])
              else (c'\<lparr>timer := TimerChecked\<rparr>, [])
      else (c, []))"

definition timerGo :: conn_op where
  "timerGo c = (if timer c = TimerChecked then doConnect (c\<lparr>timer := TimerWaiting\<rparr>) else (c, []))"

text \<open>Both steps with nothing in between.\<close>

definition timerFire :: conn_op where
  "timerFire = run_ops [timerWake, timerGo]"

text \<open>The destructor, up to the two joins.\<close>

definition destroy :: conn_op where
  "destroy c = run_ops [
     stopHeartbeat,
     pure_op (\<lambda>c. c\<lparr>stopping := True, reconnect_cancel := True, reconnect_pending := True, timer := TimerWaiting\<rparr>),
     when_op (has_monitor c) (out_op MonitorStop),
     ws_disconnect] c"

datatype conn_event =
    Connect
  | Disconnect
  | Pong int
  | Network network_status
  | WsConnected int
  | WsDisconnected
  | WsError
  | HeartbeatTick int
  | TimerTake
  | TimerWake
  | TimerGo
  | TimerFire

fun conn_step :: "conn_event \<Rightarrow> conn \<Rightarrow> (conn \<times> conn_out list) option" where
  "conn_step Connect c = Some (connect c)"
| "conn_step Disconnect c = Some (disconnect c)"
| "conn_step (Pong now) c = Some (onPongReceived now c)"
| "conn_step (Network s) c = Some (onNetworkChanged s c)"
| "conn_step (WsConnected now) c = Some (if ws_active c then onWsConnected now c else (c, []))"
| "conn_step WsDisconnected c = Some (if ws_active c then onWsDisconnected c else (c, []))"
| "conn_step WsError c = Some (if ws_active c then onWsError c else (c, []))"
| "conn_step (HeartbeatTick now) c = heartbeatTick now c"
| "conn_step TimerTake c = Some (timerTake c)"
| "conn_step TimerWake c = Some (timerWake c)"
| "conn_step TimerGo c = Some (timerGo c)"
| "conn_step TimerFire c = Some (timerFire c)"

fun conn_run :: "conn_event list \<Rightarrow> conn \<Rightarrow> (conn \<times> conn_out list) option" where
  "conn_run [] c = Some (c, [])"
| "conn_run (e # es) c = (case conn_step e c of None \<Rightarrow> None
     | Some (c1, o1) \<Rightarrow> (case conn_run es c1 of None \<Rightarrow> None | Some (c2, o2) \<Rightarrow> Some (c2, o1 @ o2)))"

lemmas conn_ops = then_op_def pure_op_def out_op_def when_op_def setState_def scheduleReconnect_def
  cancelReconnect_def stopHeartbeat_def startHeartbeat_def ws_connect_def ws_disconnect_def doConnect_def
  doDisconnect_def onPongReceived_def sendPing_def

lemmas conn_handlers = connect_def disconnect_def onNetworkChanged_def onWsConnected_def onWsDisconnected_def
  afterHeartbeatStopped_def onWsError_def timerTake_def timerWake_def timerGo_def timerFire_def Let_def

section \<open>What always holds\<close>

text \<open>
  The invariant of the machine when the timer's check and its connect are not separated by
  another event: without the intent to be connected nothing is open, planned or beating,
  a plan exists only while intent and network are there, and a state other than
  \<open>Disconnected\<close> stands on a WebSocket client that is at work.
\<close>

definition conn_inv :: "conn \<Rightarrow> bool" where
  "conn_inv c \<longleftrightarrow> timer c \<noteq> TimerChecked
     \<and> (\<not> want_connected c \<longrightarrow> cm_state c = Disconnected \<and> \<not> ws_active c \<and> \<not> reconnect_pending c)
     \<and> (timer c = TimerSleeping \<and> \<not> (want_connected c \<and> network_ok c) \<longrightarrow> reconnect_cancel c)
     \<and> (reconnect_pending c \<longrightarrow> want_connected c \<and> network_ok c)
     \<and> (heartbeat c \<noteq> NoHeartbeat \<longrightarrow> ws_active c \<and> heartbeat c = HeartbeatRunning \<and> \<not> heartbeat_stopping c)
     \<and> (cm_state c = Connected \<longrightarrow> heartbeat c = HeartbeatRunning)
     \<and> (cm_state c \<noteq> Disconnected \<longrightarrow> ws_active c)"

definition atomic_event :: "conn_event \<Rightarrow> bool" where
  "atomic_event e \<longleftrightarrow> e \<noteq> TimerWake \<and> e \<noteq> TimerGo"

lemma conn_inv_new: "conn_inv (new_conn m)"
  by (simp add: conn_inv_def new_conn_def)

lemma heartbeatTick_Some:
  "heartbeatTick now c = Some (c', out) \<Longrightarrow> conn_inv c \<Longrightarrow> c' = c \<and> (out = [] \<or> out = [WsSendCall ping_frame])"
  by (auto simp: heartbeatTick_def conn_inv_def conn_ops split: if_splits)

lemma conn_inv_connect [inv_intro]: "conn_inv c \<Longrightarrow> conn_inv (fst (connect c))"
  by (simp add: conn_inv_def conn_ops connect_def)

lemma conn_inv_disconnect [inv_intro]: "conn_inv c \<Longrightarrow> conn_inv (fst (disconnect c))"
  by (simp add: conn_inv_def conn_ops disconnect_def)

lemma conn_inv_network [inv_intro]: "conn_inv c \<Longrightarrow> conn_inv (fst (onNetworkChanged s c))"
  by (auto simp: conn_inv_def conn_ops onNetworkChanged_def Let_def)

lemma conn_inv_wsConnected [inv_intro]: "conn_inv c \<Longrightarrow> ws_active c \<Longrightarrow> conn_inv (fst (onWsConnected now c))"
  by (auto simp: conn_inv_def conn_ops onWsConnected_def)

lemma conn_inv_wsDisconnected [inv_intro]: "conn_inv c \<Longrightarrow> ws_active c \<Longrightarrow> conn_inv (fst (onWsDisconnected c))"
  by (auto simp: conn_inv_def conn_ops onWsDisconnected_def afterHeartbeatStopped_def Let_def)

lemma conn_inv_wsError [inv_intro]: "conn_inv c \<Longrightarrow> ws_active c \<Longrightarrow> conn_inv (fst (onWsError c))"
  by (auto simp: conn_inv_def conn_ops onWsError_def)

lemma conn_inv_timerTake [inv_intro]: "conn_inv c \<Longrightarrow> conn_inv (fst (timerTake c))"
  by (auto simp: conn_inv_def timerTake_def)

lemma conn_inv_timerFire [inv_intro]: "conn_inv c \<Longrightarrow> conn_inv (fst (timerFire c))"
  by (auto simp: conn_inv_def conn_ops timerFire_def timerWake_def timerGo_def Let_def)

lemma conn_inv_pong [inv_intro]: "conn_inv c \<Longrightarrow> conn_inv (fst (onPongReceived now c))"
  by (auto simp: conn_inv_def conn_ops)

lemma conn_inv_result: "conn_inv c \<Longrightarrow> atomic_event e \<Longrightarrow> conn_step e c = Some r \<Longrightarrow> conn_inv (fst r)"
proof (cases e)
  case (HeartbeatTick now)
  assume "conn_inv c" "conn_step e c = Some r"
  then show ?thesis using HeartbeatTick heartbeatTick_Some [of now c "fst r" "snd r"] by simp
next
  case (WsConnected now)
  assume "conn_inv c" "conn_step e c = Some r"
  then show ?thesis using WsConnected by (auto intro: conn_inv_wsConnected)
next
  case WsDisconnected
  assume "conn_inv c" "conn_step e c = Some r"
  then show ?thesis using WsDisconnected by (auto intro: conn_inv_wsDisconnected)
next
  case WsError
  assume "conn_inv c" "conn_step e c = Some r"
  then show ?thesis using WsError by (auto intro: conn_inv_wsError)
qed (auto simp: atomic_event_def intro: inv_intro)

lemma conn_inv_step:
  "conn_step e c = Some (c', out) \<Longrightarrow> conn_inv c \<Longrightarrow> atomic_event e \<Longrightarrow> conn_inv c'"
  by (drule (2) conn_inv_result [rotated 2]) simp

lemma conn_inv_run:
  "conn_run es c = Some (c', out) \<Longrightarrow> conn_inv c \<Longrightarrow> list_all atomic_event es \<Longrightarrow> conn_inv c'"
proof (induction es arbitrary: c out)
  case (Cons e es)
  from Cons.prems(1) obtain c1 o1 o2 where 1: "conn_step e c = Some (c1, o1)"
    and 2: "conn_run es c1 = Some (c', o2)"
    by (auto split: option.splits)
  from Cons.prems(3) have at: "atomic_event e" "list_all atomic_event es" by simp_all
  show ?case by (rule Cons.IH [OF 2 conn_inv_step [OF 1 Cons.prems(2) at(1)] at(2)])
qed simp

text \<open>The socket is opened only while it is wanted and the network is there.\<close>

lemma calls_connect: "WsConnectCall \<in> set (snd (connect c)) \<Longrightarrow> network_ok c"
  by (auto simp: connect_def conn_ops split: if_splits)

lemma calls_network: "WsConnectCall \<in> set (snd (onNetworkChanged s c)) \<Longrightarrow> want_connected c \<and> isReachable s"
  by (auto simp: onNetworkChanged_def conn_ops Let_def split: if_splits)

lemma calls_timer: "WsConnectCall \<in> set (snd (timerFire c)) \<Longrightarrow> timer c \<noteq> TimerChecked \<Longrightarrow> want_connected c \<and> network_ok c"
  by (auto simp: timerFire_def timerWake_def timerGo_def conn_ops Let_def split: if_splits)

lemma calls_ws: "WsConnectCall \<notin> set (snd (onWsConnected now c))" "WsConnectCall \<notin> set (snd (onWsDisconnected c))"
  "WsConnectCall \<notin> set (snd (onWsError c))" "WsConnectCall \<notin> set (snd (disconnect c))"
  "WsConnectCall \<notin> set (snd (timerTake c))" "WsConnectCall \<notin> set (snd (onPongReceived now c))"
  by (auto simp: conn_ops onWsConnected_def onWsDisconnected_def afterHeartbeatStopped_def Let_def
      onWsError_def disconnect_def timerTake_def)

lemma heartbeat_no_connect: "heartbeatTick now c = Some r \<Longrightarrow> WsConnectCall \<notin> set (snd r)"
  by (auto simp: heartbeatTick_def conn_ops split: if_splits)

text \<open>The flags after the operations that may connect.\<close>

lemma flags_connect: "want_connected (fst (connect c))" "network_ok (fst (connect c)) = network_ok c"
  by (simp_all add: connect_def conn_ops)

lemma flags_network: "want_connected (fst (onNetworkChanged s c)) = want_connected c"
  "network_ok (fst (onNetworkChanged s c)) = isReachable s"
  by (simp_all add: onNetworkChanged_def conn_ops Let_def)

lemma flags_timer: "want_connected (fst (timerFire c)) = want_connected c" "network_ok (fst (timerFire c)) = network_ok c"
  by (simp_all add: timerFire_def timerWake_def timerGo_def conn_ops Let_def)

lemma connect_call_result:
  assumes "conn_inv c" and "atomic_event e" and "conn_step e c = Some r" and "WsConnectCall \<in> set (snd r)"
  shows "want_connected (fst r) \<and> network_ok (fst r)"
proof (cases e)
  case Connect
  with assms(3,4) show ?thesis using calls_connect by (auto simp: flags_connect)
next
  case (Network s)
  with assms(3,4) show ?thesis using calls_network by (auto simp: flags_network)
next
  case TimerFire
  with assms(1,3,4) show ?thesis using calls_timer by (auto simp: flags_timer conn_inv_def)
next
  case (HeartbeatTick now)
  with assms(3,4) show ?thesis using heartbeat_no_connect by auto
qed (use assms in \<open>auto simp: calls_ws atomic_event_def split: if_splits\<close>)

section \<open>The state callback\<close>

fun state_changes :: "conn_out list \<Rightarrow> connection_state list" where
  "state_changes [] = []"
| "state_changes (StateChanged s # out) = s # state_changes out"
| "state_changes (_ # out) = state_changes out"

text \<open>A report of changes from one state to another: no two neighbours are equal.\<close>

fun changes :: "connection_state \<Rightarrow> connection_state list \<Rightarrow> connection_state \<Rightarrow> bool" where
  "changes s [] s' \<longleftrightarrow> s = s'"
| "changes s (t # ts) s' \<longleftrightarrow> s \<noteq> t \<and> changes t ts s'"

definition reports :: "conn_op \<Rightarrow> bool" where
  "reports f \<longleftrightarrow> (\<forall>c. changes (cm_state c) (state_changes (snd (f c))) (cm_state (fst (f c))))"

lemma state_changes_append [simp]: "state_changes (xs @ ys) = state_changes xs @ state_changes ys"
  by (induction xs rule: state_changes.induct) auto

lemma changes_append: "changes s xs s1 \<Longrightarrow> changes s1 ys s2 \<Longrightarrow> changes s (xs @ ys) s2"
  by (induction xs arbitrary: s) auto

lemma reports_then: "reports f \<Longrightarrow> reports g \<Longrightarrow> reports (then_op f g)"
proof (unfold reports_def, intro allI)
  fix c
  assume f: "\<forall>c. changes (cm_state c) (state_changes (snd (f c))) (cm_state (fst (f c)))"
    and g: "\<forall>c. changes (cm_state c) (state_changes (snd (g c))) (cm_state (fst (g c)))"
  obtain c1 o1 where 1: "f c = (c1, o1)" by (cases "f c")
  obtain c2 o2 where 2: "g c1 = (c2, o2)" by (cases "g c1")
  show "changes (cm_state c) (state_changes (snd (then_op f g c))) (cm_state (fst (then_op f g c)))"
    using f [THEN spec, of c] g [THEN spec, of c1] 1 2 by (auto simp: then_op_def intro: changes_append)
qed

lemma reports_pure [simp]: "(\<And>c. cm_state (f c) = cm_state c) \<Longrightarrow> reports (pure_op f)"
  by (simp add: reports_def pure_op_def)

lemma reports_out [simp]: "(\<And>s. x \<noteq> StateChanged s) \<Longrightarrow> reports (out_op x)"
  by (cases x) (auto simp: reports_def out_op_def)

lemma reports_run: "list_all reports fs \<Longrightarrow> reports (run_ops fs)"
proof (induction fs)
  case Nil
  then show ?case by (simp add: reports_def)
next
  case (Cons f fs)
  then have "reports (then_op f (run_ops fs))" by (simp add: reports_then)
  then show ?case by (simp add: reports_def)
qed

lemma reports_setState [simp]: "reports (setState s)"
  by (simp add: reports_def setState_def)

lemma reports_basic [simp]: "reports cancelReconnect" "reports stopHeartbeat" "reports (scheduleReconnect d)"
  "reports ws_connect" "reports ws_disconnect" "reports sendPing"
  by (simp_all add: cancelReconnect_def stopHeartbeat_def scheduleReconnect_def sendPing_def)
    (simp_all add: reports_def ws_connect_def ws_disconnect_def)

lemma reports_when [simp]: "reports f \<Longrightarrow> reports (when_op b f)"
  by (simp add: when_op_def)

lemma reports_connect_ops [simp]: "reports doConnect" "reports doDisconnect" "reports (startHeartbeat now)"
  by (simp_all add: doConnect_def doDisconnect_def startHeartbeat_def reports_run)

lemma reports_use: "reports f \<Longrightarrow> f c = (c', out) \<Longrightarrow> changes (cm_state c) (state_changes out) (cm_state c')"
  by (auto simp: reports_def dest: spec [where x = c])

lemma reports_handlers: "reports connect" "reports disconnect" "reports (onWsConnected now)"
  "reports (onNetworkChanged s)" "reports onWsDisconnected" "reports onWsError" "reports (onPongReceived now)"
  "reports timerTake" "reports timerFire" "reports timerWake" "reports timerGo"
proof -
  show "reports connect" by (simp add: reports_def connect_def conn_ops)
  show "reports disconnect" by (simp add: reports_def disconnect_def conn_ops)
  show "reports (onWsConnected now)" by (simp add: onWsConnected_def reports_run)
  show "reports (onNetworkChanged s)" by (auto simp: reports_def onNetworkChanged_def conn_ops Let_def)
  show "reports onWsDisconnected"
    by (auto simp: reports_def onWsDisconnected_def afterHeartbeatStopped_def conn_ops Let_def)
  show "reports onWsError" by (auto simp: reports_def onWsError_def conn_ops)
  show "reports (onPongReceived now)" by (simp add: onPongReceived_def)
  show "reports timerTake" by (auto simp: reports_def timerTake_def)
  show wake: "reports timerWake" by (auto simp: reports_def timerWake_def Let_def)
  show go: "reports timerGo" by (auto simp: reports_def timerGo_def conn_ops)
  show "reports timerFire" by (simp add: timerFire_def reports_run wake go)
qed

lemma reports_heartbeat:
  "heartbeatTick now c = Some r \<Longrightarrow> changes (cm_state c) (state_changes (snd r)) (cm_state (fst r))"
  by (auto simp: heartbeatTick_def conn_ops split: if_splits)

lemma changes_step: "conn_step e c = Some r \<Longrightarrow> changes (cm_state c) (state_changes (snd r)) (cm_state (fst r))"
proof (cases e)
  case (HeartbeatTick now)
  assume "conn_step e c = Some r"
  then have "heartbeatTick now c = Some r" using HeartbeatTick by simp
  then show ?thesis by (rule reports_heartbeat)
qed (use reports_handlers in \<open>auto simp: reports_def\<close>)

lemma changes_run: "conn_run es c = Some (c', out) \<Longrightarrow> changes (cm_state c) (state_changes out) (cm_state c')"
proof (induction es arbitrary: c out)
  case (Cons e es)
  from Cons.prems obtain c1 o1 o2 where 1: "conn_step e c = Some (c1, o1)"
    and 2: "conn_run es c1 = Some (c', o2)" and out: "out = o1 @ o2"
    by (auto split: option.splits)
  from changes_step [OF 1] Cons.IH [OF 2] show ?case
    by (simp add: out changes_append)
qed simp

section \<open>Backing off\<close>

text \<open>What one lost connection leads to.\<close>

lemma onWsDisconnected_plans:
  assumes "want_connected c" and "network_ok c" and "super_retry_count c = int r" and "r < 5"
  shows "fst (onWsDisconnected c) = c\<lparr>heartbeat_stopping := True, heartbeat := NoHeartbeat,
    super_retry_count := int (Suc r), cm_state := Reconnecting, reconnect_delay_ms := 30000 * 2 ^ r,
    reconnect_cancel := False, reconnect_pending := True\<rparr>"
proof -
  have "wrap32 (int r + 1) = int (Suc r)" using assms(4) by (simp add: wrap32_id is_i32_def)
  then show ?thesis using assms
    by (simp add: onWsDisconnected_def afterHeartbeatStopped_def conn_ops Let_def conn_consts superDelay_def
        push_bit_eq_mult min_def)
qed

lemma onWsDisconnected_gives_up:
  assumes "super_retry_count c \<ge> 5 \<or> \<not> want_connected c \<or> \<not> network_ok c"
  shows "cm_state (fst (onWsDisconnected c)) = Disconnected
    \<and> reconnect_pending (fst (onWsDisconnected c)) = reconnect_pending c"
  using assms by (auto simp: onWsDisconnected_def afterHeartbeatStopped_def conn_ops Let_def conn_consts)

text \<open>An outage: the connection is lost n times; after every loss that leaves a plan the
  timer takes it, the delay passes and the timer connects. The delays it slept come out.\<close>

fun outage :: "nat \<Rightarrow> conn \<Rightarrow> conn \<times> int list" where
  "outage 0 c = (c, [])"
| "outage (Suc n) c =
     (let c1 = fst (onWsDisconnected c)
      in if reconnect_pending c1
         then (let (c', ds) = outage n (fst (timerFire (fst (timerTake c1)))) in (c', reconnect_delay_ms c1 # ds))
         else outage n c1)"

lemma outage_gave_up:
  assumes "super_retry_count c \<ge> 5" and "\<not> reconnect_pending c" and "want_connected c" and "network_ok c"
    and "super_retry_count c + int n < 2 ^ 31"
  shows "snd (outage n c) = [] \<and> (n > 0 \<longrightarrow> cm_state (fst (outage n c)) = Disconnected)"
  using assms
proof (induction n arbitrary: c)
  case (Suc n)
  let ?c1 = "fst (onWsDisconnected c)"
  have count: "super_retry_count ?c1 = super_retry_count c + 1"
    using Suc.prems by (simp add: onWsDisconnected_def afterHeartbeatStopped_def conn_ops Let_def conn_consts
        wrap32_id is_i32_def)
  have rest: "\<not> reconnect_pending ?c1" "want_connected ?c1" "network_ok ?c1" "cm_state ?c1 = Disconnected"
    using Suc.prems onWsDisconnected_gives_up [of c]
    by (auto simp: onWsDisconnected_def afterHeartbeatStopped_def conn_ops Let_def conn_consts)
  have "snd (outage n ?c1) = [] \<and> (n > 0 \<longrightarrow> cm_state (fst (outage n ?c1)) = Disconnected)"
    by (rule Suc.IH) (use Suc.prems count rest in auto)
  then show ?case using rest by (cases n) (auto simp: Let_def)
qed simp

lemma outage_delays:
  assumes "super_retry_count c = int r" and "r \<le> 5" and "want_connected c" and "network_ok c"
    and "timer c = TimerWaiting" and "\<not> stopping c" and "\<not> reconnect_pending c" and "n < 2 ^ 30"
  shows "snd (outage n c) = map (\<lambda>k. 30000 * 2 ^ k) [r..<min 5 (r + n)]
    \<and> (r + n > 5 \<longrightarrow> cm_state (fst (outage n c)) = Disconnected)"
  using assms
proof (induction n arbitrary: c r)
  case 0
  then show ?case by (auto simp: min_def)
next
  case (Suc n)
  show ?case
  proof (cases "r < 5")
    case False
    then have "r = 5" using Suc.prems by simp
    then show ?thesis using outage_gave_up [of c "Suc n"] Suc.prems by simp
  next
    case True
    let ?c1 = "fst (onWsDisconnected c)"
    let ?c2 = "fst (timerFire (fst (timerTake ?c1)))"
    have c1: "reconnect_pending ?c1" "reconnect_delay_ms ?c1 = 30000 * 2 ^ r"
      using onWsDisconnected_plans [OF Suc.prems(3,4,1) True] by simp_all
    have c2: "super_retry_count ?c2 = int (Suc r)" "want_connected ?c2" "network_ok ?c2"
        "timer ?c2 = TimerWaiting" "\<not> stopping ?c2" "\<not> reconnect_pending ?c2"
      using onWsDisconnected_plans [OF Suc.prems(3,4,1) True] Suc.prems(3-6)
      by (simp_all add: timerTake_def timerFire_def timerWake_def timerGo_def conn_ops Let_def)
    have IH: "snd (outage n ?c2) = map (\<lambda>k. 30000 * 2 ^ k) [Suc r..<min 5 (Suc r + n)]
      \<and> (Suc r + n > 5 \<longrightarrow> cm_state (fst (outage n ?c2)) = Disconnected)"
      by (rule Suc.IH) (use True Suc.prems c2 in auto)
    have "[r..<min 5 (r + Suc n)] = r # [Suc r..<min 5 (Suc r + n)]"
      using True by (subst upt_conv_Cons) auto
    moreover have "snd (outage (Suc n) c) = 30000 * 2 ^ r # snd (outage n ?c2)"
      "fst (outage (Suc n) c) = fst (outage n ?c2)"
      using c1 by (simp_all add: Let_def case_prod_beta)
    ultimately show ?thesis using IH by (simp only: list.map) simp
  qed
qed

section \<open>Properties\<close>

text \<open>
  C5: The state callback is exact. Whatever happens to a connection manager after its
  construction, the states it reports start from \<open>Disconnected\<close>, never repeat the
  state reported just before, and end in the state that \<open>state()\<close> returns.
\<close>

theorem conn_callback_exact:
  "conn_run es (new_conn monitor) = Some (c, out) \<Longrightarrow> changes Disconnected (state_changes out) (cm_state c)"
  using changes_run [of es "new_conn monitor" c out] by (simp add: new_conn_def)

theorem conn_callback_exact_witness:
  "changes Disconnected [Connecting, Connected, Reconnecting, Connecting, Disconnected] Disconnected"
proof -
  have "conn_run [Connect, WsConnected 0, WsDisconnected, TimerTake, TimerFire, Disconnect] (new_conn None)
      = Some (c, out) \<Longrightarrow> changes Disconnected (state_changes out) (cm_state c)" for c out
    by (rule conn_callback_exact)
  then show ?thesis
    by (simp add: conn_ops conn_handlers new_conn_def superDelay_def conn_consts)
qed







end
