(* ===== verification/JsonCommon.thy ===== *)
theory JsonCommon
  imports Prelude
begin

text \<open>
  \<open>core/src/json_common.h\<close>: the tolerant readers of server payloads (integers, booleans,
  timestamps that arrive in several shapes), ISO 8601 output, and the decision whether an
  HTTP response is a success. The JSON reader itself (glaze) is not part of the
  repository: it enters as a parameter, a function from the body to an error text or the
  decoded envelope.
\<close>

section \<open>Variants\<close>

text \<open>\<open>std::variant<int64_t, double, std::string>\<close>, and the variant with \<open>bool\<close>.\<close>

datatype integer_value = IV_int int | IV_double rat | IV_string string

datatype bool_value = BV_bool bool | BV_int int | BV_double rat | BV_string string

datatype timestamp_value =
    TS_int int
  | TS_double rat
  | TS_string string
  | TS_object int int

text \<open>Message content: a string, or any other JSON value as its raw text.\<close>

datatype content_value = CV_text string | CV_raw string

text \<open>\<open>parseMessageContent\<close>, the same in the message manager, the conversation manager and the
  sync engine; \<open>read\<close> is the JSON reader for a string.\<close>

definition parseMessageContent :: "(string \<Rightarrow> string option) \<Rightarrow> content_value option \<Rightarrow> string" where
  "parseMessageContent read v = (case v of None \<Rightarrow> []
     | Some (CV_text text) \<Rightarrow> text
     | Some (CV_raw raw) \<Rightarrow> if raw = [] then [] else (case read raw of Some parsed \<Rightarrow> parsed | None \<Rightarrow> raw))"

section \<open>Strings\<close>

definition toLowerCopy :: "string \<Rightarrow> string" where
  "toLowerCopy text = map tolower text"

definition toLower :: "string \<Rightarrow> string" where
  "toLower text = toLowerCopy text"

definition parseInt64String :: "string \<Rightarrow> int \<Rightarrow> int" where
  "parseInt64String text dflt =
     (if text = [] then dflt
      else case strtoll text of
        (parsed, Some rest) \<Rightarrow> if rest = [] then parsed else dflt
      | (parsed, None) \<Rightarrow> if c_str text = [] then parsed else dflt)"

definition parseBoolString :: "string \<Rightarrow> bool option" where
  "parseBoolString text =
     (let lowered = toLowerCopy text in
      if lowered = ''true'' \<or> lowered = ''1'' \<or> lowered = ''yes'' \<or> lowered = ''on'' then Some True
      else if lowered = ''false'' \<or> lowered = ''0'' \<or> lowered = ''no'' \<or> lowered = ''off'' then Some False
      else None)"

section \<open>Integers and booleans\<close>

fun parseInt64Value :: "integer_value option \<Rightarrow> int \<Rightarrow> int" where
  "parseInt64Value None dflt = dflt"
| "parseInt64Value (Some (IV_int i)) dflt = i"
| "parseInt64Value (Some (IV_double d)) dflt = double_to_i64 d"
| "parseInt64Value (Some (IV_string text)) dflt = parseInt64String text dflt"

text \<open>The same template over the variant that also has a \<open>bool\<close>.\<close>

fun parseInt64Value_b :: "bool_value option \<Rightarrow> int \<Rightarrow> int" where
  "parseInt64Value_b None dflt = dflt"
| "parseInt64Value_b (Some (BV_int i)) dflt = i"
| "parseInt64Value_b (Some (BV_double d)) dflt = double_to_i64 d"
| "parseInt64Value_b (Some (BV_bool b)) dflt = (if b then 1 else 0)"
| "parseInt64Value_b (Some (BV_string text)) dflt = parseInt64String text dflt"

text \<open>And over a plain \<open>std::optional\<close> of an integer.\<close>

definition parseInt64Opt :: "int option \<Rightarrow> int \<Rightarrow> int" where
  "parseInt64Opt v dflt = (case v of None \<Rightarrow> dflt | Some i \<Rightarrow> i)"

definition parseInt32Value :: "integer_value option \<Rightarrow> int \<Rightarrow> int" where
  "parseInt32Value v dflt = wrap32 (parseInt64Value v dflt)"

definition parseInt32Value_b :: "bool_value option \<Rightarrow> int \<Rightarrow> int" where
  "parseInt32Value_b v dflt = wrap32 (parseInt64Value_b v dflt)"

definition parseInt32Opt :: "int option \<Rightarrow> int \<Rightarrow> int" where
  "parseInt32Opt v dflt = wrap32 (parseInt64Opt v dflt)"

fun parseBoolValue :: "bool_value option \<Rightarrow> bool \<Rightarrow> bool" where
  "parseBoolValue None dflt = dflt"
| "parseBoolValue (Some (BV_bool b)) dflt = b"
| "parseBoolValue (Some (BV_int i)) dflt = (i \<noteq> 0)"
| "parseBoolValue (Some (BV_double d)) dflt = (d \<noteq> 0)"
| "parseBoolValue (Some (BV_string text)) dflt =
     (case parseBoolString text of Some b \<Rightarrow> b | None \<Rightarrow> dflt)"

lemma parseInt64String_to_string [simp]:
  "is_i64 i \<Longrightarrow> parseInt64String (to_string i) dflt = i"
  by (simp add: parseInt64String_def)

lemma is_i64_parseInt64String [cpp_int]: "is_i64 dflt \<Longrightarrow> is_i64 (parseInt64String text dflt)"
proof -
  have "is_i64 0" by (simp add: is_i64_def)
  then show "is_i64 dflt \<Longrightarrow> ?thesis"
    by (auto simp: parseInt64String_def strtoll_def split: prod.splits option.splits)
qed

section \<open>Calendar\<close>

text \<open>
  \<open>gmtime_r\<close> and \<open>timegm\<close> of the C library on the proleptic Gregorian calendar, as
  day counts since 1970-01-01 in eras of 400 years.
\<close>

definition days_from_civil :: "int \<Rightarrow> int \<Rightarrow> int \<Rightarrow> int" where
  "days_from_civil y m d =
     (let y' = (if m \<le> 2 then y - 1 else y);
          era = y' div 400;
          yoe = y' mod 400;
          mp = (if m > 2 then m - 3 else m + 9);
          doy = (153 * mp + 2) div 5 + d - 1;
          doe = yoe * 365 + yoe div 4 - yoe div 100 + doy
      in era * 146097 + doe - 719468)"

definition civil_from_days :: "int \<Rightarrow> int \<times> int \<times> int" where
  "civil_from_days z0 =
     (let z = z0 + 719468;
          era = z div 146097;
          doe = z mod 146097;
          yoe = (doe - doe div 1460 + doe div 36524 - doe div 146096) div 365;
          doy = doe - (365 * yoe + yoe div 4 - yoe div 100);
          mp = (5 * doy + 2) div 153;
          d = doy - (153 * mp + 2) div 5 + 1;
          m = (if mp < 10 then mp + 3 else mp - 9);
          y = yoe + era * 400
      in (if m \<le> 2 then y + 1 else y, m, d))"

record tm =
  tm_year :: int
  tm_mon :: int
  tm_mday :: int
  tm_hour :: int
  tm_min :: int
  tm_sec :: int

definition gmtime :: "int \<Rightarrow> tm" where
  "gmtime t = (case civil_from_days (t div 86400) of (y, m, d) \<Rightarrow>
     let r = t mod 86400 in
     \<lparr>tm_year = y - 1900, tm_mon = m - 1, tm_mday = d,
      tm_hour = r div 3600, tm_min = r mod 3600 div 60, tm_sec = r mod 60\<rparr>)"

text \<open>\<open>utcTimeFromTm\<close> calls \<open>timegm\<close>, which normalises fields out of range and
  returns \<open>-1\<close> when the year of the result does not fit \<open>tm_year\<close>.\<close>

definition utcTimeFromTm :: "tm \<Rightarrow> int" where
  "utcTimeFromTm t =
     (let y = tm_year t + 1900 + tm_mon t div 12;
          days = days_from_civil y (tm_mon t mod 12 + 1) 1 + tm_mday t - 1;
          secs = days * 86400 + tm_hour t * 3600 + tm_min t * 60 + tm_sec t
      in if is_i32 (fst (civil_from_days (secs div 86400)) - 1900) then secs else - 1)"

section \<open>Timestamps\<close>

definition normalizeUnixEpochMs :: "int \<Rightarrow> int" where
  "normalizeUnixEpochMs raw = (if raw > 0 \<and> raw < 1000000000000 then raw * 1000 else raw)"

text \<open>\<open>strftime\<close> with \<open>%Y-%m-%dT%H:%M:%SZ\<close> into a buffer of 32 bytes.\<close>

definition pad2 :: "int \<Rightarrow> string" where
  "pad2 n = (if 0 \<le> n \<and> n < 10 then CHR ''0'' # to_string n else to_string n)"

definition iso_text :: "tm \<Rightarrow> string" where
  "iso_text t = to_string (tm_year t + 1900) @ ''-'' @ pad2 (tm_mon t + 1) @ ''-'' @ pad2 (tm_mday t)
     @ ''T'' @ pad2 (tm_hour t) @ '':'' @ pad2 (tm_min t) @ '':'' @ pad2 (tm_sec t) @ ''Z''"

definition formatIso8601Utc :: "int \<Rightarrow> string" where
  "formatIso8601Utc unix_ms =
     (if unix_ms \<le> 0 then []
      else let buffer = iso_text (gmtime (cdiv unix_ms 1000))
           in if length buffer < 32 then buffer else [])"

definition parseTwoDigits :: "string \<Rightarrow> nat \<Rightarrow> int" where
  "parseTwoDigits text pos =
     (if pos + 2 > length text \<or> \<not> isdigit (text ! pos) \<or> \<not> isdigit (text ! (pos + 1)) then - 1
      else digit_val (text ! pos) * 10 + digit_val (text ! (pos + 1)))"

text \<open>
  \<open>std::sscanf\<close> with \<open>%d\<close>, ordinary characters and white space in the format: the
  list of converted values, which stops at the first mismatch.
\<close>

datatype directive = D_int | D_char char | D_space

definition scan_d :: "string \<Rightarrow> (int \<times> string) option" where
  "scan_d s = map_option (\<lambda>(v, rest). (wrap32 (clamp64 v), rest)) (scan_integer s)"

fun sscanf :: "directive list \<Rightarrow> string \<Rightarrow> int list" where
  "sscanf [] s = []"
| "sscanf (D_int # fs) s = (case scan_d s of None \<Rightarrow> [] | Some (v, rest) \<Rightarrow> v # sscanf fs rest)"
| "sscanf (D_char c # fs) s = (case s of [] \<Rightarrow> [] | x # rest \<Rightarrow> if x = c then sscanf fs rest else [])"
| "sscanf (D_space # fs) s = sscanf fs (dropWhile isspace s)"

definition iso_format :: "directive \<Rightarrow> directive list" where
  "iso_format sep = [D_int, D_char CHR ''-'', D_int, D_char CHR ''-'', D_int, sep,
                     D_int, D_char CHR '':'', D_int, D_char CHR '':'', D_int]"

text \<open>\<open>text.find(c, from)\<close> and \<open>text.find_first_of\<close>: \<open>None\<close> is \<open>npos\<close>.\<close>

fun find_from :: "(char \<Rightarrow> bool) \<Rightarrow> nat \<Rightarrow> string \<Rightarrow> nat option" where
  "find_from P start [] = None"
| "find_from P 0 (c # cs) = (if P c then Some 0 else map_option Suc (find_from P 0 cs))"
| "find_from P (Suc n) (c # cs) = map_option Suc (find_from P n cs)"

fun fraction_ms :: "int \<Rightarrow> string \<Rightarrow> int" where
  "fraction_ms scale [] = 0"
| "fraction_ms scale (c # cs) =
     (if isdigit c \<and> scale > 0 then digit_val c * scale + fraction_ms (cdiv scale 10) cs else 0)"

definition timestamp_ms_part :: "string \<Rightarrow> int" where
  "timestamp_ms_part text = (case find_from (\<lambda>c. c = CHR ''.'') 19 text of
      None \<Rightarrow> 0
    | Some dot_pos \<Rightarrow> fraction_ms 100 (drop (dot_pos + 1) text))"

definition tz_offset_seconds :: "string \<Rightarrow> int" where
  "tz_offset_seconds text = (case find_from (\<lambda>c. c \<in> set ''+-Z'') 19 text of
      None \<Rightarrow> 0
    | Some tz_pos \<Rightarrow>
        if text ! tz_pos = CHR ''Z'' then 0
        else let hh = parseTwoDigits text (tz_pos + 1) in
          if hh < 0 then 0
          else let parsed =
                 (if tz_pos + 3 < length text \<and> text ! (tz_pos + 3) = CHR '':''
                  then parseTwoDigits text (tz_pos + 4)
                  else if tz_pos + 3 < length text \<and> isdigit (text ! (tz_pos + 3))
                  then parseTwoDigits text (tz_pos + 3)
                  else - 1);
                 mm = (if parsed \<ge> 0 then parsed else 0);
                 off = hh * 3600 + mm * 60
               in if text ! tz_pos = CHR ''-'' then - off else off)"

definition parseTimestampText :: "string \<Rightarrow> int" where
  "parseTimestampText text =
     (let iso = sscanf (iso_format (D_char CHR ''T'')) (c_str text);
          fields = (if length iso = 6 then iso else sscanf (iso_format D_space) (c_str text))
      in case fields of
           [year, month, day, hour, minute, second] \<Rightarrow>
             let tm_utc = \<lparr>tm_year = wrap32 (year - 1900), tm_mon = wrap32 (month - 1), tm_mday = day,
                           tm_hour = hour, tm_min = minute, tm_sec = second\<rparr>;
                 epoch_seconds = utcTimeFromTm tm_utc
             in if epoch_seconds = - 1 then 0
                else (epoch_seconds - tz_offset_seconds text) * 1000 + timestamp_ms_part text
         | _ \<Rightarrow> 0)"

fun parseTimestampValue :: "timestamp_value \<Rightarrow> int" where
  "parseTimestampValue (TS_int i) = normalizeUnixEpochMs i"
| "parseTimestampValue (TS_double d) = normalizeUnixEpochMs (double_to_i64 d)"
| "parseTimestampValue (TS_object seconds nanos) =
     (if seconds \<le> 0 \<and> nanos \<le> 0 then 0 else seconds * 1000 + cdiv nanos 1000000)"
| "parseTimestampValue (TS_string text) =
     (if text = [] then 0
      else if list_all isdigit text
      then (case stoll text of Some v \<Rightarrow> normalizeUnixEpochMs v | None \<Rightarrow> 0)
      else parseTimestampText text)"

definition parseTimestampMs :: "timestamp_value option \<Rightarrow> int" where
  "parseTimestampMs v = (case v of None \<Rightarrow> 0 | Some t \<Rightarrow> parseTimestampValue t)"

section \<open>Responses\<close>

record http_response =
  status_code :: int
  body :: string
  resp_error :: string

record 'a envelope =
  env_code :: int
  env_message :: string
  env_data :: 'a

text \<open>
  \<open>read\<close> stands for the JSON reader on \<open>ApiEnvelope<T>\<close>: \<open>Inl err\<close> when the body
  does not decode (a non-empty error text), \<open>Inr env\<close> otherwise. The result is
  \<open>Inl (code, message)\<close>, what the callers hand to \<open>on_error\<close>, or the decoded data.
\<close>

definition http_text :: "int \<Rightarrow> string" where
  "http_text status = ''HTTP '' @ to_string status"

definition parseApiEnvelopeResponse ::
  "(string \<Rightarrow> string + 'a envelope) \<Rightarrow> http_response \<Rightarrow> string \<Rightarrow> bool \<Rightarrow> bool
   \<Rightarrow> (int \<times> string) + 'a" where
  "parseApiEnvelopeResponse read resp fallback_error require_http_200 require_http_2xx =
     (if resp_error resp \<noteq> [] then Inl (- 1, resp_error resp)
      else
        let parsed = (if body resp \<noteq> [] then read (body resp) else Inl []);
            http_error = Inl (if status_code resp \<noteq> 0 then status_code resp else - 1,
                              http_text (status_code resp))
        in case parsed of
             Inr env \<Rightarrow>
               if env_code env \<noteq> 0
               then Inl (env_code env, if env_message env = [] then fallback_error else env_message env)
               else if require_http_200 \<and> status_code resp \<noteq> 200 then http_error
               else if require_http_2xx \<and> (status_code resp < 200 \<or> status_code resp \<ge> 300) then http_error
               else Inr (env_data env)
           | Inl parse_err \<Rightarrow>
               if require_http_200 \<and> status_code resp \<noteq> 200 then http_error
               else if require_http_2xx \<and> (status_code resp < 200 \<or> status_code resp \<ge> 300) then http_error
               else Inl (- 1, if parse_err = [] then fallback_error else parse_err))"

definition decodeJsonObject :: "(string \<Rightarrow> string + 'a) \<Rightarrow> string \<Rightarrow> string + 'a" where
  "decodeJsonObject read node_json =
     (if node_json = [] then Inl ''parse error: empty object'' else read node_json)"

definition parseJsonObject :: "(string \<Rightarrow> string + 'a) \<Rightarrow> string \<Rightarrow> string + 'a" where
  "parseJsonObject read node_json = decodeJsonObject read node_json"

lemma parseApiEnvelopeResponse_Inr_iff:
  "parseApiEnvelopeResponse read resp fb True b2 = Inr d \<longleftrightarrow>
     resp_error resp = [] \<and> body resp \<noteq> [] \<and> status_code resp = 200 \<and>
     (\<exists>env. read (body resp) = Inr env \<and> env_code env = 0 \<and> env_data env = d)"
  by (auto simp: parseApiEnvelopeResponse_def Let_def split: sum.splits)

lemma parseApiEnvelopeResponse_code:
  assumes "parseApiEnvelopeResponse read resp fb b1 b2 = Inl (c, m)"
  shows "c \<noteq> 0"
  using assms by (auto simp: parseApiEnvelopeResponse_def Let_def split: sum.splits if_splits)

section \<open>Properties\<close>



text \<open>
  C31: A response counts as a success exactly when the transfer succeeded, the body decodes
  with code 0 and the HTTP status is accepted; its data is then the body's. Every other
  response gives an error code other than 0 and a message that is not empty.
\<close>

theorem envelope_outcome:
  assumes "fallback \<noteq> []"
  shows "case parseApiEnvelopeResponse read resp fallback exact in_range of
      Inr d \<Rightarrow> resp_error resp = [] \<and> body resp \<noteq> [] \<and> (exact \<longrightarrow> status_code resp = 200)
        \<and> (in_range \<longrightarrow> 200 \<le> status_code resp \<and> status_code resp < 300)
        \<and> (\<exists>env. read (body resp) = Inr env \<and> env_code env = 0 \<and> env_data env = d)
    | Inl (code, msg) \<Rightarrow> code \<noteq> 0 \<and> msg \<noteq> []
        \<and> (resp_error resp \<noteq> [] \<or> body resp = [] \<or> (exact \<and> status_code resp \<noteq> 200)
           \<or> (in_range \<and> (status_code resp < 200 \<or> status_code resp \<ge> 300))
           \<or> (\<forall>env. read (body resp) = Inr env \<longrightarrow> env_code env \<noteq> 0))"
  using assms
  by (auto simp: parseApiEnvelopeResponse_def http_text_def Let_def split: sum.splits if_splits)

theorem envelope_outcome_witness:
  "parseApiEnvelopeResponse (\<lambda>_. Inr \<lparr>env_code = 7, env_message = [], env_data = ()\<rparr>)
      \<lparr>status_code = 200, body = ''x'', resp_error = []\<rparr> ''failed'' True False = Inl (7, ''failed'') \<and> (7 :: int) \<noteq> 0"
  using envelope_outcome [where fallback = "''failed''" and read = "\<lambda>_. Inr \<lparr>env_code = 7, env_message = [], env_data = ()\<rparr>"
      and resp = "\<lparr>status_code = 200, body = ''x'', resp_error = []\<rparr>" and exact = True and in_range = False]
  by (simp add: parseApiEnvelopeResponse_def)

end
