(* ===== verification/WebSocketClient.thy ===== *)
theory WebSocketClient
  imports JsonCommon
begin

text \<open>
  \<open>WebSocketClient\<close> (core/src/network/websocket_client.cpp): the URL split, the callback
  that libwebsockets calls, the event loop with its inner reconnects and the public
  operations. libwebsockets itself is outside: what it reports comes in as events, what it
  is asked to do comes out as calls. Exceptions of the URL split are \<open>None\<close>.
\<close>

definition HEARTBEAT_INTERVAL_S :: int where "HEARTBEAT_INTERVAL_S = 30"
definition MAX_RECONNECT :: int where "MAX_RECONNECT = 5"
definition RECONNECT_BASE_MS :: int where "RECONNECT_BASE_MS = 1000"

record ws_client =
  ws_url :: string
  ws_host :: string
  ws_path :: string
  ws_port :: int
  ws_ssl :: bool
  ws_connected :: bool
  ws_running :: bool
  ws_worker :: bool
  ws_wsi :: bool
  ws_reconnect_count :: int
  ws_last_ping_s :: int
  ws_send_queue :: "string list"

text \<open>Handlers called and requests made to libwebsockets, in order.\<close>

datatype ws_out =
    OnConnected
  | OnMessage string
  | OnDisconnected
  | OnError string
  | LwsWrite string
  | LwsWritable
  | LwsConnect string int string bool
  | SleepMs int

section \<open>The URL\<close>

definition starts_at :: "string \<Rightarrow> string \<Rightarrow> nat \<Rightarrow> bool" where
  "starts_at pat text i \<longleftrightarrow> take (length pat) (drop i text) = pat"

text \<open>\<open>text.find(pat, 0)\<close>\<close>

definition find_text :: "string \<Rightarrow> string \<Rightarrow> nat option" where
  "find_text pat text = List.find (starts_at pat text) [0..<Suc (length text)]"

text \<open>\<open>text.find(c, from)\<close> and \<open>text.rfind(c)\<close>\<close>

definition find_char :: "char \<Rightarrow> string \<Rightarrow> nat \<Rightarrow> nat option" where
  "find_char c text from = List.find (\<lambda>i. text ! i = c) [from..<length text]"

definition rfind_char :: "char \<Rightarrow> string \<Rightarrow> nat option" where
  "rfind_char c text = List.find (\<lambda>i. text ! i = c) (rev [0..<length text])"

definition stoi :: "string \<Rightarrow> int option" where
  "stoi text = (case scan_integer text of None \<Rightarrow> None
     | Some (v, rest) \<Rightarrow> if is_i32 v then Some v else None)"

text \<open>\<open>std::string::npos + 3\<close> wraps around to 2; \<open>substr\<close> past the end throws.\<close>

definition parse_url :: "ws_client \<Rightarrow> ws_client option" where
  "parse_url w =
     (let url = ws_url w;
          use_ssl = (take 6 url = ''wss://'');
          scheme_end = (case find_text ''://'' url of None \<Rightarrow> 2 | Some i \<Rightarrow> i + 3)
      in if scheme_end > length url then None
         else
           let (host, path) =
                 (case find_char CHR ''/'' url scheme_end of
                    None \<Rightarrow> (drop scheme_end url, ''/'')
                  | Some path_start \<Rightarrow>
                      (take (path_start - scheme_end) (drop scheme_end url), drop path_start url))
           in case rfind_char CHR '':'' host of
                None \<Rightarrow> Some (w\<lparr>ws_ssl := use_ssl, ws_host := host, ws_path := path,
                                ws_port := if use_ssl then 443 else 80\<rparr>)
              | Some colon \<Rightarrow>
                  (case stoi (drop (colon + 1) host) of
                     None \<Rightarrow> None
                   | Some p \<Rightarrow> Some (w\<lparr>ws_ssl := use_ssl, ws_host := take colon host, ws_path := path,
                                       ws_port := p\<rparr>)))"

definition blank_ws_client :: "string \<Rightarrow> ws_client" where
  "blank_ws_client url = \<lparr>ws_url = url, ws_host = [], ws_path = [], ws_port = 443, ws_ssl = True,
     ws_connected = False, ws_running = False, ws_worker = False, ws_wsi = False, ws_reconnect_count = 0,
     ws_last_ping_s = 0, ws_send_queue = []\<rparr>"

definition new_ws_client :: "string \<Rightarrow> ws_client option" where
  "new_ws_client url = parse_url (blank_ws_client url)"

section \<open>The libwebsockets callback\<close>

datatype lws_reason =
    ClientEstablished int
  | ClientReceive string
  | ClientWriteable int
  | ClientConnectionError "string option"
  | Closed

definition ping_text :: string where
  "ping_text = ''{'' @ [CHR 0x22] @ ''type'' @ [CHR 0x22, CHR 0x3A, CHR 0x22] @ ''ping'' @ [CHR 0x22] @ ''}''"

fun lws_callback :: "lws_reason \<Rightarrow> ws_client \<Rightarrow> ws_client \<times> ws_out list" where
  "lws_callback (ClientEstablished now) w =
     (w\<lparr>ws_connected := True, ws_reconnect_count := 0, ws_last_ping_s := now\<rparr>, [OnConnected, LwsWritable])"
| "lws_callback (ClientReceive msg) w = (w, [OnMessage msg])"
| "lws_callback (ClientWriteable now) w =
     (let ping = (now - ws_last_ping_s w \<ge> HEARTBEAT_INTERVAL_S);
          w' = (if ping then w\<lparr>ws_last_ping_s := now\<rparr> else w);
          pings = (if ping then [LwsWrite ping_text] else [])
      in case ws_send_queue w' of
           [] \<Rightarrow> (w', pings)
         | msg # rest \<Rightarrow> (w'\<lparr>ws_send_queue := rest\<rparr>,
             pings @ [LwsWrite msg] @ (if rest = [] then [] else [LwsWritable])))"
| "lws_callback (ClientConnectionError err) w =
     (w\<lparr>ws_connected := False, ws_wsi := False\<rparr>,
      [OnDisconnected, OnError (case err of None \<Rightarrow> ''unknown'' | Some e \<Rightarrow> e)])"
| "lws_callback Closed w = (w\<lparr>ws_connected := False, ws_wsi := False\<rparr>, [OnDisconnected])"

section \<open>The event loop\<close>

text \<open>\<open>ok\<close> answers for \<open>lws_client_connect_via_info\<close>: whether it returned a handle.\<close>

definition do_connect :: "bool \<Rightarrow> ws_client \<Rightarrow> ws_client \<times> ws_out list" where
  "do_connect ok w = (w\<lparr>ws_wsi := ok\<rparr>, [LwsConnect (ws_host w) (ws_port w) (ws_path w) (ws_ssl w)])"

text \<open>The start of the thread function, with what \<open>lws_create_context\<close> answers, and what one
  turn of the loop does after \<open>lws_service\<close>.\<close>

definition loop_start :: "bool \<Rightarrow> bool \<Rightarrow> ws_client \<Rightarrow> ws_client \<times> ws_out list" where
  "loop_start ctx_ok ok w = (if ctx_ok then do_connect ok w else (w, [OnError ''lws_create_context failed'']))"

definition loop_turn :: "bool \<Rightarrow> ws_client \<Rightarrow> ws_client \<times> ws_out list" where
  "loop_turn ok w =
     (if \<not> ws_running w then (w, [])
      else
        let writable = (if ws_connected w \<and> ws_wsi w then [LwsWritable] else [])
        in if \<not> ws_connected w \<and> ws_running w \<and> ws_reconnect_count w < MAX_RECONNECT
           then (let wait_ms = RECONNECT_BASE_MS * push_bit (nat (ws_reconnect_count w)) 1;
                     (w', out) = do_connect ok (w\<lparr>ws_reconnect_count := ws_reconnect_count w + 1\<rparr>)
                 in (w', writable @ [SleepMs wait_ms] @ out))
           else (w, writable))"

section \<open>Public operations\<close>

definition ws_start :: "ws_client \<Rightarrow> ws_client" where
  "ws_start w = (if ws_running w then w else w\<lparr>ws_running := True, ws_worker := True\<rparr>)"

definition ws_stop :: "ws_client \<Rightarrow> ws_client" where
  "ws_stop w = w\<lparr>ws_running := False, ws_worker := False\<rparr>"

definition ws_send :: "string \<Rightarrow> ws_client \<Rightarrow> ws_client \<times> ws_out list" where
  "ws_send message w = (w\<lparr>ws_send_queue := ws_send_queue w @ [message]\<rparr>,
     if ws_connected w \<and> ws_wsi w then [LwsWritable] else [])"

definition isConnected :: "ws_client \<Rightarrow> bool" where
  "isConnected w = ws_connected w"

section \<open>Reading the URL back\<close>

lemma find_upt_None: "List.find P [i..<n] = None \<longleftrightarrow> (\<forall>k. i \<le> k \<and> k < n \<longrightarrow> \<not> P k)"
  by (auto simp: find_None_iff)

lemma upt_split: "i \<le> k \<Longrightarrow> k < n \<Longrightarrow> [i..<n] = [i..<k] @ k # [Suc k..<n]"
  using upt_add_eq_append [of i k "n - k"] by (simp add: upt_conv_Cons)

lemma find_upt_Some:
  assumes "i \<le> k" "k < n" "P k" "\<And>j. i \<le> j \<Longrightarrow> j < k \<Longrightarrow> \<not> P j"
  shows "List.find P [i..<n] = Some k"
proof -
  have "[i..<n] = [i..<k] @ k # [Suc k..<n]"
    using assms(1,2) by (rule upt_split)
  moreover have "List.find P [i..<k] = None" using assms(4) by (simp add: find_upt_None)
  ultimately show ?thesis using assms(3) by (simp only: find_append) simp
qed

lemma rfind_char_None: "c \<notin> set text \<Longrightarrow> rfind_char c text = None"
  by (auto simp: rfind_char_def find_None_iff)

lemma rfind_char_last: "c \<notin> set b \<Longrightarrow> rfind_char c (a @ c # b) = Some (length a)"
proof -
  assume c: "c \<notin> set b"
  have "rev [0..<length (a @ c # b)] = rev [Suc (length a)..<length (a @ c # b)] @ length a # rev [0..<length a]"
    by (simp add: upt_split [of 0 "length a"] del: upt_Suc)
  moreover have "List.find (\<lambda>i. (a @ c # b) ! i = c) (rev [Suc (length a)..<length (a @ c # b)]) = None"
    using c by (auto simp: find_None_iff nth_append nth_Cons split: nat.splits)
  ultimately show ?thesis unfolding rfind_char_def by (simp only: find_append) simp
qed

definition scheme :: "bool \<Rightarrow> string" where
  "scheme ssl = (if ssl then ''wss://'' else ''ws://'')"

lemma starts_at_Cons: "starts_at pat (c # cs) (Suc i) = starts_at pat cs i"
  by (simp add: starts_at_def)

lemma starts_at_0: "starts_at (x # pat) (c # cs) 0 \<longleftrightarrow> x = c \<and> starts_at pat cs 0"
  by (auto simp: starts_at_def)

lemma starts_at_Nil: "starts_at [] cs 0"
  by (simp add: starts_at_def)

lemma find_text_scheme: "find_text ''://'' (scheme ssl @ rest) = Some (if ssl then 3 else 2)"
proof (cases ssl)
  case True
  have "List.find (starts_at ''://'' (''wss://'' @ rest)) [0..<Suc (length (''wss://'' @ rest))] = Some 3"
  proof (rule find_upt_Some)
    fix j :: nat assume "j < 3"
    then have "j = 0 \<or> j = Suc 0 \<or> j = Suc (Suc 0)" by arith
    then show "\<not> starts_at ''://'' (''wss://'' @ rest) j" by (auto simp: starts_at_Cons starts_at_0)
  qed (simp_all add: numeral_eq_Suc starts_at_Cons starts_at_0 starts_at_Nil)
  then show ?thesis using True by (simp only: find_text_def scheme_def if_True)
next
  case False
  have "List.find (starts_at ''://'' (''ws://'' @ rest)) [0..<Suc (length (''ws://'' @ rest))] = Some 2"
  proof (rule find_upt_Some)
    fix j :: nat assume "j < 2"
    then have "j = 0 \<or> j = Suc 0" by arith
    then show "\<not> starts_at ''://'' (''ws://'' @ rest) j" by (auto simp: starts_at_Cons starts_at_0)
  qed (simp_all add: numeral_eq_Suc starts_at_Cons starts_at_0 starts_at_Nil)
  then show ?thesis using False by (simp only: find_text_def scheme_def if_False)
qed

lemma find_char_after:
  assumes "CHR ''/'' \<notin> set a"
  shows "find_char CHR ''/'' (pre @ a @ p) (length pre)
    = (if p = [] then None else find_char CHR ''/'' (pre @ a @ p) (length pre + length a))"
proof (cases "p = []")
  case True
  then show ?thesis
    using assms by (auto simp: find_char_def find_upt_None nth_append in_set_conv_nth)
next
  case False
  have no: "\<forall>k. length pre \<le> k \<and> k < length pre + length a \<longrightarrow> (pre @ a @ p) ! k \<noteq> CHR ''/''"
    using assms by (auto simp: nth_append in_set_conv_nth)
  have "[length pre..<length (pre @ a @ p)] = [length pre..<length pre + length a] @ [length pre + length a..<length (pre @ a @ p)]"
    using upt_add_eq_append [of "length pre" "length pre + length a" "length p"] by (simp add: add.assoc)
  moreover have "List.find (\<lambda>i. (pre @ a @ p) ! i = CHR ''/'') [length pre..<length pre + length a] = None"
    using no by (simp add: find_upt_None)
  ultimately show ?thesis using False unfolding find_char_def by (simp only: find_append) simp
qed

lemma find_char_path:
  assumes "CHR ''/'' \<notin> set a" and "p = [] \<or> hd p = CHR ''/''"
  shows "find_char CHR ''/'' (pre @ a @ p) (length pre) = (if p = [] then None else Some (length pre + length a))"
proof (cases "p = []")
  case False
  then have "find_char CHR ''/'' (pre @ a @ p) (length pre + length a) = Some (length pre + length a)"
    unfolding find_char_def using assms(2) by (intro find_upt_Some) (auto simp: nth_append hd_conv_nth)
  then show ?thesis using find_char_after [OF assms(1), of pre p] False by simp
qed (use find_char_after [OF assms(1), of pre p] in simp)

text \<open>A URL of scheme, authority and path falls apart into them.\<close>

lemma parse_url_parts:
  assumes "CHR ''/'' \<notin> set a" and "p = [] \<or> hd p = CHR ''/''"
    and "url = scheme ssl @ a @ p"
  shows "parse_url (blank_ws_client url) =
    (case rfind_char CHR '':'' a of
       None \<Rightarrow> Some (blank_ws_client url\<lparr>ws_ssl := ssl, ws_host := a,
                 ws_path := if p = [] then ''/'' else p, ws_port := if ssl then 443 else 80\<rparr>)
     | Some colon \<Rightarrow> (case stoi (drop (colon + 1) a) of None \<Rightarrow> None
         | Some n \<Rightarrow> Some (blank_ws_client url\<lparr>ws_ssl := ssl, ws_host := take colon a,
             ws_path := if p = [] then ''/'' else p, ws_port := n\<rparr>)))"
proof -
  define u where "u = scheme ssl @ a @ p"
  have url: "url = u" "ws_url (blank_ws_client u) = u" by (simp_all add: u_def assms(3) blank_ws_client_def)
  have end3: "(case find_text ''://'' u of None \<Rightarrow> 2 | Some i \<Rightarrow> i + 3) = length (scheme ssl)"
    by (simp only: find_text_scheme u_def) (simp add: scheme_def)
  have ssl: "(take 6 u = ''wss://'') = ssl"
    by (simp add: u_def scheme_def numeral_eq_Suc)
  have slash: "find_char CHR ''/'' u (length (scheme ssl))
      = (if p = [] then None else Some (length (scheme ssl) + length a))"
    unfolding u_def using find_char_path [OF assms(1,2), of "scheme ssl"] .
  have cut: "\<not> length (scheme ssl) > length u" "drop (length (scheme ssl)) u = a @ p"
      "drop (length (scheme ssl) + length a) u = p"
    by (simp_all add: u_def)
  show ?thesis
    by (cases "p = []")
      (simp_all add: url parse_url_def Let_def end3 ssl slash cut del: One_nat_def split: option.split)
qed

section \<open>Inner reconnects\<close>

text \<open>The n times repeated course of an attempt that fails and the turn of the loop after it.\<close>

fun failing_turns :: "nat \<Rightarrow> ws_client \<Rightarrow> ws_client \<times> ws_out list" where
  "failing_turns 0 w = (w, [])"
| "failing_turns (Suc n) w =
     (let (w1, o1) = lws_callback (ClientConnectionError None) w; (w2, o2) = loop_turn True w1;
          (w3, o3) = failing_turns n w2 in (w3, o1 @ o2 @ o3))"

fun sleeps :: "ws_out list \<Rightarrow> int list" where
  "sleeps [] = []"
| "sleeps (SleepMs d # out) = d # sleeps out"
| "sleeps (_ # out) = sleeps out"

fun attempts :: "ws_out list \<Rightarrow> nat" where
  "attempts [] = 0"
| "attempts (LwsConnect h p q s # out) = Suc (attempts out)"
| "attempts (_ # out) = attempts out"

lemma sleeps_append [simp]: "sleeps (xs @ ys) = sleeps xs @ sleeps ys"
  by (induction xs rule: sleeps.induct) auto

lemma attempts_append [simp]: "attempts (xs @ ys) = attempts xs + attempts ys"
  by (induction xs rule: attempts.induct) auto

lemma failing_turns_schedule:
  assumes "ws_running w" and "ws_reconnect_count w = int r" and "r \<le> 5"
  shows "sleeps (snd (failing_turns n w)) = map (\<lambda>k. 1000 * 2 ^ k) [r..<min 5 (r + n)]
    \<and> attempts (snd (failing_turns n w)) = min 5 (r + n) - r
    \<and> ws_reconnect_count (fst (failing_turns n w)) = int (min 5 (r + n))"
  using assms
proof (induction n arbitrary: w r)
  case 0
  then show ?case by auto
next
  case (Suc n)
  let ?w1 = "fst (lws_callback (ClientConnectionError None) w)"
  let ?w2 = "fst (loop_turn True ?w1)"
  have out: "sleeps (snd (failing_turns (Suc n) w)) = sleeps (snd (loop_turn True ?w1)) @ sleeps (snd (failing_turns n ?w2))"
      "attempts (snd (failing_turns (Suc n) w)) = attempts (snd (loop_turn True ?w1)) + attempts (snd (failing_turns n ?w2))"
      "fst (failing_turns (Suc n) w) = fst (failing_turns n ?w2)"
    by (simp_all add: Let_def case_prod_beta)
  show ?case
  proof (cases "r < 5")
    case True
    have w2: "ws_running ?w2" "ws_reconnect_count ?w2 = int (Suc r)"
      "sleeps (snd (loop_turn True ?w1)) = [1000 * 2 ^ r]" "attempts (snd (loop_turn True ?w1)) = 1"
      using True Suc.prems
      by (simp_all add: loop_turn_def do_connect_def MAX_RECONNECT_def RECONNECT_BASE_MS_def Let_def push_bit_eq_mult)
    have IH: "sleeps (snd (failing_turns n ?w2)) = map (\<lambda>k. 1000 * 2 ^ k) [Suc r..<min 5 (Suc r + n)]
      \<and> attempts (snd (failing_turns n ?w2)) = min 5 (Suc r + n) - Suc r
      \<and> ws_reconnect_count (fst (failing_turns n ?w2)) = int (min 5 (Suc r + n))"
      by (rule Suc.IH) (use True w2 in auto)
    have "[r..<min 5 (r + Suc n)] = r # [Suc r..<min 5 (Suc r + n)]"
      using True by (subst upt_conv_Cons) auto
    then have "sleeps (snd (failing_turns (Suc n) w)) = map (\<lambda>k. 1000 * 2 ^ k) [r..<min 5 (r + Suc n)]"
      using out(1) IH w2(3) by (simp only: list.map append_Cons append_Nil)
    moreover have "attempts (snd (failing_turns (Suc n) w)) = min 5 (r + Suc n) - r"
      using out(2) IH w2(4) True by simp
    ultimately show ?thesis using out(3) IH by simp
  next
    case False
    then have r: "r = 5" using Suc.prems by simp
    have w2: "ws_running ?w2" "ws_reconnect_count ?w2 = int 5" "sleeps (snd (loop_turn True ?w1)) = []"
      "attempts (snd (loop_turn True ?w1)) = 0"
      using r Suc.prems by (simp_all add: loop_turn_def MAX_RECONNECT_def Let_def)
    have "sleeps (snd (failing_turns n ?w2)) = map (\<lambda>k. 1000 * 2 ^ k) [5..<min 5 (5 + n)]
      \<and> attempts (snd (failing_turns n ?w2)) = min 5 (5 + n) - 5
      \<and> ws_reconnect_count (fst (failing_turns n ?w2)) = int (min 5 (5 + n))"
      by (rule Suc.IH) (use w2 in auto)
    then show ?thesis using out w2 r by simp
  qed
qed

section \<open>Properties\<close>

text \<open>
  C10: The WebSocket URL is split correctly. For a \<open>ws://\<close> or \<open>wss://\<close> URL made of a host
  name, a port and a path, the client connects to exactly that host, port and path, with
  TLS for \<open>wss\<close>.
\<close>

theorem new_ws_client_url:
  assumes "CHR ''/'' \<notin> set host" and "p = [] \<or> hd p = CHR ''/''" and "is_i32 port"
  shows "\<exists>w. new_ws_client (scheme ssl @ (host @ '':'' @ to_string port) @ p) = Some w
    \<and> ws_host w = host \<and> ws_port w = port \<and> ws_path w = (if p = [] then ''/'' else p) \<and> ws_ssl w = ssl"
proof -
  let ?a = "host @ '':'' @ to_string port"
  have "\<not> isdigit CHR ''/''" "\<not> isdigit CHR '':''" by (simp_all add: isdigit_def ccode_def)
  then have char: "CHR ''/'' \<notin> set (to_string port)" "CHR '':'' \<notin> set (to_string port)"
    using dec_digits_isdigit by (auto simp: to_string_def)
  have "rfind_char CHR '':'' ?a = Some (length host)"
    using rfind_char_last [OF char(2), of host] by simp
  moreover have "stoi (to_string port) = Some port"
    using assms(3) by (simp add: stoi_def scan_integer_to_string)
  moreover have "CHR ''/'' \<notin> set ?a" using assms(1) char(1) by simp
  ultimately have "new_ws_client (scheme ssl @ ?a @ p) =
      Some (blank_ws_client (scheme ssl @ ?a @ p)\<lparr>ws_ssl := ssl, ws_host := host,
             ws_path := if p = [] then ''/'' else p, ws_port := port\<rparr>)"
    using parse_url_parts [of ?a p "scheme ssl @ ?a @ p" ssl] assms(2) by (simp add: new_ws_client_def)
  then show ?thesis by simp
qed

theorem new_ws_client_url_witness:
  "\<exists>w. new_ws_client (scheme True @ (''api.anychat.io'' @ '':'' @ to_string 8443) @ ''/api/v1/ws?token=t'') = Some w
    \<and> ws_host w = ''api.anychat.io'' \<and> ws_port w = 8443 \<and> ws_path w = ''/api/v1/ws?token=t'' \<and> ws_ssl w"
  using new_ws_client_url [of "''api.anychat.io''" "''/api/v1/ws?token=t''" 8443 True]
  by (simp add: is_i32_def)

text \<open>
  C9: Inner reconnects are bounded. However long the server stays unreachable, a client
  that has just started its loop makes at most five more attempts, sleeping 1, 2, 4, 8 and
  16 s before them.
\<close>

theorem ws_inner_backoff:
  assumes "ws_running w" and "ws_reconnect_count w = 0"
  shows "sleeps (snd (failing_turns n w)) = take n [1000, 2000, 4000, 8000, 16000]
    \<and> attempts (snd (failing_turns n w)) = min 5 n"
proof -
  have "map (\<lambda>k. 1000 * 2 ^ k :: int) [0..<min 5 n] = take n [1000, 2000, 4000, 8000, 16000]"
  proof -
    have "[0..<min 5 n] = take n [0..<5]" by (simp add: take_upt min_def)
    moreover have "map (\<lambda>k. 1000 * 2 ^ k :: int) [0..<5] = [1000, 2000, 4000, 8000, 16000]"
      by (simp add: upt_rec)
    ultimately show ?thesis by (metis take_map)
  qed
  then show ?thesis using failing_turns_schedule [of w 0 n] assms by simp
qed

theorem ws_inner_backoff_witness:
  "\<exists>w. new_ws_client ''wss://h/p'' = Some w
     \<and> sleeps (snd (failing_turns 9 (ws_start w))) = [1000, 2000, 4000, 8000, 16000]"
proof -
  obtain w where w: "new_ws_client ''wss://h/p'' = Some w" and start: "ws_reconnect_count w = 0" "\<not> ws_running w"
    using parse_url_parts [of "''h''" "''/p''" "''wss://h/p''" True]
    by (auto simp: new_ws_client_def scheme_def rfind_char_def blank_ws_client_def)
  have "ws_running (ws_start w)" "ws_reconnect_count (ws_start w) = 0"
    using start by (simp_all add: ws_start_def)
  from ws_inner_backoff [OF this, of 9] w show ?thesis by simp
qed

end
