(* ===== verification/Connectivity.thy ===== *)
theory Connectivity
  imports ConnectionManager WebSocketClient
begin

text \<open>
  The connection manager on top of the real WebSocket client, wired as the constructor of
  \<open>ConnectionManager\<close> does it (core/src/connection_manager.cpp, the \<open>setOn...\<close> calls): what
  the manager calls acts on the client, what the client reports drives the manager. The
  events are the manager's own (calls, network, timer, heartbeat), the callbacks of
  libwebsockets and the turns of the client's loop.
\<close>

record link =
  lk_conn :: conn
  lk_ws :: ws_client

datatype link_event =
    Conn conn_event
  | LoopStart bool
  | LoopTurn bool
  | Lws int lws_reason

definition new_link :: "network_status option \<Rightarrow> ws_client \<Rightarrow> link" where
  "new_link monitor w = \<lparr>lk_conn = new_conn monitor, lk_ws = w\<rparr>"

text \<open>A call of the manager, on the client.\<close>

definition on_ws :: "conn_out \<Rightarrow> ws_client \<Rightarrow> ws_client" where
  "on_ws x w = (case x of WsConnectCall \<Rightarrow> ws_start w | WsDisconnectCall \<Rightarrow> ws_stop w
     | WsSendCall m \<Rightarrow> fst (ws_send m w) | _ \<Rightarrow> w)"

definition on_conn :: "conn_event \<Rightarrow> link \<Rightarrow> link option" where
  "on_conn e l = (case conn_step e (lk_conn l) of None \<Rightarrow> None
     | Some (c, out) \<Rightarrow> Some \<lparr>lk_conn = c, lk_ws = fold on_ws out (lk_ws l)\<rparr>)"

text \<open>A handler that the client calls, on the manager; \<open>now\<close> is the steady clock.\<close>

definition on_handler :: "int \<Rightarrow> ws_out \<Rightarrow> link \<Rightarrow> link option" where
  "on_handler now x l = (case x of OnConnected \<Rightarrow> on_conn (WsConnected now) l
     | OnDisconnected \<Rightarrow> on_conn WsDisconnected l
     | OnError _ \<Rightarrow> on_conn WsError l | _ \<Rightarrow> Some l)"

fun on_handlers :: "int \<Rightarrow> ws_out list \<Rightarrow> link \<Rightarrow> link option" where
  "on_handlers now [] l = Some l"
| "on_handlers now (x # xs) l = (case on_handler now x l of None \<Rightarrow> None | Some l' \<Rightarrow> on_handlers now xs l')"

definition ws_step :: "int \<Rightarrow> (ws_client \<Rightarrow> ws_client \<times> ws_out list) \<Rightarrow> link \<Rightarrow> (link \<times> ws_out list) option" where
  "ws_step now f l = (case f (lk_ws l) of (w, out) \<Rightarrow>
     (case on_handlers now out (l\<lparr>lk_ws := w\<rparr>) of None \<Rightarrow> None | Some l' \<Rightarrow> Some (l', out)))"

text \<open>libwebsockets reports only while its loop runs, and a connection only after an attempt.\<close>

fun link_step :: "link_event \<Rightarrow> link \<Rightarrow> (link \<times> ws_out list) option" where
  "link_step (Conn e) l = map_option (\<lambda>l. (l, [])) (on_conn e l)"
| "link_step (LoopStart ok) l = (if ws_running (lk_ws l) then ws_step 0 (loop_start True ok) l else Some (l, []))"
| "link_step (LoopTurn ok) l = ws_step 0 (loop_turn ok) l"
| "link_step (Lws now r) l =
     (if ws_running (lk_ws l) \<and> ws_wsi (lk_ws l) then ws_step now (lws_callback r) l else Some (l, []))"

fun link_run :: "link_event list \<Rightarrow> link \<Rightarrow> (link \<times> ws_out list) option" where
  "link_run [] l = Some (l, [])"
| "link_run (e # es) l = (case link_step e l of None \<Rightarrow> None
     | Some (l1, o1) \<Rightarrow> (case link_run es l1 of None \<Rightarrow> None | Some (l2, o2) \<Rightarrow> Some (l2, o1 @ o2)))"

lemmas link_defs = on_ws_def on_conn_def on_handler_def ws_step_def new_link_def

section \<open>The dead end\<close>

text \<open>The client's inner retries are used up: its loop still runs, nothing is in progress.\<close>

definition exhausted :: "ws_client \<Rightarrow> bool" where
  "exhausted w \<longleftrightarrow> ws_running w \<and> \<not> ws_connected w \<and> \<not> ws_wsi w \<and> ws_reconnect_count w \<ge> MAX_RECONNECT"

text \<open>Everything that may happen short of a disconnect: the caller asks to connect again, the
  timer runs, pongs arrive, the loop turns, libwebsockets has something to say.\<close>

definition no_disconnect :: "link_event \<Rightarrow> bool" where
  "no_disconnect e = (case e of
      Conn (Network s) \<Rightarrow> isReachable s
    | Conn Disconnect \<Rightarrow> False
    | Conn (HeartbeatTick now) \<Rightarrow> False
    | LoopStart ok \<Rightarrow> False
    | _ \<Rightarrow> True)"

lemma on_ws_exhausted: "exhausted w \<Longrightarrow> x \<noteq> WsDisconnectCall \<Longrightarrow> exhausted (on_ws x w)"
  by (cases x) (auto simp: exhausted_def on_ws_def ws_start_def ws_send_def)

lemma fold_on_ws_exhausted: "WsDisconnectCall \<notin> set out \<Longrightarrow> exhausted w \<Longrightarrow> exhausted (fold on_ws out w)"
proof (induction out arbitrary: w)
  case (Cons x out)
  then have "exhausted (on_ws x w)" by (intro on_ws_exhausted) auto
  then show ?case using Cons.IH [of "on_ws x w"] Cons.prems(1) by simp
qed simp

lemma no_disconnect_call:
  "no_disconnect (Conn e) \<Longrightarrow> conn_step e c = Some r \<Longrightarrow> WsDisconnectCall \<notin> set (snd r)"
proof (cases e)
  case Connect
  assume "conn_step e c = Some r"
  then show ?thesis using Connect by (auto simp: connect_def conn_ops split: if_splits)
next
  case (Network s)
  assume "no_disconnect (Conn e)" "conn_step e c = Some r"
  then show ?thesis using Network by (auto simp: no_disconnect_def onNetworkChanged_def conn_ops Let_def split: if_splits)
next
  case (WsConnected now)
  assume "conn_step e c = Some r"
  then show ?thesis using WsConnected by (auto simp: onWsConnected_def conn_ops split: if_splits)
next
  case WsDisconnected
  assume "conn_step e c = Some r"
  then show ?thesis using WsDisconnected
    by (auto simp: onWsDisconnected_def afterHeartbeatStopped_def conn_ops Let_def split: if_splits)
next
  case WsError
  assume "conn_step e c = Some r"
  then show ?thesis using WsError by (auto simp: onWsError_def conn_ops split: if_splits)
next
  case TimerFire
  assume "conn_step e c = Some r"
  then show ?thesis using TimerFire by (auto simp: timerFire_def timerWake_def timerGo_def conn_ops Let_def split: if_splits)
next
  case TimerGo
  assume "conn_step e c = Some r"
  then show ?thesis using TimerGo by (auto simp: timerGo_def conn_ops split: if_splits)
qed (auto simp: no_disconnect_def onPongReceived_def conn_ops timerTake_def timerWake_def Let_def split: if_splits)

lemma link_step_exhausted:
  assumes "exhausted (lk_ws l)" and "no_disconnect e"
  shows "\<exists>l'. link_step e l = Some (l', []) \<and> exhausted (lk_ws l')"
proof (cases e)
  case (Conn ce)
  then have "conn_step ce (lk_conn l) \<noteq> None" using assms(2) by (cases ce) (auto simp: no_disconnect_def)
  then obtain r where r: "conn_step ce (lk_conn l) = Some r" by blast
  have "WsDisconnectCall \<notin> set (snd r)" using no_disconnect_call [OF _ r] assms(2) Conn by simp
  then show ?thesis using Conn r fold_on_ws_exhausted [OF _ assms(1), of "snd r"]
    by (cases r) (simp add: on_conn_def)
next
  case (LoopStart ok)
  then show ?thesis using assms by (simp add: no_disconnect_def)
next
  case (LoopTurn ok)
  then show ?thesis using assms by (simp add: ws_step_def loop_turn_def exhausted_def Let_def)
next
  case (Lws now r)
  then show ?thesis using assms by (simp add: exhausted_def)
qed

lemma link_run_exhausted:
  "exhausted (lk_ws l) \<Longrightarrow> list_all no_disconnect es \<Longrightarrow>
   \<exists>l'. link_run es l = Some (l', []) \<and> exhausted (lk_ws l')"
proof (induction es arbitrary: l)
  case (Cons e es)
  then have "no_disconnect e" "list_all no_disconnect es" by simp_all
  obtain l1 where 1: "link_step e l = Some (l1, [])" "exhausted (lk_ws l1)"
    using link_step_exhausted [OF Cons.prems(1) \<open>no_disconnect e\<close>] by blast
  obtain l2 where "link_run es l1 = Some (l2, [])" "exhausted (lk_ws l2)"
    using Cons.IH [OF 1(2) \<open>list_all no_disconnect es\<close>] by blast
  then show ?case using 1 by simp
qed simp

text \<open>A server that is down when the client connects: six attempts, each reported to the manager.\<close>

definition server_down :: "link_event list" where
  "server_down = [Conn Connect, LoopStart True] @
     concat (replicate 5 [Lws 0 (ClientConnectionError None), LoopTurn True]) @ [Lws 0 (ClientConnectionError None)]"

section \<open>Properties\<close>

text \<open>
  C4: The outer reconnect cannot reach the server again. When the first six attempts fail
  the manager has counted each of them against its five outer retries and stops in
  \<open>Disconnected\<close>; the client's loop is still \<open>running\<close>, and from there no call of
  \<open>connect()\<close>, no timer and no recovery of the network makes libwebsockets attempt a
  connection again, as long as nobody disconnects first.
\<close>

theorem link_dead_end:
  assumes "exhausted (lk_ws l)" and "list_all no_disconnect es"
  shows "\<exists>l' out. link_run es l = Some (l', out) \<and> attempts out = 0 \<and> \<not> ws_connected (lk_ws l')"
proof -
  obtain l' where "link_run es l = Some (l', [])" "exhausted (lk_ws l')"
    using link_run_exhausted [OF assms] by blast
  then show ?thesis by (auto simp: exhausted_def)
qed

lemma server_down_exhausts:
  "\<exists>l out. link_run server_down (new_link None (blank_ws_client url)) = Some (l, out)
     \<and> attempts out = 6 \<and> exhausted (lk_ws l) \<and> cm_state (lk_conn l) = Disconnected \<and> want_connected (lk_conn l)"
  by (simp add: server_down_def numeral_eq_Suc link_defs blank_ws_client_def new_conn_def conn_ops conn_handlers
      superDelay_def conn_consts ws_start_def loop_start_def loop_turn_def do_connect_def MAX_RECONNECT_def
      RECONNECT_BASE_MS_def exhausted_def wrap32_def)

theorem link_dead_end_witness:
  "\<exists>l out l' out'. link_run server_down (new_link None (blank_ws_client ''wss://h'')) = Some (l, out)
     \<and> attempts out = 6
     \<and> link_run [Conn TimerTake, Conn TimerFire, LoopTurn True, Conn Connect, LoopTurn True] l = Some (l', out')
     \<and> attempts out' = 0 \<and> \<not> ws_connected (lk_ws l')"
proof -
  obtain l out where l: "link_run server_down (new_link None (blank_ws_client ''wss://h'')) = Some (l, out)"
    and six: "attempts out = 6" and ex: "exhausted (lk_ws l)"
    using server_down_exhausts [of "''wss://h''"] by blast
  have "list_all no_disconnect [Conn TimerTake, Conn TimerFire, LoopTurn True, Conn Connect, LoopTurn True]"
    by (simp add: no_disconnect_def)
  from link_dead_end [OF ex this] l six show ?thesis by blast
qed

end
