(* ===== verification/Async.thy ===== *)
theory Async
  imports JsonCommon
begin

text \<open>
  Callback-style code. An operation of the SDK runs to completion on the calling thread:
  it changes the state, calls listeners and callbacks (events), and hands requests with
  their continuations to the HTTP client. An \<open>act\<close> is exactly that; the continuation of a
  pending request is an act again, run when the response arrives, on whatever the state
  has become by then. The second half has the two notions the components are proved with:
  \<open>keeps\<close> (an invariant holds after the act and after every continuation it leaves behind)
  and \<open>answers\<close> (along every course of responses, the events of a kind come exactly so
  often), and what they mean for a system in which calls and responses interleave freely.
\<close>

section \<open>Acts\<close>

datatype http_method = GET | POST | PUT | PATCH | DEL

record http_request =
  rq_method :: http_method
  rq_url :: string
  rq_headers :: "string list"
  rq_body :: string

datatype ('s, 'e) pending =
  Pending http_request "http_response \<Rightarrow> 's \<Rightarrow> 's \<times> 'e list \<times> ('s, 'e) pending list"

type_synonym ('s, 'e) act = "'s \<Rightarrow> 's \<times> 'e list \<times> ('s, 'e) pending list"

definition skip :: "('s, 'e) act" where
  "skip s = (s, [], [])"

definition modify :: "('s \<Rightarrow> 's) \<Rightarrow> ('s, 'e) act" where
  "modify f s = (f s, [], [])"

definition emit :: "'e \<Rightarrow> ('s, 'e) act" where
  "emit e s = (s, [e], [])"

definition reading :: "('s \<Rightarrow> ('s, 'e) act) \<Rightarrow> ('s, 'e) act" where
  "reading f s = f s s"

definition await :: "('s \<Rightarrow> http_request) \<Rightarrow> (http_response \<Rightarrow> ('s, 'e) act) \<Rightarrow> ('s, 'e) act" where
  "await q k s = (s, [], [Pending (q s) k])"

definition act_if :: "bool \<Rightarrow> ('s, 'e) act \<Rightarrow> ('s, 'e) act" where
  "act_if b a = (if b then a else skip)"

definition seq :: "('s, 'e) act \<Rightarrow> ('s, 'e) act \<Rightarrow> ('s, 'e) act" where
  "seq a b s = (case a s of (s1, e1, p1) \<Rightarrow> case b s1 of (s2, e2, p2) \<Rightarrow> (s2, e1 @ e2, p1 @ p2))"

fun perform :: "('s, 'e) act list \<Rightarrow> ('s, 'e) act" where
  "perform [] = skip"
| "perform [a] = a"
| "perform (a # b # as) = seq a (perform (b # as))"

text \<open>The body of a loop that calls an act for every element.\<close>

definition for_each :: "('a \<Rightarrow> ('s, 'e) act) \<Rightarrow> 'a list \<Rightarrow> ('s, 'e) act" where
  "for_each f xs = perform (map f xs)"

lemmas act_defs = skip_def modify_def emit_def reading_def await_def act_if_def seq_def for_each_def

lemma seq_skip_right [simp]: "seq a skip = a"
  by (rule ext) (auto simp: seq_def skip_def split: prod.split)

lemma perform_Cons: "perform (a # as) = seq a (perform as)"
  by (cases "as") simp_all

lemma for_each_Nil [simp]: "for_each f [] = skip"
  by (simp add: for_each_def)

lemma for_each_Cons: "for_each f (x # xs) = seq (f x) (for_each f xs)"
  by (simp add: for_each_def perform_Cons del: perform.simps)

text \<open>Computing with acts that do not wait for anything.\<close>

lemma seq_step: "a s = (s1, e1, p1) \<Longrightarrow> b s1 = (s2, e2, p2) \<Longrightarrow> seq a b s = (s2, e1 @ e2, p1 @ p2)"
  by (simp add: seq_def)

section \<open>Invariants of acts\<close>

inductive safe :: "('s \<Rightarrow> bool) \<Rightarrow> ('s, 'e) pending \<Rightarrow> bool" for I where
  safeI: "(\<And>r s s' es ps. I s \<Longrightarrow> k r s = (s', es, ps) \<Longrightarrow> I s' \<and> (\<forall>p \<in> set ps. safe I p)) \<Longrightarrow>
          safe I (Pending q k)"

definition keeps :: "('s \<Rightarrow> bool) \<Rightarrow> ('s, 'e) act \<Rightarrow> bool" where
  "keeps I a \<longleftrightarrow> (\<forall>s s' es ps. I s \<longrightarrow> a s = (s', es, ps) \<longrightarrow> I s' \<and> (\<forall>p \<in> set ps. safe I p))"

inductive_cases safe_PendingE: "safe I (Pending q k)"

named_theorems keeps_intro

lemma safe_Pending_iff: "safe I (Pending q k) \<longleftrightarrow> (\<forall>r. keeps I (k r))"
proof
  assume "safe I (Pending q k)"
  then show "\<forall>r. keeps I (k r)"
    by (rule safe_PendingE) (auto simp: keeps_def)
next
  assume a: "\<forall>r. keeps I (k r)"
  show "safe I (Pending q k)"
  proof (rule safeI)
    fix r s s' es ps
    assume "I s" and "k r s = (s', es, ps)"
    with a [THEN spec, of r] show "I s' \<and> (\<forall>p \<in> set ps. safe I p)" unfolding keeps_def by blast
  qed
qed

lemma keepsI: "(\<And>s s' es ps. I s \<Longrightarrow> a s = (s', es, ps) \<Longrightarrow> I s' \<and> (\<forall>p \<in> set ps. safe I p)) \<Longrightarrow> keeps I a"
  unfolding keeps_def by blast

lemma keeps_skip [keeps_intro, simp]: "keeps I skip"
  by (rule keepsI) (auto simp: skip_def)

lemma keeps_emit [keeps_intro, simp]: "keeps I (emit e)"
  by (rule keepsI) (auto simp: emit_def)

lemma keeps_modify [keeps_intro]: "(\<And>s. I s \<Longrightarrow> I (f s)) \<Longrightarrow> keeps I (modify f)"
  by (rule keepsI) (auto simp: modify_def)

lemma keeps_reading [keeps_intro]: "(\<And>s. I s \<Longrightarrow> keeps I (f s)) \<Longrightarrow> keeps I (reading f)"
  unfolding keeps_def reading_def by blast

lemma keeps_await [keeps_intro]: "(\<And>r. keeps I (k r)) \<Longrightarrow> keeps I (await q k)"
  by (rule keepsI) (auto simp: await_def safe_Pending_iff)

lemma keeps_act_if [keeps_intro]: "(b \<Longrightarrow> keeps I a) \<Longrightarrow> keeps I (act_if b a)"
  by (simp add: act_if_def)

lemma keeps_seq [keeps_intro]:
  assumes "keeps I a" and "keeps I b"
  shows "keeps I (seq a b)"
  unfolding keeps_def
proof (intro allI impI)
  fix s s' es ps
  assume "I s" and "seq a b s = (s', es, ps)"
  then obtain s1 e1 p1 e2 p2 where 1: "a s = (s1, e1, p1)" and 2: "b s1 = (s', e2, p2)"
    and ps: "ps = p1 @ p2"
    by (auto simp: seq_def split: prod.splits)
  from assms(1) \<open>I s\<close> 1 have "I s1 \<and> (\<forall>p \<in> set p1. safe I p)" by (auto simp: keeps_def)
  moreover from this assms(2) 2 have "I s' \<and> (\<forall>p \<in> set p2. safe I p)" by (auto simp: keeps_def)
  ultimately show "I s' \<and> (\<forall>p \<in> set ps. safe I p)" using ps by auto
qed

lemma keeps_perform: "(\<And>a. a \<in> set as \<Longrightarrow> keeps I a) \<Longrightarrow> keeps I (perform as)"
  by (induction "as" rule: perform.induct) (auto intro: keeps_seq)

lemma keeps_for_each [keeps_intro]: "(\<And>x. x \<in> set xs \<Longrightarrow> keeps I (f x)) \<Longrightarrow> keeps I (for_each f xs)"
  unfolding for_each_def by (rule keeps_perform) auto

lemma keeps_perform_Cons [keeps_intro]:
  "keeps I a \<Longrightarrow> keeps I (perform (b # as)) \<Longrightarrow> keeps I (perform (a # b # as))"
  by (simp add: keeps_seq)

lemma keeps_perform_single [keeps_intro]: "keeps I a \<Longrightarrow> keeps I (perform [a])"
  by simp

lemma keeps_if [keeps_intro]:
  "(b \<Longrightarrow> keeps I a) \<Longrightarrow> (\<not> b \<Longrightarrow> keeps I a') \<Longrightarrow> keeps I (if b then a else a')"
  by simp

lemma keeps_case_sum [keeps_intro]:
  "(\<And>x. v = Inl x \<Longrightarrow> keeps I (f x)) \<Longrightarrow> (\<And>y. v = Inr y \<Longrightarrow> keeps I (g y)) \<Longrightarrow>
   keeps I (case v of Inl x \<Rightarrow> f x | Inr y \<Rightarrow> g y)"
  by (cases v) auto

lemma keeps_case_option [keeps_intro]:
  "(v = None \<Longrightarrow> keeps I a) \<Longrightarrow> (\<And>y. v = Some y \<Longrightarrow> keeps I (g y)) \<Longrightarrow>
   keeps I (case v of None \<Rightarrow> a | Some y \<Rightarrow> g y)"
  by (cases v) auto

lemma keeps_case_prod [keeps_intro]:
  "(\<And>x y. v = (x, y) \<Longrightarrow> keeps I (f x y)) \<Longrightarrow> keeps I (case v of (x, y) \<Rightarrow> f x y)"
  by (cases v) auto

section \<open>How often an event comes\<close>

definition times :: "('e \<Rightarrow> bool) \<Rightarrow> 'e list \<Rightarrow> nat" where
  "times P es = length (filter P es)"

lemma times_simps [simp]: "times P [] = 0" "times P (e # es) = (if P e then 1 else 0) + times P es"
  "times P (xs @ ys) = times P xs + times P ys"
  by (simp_all add: times_def)

text \<open>\<open>owes I P n p\<close>: whatever responses come, as long as the state satisfies \<open>I\<close> when they do,
  exactly n events satisfying P follow from p, and \<open>I\<close> is kept.\<close>

inductive owes :: "('s \<Rightarrow> bool) \<Rightarrow> ('e \<Rightarrow> bool) \<Rightarrow> nat \<Rightarrow> ('s, 'e) pending \<Rightarrow> bool" for I P where
  owesI: "(\<And>r s s' es ps. I s \<Longrightarrow> k r s = (s', es, ps) \<Longrightarrow>
             I s' \<and> (\<exists>ns. list_all2 (\<lambda>n p. owes I P n p) ns ps \<and> times P es + sum_list ns = n)) \<Longrightarrow>
          owes I P n (Pending q k)"
  monos list.rel_mono_strong

inductive_cases owes_PendingE: "owes I P n (Pending q k)"

definition settles :: "('s \<Rightarrow> bool) \<Rightarrow> ('e \<Rightarrow> bool) \<Rightarrow> nat \<Rightarrow> 'e list \<Rightarrow> ('s, 'e) pending list \<Rightarrow> bool" where
  "settles I P n es ps \<longleftrightarrow> (\<exists>ns. list_all2 (owes I P) ns ps \<and> times P es + sum_list ns = n)"

definition answers_in :: "('s \<Rightarrow> bool) \<Rightarrow> ('e \<Rightarrow> bool) \<Rightarrow> nat \<Rightarrow> ('s, 'e) act \<Rightarrow> bool" where
  "answers_in I P n a \<longleftrightarrow> (\<forall>s s' es ps. I s \<longrightarrow> a s = (s', es, ps) \<longrightarrow> I s' \<and> settles I P n es ps)"

text \<open>Most operations answer in every state.\<close>

abbreviation answers :: "('e \<Rightarrow> bool) \<Rightarrow> nat \<Rightarrow> ('s, 'e) act \<Rightarrow> bool" where
  "answers \<equiv> answers_in (\<lambda>_. True)"

named_theorems answers_intro

lemma owes_Pending_iff: "owes I P n (Pending q k) \<longleftrightarrow> (\<forall>r. answers_in I P n (k r))"
proof
  assume owes: "owes I P n (Pending q k)"
  have "I s' \<and> settles I P n es ps" if "I s" "k r s = (s', es, ps)" for r s s' es ps
    using owes
  proof (rule owes_PendingE)
    assume h: "\<And>r s s' es ps. I s \<Longrightarrow> k r s = (s', es, ps) \<Longrightarrow>
      I s' \<and> (\<exists>ns. list_all2 (owes I P) ns ps \<and> times P es + sum_list ns = n)"
    from h [OF that] show ?thesis by (simp only: settles_def)
  qed
  then show "\<forall>r. answers_in I P n (k r)" unfolding answers_in_def by (intro allI impI)
next
  assume a: "\<forall>r. answers_in I P n (k r)"
  show "owes I P n (Pending q k)"
  proof (rule owesI)
    fix r s s' es ps
    assume "I s" "k r s = (s', es, ps)"
    then show "I s' \<and> (\<exists>ns. list_all2 (owes I P) ns ps \<and> times P es + sum_list ns = n)"
      using a [THEN spec, of r] unfolding answers_in_def settles_def by blast
  qed
qed

lemma settles_append:
  "settles I P n es ps \<Longrightarrow> settles I P m es' ps' \<Longrightarrow> settles I P (n + m) (es @ es') (ps @ ps')"
  unfolding settles_def
  by (elim exE conjE, rule_tac x = "ns @ nsa" in exI) (auto intro: list_all2_appendI)

lemma answers_skip [answers_intro]: "answers_in I P 0 skip"
  by (auto simp: answers_in_def skip_def settles_def)

lemma answers_in_modify: "(\<And>s. I s \<Longrightarrow> I (f s)) \<Longrightarrow> answers_in I P 0 (modify f)"
  by (auto simp: answers_in_def modify_def settles_def)

lemma answers_modify [answers_intro]: "answers P 0 (modify f)"
  by (rule answers_in_modify)

lemma answers_emit_yes [answers_intro]: "P e \<Longrightarrow> answers_in I P 1 (emit e)"
  by (auto simp: answers_in_def emit_def settles_def)

lemma answers_emit_Suc [answers_intro]: "P e \<Longrightarrow> answers_in I P (Suc 0) (emit e)"
  using answers_emit_yes [of P e I] by simp

lemma answers_emit_no [answers_intro]: "\<not> P e \<Longrightarrow> answers_in I P 0 (emit e)"
  by (auto simp: answers_in_def emit_def settles_def)

lemma answers_in_reading: "(\<And>s. I s \<Longrightarrow> answers_in I P n (f s)) \<Longrightarrow> answers_in I P n (reading f)"
  unfolding answers_in_def reading_def by blast

lemma answers_reading [answers_intro]: "(\<And>s. answers_in I P n (f s)) \<Longrightarrow> answers_in I P n (reading f)"
  by (rule answers_in_reading)

lemma answers_await [answers_intro]:
  assumes "\<And>r. answers_in I P n (k r)"
  shows "answers_in I P n (await q k)"
proof -
  have "owes I P n (Pending (q s) k)" for s using assms by (simp add: owes_Pending_iff)
  then show ?thesis
    unfolding answers_in_def settles_def await_def by (auto intro: exI [where x = "[n]"])
qed

lemma answers_seq: "answers_in I P n a \<Longrightarrow> answers_in I P m b \<Longrightarrow> answers_in I P (n + m) (seq a b)"
proof -
  assume a: "answers_in I P n a" and b: "answers_in I P m b"
  show "answers_in I P (n + m) (seq a b)"
    unfolding answers_in_def seq_def
  proof (intro allI impI)
    fix s s' es ps
    assume inv: "I s"
      and eq: "(case a s of (s1, e1, p1) \<Rightarrow> case b s1 of (s2, e2, p2) \<Rightarrow> (s2, e1 @ e2, p1 @ p2)) = (s', es, ps)"
    obtain s1 e1 p1 where 1: "a s = (s1, e1, p1)" by (cases "a s")
    obtain s2 e2 p2 where 2: "b s1 = (s2, e2, p2)" by (cases "b s1")
    from a inv 1 have "I s1" "settles I P n e1 p1" by (auto simp: answers_in_def)
    moreover from b 2 \<open>I s1\<close> have "I s2" "settles I P m e2 p2" by (auto simp: answers_in_def)
    moreover have "s' = s2" "es = e1 @ e2" "ps = p1 @ p2" using eq 1 2 by auto
    ultimately show "I s' \<and> settles I P (n + m) es ps" by (simp add: settles_append)
  qed
qed

lemma answers_quiet_Cons [answers_intro]:
  "answers_in I P 0 a \<Longrightarrow> answers_in I P n (perform (b # as)) \<Longrightarrow> answers_in I P n (perform (a # b # as))"
  using answers_seq [of I P 0 a n] by simp

lemma answers_single [answers_intro]: "answers_in I P n a \<Longrightarrow> answers_in I P n (perform [a])"
  by simp

lemma answers_seq_quiet [answers_intro]: "answers_in I P 0 a \<Longrightarrow> answers_in I P n b \<Longrightarrow> answers_in I P n (seq a b)"
  using answers_seq [of I P 0 a n b] by simp

lemma answers_perform_quiet: "(\<And>a. a \<in> set as \<Longrightarrow> answers_in I P 0 a) \<Longrightarrow> answers_in I P 0 (perform as)"
  by (induction "as" rule: perform.induct) (auto intro: answers_intro)

lemma answers_for_each [answers_intro]: "(\<And>x. answers_in I P 0 (f x)) \<Longrightarrow> answers_in I P 0 (for_each f xs)"
  unfolding for_each_def by (rule answers_perform_quiet) auto

lemma answers_act_if [answers_intro]: "(b \<Longrightarrow> answers_in I P 0 a) \<Longrightarrow> answers_in I P 0 (act_if b a)"
  by (simp add: act_if_def answers_skip)

lemma answers_if [answers_intro]:
  "(b \<Longrightarrow> answers_in I P n a) \<Longrightarrow> (\<not> b \<Longrightarrow> answers_in I P n a') \<Longrightarrow> answers_in I P n (if b then a else a')"
  by simp

lemma answers_case_sum [answers_intro]:
  "(\<And>x. v = Inl x \<Longrightarrow> answers_in I P n (f x)) \<Longrightarrow> (\<And>y. v = Inr y \<Longrightarrow> answers_in I P n (g y)) \<Longrightarrow>
   answers_in I P n (case v of Inl x \<Rightarrow> f x | Inr y \<Rightarrow> g y)"
  by (cases v) auto

lemma answers_case_option [answers_intro]:
  "(v = None \<Longrightarrow> answers_in I P n a) \<Longrightarrow> (\<And>y. v = Some y \<Longrightarrow> answers_in I P n (g y)) \<Longrightarrow>
   answers_in I P n (case v of None \<Rightarrow> a | Some y \<Rightarrow> g y)"
  by (cases v) auto

lemma answers_case_prod [answers_intro]:
  "(\<And>x y. v = (x, y) \<Longrightarrow> answers_in I P n (f x y)) \<Longrightarrow> answers_in I P n (case v of (x, y) \<Rightarrow> f x y)"
  by (cases v) auto

text \<open>An operation that answers in every state and keeps an invariant answers under it.\<close>

lemma owes_safe: "owes (\<lambda>_. True) P n p \<Longrightarrow> safe I p \<Longrightarrow> owes I P n p"
proof (induction rule: owes.induct)
  case (owesI k n q)
  show ?case
  proof (rule owes.owesI)
    fix r s s' es ps
    assume inv: "I s" and k: "k r s = (s', es, ps)"
    have "keeps I (k r)" using owesI.prems by (simp add: safe_Pending_iff)
    then have keep: "I s'" "\<And>p. p \<in> set ps \<Longrightarrow> safe I p" using inv k by (auto simp: keeps_def)
    obtain ns where ns: "list_all2 (\<lambda>n p. owes (\<lambda>_. True) P n p \<and> (safe I p \<longrightarrow> owes I P n p)) ns ps"
        "times P es + sum_list ns = n"
      using owesI.IH [OF TrueI k] by blast
    have "list_all2 (owes I P) ns ps"
      using ns(1) keep(2) by (auto intro: list.rel_mono_strong)
    then show "I s' \<and> (\<exists>ns. list_all2 (owes I P) ns ps \<and> times P es + sum_list ns = n)"
      using keep(1) ns(2) by blast
  qed
qed

lemma answers_keeps: "answers P n a \<Longrightarrow> keeps I a \<Longrightarrow> answers_in I P n a"
  unfolding answers_in_def
proof (intro allI impI)
  fix s s' es ps
  assume a: "\<forall>s s' es ps. True \<longrightarrow> a s = (s', es, ps) \<longrightarrow> True \<and> settles (\<lambda>_. True) P n es ps"
    and keep: "keeps I a" and inv: "I s" and eq: "a s = (s', es, ps)"
  obtain ns where ns: "list_all2 (owes (\<lambda>_. True) P) ns ps" "times P es + sum_list ns = n"
    using a eq unfolding settles_def by blast
  have "I s'" "\<And>p. p \<in> set ps \<Longrightarrow> safe I p" using keep inv eq by (auto simp: keeps_def)
  moreover from this ns(1) have "list_all2 (owes I P) ns ps"
    by (auto intro: list.rel_mono_strong owes_safe)
  ultimately show "I s' \<and> settles I P n es ps" using ns(2) by (auto simp: settles_def)
qed

section \<open>Calls and responses interleaved\<close>

text \<open>
  The system: the state, the requests in flight and the events so far. At any moment a
  caller starts an act (an API call, a frame from the server, the clock) or the response
  to some request in flight arrives, in any order.
\<close>

record ('s, 'e) system =
  sys_state :: 's
  sys_pending :: "('s, 'e) pending list"
  sys_trace :: "'e list"

definition start :: "('s, 'e) act \<Rightarrow> ('s, 'e) system \<Rightarrow> ('s, 'e) system" where
  "start a \<sigma> = (case a (sys_state \<sigma>) of (s', es, ps) \<Rightarrow>
     \<lparr>sys_state = s', sys_pending = sys_pending \<sigma> @ ps, sys_trace = sys_trace \<sigma> @ es\<rparr>)"

definition deliver :: "nat \<Rightarrow> http_response \<Rightarrow> ('s, 'e) system \<Rightarrow> ('s, 'e) system" where
  "deliver i r \<sigma> =
     (if i < length (sys_pending \<sigma>)
      then (case sys_pending \<sigma> ! i of Pending q k \<Rightarrow>
              start (k r) (\<sigma>\<lparr>sys_pending := take i (sys_pending \<sigma>) @ drop (Suc i) (sys_pending \<sigma>)\<rparr>))
      else \<sigma>)"

datatype ('s, 'e) move = Call "('s, 'e) act" | Deliver nat http_response

definition move :: "('s, 'e) move \<Rightarrow> ('s, 'e) system \<Rightarrow> ('s, 'e) system" where
  "move m \<sigma> = (case m of Call a \<Rightarrow> start a \<sigma> | Deliver i r \<Rightarrow> deliver i r \<sigma>)"

inductive reaches :: "('s, 'e) act set \<Rightarrow> ('s, 'e) system \<Rightarrow> ('s, 'e) system \<Rightarrow> bool"
  for A :: "('s, 'e) act set" and \<sigma>0 :: "('s, 'e) system" where
  here: "reaches A \<sigma>0 \<sigma>0"
| call: "reaches A \<sigma>0 \<sigma> \<Longrightarrow> a \<in> A \<Longrightarrow> reaches A \<sigma>0 (start a \<sigma>)"
| response: "reaches A \<sigma>0 \<sigma> \<Longrightarrow> reaches A \<sigma>0 (deliver i r \<sigma>)"

definition sys_inv :: "('s \<Rightarrow> bool) \<Rightarrow> ('s, 'e) system \<Rightarrow> bool" where
  "sys_inv I \<sigma> \<longleftrightarrow> I (sys_state \<sigma>) \<and> (\<forall>p \<in> set (sys_pending \<sigma>). safe I p)"

lemma sys_inv_start: "keeps I a \<Longrightarrow> sys_inv I \<sigma> \<Longrightarrow> sys_inv I (start a \<sigma>)"
  unfolding keeps_def sys_inv_def start_def by (auto split: prod.split)

lemma sys_inv_deliver: "sys_inv I \<sigma> \<Longrightarrow> sys_inv I (deliver i r \<sigma>)"
proof (cases "i < length (sys_pending \<sigma>)")
  case True
  assume inv: "sys_inv I \<sigma>"
  obtain q k where p: "sys_pending \<sigma> ! i = Pending q k" by (cases "sys_pending \<sigma> ! i")
  have "safe I (Pending q k)" using inv True p nth_mem [OF True] by (auto simp: sys_inv_def)
  then have "keeps I (k r)" by (simp add: safe_Pending_iff)
  moreover have "sys_inv I (\<sigma>\<lparr>sys_pending := take i (sys_pending \<sigma>) @ drop (Suc i) (sys_pending \<sigma>)\<rparr>)"
    using inv by (auto simp: sys_inv_def dest: in_set_takeD in_set_dropD)
  ultimately show ?thesis using True p by (simp add: deliver_def sys_inv_start)
next
  case False
  assume "sys_inv I \<sigma>"
  then show ?thesis using False by (simp add: deliver_def)
qed

lemma reaches_inv:
  assumes "reaches A \<sigma>0 \<sigma>" and "sys_inv I \<sigma>0" and "\<And>a. a \<in> A \<Longrightarrow> keeps I a"
  shows "sys_inv I \<sigma>"
  using assms(1) by induction (auto intro: sys_inv_start sys_inv_deliver assms(2,3))

text \<open>Events so far plus events owed.\<close>

definition balance :: "('s \<Rightarrow> bool) \<Rightarrow> ('e \<Rightarrow> bool) \<Rightarrow> nat \<Rightarrow> ('s, 'e) system \<Rightarrow> bool" where
  "balance I P n \<sigma> \<longleftrightarrow> I (sys_state \<sigma>) \<and> settles I P n (sys_trace \<sigma>) (sys_pending \<sigma>)"

lemma balance_start: "answers_in I P m a \<Longrightarrow> balance I P n \<sigma> \<Longrightarrow> balance I P (n + m) (start a \<sigma>)"
  unfolding answers_in_def balance_def start_def by (auto split: prod.split intro!: settles_append)

lemma settles_delete:
  assumes "settles I P n es ps" and "i < length ps"
  obtains m where "owes I P m (ps ! i)" and "m \<le> n" and "settles I P (n - m) es (take i ps @ drop (Suc i) ps)"
proof -
  obtain ns where ns: "list_all2 (owes I P) ns ps" "times P es + sum_list ns = n"
    using assms(1) by (auto simp: settles_def)
  then have len: "i < length ns" using assms(2) by (simp add: list_all2_lengthD)
  have "ns = take i ns @ ns ! i # drop (Suc i) ns" using len by (rule id_take_nth_drop)
  then have sum: "sum_list ns = sum_list (take i ns @ drop (Suc i) ns) + ns ! i"
    by (metis add.assoc add.commute sum_list.Cons sum_list_append)
  show thesis
  proof
    show "owes I P (ns ! i) (ps ! i)" using ns(1) len by (rule list_all2_nthD)
    show "ns ! i \<le> n" using sum ns(2) by simp
    have "list_all2 (owes I P) (take i ns @ drop (Suc i) ns) (take i ps @ drop (Suc i) ps)"
      using ns(1) by (intro list_all2_appendI list_all2_takeI list_all2_dropI)
    then show "settles I P (n - ns ! i) es (take i ps @ drop (Suc i) ps)"
      unfolding settles_def using sum ns(2) by (intro exI [where x = "take i ns @ drop (Suc i) ns"]) auto
  qed
qed

lemma balance_deliver: "balance I P n \<sigma> \<Longrightarrow> balance I P n (deliver i r \<sigma>)"
proof (cases "i < length (sys_pending \<sigma>)")
  case True
  assume bal: "balance I P n \<sigma>"
  then have st: "settles I P n (sys_trace \<sigma>) (sys_pending \<sigma>)" by (simp add: balance_def)
  obtain q k where p: "sys_pending \<sigma> ! i = Pending q k" by (cases "sys_pending \<sigma> ! i")
  let ?\<sigma> = "\<sigma>\<lparr>sys_pending := take i (sys_pending \<sigma>) @ drop (Suc i) (sys_pending \<sigma>)\<rparr>"
  from st True obtain m where m: "owes I P m (Pending q k)" "m \<le> n" "balance I P (n - m) ?\<sigma>"
    by (rule settles_delete) (use bal in \<open>auto simp: p balance_def\<close>)
  then have "balance I P (n - m + m) (start (k r) ?\<sigma>)"
    by (intro balance_start) (auto simp: owes_Pending_iff)
  then show ?thesis using True p m(2) by (simp add: deliver_def)
qed (simp add: deliver_def)

lemma balance_reaches:
  assumes "answers_in I P n a" and "I s"
    and "reaches A (start a \<lparr>sys_state = s, sys_pending = [], sys_trace = []\<rparr>) \<sigma>"
    and "\<And>b. b \<in> A \<Longrightarrow> answers_in I P 0 b"
  shows "balance I P n \<sigma>"
  using assms(3)
proof induction
  case here
  have "balance I P 0 \<lparr>sys_state = s, sys_pending = [], sys_trace = []\<rparr>"
    using assms(2) by (simp add: balance_def settles_def)
  from balance_start [OF assms(1) this] show ?case by simp
next
  case (call \<sigma> b)
  from balance_start [OF assms(4) [OF call.hyps(2)] call.IH] show ?case by simp
next
  case (response \<sigma> i r)
  show ?case using response.IH by (rule balance_deliver)
qed

text \<open>An act that answers once, in a system whose other acts and responses do not: at every
  moment the event has come at most once, and once nothing is in flight, exactly once. One
  that does not answer never does.\<close>

lemma answered_once:
  assumes "answers_in I P 1 a" and "I s"
    and "reaches A (start a \<lparr>sys_state = s, sys_pending = [], sys_trace = []\<rparr>) \<sigma>"
    and "\<And>b. b \<in> A \<Longrightarrow> answers_in I P 0 b"
  shows "times P (sys_trace \<sigma>) \<le> 1 \<and> (sys_pending \<sigma> = [] \<longrightarrow> times P (sys_trace \<sigma>) = 1)"
  using balance_reaches [OF assms] by (auto simp: balance_def settles_def)

lemma answered_never:
  assumes "answers_in I P 0 a" and "I s"
    and "reaches A (start a \<lparr>sys_state = s, sys_pending = [], sys_trace = []\<rparr>) \<sigma>"
    and "\<And>b. b \<in> A \<Longrightarrow> answers_in I P 0 b"
  shows "times P (sys_trace \<sigma>) = 0"
  using balance_reaches [OF assms] by (auto simp: balance_def settles_def)

end
