(* ===== verification/HttpClient.thy ===== *)
theory HttpClient
  imports Async
begin

text \<open>
  \<open>HttpClient\<close> (core/src/network/http_client.cpp): how a request is put together from the
  method, the path, the body and the token that is set when the request is queued. The
  transfer itself belongs to libcurl; a queued request is a pending one of \<open>Async\<close>, and
  the worker loop's part, running the callback once per finished transfer in any order, is
  \<open>deliver\<close> there.
\<close>

record http =
  base_url :: string
  auth_token :: string

definition new_http :: "string \<Rightarrow> http" where
  "new_http url = \<lparr>base_url = url, auth_token = []\<rparr>"

definition setAuthToken :: "string \<Rightarrow> http \<Rightarrow> http" where
  "setAuthToken token h = h\<lparr>auth_token := token\<rparr>"

definition clearAuthToken :: "http \<Rightarrow> http" where
  "clearAuthToken h = h\<lparr>auth_token := []\<rparr>"

definition isAbsoluteUrl :: "string \<Rightarrow> bool" where
  "isAbsoluteUrl path \<longleftrightarrow> take 7 path = ''http://'' \<or> take 8 path = ''https://''"

text \<open>libcurl reads the URL and the headers as C strings and the body by its size; GET and
  DELETE send no body.\<close>

definition enqueue_request :: "http_method \<Rightarrow> string \<Rightarrow> string \<Rightarrow> http \<Rightarrow> http_request" where
  "enqueue_request m path bdy h =
     (let absolute_url = isAbsoluteUrl path;
          url = (if absolute_url then path else base_url h @ path);
          hdrs = (if absolute_url
                  then (if m = PUT then [''Content-Type: application/octet-stream''] else [])
                  else [''Content-Type: application/json'', ''Accept: application/json''] @
                       (if auth_token h \<noteq> [] then [c_str (''Authorization: Bearer '' @ auth_token h)] else []))
      in \<lparr>rq_method = m, rq_url = c_str url, rq_headers = hdrs,
          rq_body = (case m of POST \<Rightarrow> bdy | PUT \<Rightarrow> bdy | PATCH \<Rightarrow> bdy | DEL \<Rightarrow> [] | GET \<Rightarrow> [])\<rparr>)"

section \<open>Property\<close>



end
