(* ===== verification/CTypes.thy ===== *)
theory CTypes
  imports SdkTypes
begin

text \<open>
  The C side of the SDK's public interface (core/include/anychat/types.h, errors.h) and the
  memory it lives in (core/src/c_api/utils_c.cpp): structs with character arrays of a fixed
  size as records, the part of the heap the C layer allocates as a list of blocks, and what
  a function pointer of the application is called with.
\<close>

section \<open>Character arrays\<close>

text \<open>A \<open>char[n]\<close> is the list of its n characters; \<open>{}\<close> and \<open>calloc\<close> fill it with zeros.\<close>

definition chars :: "nat \<Rightarrow> string" where
  "chars n = replicate n nul"

text \<open>\<open>c_str()\<close> of a string points at its characters and a NUL behind them.\<close>

definition c_char :: "string \<Rightarrow> nat \<Rightarrow> char" where
  "c_char s i = (if i < length s then s ! i else nul)"

function strlcpy_loop :: "string \<Rightarrow> string \<Rightarrow> nat \<Rightarrow> nat \<Rightarrow> string" where
  "strlcpy_loop dst src dst_size i =
     (if i < dst_size - 1 \<and> c_char src i \<noteq> nul
      then strlcpy_loop (dst[i := c_char src i]) src dst_size (i + 1)
      else dst[i := nul])"
  by pat_completeness auto
termination by (relation "measure (\<lambda>(dst, src, n, i). n - i)") auto

declare strlcpy_loop.simps [simp del]

text \<open>None is the null pointer.\<close>

definition anychat_strlcpy :: "string option \<Rightarrow> string option \<Rightarrow> nat \<Rightarrow> string option" where
  "anychat_strlcpy dst src dst_size = (case dst of
     None \<Rightarrow> None
   | Some d \<Rightarrow> if dst_size = 0 then Some d
       else (case src of None \<Rightarrow> Some (d[0 := nul]) | Some s \<Rightarrow> Some (strlcpy_loop d s dst_size 0)))"

text \<open>The calls of the converters: an array of a struct and \<open>c_str()\<close> of a string.\<close>

definition strlcpy :: "string \<Rightarrow> string \<Rightarrow> nat \<Rightarrow> string" where
  "strlcpy dst src dst_size = (case anychat_strlcpy (Some dst) (Some src) dst_size of None \<Rightarrow> dst | Some d \<Rightarrow> d)"

definition c_bool :: "bool \<Rightarrow> int" where
  "c_bool b = (if b then 1 else 0)"

section \<open>Constants\<close>

definition ANYCHAT_OK :: int where "ANYCHAT_OK = 0"
definition ANYCHAT_ERROR_INVALID_PARAM :: int where "ANYCHAT_ERROR_INVALID_PARAM = 1"
definition ANYCHAT_ERROR_NOT_LOGGED_IN :: int where "ANYCHAT_ERROR_NOT_LOGGED_IN = 8"
definition ANYCHAT_CONV_PRIVATE :: int where "ANYCHAT_CONV_PRIVATE = 0"
definition ANYCHAT_CONV_GROUP :: int where "ANYCHAT_CONV_GROUP = 1"
definition ANYCHAT_CALL_VIDEO :: int where "ANYCHAT_CALL_VIDEO = 1"

text \<open>The numbers of the enumerators, where an enum is cast to \<open>int\<close>.\<close>

definition message_type_code :: "message_type \<Rightarrow> int" where
  "message_type_code t = (case t of MT_Text \<Rightarrow> 0 | MT_Image \<Rightarrow> 1 | MT_File \<Rightarrow> 2 | MT_Audio \<Rightarrow> 3 | MT_Video \<Rightarrow> 4)"

definition call_type_code :: "call_type \<Rightarrow> int" where
  "call_type_code t = (case t of Audio \<Rightarrow> 0 | Video \<Rightarrow> 1)"

definition call_status_code :: "call_status \<Rightarrow> int" where
  "call_status_code s = (case s of Ringing \<Rightarrow> 0 | CallConnected \<Rightarrow> 1 | Ended \<Rightarrow> 2 | Rejected \<Rightarrow> 3 | Missed \<Rightarrow> 4 | Cancelled \<Rightarrow> 5)"

definition connectionStateToC :: "connection_state \<Rightarrow> int" where
  "connectionStateToC s = (case s of Disconnected \<Rightarrow> 0 | Connecting \<Rightarrow> 1 | Connected \<Rightarrow> 2 | Reconnecting \<Rightarrow> 3)"

section \<open>Structs\<close>

text \<open>Addresses are numbers. \<open>zero_...\<close> is the struct as \<open>{}\<close> or \<open>calloc\<close> leaves it.\<close>

type_synonym addr = nat

definition nullptr :: addr where "nullptr = 0"

text \<open>The lists: an array of structs and its length, and what else a result has.\<close>

record c_list =
  Li_items :: addr
  Li_count :: int

record c_total_list =
  Lt_items :: addr
  Lt_count :: int
  Lt_total :: int

record c_paged_list =
  Lp_items :: addr
  Lp_count :: int
  Lp_total :: int
  Lp_page :: int
  Lp_page_size :: int

type_synonym AnyChatAuthDeviceList_C = c_list
type_synonym AnyChatMessageList_C = c_list
type_synonym AnyChatConversationList_C = c_list
type_synonym AnyChatConversationReadReceiptList_C = c_list
type_synonym AnyChatFriendList_C = c_list
type_synonym AnyChatFriendRequestList_C = c_list
type_synonym AnyChatBlacklistList_C = c_list
type_synonym AnyChatGroupList_C = c_list
type_synonym AnyChatGroupMemberList_C = c_list
type_synonym AnyChatGroupJoinRequestList_C = c_list
type_synonym AnyChatFileList_C = c_paged_list
type_synonym AnyChatUserList_C = c_total_list
type_synonym AnyChatCallList_C = c_total_list
type_synonym AnyChatMeetingList_C = c_total_list
type_synonym AnyChatVersionList_C = c_paged_list

record AnyChatAuthToken_C =
  Ctok_access_token :: string
  Ctok_refresh_token :: string
  Ctok_expires_at_ms :: int

definition zero_AuthToken :: AnyChatAuthToken_C where
  "zero_AuthToken = \<lparr>Ctok_access_token = chars 512, Ctok_refresh_token = chars 512, Ctok_expires_at_ms = 0\<rparr>"

record AnyChatVerificationCodeResult_C =
  Cvc_code_id :: string
  Cvc_expires_in :: int

definition zero_VerificationCodeResult :: AnyChatVerificationCodeResult_C where
  "zero_VerificationCodeResult = \<lparr>Cvc_code_id = chars 128, Cvc_expires_in = 0\<rparr>"

record AnyChatAuthDevice_C =
  Cad_device_id :: string
  Cad_device_type :: int
  Cad_client_version :: string
  Cad_last_login_ip :: string
  Cad_last_login_at_ms :: int
  Cad_is_current :: int

definition zero_AuthDevice :: AnyChatAuthDevice_C where
  "zero_AuthDevice = \<lparr>Cad_device_id = chars 128, Cad_device_type = 0, Cad_client_version = chars 64,
     Cad_last_login_ip = chars 64, Cad_last_login_at_ms = 0, Cad_is_current = 0\<rparr>"

record AnyChatUserInfo_C =
  Cui_user_id :: string
  Cui_username :: string
  Cui_avatar_url :: string
  Cui_signature :: string
  Cui_gender :: int
  Cui_region :: string
  Cui_is_friend :: int
  Cui_is_blocked :: int

definition zero_UserInfo :: AnyChatUserInfo_C where
  "zero_UserInfo = \<lparr>Cui_user_id = chars 64, Cui_username = chars 128, Cui_avatar_url = chars 512,
     Cui_signature = chars 256, Cui_gender = 0, Cui_region = chars 64, Cui_is_friend = 0,
     Cui_is_blocked = 0\<rparr>"

record AnyChatMessage_C =
  Cm_message_id :: string
  Cm_local_id :: string
  Cm_conv_id :: string
  Cm_sender_id :: string
  Cm_content_type :: int
  Cm_type :: int
  Cm_content :: addr
  Cm_seq :: int
  Cm_reply_to :: string
  Cm_timestamp_ms :: int
  Cm_status :: int
  Cm_send_state :: int
  Cm_is_read :: int

definition zero_Message :: AnyChatMessage_C where
  "zero_Message = \<lparr>Cm_message_id = chars 64, Cm_local_id = chars 64, Cm_conv_id = chars 64,
     Cm_sender_id = chars 64, Cm_content_type = 0, Cm_type = 0, Cm_content = nullptr, Cm_seq = 0,
     Cm_reply_to = chars 64, Cm_timestamp_ms = 0, Cm_status = 0, Cm_send_state = 0,
     Cm_is_read = 0\<rparr>"

record AnyChatOfflineMessageResult_C =
  Cmo_items :: addr
  Cmo_count :: int
  Cmo_has_more :: int
  Cmo_next_seq :: int

definition zero_OfflineMessageResult :: AnyChatOfflineMessageResult_C where
  "zero_OfflineMessageResult = \<lparr>Cmo_items = nullptr, Cmo_count = 0, Cmo_has_more = 0, Cmo_next_seq = 0\<rparr>"

record AnyChatMessageSearchResult_C =
  Cms_items :: addr
  Cms_count :: int
  Cms_total :: int

definition zero_MessageSearchResult :: AnyChatMessageSearchResult_C where
  "zero_MessageSearchResult = \<lparr>Cms_items = nullptr, Cms_count = 0, Cms_total = 0\<rparr>"

record AnyChatGroupMessageReadMember_C =
  Cgm_user_id :: string
  Cgm_nickname :: string
  Cgm_read_at_ms :: int

definition zero_GroupMessageReadMember :: AnyChatGroupMessageReadMember_C where
  "zero_GroupMessageReadMember = \<lparr>Cgm_user_id = chars 64, Cgm_nickname = chars 128, Cgm_read_at_ms = 0\<rparr>"

record AnyChatGroupMessageReadState_C =
  Cgs_items :: addr
  Cgs_count :: int
  Cgs_read_count :: int
  Cgs_unread_count :: int

definition zero_GroupMessageReadState :: AnyChatGroupMessageReadState_C where
  "zero_GroupMessageReadState = \<lparr>Cgs_items = nullptr, Cgs_count = 0, Cgs_read_count = 0, Cgs_unread_count = 0\<rparr>"

record AnyChatMessageReadReceiptEvent_C =
  Crr_conversation_id :: string
  Crr_from_user_id :: string
  Crr_message_id :: string
  Crr_last_read_seq :: int
  Crr_last_read_message_id :: string
  Crr_read_at_ms :: int

definition zero_MessageReadReceiptEvent :: AnyChatMessageReadReceiptEvent_C where
  "zero_MessageReadReceiptEvent = \<lparr>Crr_conversation_id = chars 64, Crr_from_user_id = chars 64, Crr_message_id = chars 64,
     Crr_last_read_seq = 0, Crr_last_read_message_id = chars 64, Crr_read_at_ms = 0\<rparr>"

record AnyChatMessageTypingEvent_C =
  Cty_conversation_id :: string
  Cty_from_user_id :: string
  Cty_typing :: int
  Cty_expire_at_ms :: int
  Cty_device_id :: string

definition zero_MessageTypingEvent :: AnyChatMessageTypingEvent_C where
  "zero_MessageTypingEvent = \<lparr>Cty_conversation_id = chars 64, Cty_from_user_id = chars 64, Cty_typing = 0,
     Cty_expire_at_ms = 0, Cty_device_id = chars 64\<rparr>"

record AnyChatConversation_C =
  Cc_conv_id :: string
  Cc_conv_type :: int
  Cc_target_id :: string
  Cc_last_msg_id :: string
  Cc_last_msg_text :: string
  Cc_last_msg_time_ms :: int
  Cc_unread_count :: int
  Cc_is_pinned :: int
  Cc_is_muted :: int
  Cc_burn_after_reading :: int
  Cc_auto_delete_duration :: int
  Cc_updated_at_ms :: int

definition zero_Conversation :: AnyChatConversation_C where
  "zero_Conversation = \<lparr>Cc_conv_id = chars 64, Cc_conv_type = 0, Cc_target_id = chars 64, Cc_last_msg_id = chars 64,
     Cc_last_msg_text = chars 512, Cc_last_msg_time_ms = 0, Cc_unread_count = 0, Cc_is_pinned = 0,
     Cc_is_muted = 0, Cc_burn_after_reading = 0, Cc_auto_delete_duration = 0,
     Cc_updated_at_ms = 0\<rparr>"

record AnyChatConversationUnreadState_C =
  Cus_unread_count :: int
  Cus_last_message_seq :: int

definition zero_ConversationUnreadState :: AnyChatConversationUnreadState_C where
  "zero_ConversationUnreadState = \<lparr>Cus_unread_count = 0, Cus_last_message_seq = 0\<rparr>"

record AnyChatConversationMarkReadResult_C =
  Cmk_accepted_ids :: addr
  Cmk_accepted_count :: int
  Cmk_ignored_ids :: addr
  Cmk_ignored_count :: int
  Cmk_advanced_last_read_seq :: int

definition zero_ConversationMarkReadResult :: AnyChatConversationMarkReadResult_C where
  "zero_ConversationMarkReadResult = \<lparr>Cmk_accepted_ids = nullptr, Cmk_accepted_count = 0, Cmk_ignored_ids = nullptr,
     Cmk_ignored_count = 0, Cmk_advanced_last_read_seq = 0\<rparr>"

record AnyChatConversationReadReceipt_C =
  Ccr_user_id :: string
  Ccr_last_read_seq :: int
  Ccr_last_read_message_id :: string
  Ccr_read_at_ms :: int

definition zero_ConversationReadReceipt :: AnyChatConversationReadReceipt_C where
  "zero_ConversationReadReceipt = \<lparr>Ccr_user_id = chars 64, Ccr_last_read_seq = 0, Ccr_last_read_message_id = chars 64,
     Ccr_read_at_ms = 0\<rparr>"

record AnyChatFriend_C =
  Cf_user_id :: string
  Cf_remark :: string
  Cf_updated_at_ms :: int
  Cf_is_deleted :: int
  Cf_user_info :: AnyChatUserInfo_C

definition zero_Friend :: AnyChatFriend_C where
  "zero_Friend = \<lparr>Cf_user_id = chars 64, Cf_remark = chars 128, Cf_updated_at_ms = 0, Cf_is_deleted = 0,
     Cf_user_info = zero_UserInfo\<rparr>"

record AnyChatFriendRequest_C =
  Cfr_request_id :: int
  Cfr_from_user_id :: string
  Cfr_to_user_id :: string
  Cfr_message :: string
  Cfr_source :: int
  Cfr_status :: int
  Cfr_created_at_ms :: int
  Cfr_from_user_info :: AnyChatUserInfo_C

definition zero_FriendRequest :: AnyChatFriendRequest_C where
  "zero_FriendRequest = \<lparr>Cfr_request_id = 0, Cfr_from_user_id = chars 64, Cfr_to_user_id = chars 64,
     Cfr_message = chars 256, Cfr_source = 0, Cfr_status = 0, Cfr_created_at_ms = 0,
     Cfr_from_user_info = zero_UserInfo\<rparr>"

record AnyChatBlacklistItem_C =
  Cbl_id :: int
  Cbl_user_id :: string
  Cbl_blocked_user_id :: string
  Cbl_created_at_ms :: int
  Cbl_blocked_user_info :: AnyChatUserInfo_C

definition zero_BlacklistItem :: AnyChatBlacklistItem_C where
  "zero_BlacklistItem = \<lparr>Cbl_id = 0, Cbl_user_id = chars 64, Cbl_blocked_user_id = chars 64, Cbl_created_at_ms = 0,
     Cbl_blocked_user_info = zero_UserInfo\<rparr>"

record AnyChatGroup_C =
  Cg_group_id :: string
  Cg_name :: string
  Cg_avatar_url :: string
  Cg_owner_id :: string
  Cg_member_count :: int
  Cg_my_role :: int
  Cg_join_verify :: int
  Cg_updated_at_ms :: int
  Cg_display_name :: string
  Cg_announcement :: string
  Cg_description :: string
  Cg_group_remark :: string
  Cg_max_members :: int
  Cg_is_muted :: int
  Cg_created_at_ms :: int

definition zero_Group :: AnyChatGroup_C where
  "zero_Group = \<lparr>Cg_group_id = chars 64, Cg_name = chars 128, Cg_avatar_url = chars 512,
     Cg_owner_id = chars 64, Cg_member_count = 0, Cg_my_role = 0, Cg_join_verify = 0,
     Cg_updated_at_ms = 0, Cg_display_name = chars 128, Cg_announcement = chars 512,
     Cg_description = chars 512, Cg_group_remark = chars 64, Cg_max_members = 0, Cg_is_muted = 0,
     Cg_created_at_ms = 0\<rparr>"

record AnyChatGroupMember_C =
  Cgmb_user_id :: string
  Cgmb_group_nickname :: string
  Cgmb_role :: int
  Cgmb_is_muted :: int
  Cgmb_muted_until_ms :: int
  Cgmb_joined_at_ms :: int
  Cgmb_user_info :: AnyChatUserInfo_C

definition zero_GroupMember :: AnyChatGroupMember_C where
  "zero_GroupMember = \<lparr>Cgmb_user_id = chars 64, Cgmb_group_nickname = chars 128, Cgmb_role = 0, Cgmb_is_muted = 0,
     Cgmb_muted_until_ms = 0, Cgmb_joined_at_ms = 0, Cgmb_user_info = zero_UserInfo\<rparr>"

record AnyChatGroupJoinRequest_C =
  Cgj_request_id :: int
  Cgj_group_id :: string
  Cgj_user_id :: string
  Cgj_inviter_id :: string
  Cgj_message :: string
  Cgj_status :: int
  Cgj_created_at_ms :: int
  Cgj_user_info :: AnyChatUserInfo_C

definition zero_GroupJoinRequest :: AnyChatGroupJoinRequest_C where
  "zero_GroupJoinRequest = \<lparr>Cgj_request_id = 0, Cgj_group_id = chars 64, Cgj_user_id = chars 64,
     Cgj_inviter_id = chars 64, Cgj_message = chars 256, Cgj_status = 0, Cgj_created_at_ms = 0,
     Cgj_user_info = zero_UserInfo\<rparr>"

record AnyChatGroupQRCode_C =
  Cgq_group_id :: string
  Cgq_token :: string
  Cgq_deep_link :: string
  Cgq_expire_at_ms :: int

definition zero_GroupQRCode :: AnyChatGroupQRCode_C where
  "zero_GroupQRCode = \<lparr>Cgq_group_id = chars 64, Cgq_token = chars 128, Cgq_deep_link = chars 512,
     Cgq_expire_at_ms = 0\<rparr>"

record AnyChatFileInfo_C =
  Cfi_file_id :: string
  Cfi_file_name :: string
  Cfi_file_type :: int
  Cfi_file_size_bytes :: int
  Cfi_mime_type :: string
  Cfi_download_url :: string
  Cfi_created_at_ms :: int

definition zero_FileInfo :: AnyChatFileInfo_C where
  "zero_FileInfo = \<lparr>Cfi_file_id = chars 64, Cfi_file_name = chars 256, Cfi_file_type = 0,
     Cfi_file_size_bytes = 0, Cfi_mime_type = chars 128, Cfi_download_url = chars 1024,
     Cfi_created_at_ms = 0\<rparr>"

record AnyChatUserProfile_C =
  Cup_user_id :: string
  Cup_nickname :: string
  Cup_avatar_url :: string
  Cup_phone :: string
  Cup_email :: string
  Cup_signature :: string
  Cup_region :: string
  Cup_gender :: int
  Cup_birthday_ms :: int
  Cup_qrcode_url :: string
  Cup_created_at_ms :: int

definition zero_UserProfile :: AnyChatUserProfile_C where
  "zero_UserProfile = \<lparr>Cup_user_id = chars 64, Cup_nickname = chars 128, Cup_avatar_url = chars 512,
     Cup_phone = chars 32, Cup_email = chars 128, Cup_signature = chars 256,
     Cup_region = chars 64, Cup_gender = 0, Cup_birthday_ms = 0, Cup_qrcode_url = chars 512,
     Cup_created_at_ms = 0\<rparr>"

record AnyChatUserSettings_C =
  Cst_user_id :: string
  Cst_notification_enabled :: int
  Cst_sound_enabled :: int
  Cst_vibration_enabled :: int
  Cst_message_preview_enabled :: int
  Cst_friend_verify_required :: int
  Cst_search_by_phone :: int
  Cst_search_by_id :: int
  Cst_language :: string

definition zero_UserSettings :: AnyChatUserSettings_C where
  "zero_UserSettings = \<lparr>Cst_user_id = chars 64, Cst_notification_enabled = 0, Cst_sound_enabled = 0,
     Cst_vibration_enabled = 0, Cst_message_preview_enabled = 0, Cst_friend_verify_required = 0,
     Cst_search_by_phone = 0, Cst_search_by_id = 0, Cst_language = chars 16\<rparr>"

record AnyChatUserQRCode_C =
  Cuq_qrcode_url :: string
  Cuq_expires_at_ms :: int

definition zero_UserQRCode :: AnyChatUserQRCode_C where
  "zero_UserQRCode = \<lparr>Cuq_qrcode_url = chars 512, Cuq_expires_at_ms = 0\<rparr>"

record AnyChatBindPhoneResult_C =
  Cbpr_phone_number :: string
  Cbpr_is_primary :: int

definition zero_BindPhoneResult :: AnyChatBindPhoneResult_C where
  "zero_BindPhoneResult = \<lparr>Cbpr_phone_number = chars 32, Cbpr_is_primary = 0\<rparr>"

record AnyChatChangePhoneResult_C =
  Ccpr_old_phone_number :: string
  Ccpr_new_phone_number :: string

definition zero_ChangePhoneResult :: AnyChatChangePhoneResult_C where
  "zero_ChangePhoneResult = \<lparr>Ccpr_old_phone_number = chars 32, Ccpr_new_phone_number = chars 32\<rparr>"

record AnyChatBindEmailResult_C =
  Cber_email :: string
  Cber_is_primary :: int

definition zero_BindEmailResult :: AnyChatBindEmailResult_C where
  "zero_BindEmailResult = \<lparr>Cber_email = chars 128, Cber_is_primary = 0\<rparr>"

record AnyChatChangeEmailResult_C =
  Ccer_old_email :: string
  Ccer_new_email :: string

definition zero_ChangeEmailResult :: AnyChatChangeEmailResult_C where
  "zero_ChangeEmailResult = \<lparr>Ccer_old_email = chars 128, Ccer_new_email = chars 128\<rparr>"

record AnyChatUserStatusEvent_C =
  Cuse_user_id :: string
  Cuse_status :: int
  Cuse_last_active_at_ms :: int
  Cuse_platform :: int

definition zero_UserStatusEvent :: AnyChatUserStatusEvent_C where
  "zero_UserStatusEvent = \<lparr>Cuse_user_id = chars 64, Cuse_status = 0, Cuse_last_active_at_ms = 0, Cuse_platform = 0\<rparr>"

record AnyChatCallSession_C =
  Ccs_call_id :: string
  Ccs_caller_id :: string
  Ccs_callee_id :: string
  Ccs_call_type :: int
  Ccs_status :: int
  Ccs_room_name :: string
  Ccs_token :: string
  Ccs_started_at :: int
  Ccs_connected_at :: int
  Ccs_ended_at :: int
  Ccs_duration :: int

definition zero_CallSession :: AnyChatCallSession_C where
  "zero_CallSession = \<lparr>Ccs_call_id = chars 64, Ccs_caller_id = chars 64, Ccs_callee_id = chars 64,
     Ccs_call_type = 0, Ccs_status = 0, Ccs_room_name = chars 128, Ccs_token = chars 512,
     Ccs_started_at = 0, Ccs_connected_at = 0, Ccs_ended_at = 0, Ccs_duration = 0\<rparr>"

record AnyChatMeetingRoom_C =
  Cmr_room_id :: string
  Cmr_creator_id :: string
  Cmr_title :: string
  Cmr_room_name :: string
  Cmr_token :: string
  Cmr_has_password :: int
  Cmr_max_participants :: int
  Cmr_is_active :: int
  Cmr_started_at :: int
  Cmr_created_at_ms :: int

definition zero_MeetingRoom :: AnyChatMeetingRoom_C where
  "zero_MeetingRoom = \<lparr>Cmr_room_id = chars 64, Cmr_creator_id = chars 64, Cmr_title = chars 128,
     Cmr_room_name = chars 128, Cmr_token = chars 512, Cmr_has_password = 0,
     Cmr_max_participants = 0, Cmr_is_active = 0, Cmr_started_at = 0, Cmr_created_at_ms = 0\<rparr>"

record AnyChatVersionUpdateInfo_C =
  Cvu_title :: string
  Cvu_content :: string
  Cvu_download_url :: string
  Cvu_file_size :: int
  Cvu_file_hash :: string

definition zero_VersionUpdateInfo :: AnyChatVersionUpdateInfo_C where
  "zero_VersionUpdateInfo = \<lparr>Cvu_title = chars 128, Cvu_content = chars 2048, Cvu_download_url = chars 1024,
     Cvu_file_size = 0, Cvu_file_hash = chars 128\<rparr>"

record AnyChatVersionCheckResult_C =
  Cvcr_has_update :: int
  Cvcr_latest_version :: string
  Cvcr_latest_build_number :: int
  Cvcr_force_update :: int
  Cvcr_min_version :: string
  Cvcr_min_build_number :: int
  Cvcr_update_info :: AnyChatVersionUpdateInfo_C

definition zero_VersionCheckResult :: AnyChatVersionCheckResult_C where
  "zero_VersionCheckResult = \<lparr>Cvcr_has_update = 0, Cvcr_latest_version = chars 64, Cvcr_latest_build_number = 0,
     Cvcr_force_update = 0, Cvcr_min_version = chars 64, Cvcr_min_build_number = 0,
     Cvcr_update_info = zero_VersionUpdateInfo\<rparr>"

record AnyChatVersionInfo_C =
  Cav_id :: int
  Cav_platform :: int
  Cav_version :: string
  Cav_build_number :: int
  Cav_version_code :: int
  Cav_min_version :: string
  Cav_min_build_number :: int
  Cav_force_update :: int
  Cav_release_type :: int
  Cav_title :: string
  Cav_content :: string
  Cav_download_url :: string
  Cav_file_size :: int
  Cav_file_hash :: string
  Cav_published_at_ms :: int

definition zero_VersionInfo :: AnyChatVersionInfo_C where
  "zero_VersionInfo = \<lparr>Cav_id = 0, Cav_platform = 0, Cav_version = chars 64, Cav_build_number = 0,
     Cav_version_code = 0, Cav_min_version = chars 64, Cav_min_build_number = 0,
     Cav_force_update = 0, Cav_release_type = 0, Cav_title = chars 128, Cav_content = chars 2048,
     Cav_download_url = chars 1024, Cav_file_size = 0, Cav_file_hash = chars 128,
     Cav_published_at_ms = 0\<rparr>"

section \<open>Callback and listener structs\<close>

text \<open>
  Functions of the application are addresses, null where a member is not set. Every callback
  struct has the same three members; they differ in what \<open>on_success\<close> is called with.
\<close>

record c_callback =
  cc_userdata :: addr
  cc_on_success :: addr
  cc_on_error :: addr

type_synonym AnyChatAuthTokenCallback_C = c_callback
type_synonym AnyChatAuthResultCallback_C = c_callback
type_synonym AnyChatVerificationCodeCallback_C = c_callback
type_synonym AnyChatAuthDeviceListCallback_C = c_callback
type_synonym AnyChatMessageCallback_C = c_callback
type_synonym AnyChatMessageListCallback_C = c_callback
type_synonym AnyChatOfflineMessageCallback_C = c_callback
type_synonym AnyChatMessageSearchCallback_C = c_callback
type_synonym AnyChatGroupMessageReadStateCallback_C = c_callback
type_synonym AnyChatConvListCallback_C = c_callback
type_synonym AnyChatConvCallback_C = c_callback
type_synonym AnyChatConvInfoCallback_C = c_callback
type_synonym AnyChatConvTotalUnreadCallback_C = c_callback
type_synonym AnyChatConvUnreadStateCallback_C = c_callback
type_synonym AnyChatConvReadReceiptListCallback_C = c_callback
type_synonym AnyChatConvSequenceCallback_C = c_callback
type_synonym AnyChatConvMarkReadResultCallback_C = c_callback
type_synonym AnyChatFriendListCallback_C = c_callback
type_synonym AnyChatFriendRequestListCallback_C = c_callback
type_synonym AnyChatBlacklistListCallback_C = c_callback
type_synonym AnyChatFriendCallback_C = c_callback
type_synonym AnyChatGroupCallback_C = c_callback
type_synonym AnyChatGroupListCallback_C = c_callback
type_synonym AnyChatGroupInfoCallback_C = c_callback
type_synonym AnyChatGroupMemberListCallback_C = c_callback
type_synonym AnyChatGroupJoinRequestListCallback_C = c_callback
type_synonym AnyChatGroupQRCodeCallback_C = c_callback
type_synonym AnyChatUserProfileCallback_C = c_callback
type_synonym AnyChatUserSettingsCallback_C = c_callback
type_synonym AnyChatUserInfoCallback_C = c_callback
type_synonym AnyChatUserListCallback_C = c_callback
type_synonym AnyChatUserCallback_C = c_callback
type_synonym AnyChatUserQRCodeCallback_C = c_callback
type_synonym AnyChatBindPhoneCallback_C = c_callback
type_synonym AnyChatChangePhoneCallback_C = c_callback
type_synonym AnyChatBindEmailCallback_C = c_callback
type_synonym AnyChatChangeEmailCallback_C = c_callback
type_synonym AnyChatCallSessionCallback_C = c_callback
type_synonym AnyChatCallListCallback_C = c_callback
type_synonym AnyChatMeetingCallback_C = c_callback
type_synonym AnyChatMeetingListCallback_C = c_callback
type_synonym AnyChatCallCallback_C = c_callback
type_synonym AnyChatFileCallback_C = c_callback
type_synonym AnyChatFileInfoCallback_C = c_callback
type_synonym AnyChatDownloadUrlCallback_C = c_callback
type_synonym AnyChatFileListCallback_C = c_callback
type_synonym AnyChatVersionCheckCallback_C = c_callback
type_synonym AnyChatVersionInfoCallback_C = c_callback
type_synonym AnyChatVersionListCallback_C = c_callback
type_synonym AnyChatVersionCallback_C = c_callback

record AnyChatAuthListener_C =
  Lauth_userdata :: addr
  Lauth_on_auth_expired :: addr

record AnyChatMessageListener_C =
  Lmsg_userdata :: addr
  Lmsg_on_message_received :: addr
  Lmsg_on_message_read_receipt :: addr
  Lmsg_on_message_recalled :: addr
  Lmsg_on_message_deleted :: addr
  Lmsg_on_message_edited :: addr
  Lmsg_on_message_typing :: addr
  Lmsg_on_message_mentioned :: addr

record AnyChatConvListener_C =
  Lconv_userdata :: addr
  Lconv_on_conversation_updated :: addr

record AnyChatFriendListener_C =
  Lfriend_userdata :: addr
  Lfriend_on_friend_added :: addr
  Lfriend_on_friend_deleted :: addr
  Lfriend_on_friend_info_changed :: addr
  Lfriend_on_blacklist_added :: addr
  Lfriend_on_blacklist_removed :: addr
  Lfriend_on_friend_request_received :: addr
  Lfriend_on_friend_request_deleted :: addr
  Lfriend_on_friend_request_accepted :: addr
  Lfriend_on_friend_request_rejected :: addr

record AnyChatGroupListener_C =
  Lgroup_userdata :: addr
  Lgroup_on_group_invited :: addr
  Lgroup_on_group_updated :: addr

record AnyChatUserListener_C =
  Luser_userdata :: addr
  Luser_on_profile_updated :: addr
  Luser_on_friend_profile_changed :: addr
  Luser_on_status_changed :: addr

record AnyChatCallListener_C =
  Lcall_userdata :: addr
  Lcall_on_incoming_call :: addr
  Lcall_on_call_status_changed :: addr

text \<open>The listeners of one client that the C interface has installed, and its callback for the
  connection's state.\<close>

record c_listeners =
  ls_auth :: "AnyChatAuthListener_C option"
  ls_message :: "AnyChatMessageListener_C option"
  ls_conv :: "AnyChatConvListener_C option"
  ls_friend :: "AnyChatFriendListener_C option"
  ls_group :: "AnyChatGroupListener_C option"
  ls_user :: "AnyChatUserListener_C option"
  ls_call :: "AnyChatCallListener_C option"
  ls_state :: "(addr \<times> addr) option"

definition no_listeners :: c_listeners where
  "no_listeners = \<lparr>ls_auth = None, ls_message = None, ls_conv = None, ls_friend = None, ls_group = None, ls_user = None,
     ls_call = None, ls_state = None\<rparr>"

section \<open>The heap\<close>

text \<open>Blocks by their address, the youngest first.\<close>

datatype c_cell =
    Chars string
  | Pointers "addr list"
  | Devices "AnyChatAuthDevice_C list"
  | Messages "AnyChatMessage_C list"
  | ReadMembers "AnyChatGroupMessageReadMember_C list"
  | Conversations "AnyChatConversation_C list"
  | Receipts "AnyChatConversationReadReceipt_C list"
  | FriendArray "AnyChatFriend_C list"
  | FriendRequestArray "AnyChatFriendRequest_C list"
  | BlacklistArray "AnyChatBlacklistItem_C list"
  | GroupArray "AnyChatGroup_C list"
  | GroupMemberArray "AnyChatGroupMember_C list"
  | JoinRequestArray "AnyChatGroupJoinRequest_C list"
  | FileArray "AnyChatFileInfo_C list"
  | UserArray "AnyChatUserInfo_C list"
  | CallArray "AnyChatCallSession_C list"
  | MeetingArray "AnyChatMeetingRoom_C list"
  | VersionArray "AnyChatVersionInfo_C list"

type_synonym heap = "(addr \<times> c_cell) list"

definition fresh_addr :: "heap \<Rightarrow> addr" where
  "fresh_addr h = Suc (fold max (map fst h) 0)"

definition malloc :: "c_cell \<Rightarrow> heap \<Rightarrow> addr \<times> heap" where
  "malloc c h = (fresh_addr h, (fresh_addr h, c) # h)"

definition load :: "heap \<Rightarrow> addr \<Rightarrow> c_cell option" where
  "load h a = map_of h a"

definition store :: "addr \<Rightarrow> c_cell \<Rightarrow> heap \<Rightarrow> heap" where
  "store a c h = map (\<lambda>b. if fst b = a then (a, c) else b) h"

text \<open>\<open>std::free\<close>: nothing for the null pointer; an address that is not that of a block is
  undefined behaviour, None.\<close>

definition mfree :: "addr \<Rightarrow> heap \<Rightarrow> heap option" where
  "mfree a h = (if a = nullptr then Some h
     else if a \<in> set (map fst h) then Some (filter (\<lambda>b. fst b \<noteq> a) h) else None)"

text \<open>\<open>anychat_strdup\<close>; None is the null pointer. \<open>strlen\<close> stops at the first NUL.\<close>

definition anychat_strdup :: "string option \<Rightarrow> heap \<Rightarrow> addr \<times> heap" where
  "anychat_strdup s h = (case s of None \<Rightarrow> (nullptr, h) | Some t \<Rightarrow> malloc (Chars (c_str t @ [nul])) h)"

section \<open>What the application's functions are called with\<close>

datatype c_arg =
    AInt int
  | AText string
  | ANull
  | AToken AnyChatAuthToken_C
  | AVerificationCode AnyChatVerificationCodeResult_C
  | AMessage AnyChatMessage_C
  | AOffline AnyChatOfflineMessageResult_C
  | ASearch AnyChatMessageSearchResult_C
  | AGroupRead AnyChatGroupMessageReadState_C
  | AMessageReceipt AnyChatMessageReadReceiptEvent_C
  | ATyping AnyChatMessageTypingEvent_C
  | AConversation AnyChatConversation_C
  | AUnreadState AnyChatConversationUnreadState_C
  | AMarkRead AnyChatConversationMarkReadResult_C
  | AFriend AnyChatFriend_C
  | AFriendRequest AnyChatFriendRequest_C
  | ABlacklistItem AnyChatBlacklistItem_C
  | AGroup AnyChatGroup_C
  | AGroupQRCode AnyChatGroupQRCode_C
  | AFile AnyChatFileInfo_C
  | AUser AnyChatUserInfo_C
  | AProfile AnyChatUserProfile_C
  | ASettings AnyChatUserSettings_C
  | AUserQRCode AnyChatUserQRCode_C
  | ABindPhone AnyChatBindPhoneResult_C
  | AChangePhone AnyChatChangePhoneResult_C
  | ABindEmail AnyChatBindEmailResult_C
  | AChangeEmail AnyChatChangeEmailResult_C
  | AStatus AnyChatUserStatusEvent_C
  | ACall AnyChatCallSession_C
  | AMeeting AnyChatMeetingRoom_C
  | AVersionCheck AnyChatVersionCheckResult_C
  | AVersion AnyChatVersionInfo_C
  | AList c_list
  | ATotalList c_total_list
  | APagedList c_paged_list

text \<open>A call of one of them: the function, the \<open>userdata\<close> it was registered with, the other
  arguments, and the heap its pointers point into.\<close>

record c_invocation =
  iv_function :: addr
  iv_userdata :: addr
  iv_args :: "c_arg list"
  iv_memory :: heap

section \<open>Copying into an array\<close>

lemma length_strlcpy_loop [simp]: "length (strlcpy_loop dst src n i) = length dst"
proof (induction dst src n i rule: strlcpy_loop.induct)
  case (1 dst src n i)
  then show ?case by (subst strlcpy_loop.simps) simp
qed


lemma c_char_before: "i < length (c_str s) \<Longrightarrow> c_char s i = c_str s ! i \<and> c_char s i \<noteq> nul"
proof -
  assume i: "i < length (c_str s)"
  have len: "length (c_str s) \<le> length s" unfolding c_str_def by (rule length_takeWhile_le)
  have nth: "c_str s ! i = s ! i" using i unfolding c_str_def by (rule takeWhile_nth)
  have "c_str s ! i \<in> set (c_str s)" using i by (rule nth_mem)
  then have "c_str s ! i \<noteq> nul" unfolding c_str_def by (auto dest: set_takeWhileD)
  with nth i len show ?thesis by (simp add: c_char_def)
qed

lemma c_char_end: "c_char s (length (c_str s)) = nul"
proof (cases "length (c_str s) < length s")
  case True
  then have "s ! length (c_str s) = nul"
    using nth_length_takeWhile [of "\<lambda>c. c \<noteq> nul" s] unfolding c_str_def by simp
  then show ?thesis using True by (simp add: c_char_def)
qed (simp add: c_char_def)

lemma strlcpy_loop_result:
  assumes "k = min (n - 1) (length (c_str s))" and "i \<le> k" and "0 < n" and "n \<le> length d"
  shows "strlcpy_loop d s n i = take i d @ drop i (take k (c_str s)) @ nul # drop (Suc k) d"
  using assms(2,4)
proof (induction "k - i" arbitrary: i d)
  case 0
  then have i: "i = k" by simp
  have "\<not> (i < n - 1 \<and> c_char s i \<noteq> nul)" using i assms(1) c_char_end [of s] by (auto simp: min_def)
  then have "strlcpy_loop d s n i = d[i := nul]" by (subst strlcpy_loop.simps) (simp only: if_False)
  moreover have "i < length d" using i assms(1,3) 0 by (auto simp: min_def)
  ultimately show ?case using i by (simp add: upd_conv_take_nth_drop)
next
  case (Suc m)
  then have lt: "i < k" by simp
  then have in_str: "i < length (c_str s)" and n: "i < n - 1" using assms(1) by auto
  have len: "i < length d" using n Suc.prems by simp
  have step: "strlcpy_loop d s n i = strlcpy_loop (d[i := c_str s ! i]) s n (Suc i)"
    using n c_char_before [OF in_str] by (subst strlcpy_loop.simps) auto
  have "strlcpy_loop (d[i := c_str s ! i]) s n (Suc i)
      = take (Suc i) (d[i := c_str s ! i]) @ drop (Suc i) (take k (c_str s)) @ nul # drop (Suc k) (d[i := c_str s ! i])"
    by (rule Suc.hyps) (use Suc.hyps Suc.prems lt in auto)
  also have "take (Suc i) (d[i := c_str s ! i]) = take i d @ [c_str s ! i]"
    using len by (simp add: take_Suc_conv_app_nth)
  also have "drop (Suc k) (d[i := c_str s ! i]) = drop (Suc k) d" using lt by simp
  also have "(take i d @ [c_str s ! i]) @ drop (Suc i) (take k (c_str s)) @ nul # drop (Suc k) d
      = take i d @ drop i (take k (c_str s)) @ nul # drop (Suc k) d"
    using lt in_str by (simp add: Cons_nth_drop_Suc [symmetric])
  finally show ?case using step by simp
qed

lemma strlcpy_eq:
  assumes "0 < n" and "n \<le> length d"
  shows "strlcpy d s n = take (n - 1) (c_str s) @ nul # drop (Suc (length (take (n - 1) (c_str s)))) d"
proof -
  have "strlcpy d s n = strlcpy_loop d s n 0"
    using assms(1) by (simp add: strlcpy_def anychat_strlcpy_def)
  also have "\<dots> = take 0 d @ drop 0 (take (min (n - 1) (length (c_str s))) (c_str s))
      @ nul # drop (Suc (min (n - 1) (length (c_str s)))) d"
    by (rule strlcpy_loop_result) (use assms in auto)
  finally show ?thesis by (simp add: min_def split: if_splits)
qed

text \<open>Reading an array up to its first NUL.\<close>

lemma c_str_append_nul [simp]: "nul \<notin> set t \<Longrightarrow> c_str (t @ nul # u) = t"
  unfolding c_str_def by (induction t) auto

lemma nul_not_in_c_str [simp]: "nul \<notin> set (c_str s)"
  unfolding c_str_def by (auto dest: set_takeWhileD)

lemma c_str_strlcpy:
  assumes "0 < n" and "n \<le> length d"
  shows "c_str (strlcpy d s n) = take (n - 1) (c_str s)"
proof -
  have "nul \<notin> set (take (n - 1) (c_str s))" using nul_not_in_c_str in_set_takeD by fastforce
  then show ?thesis unfolding strlcpy_eq [OF assms] by (rule c_str_append_nul)
qed

lemma length_strlcpy [simp]: "length (strlcpy d s n) = length d"
  by (simp add: strlcpy_def anychat_strlcpy_def)

lemma length_chars [simp]: "length (chars n) = n"
  by (simp add: chars_def)

lemma c_str_chars_strlcpy [simp]: "c_str (strlcpy (chars (numeral k)) s (numeral k)) = take (numeral k - 1) (c_str s)"
  by (rule c_str_strlcpy) simp_all

text \<open>
  C37: Copying into an array of at least n > 0 characters always leaves a terminated string, the
  first n - 1 characters of the source up to its NUL, and writes nothing past the n-th character.
\<close>

theorem strlcpy_bounded:
  assumes "0 < n" and "n \<le> length d"
  shows "\<exists>d'. anychat_strlcpy (Some d) (Some s) n = Some d' \<and> length d' = length d \<and> nul \<in> set (take n d')
    \<and> c_str d' = take (n - 1) (c_str s) \<and> drop n d' = drop n d"
proof -
  let ?t = "take (n - 1) (c_str s)"
  have run: "anychat_strlcpy (Some d) (Some s) n = Some (strlcpy d s n)"
    using assms(1) by (simp add: strlcpy_def anychat_strlcpy_def)
  have len: "length ?t < n" using assms(1) by simp
  have eq: "strlcpy d s n = ?t @ nul # drop (Suc (length ?t)) d" by (rule strlcpy_eq [OF assms])
  have "nul \<in> set (take n (strlcpy d s n))"
    using len unfolding eq by (auto simp: take_Cons' min_def split: if_splits)
  moreover have "drop n (strlcpy d s n) = drop n d"
    using len unfolding eq by (auto simp: drop_Cons' min_def split: if_splits)
  ultimately show ?thesis using run c_str_strlcpy [OF assms, of s] by (intro exI [of _ "strlcpy d s n"]) simp
qed

theorem strlcpy_bounded_witness:
  "\<exists>d'. anychat_strlcpy (Some ''abcdefgh'') (Some ''hello'') 4 = Some d' \<and> length d' = length ''abcdefgh'' \<and> nul \<in> set (take 4 d')
    \<and> c_str d' = take 3 (c_str ''hello'') \<and> drop 4 d' = drop 4 ''abcdefgh''"
  using strlcpy_bounded [of 4 "''abcdefgh''" "''hello''"] by simp

end
