(* ===== verification/CConvert.thy ===== *)
theory CConvert
  imports CTypes
begin

text \<open>
  From the SDK's values to the structs of the C interface (the converters of
  core/src/c_api/*.cpp), the arrays that are allocated for lists, and the functions that
  release them (core/src/c_api/utils_c.cpp). The library \<open>malloc\<close> and \<open>calloc\<close> are taken to
  succeed. The second half shows that what is built is released completely.
\<close>

section \<open>Converters\<close>

definition tokenToCStruct :: "auth_token \<Rightarrow> AnyChatAuthToken_C \<Rightarrow> AnyChatAuthToken_C" where
  "tokenToCStruct src dst = dst\<lparr>Ctok_access_token := strlcpy (Ctok_access_token dst) (access_token src) 512,
     Ctok_refresh_token := strlcpy (Ctok_refresh_token dst) (refresh_token src) 512,
     Ctok_expires_at_ms := expires_at_ms src\<rparr>"

definition tokenToC :: "auth_token \<Rightarrow> AnyChatAuthToken_C \<Rightarrow> AnyChatAuthToken_C" where
  "tokenToC src dst = dst\<lparr>Ctok_access_token := strlcpy (Ctok_access_token dst) (access_token src) 512,
     Ctok_refresh_token := strlcpy (Ctok_refresh_token dst) (refresh_token src) 512,
     Ctok_expires_at_ms := expires_at_ms src\<rparr>"

definition verificationCodeToCStruct :: "verification_code_result \<Rightarrow> AnyChatVerificationCodeResult_C \<Rightarrow> AnyChatVerificationCodeResult_C" where
  "verificationCodeToCStruct src dst = dst\<lparr>Cvc_code_id := strlcpy (Cvc_code_id dst) (vc_code_id src) 128,
     Cvc_expires_in := vc_expires_in src\<rparr>"

definition authDeviceToCStruct :: "auth_device \<Rightarrow> AnyChatAuthDevice_C \<Rightarrow> AnyChatAuthDevice_C" where
  "authDeviceToCStruct src dst = dst\<lparr>Cad_device_id := strlcpy (Cad_device_id dst) (ad_device_id src) 128,
     Cad_device_type := ad_device_type src,
     Cad_client_version := strlcpy (Cad_client_version dst) (ad_client_version src) 64,
     Cad_last_login_ip := strlcpy (Cad_last_login_ip dst) (ad_last_login_ip src) 64,
     Cad_last_login_at_ms := ad_last_login_at_ms src,
     Cad_is_current := c_bool (ad_is_current src)\<rparr>"

definition userInfoToC :: "user_info \<Rightarrow> AnyChatUserInfo_C \<Rightarrow> AnyChatUserInfo_C" where
  "userInfoToC src dst = dst\<lparr>Cui_user_id := strlcpy (Cui_user_id dst) (ui_user_id src) 64,
     Cui_username := strlcpy (Cui_username dst) (ui_username src) 128,
     Cui_avatar_url := strlcpy (Cui_avatar_url dst) (ui_avatar_url src) 512,
     Cui_signature := strlcpy (Cui_signature dst) (ui_signature src) 256,
     Cui_gender := ui_gender src,
     Cui_region := strlcpy (Cui_region dst) (ui_region src) 64,
     Cui_is_friend := c_bool (ui_is_friend src),
     Cui_is_blocked := c_bool (ui_is_blocked src)\<rparr>"

definition messageReadReceiptToC :: "message_read_receipt_event \<Rightarrow> AnyChatMessageReadReceiptEvent_C \<Rightarrow> AnyChatMessageReadReceiptEvent_C" where
  "messageReadReceiptToC src dst = dst\<lparr>Crr_conversation_id := strlcpy (Crr_conversation_id dst) (rr_conversation_id src) 64,
     Crr_from_user_id := strlcpy (Crr_from_user_id dst) (rr_from_user_id src) 64,
     Crr_message_id := strlcpy (Crr_message_id dst) (rr_message_id src) 64,
     Crr_last_read_message_id := strlcpy (Crr_last_read_message_id dst) (rr_last_read_message_id src) 64,
     Crr_last_read_seq := rr_last_read_seq src,
     Crr_read_at_ms := rr_read_at_ms src\<rparr>"

definition typingToCStruct :: "message_typing_event \<Rightarrow> AnyChatMessageTypingEvent_C \<Rightarrow> AnyChatMessageTypingEvent_C" where
  "typingToCStruct src dst = dst\<lparr>Cty_conversation_id := strlcpy (Cty_conversation_id dst) (ty_conversation_id src) 64,
     Cty_from_user_id := strlcpy (Cty_from_user_id dst) (ty_from_user_id src) 64,
     Cty_device_id := strlcpy (Cty_device_id dst) (ty_device_id src) 64,
     Cty_typing := c_bool (ty_typing src),
     Cty_expire_at_ms := ty_expire_at_ms src\<rparr>"

definition convToCStruct :: "conversation \<Rightarrow> AnyChatConversation_C \<Rightarrow> AnyChatConversation_C" where
  "convToCStruct src dst = dst\<lparr>Cc_conv_id := strlcpy (Cc_conv_id dst) (c_conv_id src) 64,
     Cc_target_id := strlcpy (Cc_target_id dst) (c_target_id src) 64,
     Cc_last_msg_id := strlcpy (Cc_last_msg_id dst) (c_last_msg_id src) 64,
     Cc_last_msg_text := strlcpy (Cc_last_msg_text dst) (c_last_msg_text src) 512,
     Cc_conv_type := (if c_conv_type src = Private then ANYCHAT_CONV_PRIVATE else ANYCHAT_CONV_GROUP),
     Cc_last_msg_time_ms := c_last_msg_time_ms src,
     Cc_unread_count := c_unread_count src,
     Cc_is_pinned := c_bool (c_is_pinned src),
     Cc_is_muted := c_bool (c_is_muted src),
     Cc_burn_after_reading := c_burn_after_reading src,
     Cc_auto_delete_duration := c_auto_delete_duration src,
     Cc_updated_at_ms := c_updated_at_ms src\<rparr>"

definition readReceiptToCStruct :: "conversation_read_receipt \<Rightarrow> AnyChatConversationReadReceipt_C \<Rightarrow> AnyChatConversationReadReceipt_C" where
  "readReceiptToCStruct src dst = dst\<lparr>Ccr_user_id := strlcpy (Ccr_user_id dst) (cr_user_id src) 64,
     Ccr_last_read_seq := cr_last_read_seq src,
     Ccr_last_read_message_id := strlcpy (Ccr_last_read_message_id dst) (cr_last_read_message_id src) 64,
     Ccr_read_at_ms := cr_read_at_ms src\<rparr>"

definition friendToC :: "friend_info \<Rightarrow> AnyChatFriend_C \<Rightarrow> AnyChatFriend_C" where
  "friendToC src dst = dst\<lparr>Cf_user_id := strlcpy (Cf_user_id dst) (f_user_id src) 64,
     Cf_remark := strlcpy (Cf_remark dst) (f_remark src) 128,
     Cf_updated_at_ms := f_updated_at_ms src,
     Cf_is_deleted := c_bool (f_is_deleted src),
     Cf_user_info := userInfoToC (f_user_info src) (Cf_user_info dst)\<rparr>"

definition friendRequestToC :: "friend_request \<Rightarrow> AnyChatFriendRequest_C \<Rightarrow> AnyChatFriendRequest_C" where
  "friendRequestToC src dst = dst\<lparr>Cfr_request_id := fr_request_id src,
     Cfr_from_user_id := strlcpy (Cfr_from_user_id dst) (fr_from_user_id src) 64,
     Cfr_to_user_id := strlcpy (Cfr_to_user_id dst) (fr_to_user_id src) 64,
     Cfr_message := strlcpy (Cfr_message dst) (fr_message src) 256,
     Cfr_source := fr_source src,
     Cfr_status := fr_status src,
     Cfr_created_at_ms := fr_created_at_ms src,
     Cfr_from_user_info := userInfoToC (fr_from_user_info src) (Cfr_from_user_info dst)\<rparr>"

definition blacklistItemToC :: "blacklist_item \<Rightarrow> AnyChatBlacklistItem_C \<Rightarrow> AnyChatBlacklistItem_C" where
  "blacklistItemToC src dst = dst\<lparr>Cbl_id := bl_id src,
     Cbl_user_id := strlcpy (Cbl_user_id dst) (bl_user_id src) 64,
     Cbl_blocked_user_id := strlcpy (Cbl_blocked_user_id dst) (bl_blocked_user_id src) 64,
     Cbl_created_at_ms := bl_created_at_ms src,
     Cbl_blocked_user_info := userInfoToC (bl_blocked_user_info src) (Cbl_blocked_user_info dst)\<rparr>"

definition groupToC :: "group_info \<Rightarrow> AnyChatGroup_C \<Rightarrow> AnyChatGroup_C" where
  "groupToC src dst = dst\<lparr>Cg_group_id := strlcpy (Cg_group_id dst) (g_group_id src) 64,
     Cg_name := strlcpy (Cg_name dst) (g_name src) 128,
     Cg_avatar_url := strlcpy (Cg_avatar_url dst) (g_avatar_url src) 512,
     Cg_owner_id := strlcpy (Cg_owner_id dst) (g_owner_id src) 64,
     Cg_member_count := g_member_count src,
     Cg_my_role := role_code (g_my_role src),
     Cg_join_verify := c_bool (g_join_verify src),
     Cg_updated_at_ms := g_updated_at_ms src,
     Cg_display_name := strlcpy (Cg_display_name dst) (g_display_name src) 128,
     Cg_announcement := strlcpy (Cg_announcement dst) (g_announcement src) 512,
     Cg_description := strlcpy (Cg_description dst) (g_description src) 512,
     Cg_group_remark := strlcpy (Cg_group_remark dst) (g_group_remark src) 64,
     Cg_max_members := g_max_members src,
     Cg_is_muted := c_bool (g_is_muted src),
     Cg_created_at_ms := g_created_at_ms src\<rparr>"

definition memberToC :: "group_member \<Rightarrow> AnyChatGroupMember_C \<Rightarrow> AnyChatGroupMember_C" where
  "memberToC src dst = dst\<lparr>Cgmb_user_id := strlcpy (Cgmb_user_id dst) (gmb_user_id src) 64,
     Cgmb_group_nickname := strlcpy (Cgmb_group_nickname dst) (gmb_group_nickname src) 128,
     Cgmb_role := role_code (gmb_role src),
     Cgmb_is_muted := c_bool (gmb_is_muted src),
     Cgmb_muted_until_ms := gmb_muted_until_ms src,
     Cgmb_joined_at_ms := gmb_joined_at_ms src,
     Cgmb_user_info := userInfoToC (gmb_user_info src) (Cgmb_user_info dst)\<rparr>"

definition joinRequestToC :: "group_join_request \<Rightarrow> AnyChatGroupJoinRequest_C \<Rightarrow> AnyChatGroupJoinRequest_C" where
  "joinRequestToC src dst = dst\<lparr>Cgj_request_id := gj_request_id src,
     Cgj_group_id := strlcpy (Cgj_group_id dst) (gj_group_id src) 64,
     Cgj_user_id := strlcpy (Cgj_user_id dst) (gj_user_id src) 64,
     Cgj_inviter_id := strlcpy (Cgj_inviter_id dst) (gj_inviter_id src) 64,
     Cgj_message := strlcpy (Cgj_message dst) (gj_message src) 256,
     Cgj_status := gj_status src,
     Cgj_created_at_ms := gj_created_at_ms src,
     Cgj_user_info := userInfoToC (gj_user_info src) (Cgj_user_info dst)\<rparr>"

definition qrcodeToC :: "group_qrcode \<Rightarrow> AnyChatGroupQRCode_C \<Rightarrow> AnyChatGroupQRCode_C" where
  "qrcodeToC src dst = dst\<lparr>Cgq_group_id := strlcpy (Cgq_group_id dst) (gq_group_id src) 64,
     Cgq_token := strlcpy (Cgq_token dst) (gq_token src) 128,
     Cgq_deep_link := strlcpy (Cgq_deep_link dst) (gq_deep_link src) 512,
     Cgq_expire_at_ms := gq_expire_at_ms src\<rparr>"

definition fileInfoToC :: "file_info \<Rightarrow> AnyChatFileInfo_C \<Rightarrow> AnyChatFileInfo_C" where
  "fileInfoToC src dst = dst\<lparr>Cfi_file_id := strlcpy (Cfi_file_id dst) (fi_file_id src) 64,
     Cfi_file_name := strlcpy (Cfi_file_name dst) (fi_file_name src) 256,
     Cfi_file_type := fi_file_type src,
     Cfi_mime_type := strlcpy (Cfi_mime_type dst) (fi_mime_type src) 128,
     Cfi_download_url := strlcpy (Cfi_download_url dst) (fi_download_url src) 1024,
     Cfi_file_size_bytes := fi_file_size_bytes src,
     Cfi_created_at_ms := fi_created_at_ms src\<rparr>"

definition profileToC :: "user_profile \<Rightarrow> AnyChatUserProfile_C \<Rightarrow> AnyChatUserProfile_C" where
  "profileToC src dst = dst\<lparr>Cup_user_id := strlcpy (Cup_user_id dst) (up_user_id src) 64,
     Cup_nickname := strlcpy (Cup_nickname dst) (up_nickname src) 128,
     Cup_avatar_url := strlcpy (Cup_avatar_url dst) (up_avatar_url src) 512,
     Cup_phone := strlcpy (Cup_phone dst) (up_phone src) 32,
     Cup_email := strlcpy (Cup_email dst) (up_email src) 128,
     Cup_signature := strlcpy (Cup_signature dst) (up_signature src) 256,
     Cup_region := strlcpy (Cup_region dst) (up_region src) 64,
     Cup_gender := up_gender src,
     Cup_birthday_ms := up_birthday_ms src,
     Cup_qrcode_url := strlcpy (Cup_qrcode_url dst) (up_qrcode_url src) 512,
     Cup_created_at_ms := up_created_at_ms src\<rparr>"

definition settingsToC :: "user_settings \<Rightarrow> AnyChatUserSettings_C \<Rightarrow> AnyChatUserSettings_C" where
  "settingsToC src dst = dst\<lparr>Cst_user_id := strlcpy (Cst_user_id dst) (st_user_id src) 64,
     Cst_notification_enabled := c_bool (st_notification_enabled src),
     Cst_sound_enabled := c_bool (st_sound_enabled src),
     Cst_vibration_enabled := c_bool (st_vibration_enabled src),
     Cst_message_preview_enabled := c_bool (st_message_preview_enabled src),
     Cst_friend_verify_required := c_bool (st_friend_verify_required src),
     Cst_search_by_phone := c_bool (st_search_by_phone src),
     Cst_search_by_id := c_bool (st_search_by_id src),
     Cst_language := strlcpy (Cst_language dst) (st_language src) 16\<rparr>"

definition userQrcodeToC :: "user_qrcode \<Rightarrow> AnyChatUserQRCode_C \<Rightarrow> AnyChatUserQRCode_C" where
  "userQrcodeToC src dst = dst\<lparr>Cuq_qrcode_url := strlcpy (Cuq_qrcode_url dst) (uq_qrcode_url src) 512,
     Cuq_expires_at_ms := uq_expires_at_ms src\<rparr>"

definition bindPhoneToC :: "bind_phone_result \<Rightarrow> AnyChatBindPhoneResult_C \<Rightarrow> AnyChatBindPhoneResult_C" where
  "bindPhoneToC src dst = dst\<lparr>Cbpr_phone_number := strlcpy (Cbpr_phone_number dst) (bpr_phone_number src) 32,
     Cbpr_is_primary := c_bool (bpr_is_primary src)\<rparr>"

definition changePhoneToC :: "change_phone_result \<Rightarrow> AnyChatChangePhoneResult_C \<Rightarrow> AnyChatChangePhoneResult_C" where
  "changePhoneToC src dst = dst\<lparr>Ccpr_old_phone_number := strlcpy (Ccpr_old_phone_number dst) (cpr_old_phone_number src) 32,
     Ccpr_new_phone_number := strlcpy (Ccpr_new_phone_number dst) (cpr_new_phone_number src) 32\<rparr>"

definition bindEmailToC :: "bind_email_result \<Rightarrow> AnyChatBindEmailResult_C \<Rightarrow> AnyChatBindEmailResult_C" where
  "bindEmailToC src dst = dst\<lparr>Cber_email := strlcpy (Cber_email dst) (ber_email src) 128,
     Cber_is_primary := c_bool (ber_is_primary src)\<rparr>"

definition changeEmailToC :: "change_email_result \<Rightarrow> AnyChatChangeEmailResult_C \<Rightarrow> AnyChatChangeEmailResult_C" where
  "changeEmailToC src dst = dst\<lparr>Ccer_old_email := strlcpy (Ccer_old_email dst) (cer_old_email src) 128,
     Ccer_new_email := strlcpy (Ccer_new_email dst) (cer_new_email src) 128\<rparr>"

definition statusEventToC :: "user_status_event \<Rightarrow> AnyChatUserStatusEvent_C \<Rightarrow> AnyChatUserStatusEvent_C" where
  "statusEventToC src dst = dst\<lparr>Cuse_user_id := strlcpy (Cuse_user_id dst) (use_user_id src) 64,
     Cuse_status := use_status src,
     Cuse_last_active_at_ms := use_last_active_at_ms src,
     Cuse_platform := use_platform src\<rparr>"

definition callSessionToC :: "call_session \<Rightarrow> AnyChatCallSession_C \<Rightarrow> AnyChatCallSession_C" where
  "callSessionToC src dst = dst\<lparr>Ccs_call_id := strlcpy (Ccs_call_id dst) (cs_call_id src) 64,
     Ccs_caller_id := strlcpy (Ccs_caller_id dst) (cs_caller_id src) 64,
     Ccs_callee_id := strlcpy (Ccs_callee_id dst) (cs_callee_id src) 64,
     Ccs_room_name := strlcpy (Ccs_room_name dst) (cs_room_name src) 128,
     Ccs_token := strlcpy (Ccs_token dst) (cs_token src) 512,
     Ccs_call_type := call_type_code (cs_call_type src),
     Ccs_status := call_status_code (cs_status src),
     Ccs_started_at := cs_started_at src,
     Ccs_connected_at := cs_connected_at src,
     Ccs_ended_at := cs_ended_at src,
     Ccs_duration := cs_duration src\<rparr>"

definition meetingRoomToC :: "meeting_room \<Rightarrow> AnyChatMeetingRoom_C \<Rightarrow> AnyChatMeetingRoom_C" where
  "meetingRoomToC src dst = dst\<lparr>Cmr_room_id := strlcpy (Cmr_room_id dst) (mr_room_id src) 64,
     Cmr_creator_id := strlcpy (Cmr_creator_id dst) (mr_creator_id src) 64,
     Cmr_title := strlcpy (Cmr_title dst) (mr_title src) 128,
     Cmr_room_name := strlcpy (Cmr_room_name dst) (mr_room_name src) 128,
     Cmr_token := strlcpy (Cmr_token dst) (mr_token src) 512,
     Cmr_has_password := c_bool (mr_has_password src),
     Cmr_max_participants := mr_max_participants src,
     Cmr_is_active := c_bool (mr_is_active src),
     Cmr_started_at := mr_started_at src,
     Cmr_created_at_ms := mr_created_at_ms src\<rparr>"

definition updateInfoToC :: "version_update_info \<Rightarrow> AnyChatVersionUpdateInfo_C \<Rightarrow> AnyChatVersionUpdateInfo_C" where
  "updateInfoToC src dst = dst\<lparr>Cvu_title := strlcpy (Cvu_title dst) (vu_title src) 128,
     Cvu_content := strlcpy (Cvu_content dst) (vu_content src) 2048,
     Cvu_download_url := strlcpy (Cvu_download_url dst) (vu_download_url src) 1024,
     Cvu_file_size := vu_file_size src,
     Cvu_file_hash := strlcpy (Cvu_file_hash dst) (vu_file_hash src) 128\<rparr>"

definition checkResultToC :: "version_check_result \<Rightarrow> AnyChatVersionCheckResult_C \<Rightarrow> AnyChatVersionCheckResult_C" where
  "checkResultToC src dst = dst\<lparr>Cvcr_has_update := c_bool (vcr_has_update src),
     Cvcr_latest_version := strlcpy (Cvcr_latest_version dst) (vcr_latest_version src) 64,
     Cvcr_latest_build_number := vcr_latest_build_number src,
     Cvcr_force_update := c_bool (vcr_force_update src),
     Cvcr_min_version := strlcpy (Cvcr_min_version dst) (vcr_min_version src) 64,
     Cvcr_min_build_number := vcr_min_build_number src,
     Cvcr_update_info := updateInfoToC (vcr_update_info src) (Cvcr_update_info dst)\<rparr>"

definition versionInfoToC :: "app_version_info \<Rightarrow> AnyChatVersionInfo_C \<Rightarrow> AnyChatVersionInfo_C" where
  "versionInfoToC src dst = dst\<lparr>Cav_id := av_id src,
     Cav_platform := av_platform src,
     Cav_version := strlcpy (Cav_version dst) (av_version src) 64,
     Cav_build_number := av_build_number src,
     Cav_version_code := av_version_code src,
     Cav_min_version := strlcpy (Cav_min_version dst) (av_min_version src) 64,
     Cav_min_build_number := av_min_build_number src,
     Cav_force_update := c_bool (av_force_update src),
     Cav_release_type := av_release_type src,
     Cav_title := strlcpy (Cav_title dst) (av_title src) 128,
     Cav_content := strlcpy (Cav_content dst) (av_content src) 2048,
     Cav_download_url := strlcpy (Cav_download_url dst) (av_download_url src) 1024,
     Cav_file_size := av_file_size src,
     Cav_file_hash := strlcpy (Cav_file_hash dst) (av_file_hash src) 128,
     Cav_published_at_ms := av_published_at_ms src\<rparr>"

text \<open>The way back, for the two structs the application fills in. Assigning an array to a string
  reads up to the first NUL. \<open>created_at_ms\<close> keeps its default.\<close>

definition profileFromC :: "AnyChatUserProfile_C \<Rightarrow> user_profile" where
  "profileFromC src = \<lparr>up_user_id = c_str (Cup_user_id src), up_nickname = c_str (Cup_nickname src),
     up_avatar_url = c_str (Cup_avatar_url src), up_phone = c_str (Cup_phone src), up_email = c_str (Cup_email src),
     up_signature = c_str (Cup_signature src), up_region = c_str (Cup_region src), up_gender = Cup_gender src,
     up_birthday_ms = Cup_birthday_ms src, up_qrcode_url = c_str (Cup_qrcode_url src), up_created_at_ms = 0\<rparr>"

definition settingsFromC :: "AnyChatUserSettings_C \<Rightarrow> user_settings" where
  "settingsFromC src = \<lparr>st_user_id = c_str (Cst_user_id src),
     st_notification_enabled = (Cst_notification_enabled src \<noteq> 0), st_sound_enabled = (Cst_sound_enabled src \<noteq> 0),
     st_vibration_enabled = (Cst_vibration_enabled src \<noteq> 0),
     st_message_preview_enabled = (Cst_message_preview_enabled src \<noteq> 0),
     st_friend_verify_required = (Cst_friend_verify_required src \<noteq> 0),
     st_search_by_phone = (Cst_search_by_phone src \<noteq> 0), st_search_by_id = (Cst_search_by_id src \<noteq> 0),
     st_language = c_str (Cst_language src)\<rparr>"

definition callTypeFromC :: "int \<Rightarrow> call_type" where
  "callTypeFromC t = (if t = ANYCHAT_CALL_VIDEO then Video else Audio)"

definition unreadStateToC :: "conversation_unread_state \<Rightarrow> AnyChatConversationUnreadState_C \<Rightarrow> AnyChatConversationUnreadState_C" where
  "unreadStateToC src dst = dst\<lparr>Cus_unread_count := us_unread_count src, Cus_last_message_seq := us_last_message_seq src\<rparr>"

definition readMemberToC :: "group_message_read_member \<Rightarrow> AnyChatGroupMessageReadMember_C \<Rightarrow> AnyChatGroupMessageReadMember_C" where
  "readMemberToC src dst = dst\<lparr>Cgm_user_id := strlcpy (Cgm_user_id dst) (gm_user_id src) 64,
     Cgm_nickname := strlcpy (Cgm_nickname dst) (gm_nickname src) 128, Cgm_read_at_ms := gm_read_at_ms src\<rparr>"

section \<open>Messages: the content is a block of its own\<close>

definition messageToCStruct :: "message \<Rightarrow> AnyChatMessage_C \<Rightarrow> heap \<Rightarrow> AnyChatMessage_C \<times> heap" where
  "messageToCStruct src dst h = (let (content, h1) = anychat_strdup (Some (m_content src)) h
     in (dst\<lparr>Cm_message_id := strlcpy (Cm_message_id dst) (m_message_id src) 64,
          Cm_local_id := strlcpy (Cm_local_id dst) (m_local_id src) 64,
          Cm_conv_id := strlcpy (Cm_conv_id dst) (m_conv_id src) 64,
          Cm_sender_id := strlcpy (Cm_sender_id dst) (m_sender_id src) 64,
          Cm_content_type := m_content_type src,
          Cm_reply_to := strlcpy (Cm_reply_to dst) (m_reply_to src) 64,
          Cm_type := message_type_code (m_type src),
          Cm_seq := m_seq src,
          Cm_timestamp_ms := m_timestamp_ms src,
          Cm_status := m_status src,
          Cm_send_state := m_send_state src,
          Cm_is_read := c_bool (m_is_read src),
          Cm_content := content\<rparr>, h1))"

fun convert_messages :: "message list \<Rightarrow> heap \<Rightarrow> AnyChatMessage_C list \<times> heap" where
  "convert_messages [] h = ([], h)"
| "convert_messages (m # ms) h =
     (let (c, h1) = messageToCStruct m zero_Message h; (cs, h2) = convert_messages ms h1 in (c # cs, h2))"

definition fillMessageArray :: "message list \<Rightarrow> heap \<Rightarrow> (addr \<times> int) \<times> heap" where
  "fillMessageArray messages h =
     (if messages = [] then ((nullptr, 0), h)
      else let (items, h1) = malloc (Messages (replicate (length messages) zero_Message)) h;
               (cs, h2) = convert_messages messages h1
           in ((items, int (length messages)), store items (Messages cs) h2))"

definition messageListToC :: "message list \<Rightarrow> heap \<Rightarrow> AnyChatMessageList_C \<times> heap" where
  "messageListToC msgs h = (let (a, h1) = fillMessageArray msgs h in (\<lparr>Li_items = fst a, Li_count = snd a\<rparr>, h1))"

definition offlineResultToC :: "message_offline_result \<Rightarrow> heap \<Rightarrow> AnyChatOfflineMessageResult_C \<times> heap" where
  "offlineResultToC result h = (let (a, h1) = fillMessageArray (mo_messages result) h
     in (\<lparr>Cmo_items = fst a, Cmo_count = snd a, Cmo_has_more = c_bool (mo_has_more result), Cmo_next_seq = mo_next_seq result\<rparr>, h1))"

definition searchResultToC :: "message_search_result \<Rightarrow> heap \<Rightarrow> AnyChatMessageSearchResult_C \<times> heap" where
  "searchResultToC result h = (let (a, h1) = fillMessageArray (ms_messages result) h
     in (\<lparr>Cms_items = fst a, Cms_count = snd a, Cms_total = ms_total result\<rparr>, h1))"

section \<open>Arrays of structs without pointers\<close>

text \<open>\<open>count > 0 ? calloc(...) : nullptr\<close>, then one conversion for every element.\<close>

definition fill_array :: "('c list \<Rightarrow> c_cell) \<Rightarrow> ('v \<Rightarrow> 'c \<Rightarrow> 'c) \<Rightarrow> 'c \<Rightarrow> 'v list \<Rightarrow> heap \<Rightarrow> (addr \<times> int) \<times> heap" where
  "fill_array cell convert zero xs h =
     (if xs = [] then ((nullptr, 0), h)
      else let (items, h1) = malloc (cell (replicate (length xs) zero)) h
           in ((items, int (length xs)), store items (cell (map (\<lambda>x. convert x zero) xs)) h1))"

definition list_struct :: "('v list \<Rightarrow> heap \<Rightarrow> (addr \<times> int) \<times> heap) \<Rightarrow> 'v list \<Rightarrow> heap \<Rightarrow> c_list \<times> heap" where
  "list_struct fill xs h = (let (a, h1) = fill xs h in (\<lparr>Li_items = fst a, Li_count = snd a\<rparr>, h1))"

definition total_struct :: "('v list \<Rightarrow> heap \<Rightarrow> (addr \<times> int) \<times> heap) \<Rightarrow> 'v list \<Rightarrow> int \<Rightarrow> heap \<Rightarrow> c_total_list \<times> heap" where
  "total_struct fill xs tot h = (let (a, h1) = fill xs h in (\<lparr>Lt_items = fst a, Lt_count = snd a, Lt_total = tot\<rparr>, h1))"

definition paged_struct :: "('v list \<Rightarrow> heap \<Rightarrow> (addr \<times> int) \<times> heap) \<Rightarrow> 'v list \<Rightarrow> int \<Rightarrow> int \<Rightarrow> int \<Rightarrow> heap
   \<Rightarrow> c_paged_list \<times> heap" where
  "paged_struct fill xs tot page page_size h = (let (a, h1) = fill xs h
     in (\<lparr>Lp_items = fst a, Lp_count = snd a, Lp_total = tot, Lp_page = page, Lp_page_size = page_size\<rparr>, h1))"

definition groupReadStateToCStruct :: "group_message_read_state \<Rightarrow> heap \<Rightarrow> AnyChatGroupMessageReadState_C \<times> heap" where
  "groupReadStateToCStruct src h =
     (let (a, h1) = fill_array ReadMembers readMemberToC zero_GroupMessageReadMember (gs_read_members src) h
      in (\<lparr>Cgs_items = fst a, Cgs_count = snd a, Cgs_read_count = gs_read_count src, Cgs_unread_count = gs_unread_count src\<rparr>, h1))"

section \<open>Arrays of strings\<close>

fun duplicate_strings :: "string list \<Rightarrow> heap \<Rightarrow> addr list \<times> heap" where
  "duplicate_strings [] h = ([], h)"
| "duplicate_strings (s # ss) h =
     (let (a, h1) = anychat_strdup (Some s) h; (as, h2) = duplicate_strings ss h1 in (a # as, h2))"

definition string_array :: "string list \<Rightarrow> heap \<Rightarrow> (addr \<times> int) \<times> heap" where
  "string_array ss h =
     (if ss = [] then ((nullptr, 0), h)
      else let (items, h1) = malloc (Pointers (replicate (length ss) nullptr)) h;
               (as, h2) = duplicate_strings ss h1
           in ((items, int (length ss)), store items (Pointers as) h2))"

definition markReadResultToCStruct :: "conversation_mark_read_result \<Rightarrow> heap \<Rightarrow> AnyChatConversationMarkReadResult_C \<times> heap" where
  "markReadResultToCStruct src h =
     (let (acc, h1) = string_array (mk_accepted_ids src) h; (ign, h2) = string_array (mk_ignored_ids src) h1
      in (\<lparr>Cmk_accepted_ids = fst acc, Cmk_accepted_count = snd acc, Cmk_ignored_ids = fst ign, Cmk_ignored_count = snd ign,
           Cmk_advanced_last_read_seq = mk_advanced_last_read_seq src\<rparr>, h2))"

section \<open>Releasing\<close>

fun mfree_all :: "addr list \<Rightarrow> heap \<Rightarrow> heap option" where
  "mfree_all [] h = Some h"
| "mfree_all (a # as) h = (case mfree a h of None \<Rightarrow> None | Some h1 \<Rightarrow> mfree_all as h1)"

text \<open>\<open>for (i = 0; i < count; ++i) std::free(items[i].content);\<close> and the array itself. Reading
  past the array, or through a pointer that is none, is undefined.\<close>

definition free_messages :: "addr \<Rightarrow> int \<Rightarrow> heap \<Rightarrow> heap option" where
  "free_messages items n h =
     (if n \<le> 0 then mfree items h
      else case load h items of
          Some (Messages cs) \<Rightarrow>
            if nat n \<le> length cs
            then (case mfree_all (map Cm_content (take (nat n) cs)) h of None \<Rightarrow> None | Some h1 \<Rightarrow> mfree items h1)
            else None
        | _ \<Rightarrow> None)"

definition free_strings :: "addr \<Rightarrow> int \<Rightarrow> heap \<Rightarrow> heap option" where
  "free_strings items n h =
     (if n \<le> 0 then mfree items h
      else case load h items of
          Some (Pointers ps) \<Rightarrow>
            if nat n \<le> length ps
            then (case mfree_all (take (nat n) ps) h of None \<Rightarrow> None | Some h1 \<Rightarrow> mfree items h1)
            else None
        | _ \<Rightarrow> None)"

text \<open>The functions of the interface: the struct behind a pointer (None is null) and the heap,
  before and after.\<close>

type_synonym 's release = "'s option \<Rightarrow> heap \<Rightarrow> ('s option \<times> heap) option"

definition releasing :: "('s \<Rightarrow> heap \<Rightarrow> heap option) \<Rightarrow> ('s \<Rightarrow> 's) \<Rightarrow> 's release" where
  "releasing free_parts reset p h = (case p of
     None \<Rightarrow> Some (None, h)
   | Some s \<Rightarrow> (case free_parts s h of None \<Rightarrow> None | Some h1 \<Rightarrow> Some (Some (reset s), h1)))"

definition anychat_free_string :: "addr \<Rightarrow> heap \<Rightarrow> heap option" where
  "anychat_free_string str h = mfree str h"

definition anychat_free_message :: "AnyChatMessage_C release" where
  "anychat_free_message = releasing (\<lambda>m. mfree (Cm_content m)) (\<lambda>m. m\<lparr>Cm_content := nullptr\<rparr>)"

definition anychat_free_message_list :: "AnyChatMessageList_C release" where
  "anychat_free_message_list = releasing (\<lambda>l. free_messages (Li_items l) (Li_count l)) (\<lambda>l. l\<lparr>Li_items := nullptr, Li_count := 0\<rparr>)"

definition anychat_free_offline_message_result :: "AnyChatOfflineMessageResult_C release" where
  "anychat_free_offline_message_result = releasing (\<lambda>r. free_messages (Cmo_items r) (Cmo_count r))
     (\<lambda>r. r\<lparr>Cmo_items := nullptr, Cmo_count := 0, Cmo_has_more := 0, Cmo_next_seq := 0\<rparr>)"

definition anychat_free_message_search_result :: "AnyChatMessageSearchResult_C release" where
  "anychat_free_message_search_result = releasing (\<lambda>r. free_messages (Cms_items r) (Cms_count r))
     (\<lambda>r. r\<lparr>Cms_items := nullptr, Cms_count := 0, Cms_total := 0\<rparr>)"

definition anychat_free_group_message_read_state :: "AnyChatGroupMessageReadState_C release" where
  "anychat_free_group_message_read_state = releasing (\<lambda>s. mfree (Cgs_items s))
     (\<lambda>s. s\<lparr>Cgs_items := nullptr, Cgs_count := 0, Cgs_read_count := 0, Cgs_unread_count := 0\<rparr>)"

definition anychat_free_conversation_mark_read_result :: "AnyChatConversationMarkReadResult_C release" where
  "anychat_free_conversation_mark_read_result = releasing
     (\<lambda>r h. case free_strings (Cmk_accepted_ids r) (Cmk_accepted_count r) h of
          None \<Rightarrow> None
        | Some h1 \<Rightarrow> free_strings (Cmk_ignored_ids r) (Cmk_ignored_count r) h1)
     (\<lambda>r. r\<lparr>Cmk_accepted_ids := nullptr, Cmk_accepted_count := 0, Cmk_ignored_ids := nullptr, Cmk_ignored_count := 0,
           Cmk_advanced_last_read_seq := 0\<rparr>)"

definition anychat_free_conversation_list :: "AnyChatConversationList_C release" where
  "anychat_free_conversation_list = releasing (\<lambda>l. mfree (Li_items l)) (\<lambda>l. l\<lparr>Li_items := nullptr, Li_count := 0\<rparr>)"

definition anychat_free_conversation_read_receipt_list :: "AnyChatConversationReadReceiptList_C release" where
  "anychat_free_conversation_read_receipt_list = releasing (\<lambda>l. mfree (Li_items l)) (\<lambda>l. l\<lparr>Li_items := nullptr, Li_count := 0\<rparr>)"

definition anychat_free_friend_list :: "AnyChatFriendList_C release" where
  "anychat_free_friend_list = releasing (\<lambda>l. mfree (Li_items l)) (\<lambda>l. l\<lparr>Li_items := nullptr, Li_count := 0\<rparr>)"

definition anychat_free_friend_request_list :: "AnyChatFriendRequestList_C release" where
  "anychat_free_friend_request_list = releasing (\<lambda>l. mfree (Li_items l)) (\<lambda>l. l\<lparr>Li_items := nullptr, Li_count := 0\<rparr>)"

definition anychat_free_blacklist_list :: "AnyChatBlacklistList_C release" where
  "anychat_free_blacklist_list = releasing (\<lambda>l. mfree (Li_items l)) (\<lambda>l. l\<lparr>Li_items := nullptr, Li_count := 0\<rparr>)"

definition anychat_free_group_list :: "AnyChatGroupList_C release" where
  "anychat_free_group_list = releasing (\<lambda>l. mfree (Li_items l)) (\<lambda>l. l\<lparr>Li_items := nullptr, Li_count := 0\<rparr>)"

definition anychat_free_group_member_list :: "AnyChatGroupMemberList_C release" where
  "anychat_free_group_member_list = releasing (\<lambda>l. mfree (Li_items l)) (\<lambda>l. l\<lparr>Li_items := nullptr, Li_count := 0\<rparr>)"

definition anychat_free_group_join_request_list :: "AnyChatGroupJoinRequestList_C release" where
  "anychat_free_group_join_request_list = releasing (\<lambda>l. mfree (Li_items l)) (\<lambda>l. l\<lparr>Li_items := nullptr, Li_count := 0\<rparr>)"

definition anychat_free_auth_device_list :: "AnyChatAuthDeviceList_C release" where
  "anychat_free_auth_device_list = releasing (\<lambda>l. mfree (Li_items l)) (\<lambda>l. l\<lparr>Li_items := nullptr, Li_count := 0\<rparr>)"

definition anychat_free_user_list :: "AnyChatUserList_C release" where
  "anychat_free_user_list = releasing (\<lambda>l. mfree (Lt_items l)) (\<lambda>l. l\<lparr>Lt_items := nullptr, Lt_count := 0\<rparr>)"

definition anychat_free_call_list :: "AnyChatCallList_C release" where
  "anychat_free_call_list = releasing (\<lambda>l. mfree (Lt_items l)) (\<lambda>l. l\<lparr>Lt_items := nullptr, Lt_count := 0\<rparr>)"

definition anychat_free_meeting_list :: "AnyChatMeetingList_C release" where
  "anychat_free_meeting_list = releasing (\<lambda>l. mfree (Lt_items l)) (\<lambda>l. l\<lparr>Lt_items := nullptr, Lt_count := 0\<rparr>)"

definition anychat_free_file_list :: "AnyChatFileList_C release" where
  "anychat_free_file_list = releasing (\<lambda>l. mfree (Lp_items l))
     (\<lambda>l. l\<lparr>Lp_items := nullptr, Lp_count := 0, Lp_total := 0, Lp_page := 0, Lp_page_size := 0\<rparr>)"

definition anychat_free_version_list :: "AnyChatVersionList_C release" where
  "anychat_free_version_list = releasing (\<lambda>l. mfree (Lp_items l))
     (\<lambda>l. l\<lparr>Lp_items := nullptr, Lp_count := 0, Lp_total := 0, Lp_page := 0, Lp_page_size := 0\<rparr>)"

section \<open>What is built is released\<close>

lemma addr_le_max: "a \<in> set as \<Longrightarrow> a \<le> fold max as (b :: nat)"
proof (induction as arbitrary: b)
  case (Cons x xs)
  have "c \<le> fold max ys c" for ys and c :: nat
    by (induction ys arbitrary: c) (auto intro: order_trans [OF max.cobounded2])
  with Cons show ?case by (auto intro: order_trans [OF max.cobounded1])
qed simp

lemma fresh_addr_new [simp]: "fresh_addr h \<notin> fst ` set h" "fresh_addr h \<noteq> nullptr" "nullptr \<noteq> fresh_addr h"
  using addr_le_max [of "fresh_addr h" "map fst h" 0] by (auto simp: fresh_addr_def nullptr_def)

lemma fresh_addr_pair [simp]: "(fresh_addr h, c) \<notin> set h"
  using imageI [of "(fresh_addr h, c)" "set h" fst] by auto

text \<open>Blocks that were added to a heap.\<close>

definition added :: "heap \<Rightarrow> heap \<Rightarrow> addr list \<Rightarrow> bool" where
  "added h h' as \<longleftrightarrow> (\<exists>new. h' = new @ h \<and> map fst new = rev as) \<and> distinct as \<and> set as \<inter> fst ` set h = {}
     \<and> nullptr \<notin> set as"

lemma added_none [simp]: "added h h []"
  by (simp add: added_def)

lemma added_malloc: "malloc c h = (a, h') \<Longrightarrow> added h h' [a]"
  by (auto simp: added_def malloc_def)

lemma added_trans: "added h h1 as \<Longrightarrow> added h1 h2 bs \<Longrightarrow> added h h2 (as @ bs)"
proof -
  assume 1: "added h h1 as" and 2: "added h1 h2 bs"
  from 1 obtain n1 where n1: "h1 = n1 @ h" "map fst n1 = rev as" by (auto simp: added_def)
  from 2 obtain n2 where n2: "h2 = n2 @ h1" "map fst n2 = rev bs" by (auto simp: added_def)
  have "fst ` set n1 = set as" using arg_cong [OF n1(2), of set] by simp
  with 1 2 n1 n2 show ?thesis by (auto simp: added_def image_Un intro!: exI [where x = "n2 @ n1"])
qed

lemma map_fst_store [simp]: "map fst (store a c h) = map fst h"
  by (auto simp: store_def)

lemma store_other: "a \<notin> fst ` set h \<Longrightarrow> store a c h = h"
  unfolding store_def by (rule map_idI) (auto simp: image_iff)

lemma added_store: "added h h' as \<Longrightarrow> a \<notin> fst ` set h \<Longrightarrow> added h (store a c h') as"
proof -
  assume h: "added h h' as" and a: "a \<notin> fst ` set h"
  from h obtain new where new: "h' = new @ h" "map fst new = rev as" by (auto simp: added_def)
  have "store a c h' = store a c new @ h" unfolding new(1) using store_other [OF a] by (simp add: store_def)
  moreover have "map fst (store a c new) = rev as" using new(2) by simp
  ultimately show ?thesis using h unfolding added_def by blast
qed

lemma mfree_all_filter:
  "distinct as \<Longrightarrow> set as \<subseteq> fst ` set h \<Longrightarrow> nullptr \<notin> set as \<Longrightarrow> mfree_all as h = Some (filter (\<lambda>b. fst b \<notin> set as) h)"
proof (induction as arbitrary: h)
  case (Cons a as)
  have sub: "set as \<subseteq> fst ` set (filter (\<lambda>b. fst b \<noteq> a) h)"
  proof
    fix x assume x: "x \<in> set as"
    then have "x \<noteq> a" and "x \<in> fst ` set h" using Cons.prems by auto
    then show "x \<in> fst ` set (filter (\<lambda>b. fst b \<noteq> a) h)" by auto
  qed
  have "mfree a h = Some (filter (\<lambda>b. fst b \<noteq> a) h)" using Cons.prems by (auto simp: mfree_def)
  moreover have "mfree_all as (filter (\<lambda>b. fst b \<noteq> a) h) = Some (filter (\<lambda>b. fst b \<notin> set as) (filter (\<lambda>b. fst b \<noteq> a) h))"
    by (rule Cons.IH) (use Cons.prems sub in auto)
  ultimately show ?case by (simp add: conj_commute cong: filter_cong)
qed simp

text \<open>Releasing the blocks that were added, in any order and wherever they are in the heap,
  leaves the others.\<close>

lemma mfree_inside:
  assumes "map fst new = rev as" and "distinct as" and "nullptr \<notin> set as" and "distinct bs" and "set bs = set as"
    and "set as \<inter> fst ` set pre = {}" and "set as \<inter> fst ` set h = {}"
  shows "mfree_all bs (pre @ new @ h) = Some (pre @ h)"
proof -
  have addrs: "fst ` set new = set as" using arg_cong [OF assms(1), of set] by simp
  have "mfree_all bs (pre @ new @ h) = Some (filter (\<lambda>b. fst b \<notin> set bs) (pre @ new @ h))"
    by (rule mfree_all_filter) (use assms addrs in auto)
  moreover have "filter (\<lambda>b. fst b \<notin> set bs) new = []" using addrs assms(5) by (auto simp: filter_empty_conv)
  moreover have "filter (\<lambda>b. fst b \<notin> set bs) pre = pre" "filter (\<lambda>b. fst b \<notin> set bs) h = h"
    using assms(5-7) by (auto intro!: filter_True)
  ultimately show ?thesis by simp
qed

lemma mfree_added:
  assumes "added h h' as" and "distinct bs" and "set bs = set as"
  shows "mfree_all bs h' = Some h"
proof -
  from assms(1) obtain new where new: "h' = new @ h" "map fst new = rev as" by (auto simp: added_def)
  show ?thesis using mfree_inside [OF new(2) _ _ assms(2,3), of "[]" h] assms(1) new(1) by (simp add: added_def)
qed

lemma mfree_all_append: "mfree_all (as @ bs) h = (case mfree_all as h of None \<Rightarrow> None | Some h1 \<Rightarrow> mfree_all bs h1)"
  by (induction as arbitrary: h) (auto split: option.split)

lemma mfree_all_single [simp]: "mfree_all [a] h = mfree a h"
  by (simp split: option.split)

lemma load_store [simp]: "a \<in> fst ` set h \<Longrightarrow> load (store a c h) a = Some c"
  unfolding load_def store_def by (induction h) auto

lemma load_store_other [simp]: "b \<noteq> a \<Longrightarrow> load (store a c h) b = load h b"
  unfolding load_def store_def by (induction h) auto

lemma load_added:
  assumes "added h h' as" and "a \<in> fst ` set h"
  shows "load h' a = load h a"
proof -
  from assms(1) obtain new where new: "h' = new @ h" "map fst new = rev as" by (auto simp: added_def)
  have "fst ` set new = set as" using arg_cong [OF new(2), of set] by simp
  then have "a \<notin> fst ` set new" using assms by (auto simp: added_def)
  then have "map_of new a = None" by (simp add: map_of_eq_None_iff)
  then show ?thesis unfolding load_def new(1) by (simp add: map_add_def)
qed

lemma added_addrs: "added h h' as \<Longrightarrow> fst ` set h' = set as \<union> fst ` set h"
proof -
  assume "added h h' as"
  then obtain new where new: "h' = new @ h" "map fst new = rev as" by (auto simp: added_def)
  have "fst ` set new = set as" using arg_cong [OF new(2), of set] by simp
  then show ?thesis using new(1) by (simp add: image_Un)
qed

lemma messageToC_added:
  assumes "messageToCStruct m zero_Message h = (c, h')"
  shows "added h h' [Cm_content c]" and "load h' (Cm_content c) = Some (Chars (c_str (m_content m) @ [nul]))"
  using assms added_malloc
  by (auto simp: messageToCStruct_def anychat_strdup_def malloc_def load_def Let_def)

lemma convert_messages_added:
  "convert_messages ms h = (cs, h') \<Longrightarrow> added h h' (map Cm_content cs) \<and> length cs = length ms"
proof (induction ms arbitrary: h cs h')
  case (Cons m ms)
  obtain c h1 where 1: "messageToCStruct m zero_Message h = (c, h1)" by (cases "messageToCStruct m zero_Message h")
  obtain cs' h2 where 2: "convert_messages ms h1 = (cs', h2)" by (cases "convert_messages ms h1")
  have "cs = c # cs'" "h' = h2" using Cons.prems 1 2 by (auto simp: Let_def)
  then show ?case using added_trans [OF messageToC_added(1) [OF 1]] Cons.IH [OF 2] by simp
qed simp

lemma fill_messages_added:
  assumes "fillMessageArray ms h = ((items, n), h')" and "ms \<noteq> []"
  obtains cs where "load h' items = Some (Messages cs)" and "n = int (length cs)" and "length cs = length ms"
    and "added h h' (items # map Cm_content cs)"
    and "\<exists>h1 h2. added h h1 [items] \<and> convert_messages ms h1 = (cs, h2) \<and> h' = store items (Messages cs) h2"
proof -
  obtain h1 where 1: "malloc (Messages (replicate (length ms) zero_Message)) h = (items, h1)"
    using assms by (auto simp: fillMessageArray_def Let_def split: prod.splits)
  obtain cs h2 where 2: "convert_messages ms h1 = (cs, h2)" by (cases "convert_messages ms h1")
  have h': "h' = store items (Messages cs) h2" and n: "n = int (length ms)"
    using assms 1 2 by (auto simp: fillMessageArray_def Let_def)
  have a1: "added h h1 [items]" by (rule added_malloc [OF 1])
  have conv: "added h1 h2 (map Cm_content cs)" "length cs = length ms" using convert_messages_added [OF 2] by auto
  have a2: "added h h2 ([items] @ map Cm_content cs)" by (rule added_trans [OF a1 conv(1)])
  have new: "items \<notin> fst ` set h" using a1 by (auto simp: added_def)
  have "items \<in> fst ` set h2" using added_addrs [OF a2] by simp
  then show thesis
    using that [of cs] h' n conv(2) added_store [OF a2 new] a1 2 by auto
qed

lemma free_messages_filled:
  assumes "fillMessageArray ms h = ((items, n), h')"
  shows "free_messages items n h' = Some h"
proof (cases "ms = []")
  case True
  then show ?thesis using assms by (auto simp: fillMessageArray_def free_messages_def mfree_def)
next
  case False
  then obtain cs where cs: "load h' items = Some (Messages cs)" "n = int (length cs)" "length cs = length ms"
    and add: "added h h' (items # map Cm_content cs)"
    using fill_messages_added [OF assms] by metis
  have "mfree_all (map Cm_content cs @ [items]) h' = Some h"
    by (rule mfree_added [OF add]) (use add in \<open>auto simp: added_def\<close>)
  then have both: "(case mfree_all (map Cm_content cs) h' of None \<Rightarrow> None | Some h1 \<Rightarrow> mfree items h1) = Some h"
    unfolding mfree_all_append mfree_all_single .
  have "0 < n" using cs(2,3) False by simp
  then show ?thesis using cs both by (simp add: free_messages_def)
qed

lemma fill_array_added:
  assumes "fill_array cell conv z xs h = ((items, n), h')"
  shows "n = int (length xs)" and "mfree items h' = Some h"
    and "xs \<noteq> [] \<Longrightarrow> load h' items = Some (cell (map (\<lambda>x. conv x z) xs))"
proof -
  show "n = int (length xs)" using assms by (auto simp: fill_array_def malloc_def split: if_splits)
  show "mfree items h' = Some h"
  proof (cases "xs = []")
    case True
    then show ?thesis using assms by (auto simp: fill_array_def mfree_def)
  next
    case False
    then have "h' = store items (cell (map (\<lambda>x. conv x z) xs)) ((items, cell (replicate (length xs) z)) # h)"
      and a: "items = fresh_addr h" using assms by (auto simp: fill_array_def malloc_def)
    moreover have "added h (store items (cell (map (\<lambda>x. conv x z) xs)) ((items, cell (replicate (length xs) z)) # h)) [items]"
      by (rule added_store [OF added_malloc [of "cell (replicate (length xs) z)"]]) (simp_all add: malloc_def a)
    ultimately have "added h h' [items]" by simp
    then have "mfree_all [items] h' = Some h" by (rule mfree_added) simp_all
    then show ?thesis unfolding mfree_all_single .
  qed
  show "load h' items = Some (cell (map (\<lambda>x. conv x z) xs))" if "xs \<noteq> []"
    using assms that by (auto simp: fill_array_def malloc_def)
qed

lemma duplicate_strings_added:
  "duplicate_strings ss h = (as, h') \<Longrightarrow> added h h' as \<and> length as = length ss"
proof (induction ss arbitrary: h as h')
  case (Cons s ss)
  obtain a h1 where 1: "anychat_strdup (Some s) h = (a, h1)" by (cases "anychat_strdup (Some s) h")
  obtain as' h2 where 2: "duplicate_strings ss h1 = (as', h2)" by (cases "duplicate_strings ss h1")
  have "as = a # as'" "h' = h2" using Cons.prems 1 2 by (auto simp: Let_def)
  moreover have "added h h1 [a]" using 1 added_malloc by (simp add: anychat_strdup_def)
  ultimately show ?case using added_trans [of h h1 "[a]"] Cons.IH [OF 2] by simp
qed simp

lemma strings_built:
  assumes "string_array ss h = ((items, n), h')"
  obtains new as where "h' = new @ h" and "added h h' as"
    and "\<And>pre g. set as \<inter> fst ` set pre = {} \<Longrightarrow> set as \<inter> fst ` set g = {} \<Longrightarrow>
           free_strings items n (pre @ new @ g) = Some (pre @ g)"
proof (cases "ss = []")
  case True
  then show ?thesis using assms that [of "[]" "[]"] by (auto simp: string_array_def free_strings_def mfree_def)
next
  case False
  obtain h1 where 1: "malloc (Pointers (replicate (length ss) nullptr)) h = (items, h1)"
    using assms False by (auto simp: string_array_def Let_def split: prod.splits)
  obtain as h2 where 2: "duplicate_strings ss h1 = (as, h2)" by (cases "duplicate_strings ss h1")
  have h': "h' = store items (Pointers as) h2" and n: "n = int (length ss)"
    using assms False 1 2 by (auto simp: string_array_def Let_def)
  have a1: "added h h1 [items]" by (rule added_malloc [OF 1])
  have a2: "added h h2 ([items] @ as)" by (rule added_trans [OF a1]) (simp add: duplicate_strings_added [OF 2])
  have "items \<notin> fst ` set h" using a1 by (auto simp: added_def)
  then have add: "added h h' (items # as)" using added_store [OF a2] h' by simp
  then obtain new where new: "h' = new @ h" "map fst new = rev (items # as)" by (auto simp: added_def)
  have dist: "distinct (items # as)" "nullptr \<notin> set (items # as)" using add by (auto simp: added_def)
  have old: "items \<notin> fst ` set h" using a1 by (auto simp: added_def)
  have "load h' items = Some (Pointers as)" using added_addrs [OF a2] h' by simp
  moreover have "map_of h items = None" using old by (simp add: map_of_eq_None_iff)
  ultimately have at: "map_of new items = Some (Pointers as)"
    using new(1) by (simp add: load_def map_add_def split: option.splits)
  have len: "length as = length ss" and pos: "0 < n" using duplicate_strings_added [OF 2] n False by auto
  have "free_strings items n (pre @ new @ g) = Some (pre @ g)"
    if pre: "set (items # as) \<inter> fst ` set pre = {}" and g: "set (items # as) \<inter> fst ` set g = {}" for pre g
  proof -
    have "map_of pre items = None" using pre by (simp add: map_of_eq_None_iff)
    then have l: "load (pre @ new @ g) items = Some (Pointers as)" using at by (simp add: load_def map_add_def)
    have "mfree_all (as @ [items]) (pre @ new @ g) = Some (pre @ g)"
      by (rule mfree_inside [OF new(2) dist _ _ pre g]) (use dist in auto)
    then have "(case mfree_all as (pre @ new @ g) of None \<Rightarrow> None | Some h1 \<Rightarrow> mfree items h1) = Some (pre @ g)"
      unfolding mfree_all_append mfree_all_single .
    then show ?thesis using l len n pos by (simp add: free_strings_def)
  qed
  with that [of new "items # as"] new(1) add show ?thesis by blast
qed

section \<open>Every result is released by the function of the interface\<close>

text \<open>\<open>released build release\<close>: whatever was allocated to build a struct, the release
  function finds it, releases each block once and leaves the heap as it was.\<close>

definition released :: "('v \<Rightarrow> heap \<Rightarrow> 's \<times> heap) \<Rightarrow> 's release \<Rightarrow> bool" where
  "released build rel \<longleftrightarrow> (\<forall>v h. \<exists>s'. rel (Some (fst (build v h))) (snd (build v h)) = Some (Some s', h))"

lemma releasedI:
  assumes "\<And>v h s h'. build v h = (s, h') \<Longrightarrow> free_parts s h' = Some h"
  shows "released build (releasing free_parts reset)"
  unfolding released_def releasing_def using assms by (auto simp: split_beta)

lemma released_messages:
  "released messageListToC anychat_free_message_list"
  "released offlineResultToC anychat_free_offline_message_result"
  "released searchResultToC anychat_free_message_search_result"
  unfolding anychat_free_message_list_def anychat_free_offline_message_result_def anychat_free_message_search_result_def
  by (rule releasedI,
      auto simp: messageListToC_def offlineResultToC_def searchResultToC_def intro: free_messages_filled split: prod.splits)+

lemma released_read_state: "released groupReadStateToCStruct anychat_free_group_message_read_state"
  unfolding anychat_free_group_message_read_state_def
  by (rule releasedI) (auto simp: groupReadStateToCStruct_def intro: fill_array_added split: prod.splits)

lemma released_mark_read: "released markReadResultToCStruct anychat_free_conversation_mark_read_result"
  unfolding anychat_free_conversation_mark_read_result_def
proof (rule releasedI)
  fix v h s h'
  assume "markReadResultToCStruct v h = (s, h')"
  moreover obtain a n h1 where 1: "string_array (mk_accepted_ids v) h = ((a, n), h1)" by (metis surj_pair)
  moreover obtain b m h2 where 2: "string_array (mk_ignored_ids v) h1 = ((b, m), h2)" by (metis surj_pair)
  ultimately have s: "Cmk_accepted_ids s = a" "Cmk_accepted_count s = n" "Cmk_ignored_ids s = b" "Cmk_ignored_count s = m"
    and h': "h' = h2" by (auto simp: markReadResultToCStruct_def)
  obtain new1 as1 where n1: "h1 = new1 @ h" "added h h1 as1" and free1: "\<And>pre g. set as1 \<inter> fst ` set pre = {} \<Longrightarrow>
      set as1 \<inter> fst ` set g = {} \<Longrightarrow> free_strings a n (pre @ new1 @ g) = Some (pre @ g)"
    using strings_built [OF 1] by metis
  obtain new2 as2 where n2: "h2 = new2 @ h1" "added h1 h2 as2" and free2: "\<And>pre g. set as2 \<inter> fst ` set pre = {} \<Longrightarrow>
      set as2 \<inter> fst ` set g = {} \<Longrightarrow> free_strings b m (pre @ new2 @ g) = Some (pre @ g)"
    using strings_built [OF 2] by metis
  have "map fst new2 = rev as2" using n2 by (simp add: added_def)
  from arg_cong [OF this, of set] have new2: "fst ` set new2 = set as2" by simp
  have h1: "fst ` set h1 = set as1 \<union> fst ` set h" by (rule added_addrs [OF n1(2)])
  have "free_strings a n (new2 @ new1 @ h) = Some (new2 @ h)"
    by (rule free1) (use n1 n2 new2 h1 in \<open>auto simp: added_def\<close>)
  moreover have "free_strings b m ([] @ new2 @ h) = Some ([] @ h)"
    by (rule free2) (use n2 h1 in \<open>auto simp: added_def\<close>)
  ultimately show "(case free_strings (Cmk_accepted_ids s) (Cmk_accepted_count s) h' of
      None \<Rightarrow> None | Some h1 \<Rightarrow> free_strings (Cmk_ignored_ids s) (Cmk_ignored_count s) h1) = Some h"
    using s h' n1 n2 by simp
qed

text \<open>The plain lists; only their address matters.\<close>

lemma list_struct_filled:
  assumes "list_struct (fill_array cell conv z) xs h = (l, h')"
  shows "mfree (Li_items l) h' = Some h"
  using assms by (auto simp: list_struct_def intro: fill_array_added split: prod.splits)

lemma total_struct_filled:
  assumes "total_struct (fill_array cell conv z) xs tot h = (l, h')"
  shows "mfree (Lt_items l) h' = Some h"
  using assms by (auto simp: total_struct_def intro: fill_array_added split: prod.splits)

lemma paged_struct_filled:
  assumes "paged_struct (fill_array cell conv z) xs tot p q h = (l, h')"
  shows "mfree (Lp_items l) h' = Some h"
  using assms by (auto simp: paged_struct_def intro: fill_array_added split: prod.splits)

section \<open>There and back\<close>

lemma c_str_of_copy: "length d = n \<Longrightarrow> nul \<notin> set s \<Longrightarrow> length s < n \<Longrightarrow> c_str (strlcpy d s n) = s"
  by (simp add: c_str_strlcpy)

lemma c_bool_back [simp]: "(c_bool b \<noteq> 0) = b"
  by (simp add: c_bool_def)

text \<open>
  C36: Settings that an application gets through the C interface and hands back unchanged are the
  ones the client had, when the two texts fit their arrays and have no NUL in them; whatever the
  struct held before.
\<close>

theorem settings_roundtrip:
  assumes "length (Cst_user_id dst) = 64" and "length (Cst_language dst) = 16"
    and "nul \<notin> set (st_user_id st)" and "length (st_user_id st) < 64"
    and "nul \<notin> set (st_language st)" and "length (st_language st) < 16"
  shows "settingsFromC (settingsToC st dst) = st"
  using assms by (simp add: settingsFromC_def settingsToC_def c_str_of_copy)

theorem settings_roundtrip_witness:
  "settingsFromC (settingsToC \<lparr>st_user_id = ''u1'', st_notification_enabled = True, st_sound_enabled = False,
       st_vibration_enabled = True, st_message_preview_enabled = True, st_friend_verify_required = False,
       st_search_by_phone = True, st_search_by_id = True, st_language = ''en''\<rparr> zero_UserSettings)
   = \<lparr>st_user_id = ''u1'', st_notification_enabled = True, st_sound_enabled = False,
       st_vibration_enabled = True, st_message_preview_enabled = True, st_friend_verify_required = False,
       st_search_by_phone = True, st_search_by_id = True, st_language = ''en''\<rparr>"
  by (rule settings_roundtrip) (simp_all add: zero_UserSettings_def nul_CHR)

text \<open>The profile does not keep the time of its creation.\<close>

lemma profile_roundtrip:
  assumes "list_all2 (\<lambda>s n. nul \<notin> set s \<and> length s < n)
      [up_user_id p, up_nickname p, up_avatar_url p, up_phone p, up_email p, up_signature p, up_region p, up_qrcode_url p]
      [64, 128, 512, 32, 128, 256, 64, 512]"
  shows "profileFromC (profileToC p zero_UserProfile) = p\<lparr>up_created_at_ms := 0\<rparr>"
  using assms by (simp add: profileFromC_def profileToC_def zero_UserProfile_def c_str_of_copy)

end
