(* ===== verification/ClientState.thy ===== *)
theory ClientState
  imports Database ConversationCache MessageCache Connectivity HttpClient CConvert
begin

text \<open>
  The state that the managers of one client share (the members of \<open>AnyChatClient\<close> in
  core/src/client_impl.h and of the managers it owns), the callbacks they are given
  (core/src/sdk_callbacks.h) and what a client does that its user can see. Every manager's
  operation is an act on this state.
\<close>

section \<open>Values and events\<close>

text \<open>What \<open>on_success\<close> of an \<open>AnyChatValueCallback<T>\<close> is called with; \<open>VUnit\<close> for the
  plain \<open>AnyChatCallback\<close>.\<close>

datatype call_value =
    VUnit
  | VAuthToken auth_token
  | VVerificationCode verification_code_result
  | VDevices "auth_device list"
  | VMessages "message list"
  | VOffline message_offline_result
  | VSearch message_search_result
  | VGroupRead group_message_read_state
  | VConversations "conversation list"
  | VConversation conversation
  | VMarkRead conversation_mark_read_result
  | VTotalUnread int
  | VUnreadState conversation_unread_state
  | VReceipts "conversation_read_receipt list"
  | VSequence int
  | VFriends "friend_info list"
  | VFriendRequests "friend_request list"
  | VBlacklist "blacklist_item list"
  | VCall call_session
  | VCallLogs call_log_result
  | VMeeting meeting_room
  | VMeetings meeting_list_result
  | VGroups "group_info list"
  | VGroup group_info
  | VGroupMembers "group_member list"
  | VJoinRequests "group_join_request list"
  | VGroupQRCode group_qrcode
  | VFile file_info
  | VFiles file_list_result
  | VUrl string
  | VProfile user_profile
  | VSettings user_settings
  | VUserQRCode user_qrcode
  | VBindPhone bind_phone_result
  | VChangePhone change_phone_result
  | VBindEmail bind_email_result
  | VChangeEmail change_email_result
  | VUsers user_search_result
  | VUser user_info
  | VVersionCheck version_check_result
  | VVersion app_version_info
  | VVersions version_list_result

text \<open>Calls out of the SDK: completion callbacks by the number of the call they belong to,
  listener methods, progress reports of uploads, frames handed to the WebSocket,
  \<open>std::terminate\<close>, and functions of an application that uses the C interface: those of a
  callback struct by the number of the call, the others.\<close>

datatype event =
    Succeeded nat call_value
  | Failed nat int string
  | AuthExpired
  | MessageReceived message
  | MessageReadReceipt message_read_receipt_event
  | MessageRecalled message
  | MessageDeleted message
  | MessageEdited message
  | MessageTyping message_typing_event
  | MessageMentioned message
  | ConversationUpdated conversation
  | FriendAdded friend_info
  | FriendDeleted string
  | FriendInfoChanged friend_info
  | BlacklistAdded blacklist_item
  | BlacklistRemoved string
  | FriendRequestReceived friend_request
  | FriendRequestDeleted friend_request
  | FriendRequestAccepted friend_request
  | FriendRequestRejected friend_request
  | IncomingCall call_session
  | CallStatusChanged string call_status
  | GroupInvited group_info string
  | GroupUpdated group_info
  | ProfileUpdated user_info
  | FriendProfileChanged user_info
  | UserStatusChanged user_status_event
  | UploadProgress nat int int
  | FrameSent string
  | ConnectionStateChanged connection_state
  | Terminated
  | CCompleted nat c_invocation
  | CNotified c_invocation

text \<open>A callback object of the user: which of its two functions are set. In the outbound queue,
  which keeps callbacks, they may be the closures of the C interface over a callback struct.\<close>

record user_cb =
  cb_id :: nat
  has_success :: bool
  has_error :: bool
  cb_struct :: "c_callback option"

section \<open>The state\<close>

record client =
  http :: http
  gateway_url :: string
  device_id :: string
  monitor :: "network_status option"
  db :: connection
  conv_cache :: conversation_cache
  msg_cache :: message_cache
  token :: auth_token
  send_fn :: bool
  callbacks :: "(string \<times> user_cb) list"
  current_user_id :: string
  local_id_counter :: int
  auth_listener :: bool
  msg_listener :: bool
  conv_listener :: bool
  friend_listener :: bool
  call_listener :: bool
  user_listener :: bool
  group_listener :: bool
  state_cb :: bool
  link :: "link option"
  now_ms :: int
  c_heap :: heap
  c_listening :: c_listeners

text \<open>The members as their constructors leave them; \<open>srt\<close> is the library's \<open>std::sort\<close>.\<close>

definition new_client :: "string \<Rightarrow> string \<Rightarrow> string \<Rightarrow> network_status option \<Rightarrow> (message list \<Rightarrow> message list)
   \<Rightarrow> connection \<Rightarrow> int \<Rightarrow> client" where
  "new_client api gateway dev mon srt d t = \<lparr>http = new_http api, gateway_url = gateway, device_id = dev,
     monitor = mon, db = d, conv_cache = [], msg_cache = mc_new kDefaultBucketSize srt, token = new_auth_token,
     send_fn = False, callbacks = [], current_user_id = [], local_id_counter = 1, auth_listener = False,
     msg_listener = False, conv_listener = False, friend_listener = False, call_listener = False,
     user_listener = False, group_listener = False, state_cb = False, link = None, now_ms = t,
     c_heap = [], c_listening = no_listeners\<rparr>"

type_synonym client_act = "(client, event) act"
type_synonym client_system = "(client, event) system"

text \<open>The updates that many operations share.\<close>

definition on_db :: "(connection \<Rightarrow> connection) \<Rightarrow> client_act" where
  "on_db f = modify (\<lambda>s. s\<lparr>db := f (db s)\<rparr>)"

definition on_conv_cache :: "(conversation_cache \<Rightarrow> conversation_cache) \<Rightarrow> client_act" where
  "on_conv_cache f = modify (\<lambda>s. s\<lparr>conv_cache := f (conv_cache s)\<rparr>)"

definition on_msg_cache :: "(message_cache \<Rightarrow> message_cache) \<Rightarrow> client_act" where
  "on_msg_cache f = modify (\<lambda>s. s\<lparr>msg_cache := f (msg_cache s)\<rparr>)"

definition exec :: "stmt \<Rightarrow> client_act" where
  "exec st = on_db (db_exec st)"

lemma for_each_exec: "for_each (\<lambda>x. exec (st x)) xs s = (s\<lparr>db := fold (\<lambda>x. db_exec (st x)) xs (db s)\<rparr>, [], [])"
proof (induction xs arbitrary: s)
  case (Cons x xs)
  have "exec (st x) s = (s\<lparr>db := db_exec (st x) (db s)\<rparr>, [], [])" by (simp add: exec_def on_db_def modify_def)
  then show ?case by (simp add: for_each_Cons seq_def Cons.IH)
qed (simp add: for_each_def skip_def)

section \<open>Callbacks\<close>

record 'v callback =
  on_success :: "('v \<Rightarrow> client_act) option"
  on_error :: "(int \<Rightarrow> string \<Rightarrow> client_act) option"

definition succeed :: "'v callback \<Rightarrow> 'v \<Rightarrow> client_act" where
  "succeed cb v = (case on_success cb of None \<Rightarrow> skip | Some f \<Rightarrow> f v)"

definition fail :: "'v callback \<Rightarrow> int \<Rightarrow> string \<Rightarrow> client_act" where
  "fail cb code message = (case on_error cb of None \<Rightarrow> skip | Some f \<Rightarrow> f code message)"

definition user_callback :: "('v \<Rightarrow> call_value) \<Rightarrow> user_cb \<Rightarrow> 'v callback" where
  "user_callback wrap u =
     \<lparr>on_success = (if has_success u then Some (\<lambda>v. emit (Succeeded (cb_id u) (wrap v))) else None),
      on_error = (if has_error u then Some (\<lambda>code msg. emit (Failed (cb_id u) code msg)) else None)\<rparr>"

definition full_cb :: "nat \<Rightarrow> user_cb" where
  "full_cb i = \<lparr>cb_id = i, has_success = True, has_error = True, cb_struct = None\<rparr>"

section \<open>Functions of a C application\<close>

text \<open>A call of one of them when it is set: the event is \<open>ev\<close>.\<close>

definition c_invoke :: "(c_invocation \<Rightarrow> event) \<Rightarrow> addr \<Rightarrow> addr \<Rightarrow> c_arg list \<Rightarrow> client_act" where
  "c_invoke ev f userdata args = (if f = nullptr then skip
     else reading (\<lambda>s. emit (ev \<lparr>iv_function = f, iv_userdata = userdata, iv_args = args, iv_memory = c_heap s\<rparr>)))"

definition no_callback :: c_callback where
  "no_callback = \<lparr>cc_userdata = nullptr, cc_on_success = nullptr, cc_on_error = nullptr\<rparr>"

text \<open>\<open>on_success\<close> of a callback object that was kept.\<close>

definition kept_success :: "user_cb \<Rightarrow> client_act" where
  "kept_success u = (case cb_struct u of
     None \<Rightarrow> emit (Succeeded (cb_id u) VUnit)
   | Some c \<Rightarrow> c_invoke (CCompleted (cb_id u)) (cc_on_success c) (cc_userdata c) [])"

text \<open>Nobody hears of a closure over an empty struct.\<close>

definition mute :: "user_cb \<Rightarrow> bool" where
  "mute u \<longleftrightarrow> cb_struct u = Some no_callback"

section \<open>Requests\<close>

definition http_call :: "http_method \<Rightarrow> string \<Rightarrow> string \<Rightarrow> (http_response \<Rightarrow> client_act) \<Rightarrow> client_act" where
  "http_call m path bdy k = await (\<lambda>s. enqueue_request m path bdy (http s)) k"

definition http_get :: "string \<Rightarrow> (http_response \<Rightarrow> client_act) \<Rightarrow> client_act" where
  "http_get path k = http_call GET path [] k"

definition http_post :: "string \<Rightarrow> string \<Rightarrow> (http_response \<Rightarrow> client_act) \<Rightarrow> client_act" where
  "http_post path bdy k = http_call POST path bdy k"

definition http_put :: "string \<Rightarrow> string \<Rightarrow> (http_response \<Rightarrow> client_act) \<Rightarrow> client_act" where
  "http_put path bdy k = http_call PUT path bdy k"

definition http_patch :: "string \<Rightarrow> string \<Rightarrow> (http_response \<Rightarrow> client_act) \<Rightarrow> client_act" where
  "http_patch path bdy k = http_call PATCH path bdy k"

definition http_del :: "string \<Rightarrow> (http_response \<Rightarrow> client_act) \<Rightarrow> client_act" where
  "http_del path k = http_call DEL path [] k"

lemmas http_defs = http_get_def http_post_def http_put_def http_patch_def http_del_def http_call_def

section \<open>The two guards every operation has\<close>

text \<open>\<open>if (!writeJson(body, json, err)) { on_error(-1, err); return; }\<close>\<close>

definition with_json :: "string + string \<Rightarrow> 'v callback \<Rightarrow> (string \<Rightarrow> client_act) \<Rightarrow> client_act" where
  "with_json written cb k = (case written of Inl err \<Rightarrow> fail cb (- 1) err | Inr json \<Rightarrow> k json)"

text \<open>\<open>if (!parseApiEnvelopeResponse(resp, root, fallback, require_200)) { on_error(root.code,
  root.message); return; }\<close>\<close>

definition on_envelope ::
  "(string \<Rightarrow> string + 'a envelope) \<Rightarrow> http_response \<Rightarrow> string \<Rightarrow> bool \<Rightarrow> 'v callback \<Rightarrow> ('a \<Rightarrow> client_act) \<Rightarrow> client_act" where
  "on_envelope read resp fallback require_200 cb k =
     (case parseApiEnvelopeResponse read resp fallback require_200 False of
        Inl e \<Rightarrow> fail cb (fst e) (snd e)
      | Inr data \<Rightarrow> k data)"

section \<open>Exactly one answer\<close>

definition about :: "nat \<Rightarrow> event \<Rightarrow> bool" where
  "about i e = (case e of Succeeded j v \<Rightarrow> j = i | Failed j c m \<Rightarrow> j = i | CCompleted j v \<Rightarrow> j = i | _ \<Rightarrow> False)"

lemma about_simps [simp]: "about i (Succeeded j v) \<longleftrightarrow> j = i" "about i (Failed j c m) \<longleftrightarrow> j = i"
  "\<not> about i AuthExpired" "\<not> about i (MessageReceived m')" "\<not> about i (MessageReadReceipt r)"
  "\<not> about i (MessageRecalled m')" "\<not> about i (MessageDeleted m')" "\<not> about i (MessageEdited m')"
  "\<not> about i (MessageTyping ty)" "\<not> about i (MessageMentioned m')" "\<not> about i (ConversationUpdated cv)"
  "\<not> about i (FriendAdded fi)" "\<not> about i (FriendDeleted uid)" "\<not> about i (FriendInfoChanged fi)"
  "\<not> about i (BlacklistAdded bi)" "\<not> about i (BlacklistRemoved uid)" "\<not> about i (FriendRequestReceived fr)"
  "\<not> about i (FriendRequestDeleted fr)" "\<not> about i (FriendRequestAccepted fr)"
  "\<not> about i (FriendRequestRejected fr)" "\<not> about i (IncomingCall cs)" "\<not> about i (CallStatusChanged cid st)"
  "\<not> about i (FrameSent frame)" "\<not> about i (ConnectionStateChanged cst)" "\<not> about i (GroupInvited gi inviter)"
  "\<not> about i (GroupUpdated gi)" "\<not> about i (ProfileUpdated ui)" "\<not> about i (FriendProfileChanged ui)"
  "\<not> about i (UserStatusChanged us)" "\<not> about i (UploadProgress j sent tot)" "\<not> about i Terminated"
  "about i (CCompleted j iv) \<longleftrightarrow> j = i" "\<not> about i (CNotified iv)"
  by (simp_all add: about_def)

text \<open>Whichever function of the callback is called, n answers to call i follow.\<close>

definition cb_answers :: "nat \<Rightarrow> nat \<Rightarrow> 'v callback \<Rightarrow> bool" where
  "cb_answers i n cb \<longleftrightarrow> (\<forall>v. answers (about i) n (succeed cb v)) \<and> (\<forall>c m. answers (about i) n (fail cb c m))"

lemma cb_answers_user: "cb_answers i 1 (user_callback wrap (full_cb i))"
  by (auto simp: cb_answers_def user_callback_def full_cb_def succeed_def fail_def intro: answers_intro)

lemma cb_answers_other: "cb_id u \<noteq> i \<Longrightarrow> cb_answers i 0 (user_callback wrap u)"
  by (auto simp: cb_answers_def user_callback_def succeed_def fail_def intro: answers_intro)

lemma cb_answersI [answers_intro]: "(\<And>v. answers (about i) n (f v)) \<Longrightarrow> (\<And>c m. answers (about i) n (g c m)) \<Longrightarrow>
    cb_answers i n \<lparr>on_success = Some f, on_error = Some g\<rparr>"
  by (simp add: cb_answers_def succeed_def fail_def)

lemma answers_succeed [answers_intro]: "cb_answers i n cb \<Longrightarrow> answers (about i) n (succeed cb v)"
  by (simp add: cb_answers_def)

lemma answers_fail [answers_intro]: "cb_answers i n cb \<Longrightarrow> answers (about i) n (fail cb c m)"
  by (simp add: cb_answers_def)

lemma answers_http [answers_intro]:
  "(\<And>r. answers P n (k r)) \<Longrightarrow> answers P n (http_get path k)"
  "(\<And>r. answers P n (k r)) \<Longrightarrow> answers P n (http_post path bdy k)"
  "(\<And>r. answers P n (k r)) \<Longrightarrow> answers P n (http_put path bdy k)"
  "(\<And>r. answers P n (k r)) \<Longrightarrow> answers P n (http_patch path bdy k)"
  "(\<And>r. answers P n (k r)) \<Longrightarrow> answers P n (http_del path k)"
  by (simp_all add: http_defs answers_await)

lemma answers_kept_success: "cb_id u \<noteq> i \<or> mute u \<Longrightarrow> answers (about i) 0 (kept_success u)"
  by (auto simp: kept_success_def mute_def c_invoke_def no_callback_def split: option.split intro!: answers_intro)

lemma answers_updates [answers_intro]:
  "answers P 0 (on_db d)" "answers P 0 (on_conv_cache g)" "answers P 0 (on_msg_cache h)" "answers P 0 (exec st)"
  by (simp_all add: on_db_def on_conv_cache_def on_msg_cache_def exec_def answers_modify)

lemma answers_with_json [answers_intro]:
  "cb_answers i n cb \<Longrightarrow> (\<And>json. answers (about i) n (k json)) \<Longrightarrow> answers (about i) n (with_json w cb k)"
  unfolding with_json_def by (intro answers_intro)

lemma answers_on_envelope [answers_intro]:
  "cb_answers i n cb \<Longrightarrow> (\<And>d. answers (about i) n (k d)) \<Longrightarrow> answers (about i) n (on_envelope rd resp fb r cb k)"
  unfolding on_envelope_def by (intro answers_intro)

section \<open>The invariant of the client\<close>

text \<open>
  The caches and the database keep their own invariants; this is the invariant every
  operation, every notification and every response preserves, in any order. It has two
  parameters: calls that do not wait for an acknowledgement, so that none of their callbacks
  (but mute ones) is in the queue, and what is known of the connection manager. Between acts
  nothing is left on the heap of the C interface.
\<close>

type_synonym scope = "nat set \<times> (conn \<Rightarrow> bool)"

definition client_inv :: "scope \<Rightarrow> client \<Rightarrow> bool" where
  "client_inv X s \<longleftrightarrow> cc_ordered (conv_cache s) \<and> mc_inv (msg_cache s) \<and> db_inv (db s)
     \<and> distinct (map fst (callbacks s)) \<and> list_all (\<lambda>c. cb_id (snd c) \<notin> fst X \<or> mute (snd c)) (callbacks s)
     \<and> (\<forall>l. link s = Some l \<longrightarrow> snd X (lk_conn l)) \<and> c_heap s = []"

definition cb_keeps :: "(client \<Rightarrow> bool) \<Rightarrow> 'v callback \<Rightarrow> bool" where
  "cb_keeps I cb \<longleftrightarrow> (\<forall>v. keeps I (succeed cb v)) \<and> (\<forall>c m. keeps I (fail cb c m))"

lemma cb_keeps_user [simp]: "cb_keeps I (user_callback wrap u)"
  by (simp add: cb_keeps_def user_callback_def succeed_def fail_def)

lemma cb_keepsI [keeps_intro]: "(\<And>v. keeps I (f v)) \<Longrightarrow> (\<And>c m. keeps I (g c m)) \<Longrightarrow>
    cb_keeps I \<lparr>on_success = Some f, on_error = Some g\<rparr>"
  by (simp add: cb_keeps_def succeed_def fail_def)

lemma keeps_succeed [keeps_intro]: "cb_keeps I cb \<Longrightarrow> keeps I (succeed cb v)"
  by (simp add: cb_keeps_def)

lemma keeps_fail [keeps_intro]: "cb_keeps I cb \<Longrightarrow> keeps I (fail cb c m)"
  by (simp add: cb_keeps_def)

lemma keeps_kept_success [keeps_intro]: "keeps I (kept_success u)"
  by (auto simp: kept_success_def c_invoke_def split: option.split intro: keeps_intro)

lemma keeps_http [keeps_intro]:
  "(\<And>r. keeps I (k r)) \<Longrightarrow> keeps I (http_get path k)"
  "(\<And>r. keeps I (k r)) \<Longrightarrow> keeps I (http_post path bdy k)"
  "(\<And>r. keeps I (k r)) \<Longrightarrow> keeps I (http_put path bdy k)"
  "(\<And>r. keeps I (k r)) \<Longrightarrow> keeps I (http_patch path bdy k)"
  "(\<And>r. keeps I (k r)) \<Longrightarrow> keeps I (http_del path k)"
  by (simp_all add: http_defs keeps_await)

lemma keeps_with_json [keeps_intro]:
  "cb_keeps I cb \<Longrightarrow> (\<And>json. keeps I (k json)) \<Longrightarrow> keeps I (with_json w cb k)"
  unfolding with_json_def by (intro keeps_intro)

lemma keeps_on_envelope [keeps_intro]:
  "cb_keeps I cb \<Longrightarrow> (\<And>d. keeps I (k d)) \<Longrightarrow> keeps I (on_envelope rd resp fb r cb k)"
  unfolding on_envelope_def by (intro keeps_intro)

lemma keeps_conv_cache [keeps_intro]: "(\<And>c. cc_ordered c \<Longrightarrow> cc_ordered (f c)) \<Longrightarrow> keeps (client_inv X) (on_conv_cache f)"
  unfolding on_conv_cache_def by (rule keeps_modify) (simp add: client_inv_def)

lemma keeps_msg_cache [keeps_intro]: "(\<And>c. mc_inv c \<Longrightarrow> mc_inv (f c)) \<Longrightarrow> keeps (client_inv X) (on_msg_cache f)"
  unfolding on_msg_cache_def by (rule keeps_modify) (simp add: client_inv_def)

lemma keeps_db [keeps_intro]: "(\<And>d. db_inv d \<Longrightarrow> db_inv (f d)) \<Longrightarrow> keeps (client_inv X) (on_db f)"
  unfolding on_db_def by (rule keeps_modify) (simp add: client_inv_def)

lemma keeps_exec [keeps_intro]: "stmt_ok st \<Longrightarrow> keeps (client_inv X) (exec st)"
  unfolding exec_def by (rule keeps_db) (rule db_inv_exec)

lemma client_inv_new: "sorting srt seq_less \<Longrightarrow> db_inv d \<Longrightarrow> (client_inv X) (new_client api gw dev mon srt d t)"
  by (simp add: client_inv_def new_client_def mc_inv_new)

text \<open>A client with an empty open database, for concrete runs.\<close>

definition demo_client :: client where
  "demo_client = new_client ''https://api'' ''wss://gw'' ''dev'' None (stable_sort seq_less) (Some kSchemav1) 5000"

lemma demo_client_sel [simp]: "db demo_client = Some kSchemav1" "send_fn demo_client = False"
  "callbacks demo_client = []" "conv_cache demo_client = []" "now_ms demo_client = 5000"
  "local_id_counter demo_client = 1" "link demo_client = None" "token demo_client = new_auth_token"
  "device_id demo_client = ''dev''" "msg_cache demo_client = mc_new kDefaultBucketSize (stable_sort seq_less)"
  "msg_listener demo_client = False" "conv_listener demo_client = False" "auth_listener demo_client = False"
  by (simp_all add: demo_client_def new_client_def)

lemma client_inv_demo: "(client_inv X) demo_client"
  unfolding demo_client_def by (rule client_inv_new) (simp_all add: seq_stable.sorting_axioms)

end
