(* ===== verification/OutboundQueue.thy ===== *)
theory OutboundQueue
  imports ClientState
begin

text \<open>
  \<open>OutboundQueue\<close> (core/src/outbound_queue.cpp): the messages waiting for the server's
  acknowledgement, one row of the outbound_queue table each, and the completion callbacks,
  which live in memory only. \<open>send_fn\<close> says whether a send function is installed; the one
  the client installs hands the frame to the WebSocket client. The JSON writer is a
  parameter: the frame's text or an error.
\<close>

record send_message_payload =
  sp_conversation_id :: string
  sp_conversation_type :: string
  sp_content_type :: int
  sp_content :: string
  sp_local_id :: string

record send_message_frame =
  sf_type :: string
  sf_payload :: send_message_payload

type_synonym frame_writer = "send_message_frame \<Rightarrow> string + string"

record msg_sent_ack =
  ack_message_id :: string
  ack_sequence :: int
  ack_timestamp :: int
  ack_local_id :: string

section \<open>Statements\<close>

definition sql_enqueue :: "outbound_row \<Rightarrow> stmt" where
  "sql_enqueue r t = Some (t\<lparr>outbound_queue := insert_or_ignore orow_local_id r (outbound_queue t)\<rparr>)"

definition created_less :: "outbound_row \<Rightarrow> outbound_row \<Rightarrow> bool" where
  "created_less a b \<longleftrightarrow> orow_created_at a < orow_created_at b"

definition outbound_cells :: "outbound_row \<Rightarrow> row" where
  "outbound_cells r = [(''local_id'', text_cell (orow_local_id r)), (''conv_id'', text_cell (orow_conv_id r)),
     (''conv_type'', text_cell (orow_conv_type r)), (''content_type'', int_cell (orow_content_type r)),
     (''content'', text_cell (orow_content r))]"

definition sql_pending :: select where
  "sql_pending t = map outbound_cells (stable_sort created_less (outbound_queue t))"

definition sql_delete_outbound :: "string \<Rightarrow> stmt" where
  "sql_delete_outbound lid t = Some (t\<lparr>outbound_queue := delete_rows (\<lambda>r. orow_local_id r = lid) (outbound_queue t)\<rparr>)"

definition sql_bump_retry :: "string \<Rightarrow> stmt" where
  "sql_bump_retry lid t = Some (t\<lparr>outbound_queue :=
     update_rows (\<lambda>r. orow_local_id r = lid) (\<lambda>r. r\<lparr>orow_retry_count := orow_retry_count r + 1\<rparr>) (outbound_queue t)\<rparr>)"

section \<open>Operations\<close>

text \<open>The send function that \<open>AnyChatClient::onReady\<close> installs.\<close>

definition send_frame :: "string \<Rightarrow> client_act" where
  "send_frame json = perform [
     modify (\<lambda>s. s\<lparr>link := map_option (\<lambda>l. l\<lparr>lk_ws := fst (ws_send json (lk_ws l))\<rparr>) (link s)\<rparr>),
     emit (FrameSent json)]"

definition buildSendFrame :: "frame_writer \<Rightarrow> string \<Rightarrow> string \<Rightarrow> int \<Rightarrow> string \<Rightarrow> string \<Rightarrow> string" where
  "buildSendFrame write conv_id conv_type content_type content local_id =
     (case write \<lparr>sf_type = ''message.send'',
          sf_payload = \<lparr>sp_conversation_id = conv_id, sp_conversation_type = conv_type,
             sp_content_type = content_type, sp_content = content, sp_local_id = local_id\<rparr>\<rparr> of
        Inl err \<Rightarrow> []
      | Inr json \<Rightarrow> json)"

definition sendRow :: "frame_writer \<Rightarrow> string \<Rightarrow> string \<Rightarrow> int \<Rightarrow> string \<Rightarrow> string \<Rightarrow> client_act" where
  "sendRow write conv_id conv_type content_type content local_id = reading (\<lambda>s.
     let payload = buildSendFrame write conv_id conv_type content_type content local_id
     in if \<not> send_fn s \<or> payload = [] then skip
        else perform [exec (sql_bump_retry local_id), send_frame payload])"

text \<open>The three parts of \<open>enqueue\<close>: the row, the callback with the look at \<open>send_fn_\<close> under
  the lock, the send. \<open>emplace\<close> keeps a callback that is already there.\<close>

definition enqueue_persist :: "string \<Rightarrow> string \<Rightarrow> int \<Rightarrow> string \<Rightarrow> string \<Rightarrow> client_act" where
  "enqueue_persist conv_id conv_type content_type content local_id = reading (\<lambda>s.
     exec (sql_enqueue \<lparr>orow_local_id = local_id, orow_conv_id = conv_id, orow_conv_type = conv_type,
        orow_content_type = content_type, orow_content = content, orow_retry_count = 0,
        orow_created_at = cdiv (now_ms s) 1000\<rparr>))"

definition emplace_callback :: "string \<Rightarrow> user_cb \<Rightarrow> (string \<times> user_cb) list \<Rightarrow> (string \<times> user_cb) list" where
  "emplace_callback lid u cbs = (if lid \<in> fst ` set cbs then cbs else cbs @ [(lid, u)])"

definition enqueue_register :: "string \<Rightarrow> user_cb \<Rightarrow> client_act" where
  "enqueue_register local_id u = act_if (has_success u \<or> has_error u)
     (modify (\<lambda>s. s\<lparr>callbacks := emplace_callback local_id u (callbacks s)\<rparr>))"

definition enqueue :: "frame_writer \<Rightarrow> string \<Rightarrow> string \<Rightarrow> int \<Rightarrow> string \<Rightarrow> string \<Rightarrow> user_cb \<Rightarrow> client_act" where
  "enqueue write conv_id conv_type content_type content local_id u = perform [
     enqueue_persist conv_id conv_type content_type content local_id,
     enqueue_register local_id u,
     reading (\<lambda>s. act_if (send_fn s) (sendRow write conv_id conv_type content_type content local_id))]"

text \<open>One row of the flush: a missing column or a content type that is no number skips it.\<close>

definition flush_row :: "frame_writer \<Rightarrow> row \<Rightarrow> client_act" where
  "flush_row write r =
     (case (map_of r ''local_id'', map_of r ''conv_id'', map_of r ''conv_type'', map_of r ''content_type'',
            map_of r ''content'') of
        (Some lid, Some cid, Some ct, Some ctype, Some bdy) \<Rightarrow>
          (case stoll ctype of None \<Rightarrow> skip | Some n \<Rightarrow> sendRow write cid ct (wrap32 n) bdy lid)
      | _ \<Rightarrow> skip)"

definition oq_install :: client_act where
  "oq_install = modify (\<lambda>s. s\<lparr>send_fn := True\<rparr>)"

definition oq_flush :: "frame_writer \<Rightarrow> client_act" where
  "oq_flush write = reading (\<lambda>s. for_each (flush_row write) (queryDirect sql_pending (db s)))"

definition oq_onConnected :: "frame_writer \<Rightarrow> client_act" where
  "oq_onConnected write = perform [oq_install, oq_flush write]"

definition oq_onDisconnected :: client_act where
  "oq_onDisconnected = modify (\<lambda>s. s\<lparr>send_fn := False\<rparr>)"

text \<open>\<open>sendTransient\<close> returns whether there was a sender: \<open>k\<close> is what the caller does next.\<close>

definition sendTransient :: "string \<Rightarrow> (bool \<Rightarrow> client_act) \<Rightarrow> client_act" where
  "sendTransient json k = reading (\<lambda>s.
     if \<not> send_fn s then k False else perform [send_frame json, k True])"

definition onMessageSentAck :: "msg_sent_ack \<Rightarrow> client_act" where
  "onMessageSentAck ack =
     (if ack_local_id ack = [] then skip
      else perform [
        exec (sql_delete_outbound (ack_local_id ack)),
        reading (\<lambda>s. case map_of (callbacks s) (ack_local_id ack) of
            None \<Rightarrow> skip
          | Some u \<Rightarrow> perform [
              modify (\<lambda>s. s\<lparr>callbacks := filter (\<lambda>c. fst c \<noteq> ack_local_id ack) (callbacks s)\<rparr>),
              act_if (has_success u) (kept_success u)])])"

section \<open>Invariant and answers\<close>

lemma stmt_ok_outbound [inv_intro, simp]:
  "stmt_ok (sql_enqueue r)" "stmt_ok (sql_delete_outbound lid)" "stmt_ok (sql_bump_retry lid)"
  by (rule stmt_okI, auto simp: sql_enqueue_def sql_delete_outbound_def sql_bump_retry_def tables_inv_def
      unique_update)+

lemma keeps_send_frame [keeps_intro]: "keeps (client_inv X) (send_frame json)"
  unfolding send_frame_def by (intro keeps_intro) (auto simp: client_inv_def)

lemma keeps_sendRow [keeps_intro]: "keeps (client_inv X) (sendRow w cid ct n bdy lid)"
  unfolding sendRow_def Let_def by (intro keeps_intro stmt_ok_outbound)

lemma keeps_enqueue_persist [keeps_intro]: "keeps (client_inv X) (enqueue_persist cid ct n bdy lid)"
  unfolding enqueue_persist_def by (intro keeps_intro stmt_ok_outbound)

lemma keeps_enqueue_register [keeps_intro]: "cb_id u \<notin> fst X \<or> mute u \<Longrightarrow> keeps (client_inv X) (enqueue_register lid u)"
  unfolding enqueue_register_def
  by (intro keeps_intro) (auto simp: client_inv_def emplace_callback_def)

lemma keeps_enqueue [keeps_intro]: "cb_id u \<notin> fst X \<or> mute u \<Longrightarrow> keeps (client_inv X) (enqueue w cid ct n bdy lid u)"
  unfolding enqueue_def by (intro keeps_intro)

lemma keeps_flush_row [keeps_intro]: "keeps (client_inv X) (flush_row w r)"
  unfolding flush_row_def by (intro keeps_intro)

lemma keeps_oq_onConnected [keeps_intro]: "keeps (client_inv X) (oq_onConnected w)"
  unfolding oq_onConnected_def oq_install_def oq_flush_def by (intro keeps_intro) (simp add: client_inv_def)

lemma keeps_oq_onDisconnected [keeps_intro]: "keeps (client_inv X) oq_onDisconnected"
  unfolding oq_onDisconnected_def by (intro keeps_intro) (simp add: client_inv_def)

lemma keeps_sendTransient [keeps_intro]: "(\<And>b. keeps (client_inv X) (k b)) \<Longrightarrow> keeps (client_inv X) (sendTransient json k)"
  unfolding sendTransient_def by (intro keeps_intro) auto

lemma keeps_onMessageSentAck [keeps_intro]: "keeps (client_inv X) (onMessageSentAck ack)"
  unfolding onMessageSentAck_def
  by (intro keeps_intro stmt_ok_outbound) (auto simp: client_inv_def list_all_iff intro: distinct_map_filter)

lemma answers_send_frame [answers_intro]: "answers (about i) 0 (send_frame json)"
  unfolding send_frame_def by (intro answers_intro) simp

lemma answers_sendTransient [answers_intro]:
  "(\<And>b. answers (about i) n (k b)) \<Longrightarrow> answers (about i) n (sendTransient json k)"
  unfolding sendTransient_def by (intro answers_intro) auto

lemma answers_sendRow [answers_intro]: "answers (about i) 0 (sendRow w cid ct n bdy lid)"
  unfolding sendRow_def Let_def by (intro answers_intro)

lemma answers_oq_onConnected [answers_intro]: "answers (about i) 0 (oq_onConnected w)"
  unfolding oq_onConnected_def oq_install_def oq_flush_def flush_row_def by (intro answers_intro)

lemma answers_oq_onDisconnected [answers_intro]: "answers P 0 oq_onDisconnected"
  unfolding oq_onDisconnected_def by (rule answers_modify)

lemma answers_enqueue [answers_intro]: "answers (about i) 0 (enqueue w cid ct n bdy lid u)"
  unfolding enqueue_def enqueue_persist_def enqueue_register_def by (intro answers_intro)

text \<open>An acknowledgement answers only calls whose callback waits in the queue.\<close>

lemma answers_ack:
  assumes "i \<in> fst X"
  shows "answers_in (client_inv X) (about i) 0 (onMessageSentAck ack)"
proof -
  have other: "answers_in (client_inv X) (about i) 0 (kept_success u)"
    if "client_inv X s" "map_of (callbacks s) lid = Some u" for s lid u
  proof -
    have "cb_id u \<noteq> i \<or> mute u"
      using map_of_SomeD [OF that(2)] that(1) assms by (auto simp: client_inv_def list_all_iff)
    then show ?thesis by (rule answers_keeps [OF answers_kept_success keeps_kept_success])
  qed
  have forget: "answers_in (client_inv X) (about i) 0
      (modify (\<lambda>s. s\<lparr>callbacks := filter (\<lambda>c. fst c \<noteq> lid) (callbacks s)\<rparr>))" for lid
    by (rule answers_in_modify) (auto simp: client_inv_def list_all_iff intro: distinct_map_filter)
  have del: "answers_in (client_inv X) (about i) 0 (exec (sql_delete_outbound lid))" for lid
    by (rule answers_keeps, rule answers_updates, rule keeps_exec, rule stmt_ok_outbound)
  show ?thesis
    unfolding onMessageSentAck_def
    by (rule answers_if, rule answers_skip, rule answers_quiet_Cons, rule del, rule answers_single,
        rule answers_in_reading, rule answers_case_option, rule answers_skip, rule answers_quiet_Cons, rule forget,
        rule answers_single, rule answers_act_if, rule other)
qed

section \<open>The flush\<close>

text \<open>The frame of a row, as the flush reads it back.\<close>

definition row_frame :: "frame_writer \<Rightarrow> outbound_row \<Rightarrow> string" where
  "row_frame w r = buildSendFrame w (c_str (orow_conv_id r)) (c_str (orow_conv_type r))
     (wrap32 (orow_content_type r)) (c_str (orow_content r)) (c_str (orow_local_id r))"

definition bump_row :: "string \<Rightarrow> outbound_row \<Rightarrow> outbound_row" where
  "bump_row lid r = (if orow_local_id r = lid then r\<lparr>orow_retry_count := orow_retry_count r + 1\<rparr> else r)"

text \<open>What of a row the server and the user care about.\<close>

definition row_data :: "outbound_row \<Rightarrow> string \<times> string \<times> string \<times> int \<times> string \<times> int" where
  "row_data r = (orow_local_id r, orow_conv_id r, orow_conv_type r, orow_content_type r, orow_content r,
     orow_created_at r)"

definition queued :: "client \<Rightarrow> (string \<times> string \<times> string \<times> int \<times> string \<times> int) list" where
  "queued s = (case db s of None \<Rightarrow> [] | Some t \<Rightarrow> map row_data (outbound_queue t))"

definition writes :: "frame_writer \<Rightarrow> bool" where
  "writes w \<longleftrightarrow> (\<forall>f. \<exists>json. w f = Inr json \<and> json \<noteq> [])"

lemma writes_frame: "writes w \<Longrightarrow> buildSendFrame w a b c d e \<noteq> []"
  unfolding writes_def buildSendFrame_def
  by (metis (no_types, lifting) sum.case(2))

lemma queued_bump: "db s = Some t \<Longrightarrow>
   queued (s\<lparr>db := db_exec (sql_bump_retry lid) (db s)\<rparr>) = queued s"
  by (simp add: queued_def db_exec_Some sql_bump_retry_def update_rows_def row_data_def)

lemma sendRow_run:
  assumes "send_fn s" and "writes w" and "db s = Some t"
  shows "\<exists>s'. sendRow w cid ct n bdy lid s = (s', [FrameSent (buildSendFrame w cid ct n bdy lid)], [])
    \<and> send_fn s' \<and> (\<exists>t'. db s' = Some t') \<and> queued s' = queued s \<and> callbacks s' = callbacks s"
  using assms writes_frame [OF assms(2), of cid ct n bdy lid]
  by (auto simp: sendRow_def act_defs send_frame_def exec_def on_db_def Let_def db_exec_Some
      sql_bump_retry_def queued_def update_rows_def row_data_def)

lemma flush_row_run:
  assumes "is_i64 (orow_content_type r)"
  shows "flush_row w (outbound_cells r) = sendRow w (c_str (orow_conv_id r)) (c_str (orow_conv_type r))
    (wrap32 (orow_content_type r)) (c_str (orow_content r)) (c_str (orow_local_id r))"
  using assms by (simp add: flush_row_def outbound_cells_def text_cell_def)

lemma flush_rows_run:
  assumes "send_fn s" and "writes w" and "db s = Some t" and "\<forall>r \<in> set rs. is_i64 (orow_content_type r)"
  shows "\<exists>s'. for_each (flush_row w) (map outbound_cells rs) s = (s', map (\<lambda>r. FrameSent (row_frame w r)) rs, [])
    \<and> send_fn s' \<and> (\<exists>t'. db s' = Some t') \<and> queued s' = queued s \<and> callbacks s' = callbacks s"
  using assms
proof (induction rs arbitrary: s t)
  case Nil
  then show ?case by (auto simp: skip_def)
next
  case (Cons r rs)
  obtain s1 t1 where 1: "flush_row w (outbound_cells r) s = (s1, [FrameSent (row_frame w r)], [])"
    "send_fn s1" "db s1 = Some t1" "queued s1 = queued s" "callbacks s1 = callbacks s"
    using sendRow_run [OF Cons.prems(1-3), of "c_str (orow_conv_id r)" "c_str (orow_conv_type r)"
        "wrap32 (orow_content_type r)" "c_str (orow_content r)" "c_str (orow_local_id r)"]
      flush_row_run [of r w] Cons.prems(4) by (auto simp: row_frame_def)
  obtain s2 where 2: "for_each (flush_row w) (map outbound_cells rs) s1
      = (s2, map (\<lambda>r. FrameSent (row_frame w r)) rs, [])" "send_fn s2" "\<exists>t'. db s2 = Some t'"
    "queued s2 = queued s1" "callbacks s2 = callbacks s1"
    using Cons.IH [OF 1(2) Cons.prems(2) 1(3)] Cons.prems(4) by auto
  show ?case
    using 1 2 by (auto simp: for_each_Cons seq_def)
qed

lemma oq_onConnected_run:
  assumes "writes w" and "db s = Some t" and "\<forall>r \<in> set (outbound_queue t). is_i64 (orow_content_type r)"
  shows "\<exists>s'. oq_onConnected w s =
      (s', map (\<lambda>r. FrameSent (row_frame w r)) (stable_sort created_less (outbound_queue t)), [])
    \<and> send_fn s' \<and> (\<exists>t'. db s' = Some t') \<and> queued s' = queued s \<and> callbacks s' = callbacks s"
proof -
  let ?s = "s\<lparr>send_fn := True\<rparr>"
  have q: "queryDirect sql_pending (db ?s) = map outbound_cells (stable_sort created_less (outbound_queue t))"
    using assms(2) by (simp add: queryDirect_def sql_pending_def)
  obtain s' where s': "for_each (flush_row w) (map outbound_cells (stable_sort created_less (outbound_queue t))) ?s =
      (s', map (\<lambda>r. FrameSent (row_frame w r)) (stable_sort created_less (outbound_queue t)), [])"
    "send_fn s'" "\<exists>t'. db s' = Some t'" "queued s' = queued ?s" "callbacks s' = callbacks ?s"
    using flush_rows_run [of ?s w t "stable_sort created_less (outbound_queue t)"] assms by auto
  have "oq_flush w ?s = (s', map (\<lambda>r. FrameSent (row_frame w r)) (stable_sort created_less (outbound_queue t)), [])"
    using s'(1) q by (simp add: oq_flush_def reading_def)
  then show ?thesis
    using s'(2-5) by (auto simp: oq_onConnected_def oq_install_def modify_def queued_def seq_def)
qed

section \<open>A row stays until its acknowledgement\<close>

datatype oq_op =
    Enqueue string string int string string user_cb
  | QConnected
  | QDisconnected
  | Transient string
  | Ack msg_sent_ack

fun oq_act :: "frame_writer \<Rightarrow> oq_op \<Rightarrow> client_act" where
  "oq_act w (Enqueue cid ct n bdy lid u) = enqueue w cid ct n bdy lid u"
| "oq_act w QConnected = oq_onConnected w"
| "oq_act w QDisconnected = oq_onDisconnected"
| "oq_act w (Transient json) = sendTransient json (\<lambda>_. skip)"
| "oq_act w (Ack ack) = onMessageSentAck ack"

definition not_acking :: "string \<Rightarrow> oq_op \<Rightarrow> bool" where
  "not_acking lid op = (case op of Ack ack \<Rightarrow> ack_local_id ack \<noteq> lid | Enqueue cid ct n bdy l u \<Rightarrow> is_i32 n | _ \<Rightarrow> True)"

definition keeps_row :: "string \<times> string \<times> string \<times> int \<times> string \<times> int \<Rightarrow> client \<Rightarrow> bool" where
  "keeps_row d s \<longleftrightarrow> (\<exists>t. db s = Some t \<and> (\<forall>r \<in> set (outbound_queue t). is_i64 (orow_content_type r))
     \<and> d \<in> row_data ` set (outbound_queue t))"

lemma keeps_row_exec:
  "(\<And>t t'. st t = Some t' \<Longrightarrow> (\<forall>r \<in> set (outbound_queue t). is_i64 (orow_content_type r)) \<Longrightarrow>
      d \<in> row_data ` set (outbound_queue t) \<Longrightarrow>
      (\<forall>r \<in> set (outbound_queue t'). is_i64 (orow_content_type r)) \<and> d \<in> row_data ` set (outbound_queue t')) \<Longrightarrow>
   keeps (keeps_row d) (exec st)"
  unfolding exec_def on_db_def
  by (rule keeps_modify) (auto simp: keeps_row_def db_exec_Some split: option.split)

lemma keeps_row_bump [keeps_intro]: "keeps (keeps_row d) (exec (sql_bump_retry lid))"
proof (rule keeps_row_exec)
  fix t t'
  assume t': "sql_bump_retry lid t = Some t'" and ty: "\<forall>r \<in> set (outbound_queue t). is_i64 (orow_content_type r)"
    and d: "d \<in> row_data ` set (outbound_queue t)"
  have q: "outbound_queue t' = map (\<lambda>r. if orow_local_id r = lid
      then r\<lparr>orow_retry_count := orow_retry_count r + 1\<rparr> else r) (outbound_queue t)"
    using t' by (auto simp: sql_bump_retry_def update_rows_def)
  then have "map row_data (outbound_queue t') = map row_data (outbound_queue t)"
    by (simp add: row_data_def)
  then have "row_data ` set (outbound_queue t') = row_data ` set (outbound_queue t)" by (metis set_map)
  moreover have "\<forall>r \<in> set (outbound_queue t'). is_i64 (orow_content_type r)" using ty by (auto simp: q)
  ultimately show "(\<forall>r \<in> set (outbound_queue t'). is_i64 (orow_content_type r)) \<and> d \<in> row_data ` set (outbound_queue t')"
    using d by simp
qed

lemma keeps_row_enqueue: "is_i64 (orow_content_type r) \<Longrightarrow> keeps (keeps_row d) (exec (sql_enqueue r))"
  by (rule keeps_row_exec) (auto simp: sql_enqueue_def insert_or_ignore_def split: if_splits)

lemma keeps_row_delete:
  assumes "fst d \<noteq> lid"
  shows "keeps (keeps_row d) (exec (sql_delete_outbound lid))"
  by (rule keeps_row_exec) (use assms in \<open>auto simp: sql_delete_outbound_def delete_rows_def row_data_def\<close>)

lemma keeps_row_modify: "(\<And>s. db (f s) = db s) \<Longrightarrow> keeps (keeps_row d) (modify f)"
  by (rule keeps_modify) (simp add: keeps_row_def)

lemma keeps_row_sendRow: "keeps (keeps_row d) (sendRow w cid ct n bdy lid)"
  unfolding sendRow_def Let_def send_frame_def by (intro keeps_intro keeps_row_modify) simp

lemma keeps_row_act: "not_acking (fst d) op \<Longrightarrow> keeps (keeps_row d) (oq_act w op)"
proof (cases op)
  case (Enqueue cid ct n bdy lid u)
  assume "not_acking (fst d) op"
  then have "is_i64 n" using Enqueue by (auto simp: not_acking_def intro: cpp_int)
  then show ?thesis
    unfolding Enqueue oq_act.simps enqueue_def enqueue_persist_def enqueue_register_def
    by (intro keeps_intro keeps_row_enqueue keeps_row_modify keeps_row_sendRow) simp_all
next
  case QConnected
  then show ?thesis
    unfolding QConnected oq_act.simps oq_onConnected_def oq_install_def oq_flush_def flush_row_def
    by (intro keeps_intro keeps_row_modify keeps_row_sendRow) simp_all
next
  case QDisconnected
  then show ?thesis unfolding QDisconnected oq_act.simps oq_onDisconnected_def by (intro keeps_row_modify) simp
next
  case (Transient json)
  then show ?thesis unfolding Transient oq_act.simps sendTransient_def send_frame_def
    by (intro keeps_intro keeps_row_modify) simp_all
next
  case (Ack ack)
  assume "not_acking (fst d) op"
  then show ?thesis unfolding Ack oq_act.simps onMessageSentAck_def
    by (intro keeps_intro keeps_row_delete keeps_row_modify) (simp_all add: not_acking_def)
qed

definition oq_run :: "frame_writer \<Rightarrow> oq_op list \<Rightarrow> client \<Rightarrow> client" where
  "oq_run w ops s = fst (perform (map (oq_act w) ops) s)"

lemma keeps_row_run: "list_all (not_acking (fst d)) ops \<Longrightarrow> keeps_row d s \<Longrightarrow> keeps_row d (oq_run w ops s)"
proof -
  assume ops: "list_all (not_acking (fst d)) ops" and s: "keeps_row d s"
  have "keeps (keeps_row d) (perform (map (oq_act w) ops))"
    by (rule keeps_perform) (use ops in \<open>auto simp: list_all_iff intro: keeps_row_act\<close>)
  then show ?thesis using s unfolding oq_run_def keeps_def by (metis prod.collapse)
qed

lemma enqueue_keeps_row:
  assumes "db s = Some t" and "\<forall>r \<in> set (outbound_queue t). is_i64 (orow_content_type r)" and "is_i64 n"
    and "\<not> has_row orow_local_id lid (outbound_queue t)"
  shows "keeps_row (lid, cid, ct, n, bdy, cdiv (now_ms s) 1000) (fst (enqueue w cid ct n bdy lid u s))"
proof -
  let ?d = "(lid, cid, ct, n, bdy, cdiv (now_ms s) 1000)"
  obtain s1 where 1: "enqueue_persist cid ct n bdy lid s = (s1, [], [])" and row: "keeps_row ?d s1"
    using assms by (auto simp: enqueue_persist_def reading_def exec_def on_db_def modify_def db_exec_Some
        sql_enqueue_def insert_or_ignore_def keeps_row_def row_data_def)
  have "keeps (keeps_row ?d) (perform [enqueue_register lid u,
      reading (\<lambda>s. act_if (send_fn s) (sendRow w cid ct n bdy lid))])"
    unfolding enqueue_register_def by (intro keeps_intro keeps_row_modify keeps_row_sendRow) simp
  then have "keeps_row ?d (fst (perform [enqueue_register lid u,
      reading (\<lambda>s. act_if (send_fn s) (sendRow w cid ct n bdy lid))] s1))"
    using row unfolding keeps_def by (metis prod.collapse)
  then show ?thesis
    unfolding enqueue_def using 1 by (simp add: seq_def split: prod.splits)
qed

section \<open>Two threads\<close>

text \<open>
  \<open>enqueue()\<close> on the caller's thread against \<open>onConnected()\<close> on the WebSocket thread,
  split at the points where another thread can come in between. The extra component is the
  copy of \<open>send_fn_\<close> that \<open>enqueue\<close> takes under the lock.
\<close>

type_synonym oq_step = "client \<times> bool \<Rightarrow> (client \<times> bool) \<times> event list"

definition of_act :: "client_act \<Rightarrow> oq_step" where
  "of_act a p = (case a (fst p) of (s', es, ps) \<Rightarrow> ((s', snd p), es))"

definition take_send_fn :: "string \<Rightarrow> user_cb \<Rightarrow> oq_step" where
  "take_send_fn lid u p = (case enqueue_register lid u (fst p) of (s', es, ps) \<Rightarrow> ((s', send_fn s'), es))"

definition send_if_taken :: "frame_writer \<Rightarrow> string \<Rightarrow> string \<Rightarrow> int \<Rightarrow> string \<Rightarrow> string \<Rightarrow> oq_step" where
  "send_if_taken w cid ct n bdy lid p =
     (case act_if (snd p) (sendRow w cid ct n bdy lid) (fst p) of (s', es, ps) \<Rightarrow> ((s', snd p), es))"

definition enqueue_thread :: "frame_writer \<Rightarrow> string \<Rightarrow> string \<Rightarrow> int \<Rightarrow> string \<Rightarrow> string \<Rightarrow> user_cb \<Rightarrow> oq_step list" where
  "enqueue_thread w cid ct n bdy lid u =
     [of_act (enqueue_persist cid ct n bdy lid), take_send_fn lid u, send_if_taken w cid ct n bdy lid]"

definition connect_thread :: "frame_writer \<Rightarrow> oq_step list" where
  "connect_thread w = [of_act oq_install, of_act (oq_flush w)]"

fun run_steps :: "oq_step list \<Rightarrow> client \<times> bool \<Rightarrow> event list" where
  "run_steps [] p = []"
| "run_steps (f # fs) p = (case f p of (p', es) \<Rightarrow> es @ run_steps fs p')"

text \<open>The row is there, with some creation time.\<close>

definition row_there :: "string \<Rightarrow> string \<Rightarrow> string \<Rightarrow> int \<Rightarrow> string \<Rightarrow> client \<Rightarrow> bool" where
  "row_there lid cid ct n bdy s \<longleftrightarrow> (\<exists>ts. keeps_row (lid, cid, ct, n, bdy, ts) s)"

text \<open>The row is not there yet, and the table is well typed.\<close>

definition fresh :: "string \<Rightarrow> client \<Rightarrow> bool" where
  "fresh lid s \<longleftrightarrow> (\<exists>t. db s = Some t \<and> (\<forall>r \<in> set (outbound_queue t). is_i64 (orow_content_type r))
     \<and> \<not> has_row orow_local_id lid (outbound_queue t))"

lemma run_steps_Cons: "run_steps (f # fs) p = snd (f p) @ run_steps fs (fst (f p))"
  by (simp add: case_prod_beta)

lemma fst_of_act: "fst (fst (of_act a p)) = fst (a (fst p))" "snd (fst (of_act a p)) = snd p"
  "snd (of_act a p) = fst (snd (a (fst p)))"
  by (simp_all add: of_act_def split: prod.split)

lemma keeps_fst: "keeps I a \<Longrightarrow> I s \<Longrightarrow> I (fst (a s))"
  unfolding keeps_def by (metis prod.collapse)

lemma sf_act: "keeps (\<lambda>s. send_fn s = b) (sendRow w cid ct n bdy lid)"
  unfolding sendRow_def Let_def send_frame_def exec_def on_db_def by (intro keeps_intro) auto

lemma sf_flush: "keeps (\<lambda>s. send_fn s = b) (oq_flush w)"
  unfolding oq_flush_def flush_row_def by (intro keeps_intro sf_act)

lemma keeps_row_flush: "keeps (keeps_row d) (oq_flush w)"
  unfolding oq_flush_def flush_row_def by (intro keeps_intro keeps_row_sendRow)

lemma fresh_bump: "keeps (fresh lid) (exec (sql_bump_retry l))"
  unfolding exec_def on_db_def
  by (rule keeps_modify)
    (auto simp: fresh_def db_exec_Some sql_bump_retry_def update_rows_def has_row_iff split: if_splits)

lemma fresh_modify: "(\<And>s. db (f s) = db s) \<Longrightarrow> keeps (fresh lid) (modify f)"
  by (rule keeps_modify) (simp add: fresh_def)

lemma fresh_flush: "keeps (fresh lid) (oq_flush w)"
  unfolding oq_flush_def flush_row_def sendRow_def Let_def send_frame_def
  by (intro keeps_intro fresh_bump fresh_modify) simp

lemma flush_sends:
  assumes "keeps_row (lid, cid, ct, n, bdy, ts) s" and "send_fn s" and "writes w" and "is_i32 n"
  shows "FrameSent (buildSendFrame w (c_str cid) (c_str ct) n (c_str bdy) (c_str lid)) \<in> set (fst (snd (oq_flush w s)))"
proof -
  obtain t where t: "db s = Some t" "\<forall>r \<in> set (outbound_queue t). is_i64 (orow_content_type r)"
    and "(lid, cid, ct, n, bdy, ts) \<in> row_data ` set (outbound_queue t)"
    using assms(1) by (auto simp: keeps_row_def)
  then obtain r where r: "r \<in> set (outbound_queue t)" "orow_local_id r = lid" "orow_conv_id r = cid"
      "orow_conv_type r = ct" "orow_content_type r = n" "orow_content r = bdy"
    by (auto simp: row_data_def)
  obtain s' where "for_each (flush_row w) (map outbound_cells (stable_sort created_less (outbound_queue t))) s =
      (s', map (\<lambda>r. FrameSent (row_frame w r)) (stable_sort created_less (outbound_queue t)), [])"
    using flush_rows_run [OF assms(2,3) t(1), of "stable_sort created_less (outbound_queue t)"] t(2) by auto
  then have "fst (snd (oq_flush w s)) = map (\<lambda>r. FrameSent (row_frame w r)) (stable_sort created_less (outbound_queue t))"
    using t(1) by (simp add: oq_flush_def reading_def queryDirect_def sql_pending_def)
  moreover have "row_frame w r = buildSendFrame w (c_str cid) (c_str ct) n (c_str bdy) (c_str lid)"
    using r assms(4) by (simp add: row_frame_def)
  ultimately show ?thesis using r(1) by force
qed

lemma persist_step:
  assumes "fresh lid s" and "is_i32 n"
  shows "keeps_row (lid, cid, ct, n, bdy, cdiv (now_ms s) 1000) (fst (enqueue_persist cid ct n bdy lid s))"
    and "send_fn (fst (enqueue_persist cid ct n bdy lid s)) = send_fn s"
proof -
  have n: "is_i64 n" using assms(2) by (rule cpp_int)
  show "keeps_row (lid, cid, ct, n, bdy, cdiv (now_ms s) 1000) (fst (enqueue_persist cid ct n bdy lid s))"
    using assms(1) n
    by (auto simp: fresh_def enqueue_persist_def reading_def exec_def on_db_def modify_def db_exec_Some
        sql_enqueue_def insert_or_ignore_def keeps_row_def row_data_def)
  show "send_fn (fst (enqueue_persist cid ct n bdy lid s)) = send_fn s"
    by (simp add: enqueue_persist_def reading_def exec_def on_db_def modify_def)
qed

lemma register_step:
  "keeps_row d (fst (enqueue_register lid u s)) = keeps_row d s"
  "fresh l (fst (enqueue_register lid u s)) = fresh l s"
  "send_fn (fst (enqueue_register lid u s)) = send_fn s"
  by (auto simp: enqueue_register_def act_if_def modify_def skip_def keeps_row_def fresh_def)

lemma install_step:
  "keeps_row d (fst (oq_install s)) = keeps_row d s" "fresh l (fst (oq_install s)) = fresh l s"
  "send_fn (fst (oq_install s))"
  by (auto simp: oq_install_def modify_def keeps_row_def fresh_def)

lemma send_sends:
  assumes "keeps_row d s" and "send_fn s" and "writes w"
  shows "FrameSent (buildSendFrame w cid ct n bdy lid) \<in> set (fst (snd (sendRow w cid ct n bdy lid s)))"
proof -
  obtain t where "db s = Some t" using assms(1) by (auto simp: keeps_row_def)
  from sendRow_run [OF assms(2,3) this, of cid ct n bdy lid] show ?thesis by auto
qed

text \<open>The ten interleavings of three steps with two.\<close>

lemma shuffles_3_2:
  "shuffles [a, b, c] [d, e] = {[a, b, c, d, e], [a, b, d, c, e], [a, b, d, e, c], [a, d, b, c, e], [a, d, b, e, c],
     [a, d, e, b, c], [d, a, b, c, e], [d, a, b, e, c], [d, a, e, b, c], [d, e, a, b, c]}"
  by (simp add: insert_commute Un_insert_left)

section \<open>Properties\<close>

text \<open>
  C2: Nothing queued is lost. A message that \<open>enqueue\<close> has accepted under a new local
  identifier is sent by the next \<open>onConnected\<close>, whatever happened in between: other
  messages, disconnects and reconnects, transient frames and acknowledgements of other
  messages. The frame carries the conversation, type, content and local identifier it was
  queued with.
\<close>

theorem outbound_redelivers:
  assumes "writes w" and "fresh lid s" and "is_i32 n" and "list_all (not_acking lid) ops"
    and "nul \<notin> set cid" and "nul \<notin> set ct" and "nul \<notin> set bdy" and "nul \<notin> set lid"
  shows "FrameSent (buildSendFrame w cid ct n bdy lid)
    \<in> set (fst (snd (oq_onConnected w (oq_run w ops (fst (enqueue w cid ct n bdy lid u s))))))"
proof -
  let ?d = "(lid, cid, ct, n, bdy, cdiv (now_ms s) 1000)"
  let ?s = "oq_run w ops (fst (enqueue w cid ct n bdy lid u s))"
  have "is_i64 n" using assms(3) by (rule cpp_int)
  then have "keeps_row ?d (fst (enqueue w cid ct n bdy lid u s))"
    using assms(2) by (auto simp: fresh_def intro: enqueue_keeps_row)
  then have "keeps_row ?d ?s" using keeps_row_run [of ?d ops] assms(4) by simp
  then have "keeps_row ?d (fst (oq_install ?s))" by (simp only: install_step)
  from flush_sends [OF this _ assms(1,3)] assms(5-8)
  have "FrameSent (buildSendFrame w cid ct n bdy lid) \<in> set (fst (snd (oq_flush w (fst (oq_install ?s)))))"
    by (simp add: install_step)
  then show ?thesis by (simp add: oq_onConnected_def seq_def case_prod_beta)
qed

definition demo_writer :: frame_writer where
  "demo_writer f = Inr (''{'' @ sp_local_id (sf_payload f) @ '':'' @ sp_content (sf_payload f) @ ''}'')"

lemma demo_writer: "writes demo_writer"
  by (simp add: writes_def demo_writer_def)

lemma fresh_demo: "fresh lid demo_client"
  by (simp add: fresh_def kSchemav1_def has_row_def)

theorem outbound_redelivers_witness:
  "FrameSent ''{local_1:hi}'' \<in> set (fst (snd (oq_onConnected demo_writer
     (oq_run demo_writer [QConnected, QDisconnected, Ack \<lparr>ack_message_id = ''m'', ack_sequence = 1, ack_timestamp = 0,
        ack_local_id = ''local_2''\<rparr>]
       (fst (enqueue demo_writer ''c1'' ''private'' 1 ''hi'' ''local_1'' (full_cb 7) demo_client))))))"
  using outbound_redelivers [OF demo_writer fresh_demo [of "''local_1''"], of 1
      "[QConnected, QDisconnected, Ack \<lparr>ack_message_id = ''m'', ack_sequence = 1, ack_timestamp = 0,
        ack_local_id = ''local_2''\<rparr>]" "''c1''" "''private''" "''hi''" "full_cb 7"]
  by (simp add: not_acking_def is_i32_def buildSendFrame_def demo_writer_def nul_CHR)

text \<open>
  C3: A message queued while the connection comes up is sent. However \<open>enqueue()\<close> on the
  caller's thread and \<open>onConnected()\<close> on the WebSocket thread interleave, the frame goes
  out: the row is in the database before \<open>enqueue\<close> looks at the send function, and the
  send function is installed before the flush reads the rows.
\<close>

theorem outbound_enqueue_race:
  assumes "writes w" and "fresh lid s" and "is_i32 n"
    and "nul \<notin> set cid" and "nul \<notin> set ct" and "nul \<notin> set bdy" and "nul \<notin> set lid"
    and "steps \<in> shuffles (enqueue_thread w cid ct n bdy lid u) (connect_thread w)"
  shows "FrameSent (buildSendFrame w cid ct n bdy lid) \<in> set (run_steps steps (s, b))"
proof -
  let ?f = "FrameSent (buildSendFrame w cid ct n bdy lid)"
  let ?kr = "row_there lid cid ct n bdy"
  define P where "P = of_act (enqueue_persist cid ct n bdy lid)"
  define T where "T = take_send_fn lid u"
  define S where "S = send_if_taken w cid ct n bdy lid"
  define I where "I = of_act oq_install"
  define F where "F = of_act (oq_flush w)"
  have P: "fresh lid (fst p) \<Longrightarrow> ?kr (fst (fst (P p)))" "send_fn (fst (fst (P p))) = send_fn (fst p)"
      "snd (fst (P p)) = snd p" for p
    using persist_step [of lid "fst p" n cid ct bdy] assms(3)
    by (auto simp: P_def row_there_def fst_of_act enqueue_persist_def reading_def exec_def on_db_def modify_def)
  have reg: "fst (fst (T p)) = fst (enqueue_register lid u (fst p))"
      "snd (fst (T p)) = send_fn (fst (enqueue_register lid u (fst p)))" for p
    by (simp_all add: T_def take_send_fn_def split: prod.split)
  have T: "?kr (fst (fst (T p))) = ?kr (fst p)" "fresh lid (fst (fst (T p))) = fresh lid (fst p)"
      "send_fn (fst (fst (T p))) = send_fn (fst p)" "snd (fst (T p)) = send_fn (fst p)" for p
    by (simp_all add: reg row_there_def register_step)
  have I: "?kr (fst (fst (I p))) = ?kr (fst p)" "fresh lid (fst (fst (I p))) = fresh lid (fst p)"
      "send_fn (fst (fst (I p)))" "snd (fst (I p)) = snd p" for p
    by (simp_all add: I_def fst_of_act row_there_def install_step)
  have F: "?kr (fst p) \<Longrightarrow> ?kr (fst (fst (F p)))" "fresh lid (fst p) \<Longrightarrow> fresh lid (fst (fst (F p)))"
      "send_fn (fst (fst (F p))) = send_fn (fst p)" "snd (fst (F p)) = snd p" for p
    using keeps_fst [OF keeps_row_flush, of _ "fst p"] keeps_fst [OF fresh_flush, of _ "fst p"]
      keeps_fst [OF sf_flush [of "send_fn (fst p)"], of "fst p"]
    by (auto simp: F_def fst_of_act row_there_def; blast)+
  have outF: "?kr (fst p) \<Longrightarrow> send_fn (fst p) \<Longrightarrow> ?f \<in> set (snd (F p))" for p
    using flush_sends [of lid cid ct n bdy _ "fst p" w] assms(1,3-7) by (auto simp: F_def fst_of_act row_there_def)
  have outS: "?kr (fst p) \<Longrightarrow> send_fn (fst p) \<Longrightarrow> snd p \<Longrightarrow> ?f \<in> set (snd (S p))" for p
    using send_sends [of _ "fst p" w cid ct n bdy lid] assms(1)
    by (auto simp: S_def send_if_taken_def act_if_def row_there_def split: prod.splits)
  have fr: "fresh lid (fst (s, b))" using assms(2) by simp
  have "steps \<in> shuffles [P, T, S] [I, F]"
    using assms(8) unfolding enqueue_thread_def connect_thread_def P_def T_def S_def I_def F_def .
  note order = this [unfolded shuffles_3_2]
  have "fst (fst (S p)) = (if snd p then fst (sendRow w cid ct n bdy lid (fst p)) else fst p)" for p
    by (simp add: S_def send_if_taken_def act_if_def skip_def case_prod_beta)
  then have S: "?kr (fst p) \<Longrightarrow> ?kr (fst (fst (S p)))" "send_fn (fst (fst (S p))) = send_fn (fst p)" for p
    using keeps_fst [OF keeps_row_sendRow, of _ "fst p" w cid ct n bdy lid]
      keeps_fst [OF sf_act [of "send_fn (fst p)" w cid ct n bdy lid], of "fst p"]
    by (auto simp: row_there_def; blast)+
  show ?thesis
    using order unfolding insert_iff empty_iff
    by (elim disjE FalseE) (simp_all add: run_steps_Cons P T I F S outF outS fr [simplified] del: run_steps.simps)
qed

theorem outbound_enqueue_race_witness:
  "FrameSent ''{local_1:hi}'' \<in> set (run_steps
     [of_act oq_install, of_act (enqueue_persist ''c1'' ''private'' 1 ''hi'' ''local_1''), of_act (oq_flush demo_writer),
      take_send_fn ''local_1'' (full_cb 7), send_if_taken demo_writer ''c1'' ''private'' 1 ''hi'' ''local_1'']
     (demo_client, False))"
  using outbound_enqueue_race [OF demo_writer fresh_demo [of "''local_1''"], of 1 "''c1''" "''private''" "''hi''"
      "[of_act oq_install, of_act (enqueue_persist ''c1'' ''private'' 1 ''hi'' ''local_1''), of_act (oq_flush demo_writer),
      take_send_fn ''local_1'' (full_cb 7), send_if_taken demo_writer ''c1'' ''private'' 1 ''hi'' ''local_1'']"
      "full_cb 7" False]
  by (simp add: is_i32_def buildSendFrame_def demo_writer_def nul_CHR enqueue_thread_def connect_thread_def
      shuffles_3_2 del: run_steps.simps)

end
