(* ===== verification/NotificationManager.thy ===== *)
theory NotificationManager
  imports OutboundQueue
begin

text \<open>
  \<open>NotificationManager\<close> (core/src/notification_manager.cpp): a raw frame from the
  WebSocket is decoded and handed to the pong handler, the acknowledgement handler or all
  notification handlers. The JSON reader is a parameter: for each payload type a function
  from the text to the decoded struct, or \<open>None\<close>. A raw payload is its JSON text.
\<close>

record notification_event =
  notification_type :: string
  ev_timestamp :: int
  ev_data :: string

record ws_frame_payload =
  wf_type :: string
  wf_payload :: "string option"

record msg_sent_ack_payload =
  map_message_id :: string
  map_sequence :: "integer_value option"
  map_timestamp :: "integer_value option"
  map_local_id :: string

record notification_envelope_payload =
  ne_type :: string
  ne_timestamp :: "integer_value option"
  ne_payload :: "string option"

record notif_json =
  read_frame :: "string \<Rightarrow> ws_frame_payload option"
  read_ack :: "string \<Rightarrow> msg_sent_ack_payload option"
  read_notification :: "string \<Rightarrow> notification_envelope_payload option"

record notif_mgr =
  on_msg_sent :: "(msg_sent_ack \<Rightarrow> client_act) option"
  notification_handlers :: "(notification_event \<Rightarrow> client_act) option list"
  on_pong :: "client_act option"

definition new_notif_mgr :: notif_mgr where
  "new_notif_mgr = \<lparr>on_msg_sent = None, notification_handlers = [], on_pong = None\<rparr>"

definition setOnMessageSent :: "(msg_sent_ack \<Rightarrow> client_act) option \<Rightarrow> notif_mgr \<Rightarrow> notif_mgr" where
  "setOnMessageSent h nm = nm\<lparr>on_msg_sent := h\<rparr>"

definition addNotificationHandler :: "(notification_event \<Rightarrow> client_act) option \<Rightarrow> notif_mgr \<Rightarrow> notif_mgr" where
  "addNotificationHandler h nm = nm\<lparr>notification_handlers := notification_handlers nm @ [h]\<rparr>"

definition setOnPong :: "client_act option \<Rightarrow> notif_mgr \<Rightarrow> notif_mgr" where
  "setOnPong h nm = nm\<lparr>on_pong := h\<rparr>"

definition parseRawObject :: "(string \<Rightarrow> 'a option) \<Rightarrow> string option \<Rightarrow> 'a option" where
  "parseRawObject read raw = (case raw of None \<Rightarrow> None | Some str \<Rightarrow> if str = [] then None else read str)"

definition rawJsonToString :: "string option \<Rightarrow> string" where
  "rawJsonToString raw = (case raw of None \<Rightarrow> [] | Some str \<Rightarrow> str)"

definition empty_object :: string where
  "empty_object = ''{}''"

definition call_handler :: "('a \<Rightarrow> client_act) option \<Rightarrow> 'a \<Rightarrow> client_act" where
  "call_handler h x = (case h of None \<Rightarrow> skip | Some f \<Rightarrow> f x)"

definition handleRaw :: "notif_json \<Rightarrow> notif_mgr \<Rightarrow> string \<Rightarrow> client_act" where
  "handleRaw J nm raw_json =
     (case read_frame J raw_json of None \<Rightarrow> skip
      | Some frame \<Rightarrow>
        let type = wf_type frame in
        if type = [] then skip
        else if type = ''pong'' then (case on_pong nm of None \<Rightarrow> skip | Some h \<Rightarrow> h)
        else if type = ''message.sent'' then
          (case parseRawObject (read_ack J) (wf_payload frame) of None \<Rightarrow> skip
           | Some payload \<Rightarrow> call_handler (on_msg_sent nm)
               \<lparr>ack_message_id = map_message_id payload,
                ack_sequence = parseInt64Value (map_sequence payload) 0,
                ack_timestamp = parseInt64Value (map_timestamp payload) 0,
                ack_local_id = map_local_id payload\<rparr>)
        else if type = ''notification'' then
          (case parseRawObject (read_notification J) (wf_payload frame) of None \<Rightarrow> skip
           | Some payload \<Rightarrow>
               if ne_type payload = [] then skip
               else
                 let data = rawJsonToString (ne_payload payload);
                     evt = \<lparr>notification_type = ne_type payload,
                            ev_timestamp = parseInt64Value (ne_timestamp payload) 0,
                            ev_data = if data = [] then empty_object else data\<rparr>
                 in for_each (\<lambda>h. call_handler h evt) (notification_handlers nm))
        else skip)"

lemma keeps_call_handler [keeps_intro]:
  "(\<And>f x. h = Some f \<Longrightarrow> keeps I (f x)) \<Longrightarrow> keeps I (call_handler h y)"
  unfolding call_handler_def by (intro keeps_intro) auto

lemma keeps_handleRaw:
  assumes "\<And>h a. on_msg_sent nm = Some h \<Longrightarrow> keeps I (h a)" and "\<And>h. on_pong nm = Some h \<Longrightarrow> keeps I h"
    and "\<And>h e. Some h \<in> set (notification_handlers nm) \<Longrightarrow> keeps I (h e)"
  shows "keeps I (handleRaw J nm raw)"
  unfolding handleRaw_def Let_def by (intro keeps_intro) (auto intro: assms)

lemma answers_handleRaw:
  assumes "\<And>h a. on_msg_sent nm = Some h \<Longrightarrow> answers_in I P 0 (h a)" and "\<And>h. on_pong nm = Some h \<Longrightarrow> answers_in I P 0 h"
    and "\<And>h e. Some h \<in> set (notification_handlers nm) \<Longrightarrow> answers_in I P 0 (h e)"
  shows "answers_in I P 0 (handleRaw J nm raw)"
proof -
  have call: "answers_in I P 0 (call_handler h e)" if "h \<in> set (notification_handlers nm)" for h e
    using that assms(3) by (cases h) (auto simp: call_handler_def intro: answers_intro)
  have each: "answers_in I P 0 (for_each (\<lambda>h. call_handler h e) (notification_handlers nm))" for e
    unfolding for_each_def by (rule answers_perform_quiet) (auto intro: call)
  show ?thesis
    unfolding handleRaw_def Let_def
    by (intro answers_intro each) (auto simp: call_handler_def intro: assms answers_intro split: option.split)
qed

end
