(* ===== verification/AuthManager.thy ===== *)
theory AuthManager
  imports NotificationManager
begin

text \<open>
  \<open>AuthManagerImpl\<close> (core/src/auth_manager.cpp): registration, login, logout, tokens and
  their persistence in the metadata table. The JSON writers and readers of the request and
  response structs are the fields of \<open>auth_json\<close>.
\<close>

definition kTokenRefreshLeewayMs :: int where
  "kTokenRefreshLeewayMs = 5 * 60 * 1000"

record register_user_request =
  ru_password :: string
  ru_verify_code :: string
  ru_device_id :: string
  ru_device_type :: int
  ru_client_version :: string
  ru_email :: "string option"
  ru_phone_number :: "string option"
  ru_nickname :: "string option"

record send_code_request =
  sc_target :: string
  sc_target_type :: int
  sc_purpose :: int
  sc_device_id :: string

record login_request =
  lr_account :: string
  lr_password :: string
  lr_device_id :: string
  lr_device_type :: int
  lr_client_version :: string

record change_password_request =
  cp_device_id :: string
  cp_old_password :: string
  cp_new_password :: string

record reset_password_request =
  rp_account :: string
  rp_verify_code :: string
  rp_new_password :: string

record auth_token_payload =
  at_access_token :: string
  at_refresh_token :: string
  at_expires_in :: int

record auth_device_payload =
  dp_device_id :: string
  dp_device_type :: "bool_value option"
  dp_client_version :: string
  dp_last_login_ip :: string
  dp_last_login_at :: "timestamp_value option"
  dp_is_current :: "bool_value option"

text \<open>\<open>LogoutRequest\<close>, \<open>LogoutDeviceRequest\<close> and \<open>RefreshTokenRequest\<close> have one field: their
  writers take it.\<close>

record auth_json =
  w_register :: "register_user_request \<Rightarrow> string + string"
  w_send_code :: "send_code_request \<Rightarrow> string + string"
  w_login :: "login_request \<Rightarrow> string + string"
  w_logout :: "string \<Rightarrow> string + string"
  w_logout_device :: "string \<Rightarrow> string + string"
  w_refresh :: "string \<Rightarrow> string + string"
  w_change_password :: "change_password_request \<Rightarrow> string + string"
  w_reset_password :: "reset_password_request \<Rightarrow> string + string"
  r_token :: "string \<Rightarrow> string + auth_token_payload envelope"
  r_code :: "string \<Rightarrow> string + verification_code_result envelope"
  r_devices :: "string \<Rightarrow> string + auth_device_payload list option envelope"
  r_result :: "string \<Rightarrow> string + unit envelope"
  r_force_logout :: "string \<Rightarrow> string + string"

section \<open>Token storage\<close>

definition storeToken :: "auth_token \<Rightarrow> client_act" where
  "storeToken t = perform [
     modify (\<lambda>s. s\<lparr>token := t\<rparr>),
     on_db (setMeta ''auth.access_token'' (access_token t)),
     on_db (setMeta ''auth.refresh_token'' (refresh_token t)),
     on_db (setMeta ''auth.expires_at_ms'' (to_string (expires_at_ms t)))]"

definition clearToken :: client_act where
  "clearToken = perform [
     modify (\<lambda>s. s\<lparr>token := new_auth_token\<rparr>),
     on_db (setMeta ''auth.access_token'' []),
     on_db (setMeta ''auth.refresh_token'' []),
     on_db (setMeta ''auth.expires_at_ms'' ''0'')]"

definition set_http_token :: "string \<Rightarrow> client_act" where
  "set_http_token t = modify (\<lambda>s. s\<lparr>http := setAuthToken t (http s)\<rparr>)"

definition clear_http_token :: client_act where
  "clear_http_token = modify (\<lambda>s. s\<lparr>http := clearAuthToken (http s)\<rparr>)"

text \<open>What the constructor does with the stored token.\<close>

definition auth_restore :: client_act where
  "auth_restore = reading (\<lambda>s.
     let access = getMeta ''auth.access_token'' [] (db s);
         refresh = getMeta ''auth.refresh_token'' [] (db s);
         expiry = getMeta ''auth.expires_at_ms'' ''0'' (db s)
     in act_if (access \<noteq> []) (perform [
          modify (\<lambda>s. s\<lparr>token := \<lparr>access_token = access, refresh_token = refresh,
                                expires_at_ms = fst (strtoll expiry)\<rparr>\<rparr>),
          set_http_token access]))"

section \<open>Responses\<close>

definition handleResultResponse :: "auth_json \<Rightarrow> http_response \<Rightarrow> string \<Rightarrow> unit callback \<Rightarrow> client_act" where
  "handleResultResponse J resp fallback cb = on_envelope (r_result J) resp fallback False cb (\<lambda>_. succeed cb ())"

definition handleAuthResponse :: "auth_json \<Rightarrow> http_response \<Rightarrow> auth_token callback \<Rightarrow> client_act" where
  "handleAuthResponse J resp cb =
     on_envelope (r_token J) resp ''auth failed'' False cb (\<lambda>data. reading (\<lambda>s.
       let tok = \<lparr>access_token = at_access_token data, refresh_token = at_refresh_token data,
                  expires_at_ms = if at_expires_in data > 0 then wrap64 (now_ms s + at_expires_in data * 1000) else 0\<rparr>
       in if access_token tok = [] then fail cb (- 1) ''auth failed: access_token is empty''
          else perform [storeToken tok, set_http_token (access_token tok), succeed cb tok]))"

section \<open>Operations\<close>

definition registerUser ::
  "auth_json \<Rightarrow> string \<Rightarrow> string \<Rightarrow> string \<Rightarrow> int \<Rightarrow> string \<Rightarrow> string \<Rightarrow> auth_token callback \<Rightarrow> client_act" where
  "registerUser J phone_or_email password verify_code device_type nickname client_version cb = reading (\<lambda>s.
     let mail = (CHR ''@'' \<in> set phone_or_email);
         req = \<lparr>ru_password = password, ru_verify_code = verify_code, ru_device_id = device_id s,
                ru_device_type = device_type, ru_client_version = client_version,
                ru_email = if mail then Some phone_or_email else None,
                ru_phone_number = if mail then None else Some phone_or_email,
                ru_nickname = if nickname \<noteq> [] then Some nickname else None\<rparr>
     in with_json (w_register J req) cb (\<lambda>json.
          http_post ''/auth/register'' json (\<lambda>resp. handleAuthResponse J resp cb)))"

definition sendVerificationCode ::
  "auth_json \<Rightarrow> string \<Rightarrow> int \<Rightarrow> int \<Rightarrow> verification_code_result callback \<Rightarrow> client_act" where
  "sendVerificationCode J target target_type purpose cb = reading (\<lambda>s.
     with_json (w_send_code J \<lparr>sc_target = target, sc_target_type = target_type, sc_purpose = purpose,
                               sc_device_id = device_id s\<rparr>) cb (\<lambda>json.
       http_post ''/auth/send-code'' json (\<lambda>resp.
         on_envelope (r_code J) resp ''send code failed'' False cb (\<lambda>data. succeed cb data))))"

definition auth_login :: "auth_json \<Rightarrow> string \<Rightarrow> string \<Rightarrow> int \<Rightarrow> string \<Rightarrow> auth_token callback \<Rightarrow> client_act" where
  "auth_login J account password device_type client_version cb = reading (\<lambda>s.
     with_json (w_login J \<lparr>lr_account = account, lr_password = password, lr_device_id = device_id s,
                           lr_device_type = device_type, lr_client_version = client_version\<rparr>) cb (\<lambda>json.
       http_post ''/auth/login'' json (\<lambda>resp. handleAuthResponse J resp cb)))"

definition auth_logout :: "auth_json \<Rightarrow> unit callback \<Rightarrow> client_act" where
  "auth_logout J cb = reading (\<lambda>s.
     with_json (w_logout J (device_id s)) cb (\<lambda>json.
       http_post ''/auth/logout'' json (\<lambda>resp.
         handleResultResponse J resp ''logout failed''
           \<lparr>on_success = Some (\<lambda>_. perform [clearToken, clear_http_token, succeed cb ()]),
            on_error = Some (\<lambda>code err. fail cb code err)\<rparr>)))"

definition is_missing :: "http_response \<Rightarrow> bool" where
  "is_missing resp \<longleftrightarrow> resp_error resp = [] \<and> (status_code resp = 404 \<or> status_code resp = 405)"

definition parse_device :: "auth_device_payload \<Rightarrow> auth_device" where
  "parse_device p = \<lparr>ad_device_id = dp_device_id p, ad_device_type = parseInt32Value_b (dp_device_type p) 0,
     ad_client_version = dp_client_version p, ad_last_login_ip = dp_last_login_ip p,
     ad_last_login_at_ms = parseTimestampMs (dp_last_login_at p),
     ad_is_current = parseBoolValue (dp_is_current p) False\<rparr>"

definition getDeviceList :: "auth_json \<Rightarrow> auth_device list callback \<Rightarrow> client_act" where
  "getDeviceList J cb =
     (let parse_response = (\<lambda>resp. on_envelope (r_devices J) resp ''get device list failed'' False cb
             (\<lambda>data. succeed cb (case data of None \<Rightarrow> [] | Some payloads \<Rightarrow> map parse_device payloads)))
      in http_post ''/auth/device/list'' empty_object (\<lambda>resp.
           if is_missing resp then http_get ''/auth/devices'' parse_response else parse_response resp))"

definition logoutDevice :: "auth_json \<Rightarrow> string \<Rightarrow> unit callback \<Rightarrow> client_act" where
  "logoutDevice J dev cb =
     with_json (w_logout_device J dev) cb (\<lambda>json.
       http_post ''/auth/device/logout'' json (\<lambda>resp.
         if is_missing resp
         then http_post ''/auth/devices/logout'' json (\<lambda>fallback_resp.
                handleResultResponse J fallback_resp ''logout device failed'' cb)
         else handleResultResponse J resp ''logout device failed'' cb))"

definition auth_refreshToken :: "auth_json \<Rightarrow> string \<Rightarrow> auth_token callback \<Rightarrow> client_act" where
  "auth_refreshToken J refresh cb =
     with_json (w_refresh J refresh) cb (\<lambda>json.
       http_post ''/auth/refresh'' json (\<lambda>resp. handleAuthResponse J resp cb))"

definition changePassword :: "auth_json \<Rightarrow> string \<Rightarrow> string \<Rightarrow> unit callback \<Rightarrow> client_act" where
  "changePassword J old_password new_password cb = reading (\<lambda>s.
     with_json (w_change_password J \<lparr>cp_device_id = device_id s, cp_old_password = old_password,
                                     cp_new_password = new_password\<rparr>) cb (\<lambda>json.
       http_post ''/auth/password/change'' json (\<lambda>resp.
         handleResultResponse J resp ''change password failed'' cb)))"

definition resetPassword :: "auth_json \<Rightarrow> string \<Rightarrow> string \<Rightarrow> string \<Rightarrow> unit callback \<Rightarrow> client_act" where
  "resetPassword J account verify_code new_password cb =
     with_json (w_reset_password J \<lparr>rp_account = account, rp_verify_code = verify_code,
                                    rp_new_password = new_password\<rparr>) cb (\<lambda>json.
       http_post ''/auth/password/reset'' json (\<lambda>resp.
         handleResultResponse J resp ''reset password failed'' cb))"

definition isLoggedIn :: "client \<Rightarrow> bool" where
  "isLoggedIn s \<longleftrightarrow> access_token (token s) \<noteq> [] \<and> expires_at_ms (token s) > now_ms s"

definition currentToken :: "client \<Rightarrow> auth_token" where
  "currentToken s = token s"

definition notify_expired :: client_act where
  "notify_expired = reading (\<lambda>s. act_if (auth_listener s) (emit AuthExpired))"

definition ensureValidToken :: "auth_json \<Rightarrow> unit callback \<Rightarrow> client_act" where
  "ensureValidToken J cb = reading (\<lambda>s.
     let snapshot = token s in
     if access_token snapshot \<noteq> [] \<and> expires_at_ms snapshot > now_ms s + kTokenRefreshLeewayMs
     then succeed cb ()
     else if refresh_token snapshot = []
     then perform [notify_expired, fail cb (- 1) ''no refresh token'']
     else auth_refreshToken J (refresh_token snapshot)
            \<lparr>on_success = Some (\<lambda>_. succeed cb ()),
             on_error = Some (\<lambda>code err. perform [notify_expired, fail cb code err])\<rparr>)"

definition auth_setListener :: "bool \<Rightarrow> client_act" where
  "auth_setListener l = modify (\<lambda>s. s\<lparr>auth_listener := l\<rparr>)"

definition handleAuthNotification :: "auth_json \<Rightarrow> notification_event \<Rightarrow> client_act" where
  "handleAuthNotification J ev = reading (\<lambda>s.
     if notification_type ev \<noteq> ''auth.force_logout'' then skip
     else
       let target = (case parseJsonObject (r_force_logout J) (ev_data ev) of Inl err \<Rightarrow> [] | Inr dev \<Rightarrow> dev)
       in if target \<noteq> [] \<and> target \<noteq> device_id s then skip
          else perform [clearToken, clear_http_token, notify_expired])"

section \<open>Invariant and answers\<close>

lemma keeps_token [keeps_intro]: "keeps (client_inv X) (modify (\<lambda>s. s\<lparr>token := t\<rparr>))"
  by (intro keeps_intro) (simp add: client_inv_def)

lemma keeps_storeToken [keeps_intro]: "keeps (client_inv X) (storeToken t)"
  unfolding storeToken_def by (intro keeps_intro db_inv_setMeta)

lemma keeps_clearToken [keeps_intro]: "keeps (client_inv X) clearToken"
  unfolding clearToken_def by (intro keeps_intro db_inv_setMeta)

lemma keeps_http_token [keeps_intro]: "keeps (client_inv X) (set_http_token t)" "keeps (client_inv X) clear_http_token"
  unfolding set_http_token_def clear_http_token_def by (intro keeps_intro, simp add: client_inv_def)+

lemma keeps_auth_restore [keeps_intro]: "keeps (client_inv X) auth_restore"
  unfolding auth_restore_def Let_def by (intro keeps_intro)

lemma keeps_auth_responses [keeps_intro]:
  "cb_keeps (client_inv X) cb \<Longrightarrow> keeps (client_inv X) (handleResultResponse J resp fb cb)"
  "cb_keeps (client_inv X) cb' \<Longrightarrow> keeps (client_inv X) (handleAuthResponse J resp cb')"
  unfolding handleResultResponse_def handleAuthResponse_def Let_def by (intro keeps_intro; assumption)+

lemma keeps_notify_expired [keeps_intro]: "keeps (client_inv X) notify_expired"
  unfolding notify_expired_def by (intro keeps_intro)

lemma keeps_auth_ops:
  "cb_keeps (client_inv X) tcb \<Longrightarrow> keeps (client_inv X) (registerUser J a b c d e f tcb)"
  "cb_keeps (client_inv X) vcb \<Longrightarrow> keeps (client_inv X) (sendVerificationCode J a d d' vcb)"
  "cb_keeps (client_inv X) tcb \<Longrightarrow> keeps (client_inv X) (auth_login J a b d f tcb)"
  "cb_keeps (client_inv X) cb \<Longrightarrow> keeps (client_inv X) (auth_logout J cb)"
  "cb_keeps (client_inv X) dcb \<Longrightarrow> keeps (client_inv X) (getDeviceList J dcb)"
  "cb_keeps (client_inv X) cb \<Longrightarrow> keeps (client_inv X) (logoutDevice J a cb)"
  "cb_keeps (client_inv X) tcb \<Longrightarrow> keeps (client_inv X) (auth_refreshToken J a tcb)"
  "cb_keeps (client_inv X) cb \<Longrightarrow> keeps (client_inv X) (changePassword J a b cb)"
  "cb_keeps (client_inv X) cb \<Longrightarrow> keeps (client_inv X) (resetPassword J a b c cb)"
  "cb_keeps (client_inv X) cb \<Longrightarrow> keeps (client_inv X) (ensureValidToken J cb)"
  unfolding registerUser_def sendVerificationCode_def auth_login_def auth_logout_def getDeviceList_def
    logoutDevice_def auth_refreshToken_def changePassword_def resetPassword_def ensureValidToken_def Let_def
  by (intro keeps_intro; assumption)+

lemma keeps_auth_notification [keeps_intro]: "keeps (client_inv X) (handleAuthNotification J ev)"
  unfolding handleAuthNotification_def Let_def by (intro keeps_intro)

lemma answers_tokens [answers_intro]: "answers P 0 (storeToken t)" "answers P 0 clearToken"
  "answers P 0 (set_http_token h)" "answers P 0 clear_http_token"
  unfolding storeToken_def clearToken_def set_http_token_def clear_http_token_def on_db_def
  by (intro answers_intro)+

lemma answers_notify_expired [answers_intro]: "answers (about i) 0 notify_expired"
  unfolding notify_expired_def by (intro answers_intro) simp

lemma answers_auth_responses [answers_intro]:
  "cb_answers i n cb \<Longrightarrow> answers (about i) n (handleResultResponse J resp fb cb)"
  "cb_answers i n cb' \<Longrightarrow> answers (about i) n (handleAuthResponse J resp cb')"
  unfolding handleResultResponse_def handleAuthResponse_def Let_def by (intro answers_intro; assumption)+

lemma answers_auth_ops:
  "cb_answers i n tcb \<Longrightarrow> answers (about i) n (registerUser J a b c d e f tcb)"
  "cb_answers i n vcb \<Longrightarrow> answers (about i) n (sendVerificationCode J a d d' vcb)"
  "cb_answers i n tcb \<Longrightarrow> answers (about i) n (auth_login J a b d f tcb)"
  "cb_answers i n cb \<Longrightarrow> answers (about i) n (auth_logout J cb)"
  "cb_answers i n dcb \<Longrightarrow> answers (about i) n (getDeviceList J dcb)"
  "cb_answers i n cb \<Longrightarrow> answers (about i) n (logoutDevice J a cb)"
  "cb_answers i n tcb \<Longrightarrow> answers (about i) n (auth_refreshToken J a tcb)"
  "cb_answers i n cb \<Longrightarrow> answers (about i) n (changePassword J a b cb)"
  "cb_answers i n cb \<Longrightarrow> answers (about i) n (resetPassword J a b c cb)"
  "cb_answers i n cb \<Longrightarrow> answers (about i) n (ensureValidToken J cb)"
  unfolding registerUser_def sendVerificationCode_def auth_login_def auth_logout_def getDeviceList_def
    logoutDevice_def auth_refreshToken_def changePassword_def resetPassword_def ensureValidToken_def Let_def
  by (intro answers_intro; assumption)+

lemma answers_auth_notification [answers_intro]: "answers (about i) 0 (handleAuthNotification J ev)"
  unfolding handleAuthNotification_def Let_def by (intro answers_intro)

end
