(* ===== verification/UrlEncode.thy ===== *)
theory UrlEncode
  imports Prelude
begin

text \<open>
  Percent-encoding of query values: \<open>urlEncode\<close> of core/src/message_manager.cpp and its two
  copies in user_manager.cpp and version_manager.cpp (these ask \<open>std::isalnum\<close>, in the C
  locale the same ranges). A char is a byte.
\<close>

definition hex_digit :: "nat \<Rightarrow> char" where
  "hex_digit n = (if n < 10 then digit_char n else char_of (n + 55))"

definition unreserved :: "char \<Rightarrow> bool" where
  "unreserved c \<longleftrightarrow> (65 \<le> ccode c \<and> ccode c \<le> 90) \<or> (97 \<le> ccode c \<and> ccode c \<le> 122) \<or> (48 \<le> ccode c \<and> ccode c \<le> 57)
     \<or> c = CHR ''-'' \<or> c = CHR ''_'' \<or> c = CHR ''.'' \<or> c = CHR ''~''"

fun urlEncode :: "string \<Rightarrow> string" where
  "urlEncode [] = []"
| "urlEncode (c # cs) =
     (if unreserved c then [c] else [CHR ''%'', hex_digit (ccode c div 16), hex_digit (ccode c mod 16)]) @ urlEncode cs"

text \<open>What a server does with the value, RFC 3986: percent, two hexadecimal digits; any other
  character stands for itself.\<close>

definition hex_val :: "char \<Rightarrow> nat option" where
  "hex_val c = (if 48 \<le> ccode c \<and> ccode c \<le> 57 then Some (ccode c - 48)
     else if 65 \<le> ccode c \<and> ccode c \<le> 70 then Some (ccode c - 55)
     else if 97 \<le> ccode c \<and> ccode c \<le> 102 then Some (ccode c - 87) else None)"

fun urlDecode :: "string \<Rightarrow> string option" where
  "urlDecode [] = Some []"
| "urlDecode (c # cs) =
     (if c = CHR ''%''
      then (case cs of h # l # rest \<Rightarrow> (case (hex_val h, hex_val l, urlDecode rest) of
                (Some x, Some y, Some r) \<Rightarrow> Some (char_of (16 * x + y) # r) | _ \<Rightarrow> None)
            | _ \<Rightarrow> None)
      else map_option ((#) c) (urlDecode cs))"

lemma ccode_hex_digit: "n < 16 \<Longrightarrow> ccode (hex_digit n) = (if n < 10 then 48 + n else 55 + n)"
  by (cases "n < 10") (simp_all add: hex_digit_def, simp add: ccode_def)

lemma hex_val_digit: "n < 16 \<Longrightarrow> hex_val (hex_digit n) = Some n"
  by (simp add: hex_val_def ccode_hex_digit)

lemma unreserved_not_percent: "unreserved c \<Longrightarrow> c \<noteq> CHR ''%''"
  by (auto simp: unreserved_def ccode_def)

lemma char_of_ccode: "char_of (ccode c) = c"
  by (simp add: ccode_def)

lemma ccode_bound: "ccode c div 16 < 16"
  unfolding ccode_def by (cases c) (simp add: less_mult_imp_div_less)

text \<open>
  C18: a query value survives the trip: the server's percent-decoding of \<open>urlEncode(input)\<close>
  is the input, byte for byte, and the encoding has only unreserved characters and
  percent signs, so no byte of a search keyword can start another query parameter.
\<close>

theorem urlEncode_roundtrip:
  "urlDecode (urlEncode input) = Some input \<and> list_all (\<lambda>c. unreserved c \<or> c = CHR ''%'') (urlEncode input)"
proof -
  have hex: "unreserved (hex_digit n)" if "n < 16" for n
    using that by (auto simp: unreserved_def ccode_hex_digit)
  show ?thesis
    by (induction input) (auto simp: hex_val_digit unreserved_not_percent char_of_ccode ccode_bound hex)
qed

end
