(* ===== verification/MessageManager.thy ===== *)
theory MessageManager
  imports NotificationManager UrlEncode
begin

text \<open>
  \<open>MessageManagerImpl\<close> (core/src/message_manager.cpp): sending through the outbound queue,
  history, acknowledgement, search, recall, delete, edit and typing, and the notifications
  about messages. Payload structs are records; the JSON readers and writers are the fields
  of \<open>msg_json\<close>.
\<close>

definition kMessageContentTypeText :: int where "kMessageContentTypeText = 1"
definition kMessageContentTypeCard :: int where "kMessageContentTypeCard = 7"

record message_payload =
  mp_message_id :: string
  mp_local_id :: string
  mp_conversation_id :: string
  mp_sender_id :: string
  mp_content_type :: "integer_value option"
  mp_content :: "content_value option"
  mp_sequence :: "integer_value option"
  mp_reply_to :: string
  mp_created_at :: "timestamp_value option"
  mp_status :: "integer_value option"
  mp_send_state :: "integer_value option"
  mp_is_read :: "bool_value option"

record message_list_payload =
  ml_messages :: "message_payload list option"
  ml_total_count :: "integer_value option"
  ml_has_more :: "bool_value option"
  ml_next_seq :: "integer_value option"

record group_read_member_payload =
  gp_user_id :: string
  gp_nickname :: string
  gp_name :: string
  gp_read_at :: "timestamp_value option"

record group_read_state_payload =
  gr_read_count :: "integer_value option"
  gr_unread_count :: "integer_value option"
  gr_read_members :: "group_read_member_payload list option"

datatype edit_value = EV_none | EV_wrapped "message_payload option" | EV_direct message_payload

record notification_message_payload =
  nm_message_id :: string
  nm_local_id :: string
  nm_conversation_id :: string
  nm_from_user_id :: string
  nm_content_type :: "integer_value option"
  nm_content :: string
  nm_seq :: "int option"
  nm_reply_to :: string
  nm_sent_at :: "timestamp_value option"
  nm_recalled_at :: "timestamp_value option"
  nm_deleted_at :: "timestamp_value option"
  nm_edited_at :: "timestamp_value option"

record notification_read_receipt_payload =
  nr_conversation_id :: string
  nr_from_user_id :: "string option"
  nr_reader_user_id :: "string option"
  nr_message_id :: string
  nr_last_read_seq :: "int option"
  nr_last_read_message_id :: string
  nr_read_at :: "timestamp_value option"

record notification_typing_payload =
  nt_conversation_id :: string
  nt_from_user_id :: string
  nt_typing :: bool
  nt_device_id :: string
  nt_expire_at :: "timestamp_value option"

record ack_messages_request =
  ak_conversation_id :: string
  ak_message_ids :: "string list"

record message_edit_payload =
  me_message_id :: string
  me_content :: string

record message_typing_payload =
  mt_conversation_id :: string
  mt_typing :: bool
  mt_ttl_seconds :: "int option"

text \<open>The \<open>TransientFrame\<close>s have a fixed type each: their writers take the payload.\<close>

record msg_json =
  w_frame :: frame_writer
  w_ack :: "ack_messages_request \<Rightarrow> string + string"
  w_message_ids :: "string list \<Rightarrow> string + string"
  w_recall :: "string \<Rightarrow> string + string"
  w_edit :: "string \<Rightarrow> string + string"
  w_recall_frame :: "string \<Rightarrow> string + string"
  w_delete_frame :: "string \<Rightarrow> string + string"
  w_edit_frame :: "message_edit_payload \<Rightarrow> string + string"
  w_typing_frame :: "message_typing_payload \<Rightarrow> string + string"
  r_void :: "string \<Rightarrow> string + unit envelope"
  r_message_list :: "string \<Rightarrow> string + message_list_payload envelope"
  r_group_read :: "string \<Rightarrow> string + group_read_state_payload envelope"
  r_edit :: "string \<Rightarrow> string + edit_value envelope"
  r_notif_message :: "string \<Rightarrow> string + notification_message_payload"
  r_notif_receipt :: "string \<Rightarrow> string + notification_read_receipt_payload"
  r_notif_typing :: "string \<Rightarrow> string + notification_typing_payload"
  r_json_string :: "string \<Rightarrow> string option"

section \<open>Payloads\<close>

definition parseIntValue :: "integer_value option \<Rightarrow> int \<Rightarrow> int" where
  "parseIntValue v dflt = wrap32 (parseInt64Value v dflt)"

definition parseMessageStatus :: "integer_value option \<Rightarrow> int \<Rightarrow> int" where
  "parseMessageStatus v dflt = (case v of None \<Rightarrow> dflt
     | Some (IV_int i) \<Rightarrow> wrap32 i
     | Some (IV_double d) \<Rightarrow> wrap32 (double_to_i64 d)
     | Some (IV_string text) \<Rightarrow>
         (let status = toLower text
          in if status = ''recalled'' \<or> status = ''recall'' \<or> status = ''revoked'' then 1
             else if status = ''deleted'' \<or> status = ''delete'' then 2
             else parseIntValue v dflt))"

definition makeHttpError :: "http_response \<Rightarrow> string" where
  "makeHttpError resp = (if resp_error resp \<noteq> [] then resp_error resp else ''HTTP '' @ to_string (status_code resp))"

definition normalizeMessageContentType :: "integer_value option \<Rightarrow> int" where
  "normalizeMessageContentType v =
     (let content_type = parseInt32Value v kMessageContentTypeText
      in if content_type < kMessageContentTypeText \<or> content_type > kMessageContentTypeCard
         then kMessageContentTypeText else content_type)"

definition parseMessagePayload :: "msg_json \<Rightarrow> string \<Rightarrow> message_payload \<Rightarrow> message" where
  "parseMessagePayload J default_conv_id p = new_message
     \<lparr>m_message_id := mp_message_id p, m_local_id := mp_local_id p,
      m_conv_id := if mp_conversation_id p = [] then default_conv_id else mp_conversation_id p,
      m_sender_id := mp_sender_id p, m_content_type := normalizeMessageContentType (mp_content_type p),
      m_content := parseMessageContent (r_json_string J) (mp_content p),
      m_seq := parseInt64Value (mp_sequence p) 0, m_reply_to := mp_reply_to p,
      m_timestamp_ms := parseTimestampMs (mp_created_at p), m_status := parseMessageStatus (mp_status p) 0,
      m_send_state := parseIntValue (mp_send_state p) 0, m_is_read := parseBoolValue (mp_is_read p) False\<rparr>"

definition toMessagePayloadList :: "message_list_payload \<Rightarrow> message_payload list" where
  "toMessagePayloadList d = (case ml_messages d of None \<Rightarrow> [] | Some ps \<Rightarrow> ps)"

definition parseGroupMessageReadState :: "group_read_state_payload \<Rightarrow> group_message_read_state" where
  "parseGroupMessageReadState p = \<lparr>gs_read_count = parseInt64Value (gr_read_count p) 0,
     gs_unread_count = parseInt64Value (gr_unread_count p) 0,
     gs_read_members = map (\<lambda>i. \<lparr>gm_user_id = gp_user_id i,
         gm_nickname = if gp_nickname i = [] then gp_name i else gp_nickname i,
         gm_read_at_ms = parseTimestampMs (gp_read_at i)\<rparr>)
       (case gr_read_members p of None \<Rightarrow> [] | Some ms \<Rightarrow> ms)\<rparr>"

definition parseMessageFromNotification :: "string \<Rightarrow> notification_message_payload \<Rightarrow> message" where
  "parseMessageFromNotification default_conv_id p = new_message
     \<lparr>m_message_id := nm_message_id p, m_local_id := nm_local_id p,
      m_conv_id := if nm_conversation_id p = [] then default_conv_id else nm_conversation_id p,
      m_sender_id := nm_from_user_id p, m_content_type := normalizeMessageContentType (nm_content_type p),
      m_content := nm_content p, m_seq := (case nm_seq p of None \<Rightarrow> 0 | Some i \<Rightarrow> i),
      m_reply_to := nm_reply_to p,
      m_timestamp_ms := (case nm_sent_at p of None \<Rightarrow> 0 | Some t \<Rightarrow> parseTimestampMs (Some t))\<rparr>"

definition parseReadReceiptFromNotification :: "notification_read_receipt_payload \<Rightarrow> message_read_receipt_event" where
  "parseReadReceiptFromNotification p = \<lparr>rr_conversation_id = nr_conversation_id p,
     rr_from_user_id = (case nr_from_user_id p of
         Some u \<Rightarrow> if u \<noteq> [] then u else (case nr_reader_user_id p of None \<Rightarrow> [] | Some r \<Rightarrow> r)
       | None \<Rightarrow> (case nr_reader_user_id p of None \<Rightarrow> [] | Some r \<Rightarrow> r)),
     rr_message_id = nr_message_id p, rr_last_read_seq = (case nr_last_read_seq p of None \<Rightarrow> 0 | Some i \<Rightarrow> i),
     rr_last_read_message_id = nr_last_read_message_id p, rr_read_at_ms = parseTimestampMs (nr_read_at p)\<rparr>"

definition parseTypingFromNotification :: "notification_typing_payload \<Rightarrow> message_typing_event" where
  "parseTypingFromNotification p = \<lparr>ty_conversation_id = nt_conversation_id p, ty_from_user_id = nt_from_user_id p,
     ty_typing = nt_typing p,
     ty_expire_at_ms = (case nt_expire_at p of None \<Rightarrow> 0 | Some t \<Rightarrow> parseTimestampMs (Some t)),
     ty_device_id = nt_device_id p\<rparr>"

text \<open>\<open>std::llabs\<close> of the least int64 is undefined; here it is the mathematical value.\<close>

definition normalizeEpochMs :: "int \<Rightarrow> int" where
  "normalizeEpochMs raw = (if raw = 0 then 0 else if \<bar>raw\<bar> \<ge> 100000000000 then raw else raw * 1000)"

section \<open>Database\<close>

text \<open>
  The upsert. The conflict clause covers \<open>message_id\<close> only: another row with the same
  \<open>local_id\<close> (the empty one included) or a conversation that has no row make SQLite refuse
  the statement.
\<close>

definition sql_upsert_message :: "message_row \<Rightarrow> stmt" where
  "sql_upsert_message r t =
     (if list_ex (\<lambda>q. mrow_local_id q = mrow_local_id r \<and> mrow_message_id q \<noteq> mrow_message_id r) (messages t)
      then None
      else if \<not> has_row crow_conv_id (mrow_conv_id r) (conversations t) then None
      else Some (t\<lparr>messages := upsert_row mrow_message_id r (\<lambda>_. r) (messages t)\<rparr>))"

definition sql_update_status :: "int \<Rightarrow> string \<Rightarrow> stmt" where
  "sql_update_status status mid t = Some (t\<lparr>messages :=
     update_rows (\<lambda>r. mrow_message_id r = mid) (\<lambda>r. r\<lparr>mrow_status := status\<rparr>) (messages t)\<rparr>)"

definition sql_update_status_content :: "int \<Rightarrow> string \<Rightarrow> string \<Rightarrow> stmt" where
  "sql_update_status_content status content mid t = Some (t\<lparr>messages :=
     update_rows (\<lambda>r. mrow_message_id r = mid) (\<lambda>r. r\<lparr>mrow_status := status, mrow_content := content\<rparr>) (messages t)\<rparr>)"

definition message_to_row :: "message \<Rightarrow> message_row" where
  "message_to_row msg = \<lparr>mrow_message_id = m_message_id msg, mrow_local_id = m_local_id msg,
     mrow_conv_id = m_conv_id msg, mrow_sender_id = m_sender_id msg, mrow_content_type = m_content_type msg,
     mrow_content = m_content msg, mrow_seq = m_seq msg, mrow_reply_to = m_reply_to msg,
     mrow_status = m_status msg, mrow_send_state = m_send_state msg,
     mrow_is_read = (if m_is_read msg then 1 else 0), mrow_timestamp_ms = m_timestamp_ms msg\<rparr>"

definition upsertMessageDb :: "message \<Rightarrow> client_act" where
  "upsertMessageDb msg = act_if (\<not> (m_message_id msg = [] \<or> m_conv_id msg = []))
     (exec (sql_upsert_message (message_to_row msg)))"

definition updateMessageDbStatusAndContent :: "string \<Rightarrow> int \<Rightarrow> string option \<Rightarrow> client_act" where
  "updateMessageDbStatusAndContent mid status content =
     act_if (mid \<noteq> []) (case content of None \<Rightarrow> exec (sql_update_status status mid)
       | Some c \<Rightarrow> exec (sql_update_status_content status c mid))"

text \<open>The loop of the four operations that take a list of messages from a response.\<close>

definition received_messages :: "msg_json \<Rightarrow> string \<Rightarrow> message_list_payload \<Rightarrow> message list" where
  "received_messages J default_conv_id d =
     filter (\<lambda>msg. m_message_id msg \<noteq> []) (map (parseMessagePayload J default_conv_id) (toMessagePayloadList d))"

definition store_message :: "message \<Rightarrow> client_act" where
  "store_message msg = perform [upsertMessageDb msg, on_msg_cache (mc_insert msg)]"

section \<open>Operations\<close>

text \<open>\<open>generateLocalId()\<close> counts from 1 in every process.\<close>

definition sendTextMessage :: "msg_json \<Rightarrow> string \<Rightarrow> string \<Rightarrow> user_cb \<Rightarrow> client_act" where
  "sendTextMessage J conv_id content u = reading (\<lambda>s.
     let local_id = ''local_'' @ to_string (local_id_counter s) in perform [
       modify (\<lambda>s. s\<lparr>local_id_counter := wrap64 (local_id_counter s + 1)\<rparr>),
       enqueue (w_frame J) conv_id ''private'' kMessageContentTypeText content local_id u])"

definition parse_and_return :: "msg_json \<Rightarrow> string \<Rightarrow> message list callback \<Rightarrow> http_response \<Rightarrow> client_act" where
  "parse_and_return J conv_id cb resp =
     on_envelope (r_message_list J) resp ''get history failed'' True cb (\<lambda>data.
       let msgs = received_messages J conv_id data
       in perform [for_each store_message msgs, succeed cb msgs])"

definition getHistory :: "msg_json \<Rightarrow> string \<Rightarrow> int \<Rightarrow> int \<Rightarrow> message list callback \<Rightarrow> client_act" where
  "getHistory J conv_id before_timestamp limit cb = reading (\<lambda>s.
     let cached = mc_get conv_id (msg_cache s) in
     if before_timestamp = 0 \<and> cached \<noteq> [] then succeed cb cached
     else
       let primary_path = ''/messages/history?conversation_id='' @ urlEncode conv_id @ ''&limit='' @ to_string limit @
             (if before_timestamp > 0
              then ''&before='' @ to_string before_timestamp @ ''&start_seq='' @ to_string before_timestamp else []) @
             ''&direction=backward''
       in http_get primary_path (\<lambda>resp.
            if status_code resp = 404 \<or> status_code resp = 405
            then http_get (''/conversations/'' @ conv_id @ ''/messages?limit='' @ to_string limit @
                   (if before_timestamp > 0 then ''&before='' @ to_string before_timestamp else []))
                   (parse_and_return J conv_id cb)
            else parse_and_return J conv_id cb resp))"

definition getOfflineMessages :: "msg_json \<Rightarrow> int \<Rightarrow> int \<Rightarrow> message_offline_result callback \<Rightarrow> client_act" where
  "getOfflineMessages J last_seq limit cb =
     http_get (''/messages/offline?last_seq='' @ to_string last_seq @ ''&limit='' @ to_string limit) (\<lambda>resp.
       on_envelope (r_message_list J) resp ''get offline messages failed'' True cb (\<lambda>data.
         let msgs = received_messages J [] data
         in perform [for_each store_message msgs,
              succeed cb \<lparr>mo_messages = msgs, mo_has_more = parseBoolValue (ml_has_more data) False,
                          mo_next_seq = parseInt64Value (ml_next_seq data) 0\<rparr>]))"

definition mark_message_ids_read :: "string list \<Rightarrow> client_act" where
  "mark_message_ids_read ids = for_each (\<lambda>i. act_if (i \<noteq> [])
     (on_msg_cache (\<lambda>c. snd (mc_updateMessageById i (\<lambda>m. m\<lparr>m_is_read := True\<rparr>) c)))) ids"

definition ackMessages :: "msg_json \<Rightarrow> string \<Rightarrow> string list \<Rightarrow> unit callback \<Rightarrow> client_act" where
  "ackMessages J conv_id message_ids cb =
     (if conv_id = [] then fail cb (- 1) ''conv_id must not be empty''
      else with_json (w_ack J \<lparr>ak_conversation_id = conv_id, ak_message_ids = message_ids\<rparr>) cb (\<lambda>json.
        http_post ''/messages/ack'' json (\<lambda>resp.
          case parseApiEnvelopeResponse (r_void J) resp ''ack messages failed'' True False of
            Inr _ \<Rightarrow> perform [mark_message_ids_read message_ids, succeed cb ()]
          | Inl e \<Rightarrow>
              if status_code resp \<noteq> 404 \<and> status_code resp \<noteq> 405 then fail cb (fst e) (snd e)
              else if message_ids = []
              then http_post (''/conversations/'' @ conv_id @ ''/read-all'') [] (\<lambda>fallback_resp.
                     on_envelope (r_void J) fallback_resp ''mark all read failed'' True cb (\<lambda>_. succeed cb ()))
              else with_json (w_message_ids J message_ids) cb (\<lambda>fallback_json.
                     http_post (''/conversations/'' @ conv_id @ ''/messages/read'') fallback_json (\<lambda>fallback_resp.
                       on_envelope (r_void J) fallback_resp ''mark messages read failed'' True cb (\<lambda>_.
                         perform [mark_message_ids_read message_ids, succeed cb ()]))))))"

definition markAsRead :: "msg_json \<Rightarrow> string \<Rightarrow> string \<Rightarrow> unit callback \<Rightarrow> client_act" where
  "markAsRead J conv_id message_id cb =
     (if message_id = [] then ackMessages J conv_id [] cb else ackMessages J conv_id [message_id] cb)"

definition getGroupMessageReadState ::
  "msg_json \<Rightarrow> string \<Rightarrow> string \<Rightarrow> group_message_read_state callback \<Rightarrow> client_act" where
  "getGroupMessageReadState J group_id message_id cb =
     (if group_id = [] \<or> message_id = [] then fail cb (- 1) ''group_id and message_id must not be empty''
      else http_get (''/groups/'' @ group_id @ ''/messages/'' @ message_id @ ''/reads'') (\<lambda>resp.
        on_envelope (r_group_read J) resp ''get group message read state failed'' True cb (\<lambda>data.
          succeed cb (parseGroupMessageReadState data))))"

definition searchMessages ::
  "msg_json \<Rightarrow> string \<Rightarrow> string \<Rightarrow> int \<Rightarrow> int \<Rightarrow> int \<Rightarrow> message_search_result callback \<Rightarrow> client_act" where
  "searchMessages J keyword conversation_id content_type limit offset cb =
     (if keyword = [] then fail cb (- 1) ''keyword must not be empty''
      else if content_type \<noteq> 0 \<and> (content_type < 1 \<or> content_type > 7)
      then fail cb (- 1) ''content_type must be in [1,7]''
      else http_get (''/messages/search?keyword='' @ urlEncode keyword @
             (if conversation_id \<noteq> [] then ''&conversation_id='' @ urlEncode conversation_id else []) @
             (if content_type \<noteq> 0 then ''&content_type='' @ to_string content_type else []) @
             (if limit > 0 then ''&limit='' @ to_string limit else []) @
             (if offset > 0 then ''&offset='' @ to_string offset else [])) (\<lambda>resp.
        on_envelope (r_message_list J) resp ''search messages failed'' True cb (\<lambda>data.
          let msgs = received_messages J [] data
          in perform [for_each store_message msgs,
               succeed cb \<lparr>ms_messages = msgs,
                           ms_total = parseInt64Value (ml_total_count data) (int (length msgs))\<rparr>])))"

text \<open>The fallback of recall, delete and edit when the server has no such route: a transient
  frame; any other failure goes to the callback.\<close>

definition transient_fallback ::
  "string + string \<Rightarrow> http_response \<Rightarrow> int \<times> string \<Rightarrow> unit callback \<Rightarrow> client_act" where
  "transient_fallback frame resp e cb =
     (if status_code resp = 404 \<or> status_code resp = 405
      then with_json frame cb (\<lambda>frame_json. sendTransient frame_json (\<lambda>sent.
             if sent then succeed cb () else fail cb (- 1) ''websocket not connected''))
      else fail cb (if fst e \<noteq> 0 then fst e else - 1) (if snd e = [] then makeHttpError resp else snd e))"

definition recallMessage :: "msg_json \<Rightarrow> string \<Rightarrow> unit callback \<Rightarrow> client_act" where
  "recallMessage J message_id cb =
     (if message_id = [] then fail cb (- 1) ''message_id must not be empty''
      else with_json (w_recall J message_id) cb (\<lambda>json.
        http_post ''/messages/recall'' json (\<lambda>resp.
          case parseApiEnvelopeResponse (r_void J) resp ''recall message failed'' True False of
            Inr _ \<Rightarrow> perform [
              on_msg_cache (\<lambda>c. snd (mc_updateMessageById message_id (\<lambda>m. m\<lparr>m_status := 1\<rparr>) c)),
              updateMessageDbStatusAndContent message_id 1 None,
              succeed cb ()]
          | Inl e \<Rightarrow> transient_fallback (w_recall_frame J message_id) resp e cb)))"

definition deleteMessage :: "msg_json \<Rightarrow> string \<Rightarrow> unit callback \<Rightarrow> client_act" where
  "deleteMessage J message_id cb =
     (if message_id = [] then fail cb (- 1) ''message_id must not be empty''
      else http_del (''/messages/'' @ message_id) (\<lambda>resp.
        case parseApiEnvelopeResponse (r_void J) resp ''delete message failed'' True False of
          Inr _ \<Rightarrow> perform [
            on_msg_cache (\<lambda>c. snd (mc_updateMessageById message_id (\<lambda>m. m\<lparr>m_status := 2\<rparr>) c)),
            updateMessageDbStatusAndContent message_id 2 None,
            succeed cb ()]
        | Inl e \<Rightarrow> transient_fallback (w_delete_frame J message_id) resp e cb))"

definition edited_message :: "msg_json \<Rightarrow> string \<Rightarrow> string \<Rightarrow> edit_value \<Rightarrow> message" where
  "edited_message J message_id content data =
     (let edited = (case data of
            EV_none \<Rightarrow> new_message
          | EV_wrapped None \<Rightarrow> new_message
          | EV_wrapped (Some p) \<Rightarrow> parseMessagePayload J [] p
          | EV_direct p \<Rightarrow> parseMessagePayload J [] p)
      in if m_message_id edited \<noteq> [] then edited
         else edited\<lparr>m_message_id := message_id, m_content := content\<rparr>)"

definition editMessage :: "msg_json \<Rightarrow> string \<Rightarrow> string \<Rightarrow> unit callback \<Rightarrow> client_act" where
  "editMessage J message_id content cb =
     (if message_id = [] then fail cb (- 1) ''message_id must not be empty''
      else with_json (w_edit J content) cb (\<lambda>json.
        http_patch (''/messages/'' @ message_id) json (\<lambda>resp.
          case parseApiEnvelopeResponse (r_edit J) resp ''edit message failed'' True False of
            Inr data \<Rightarrow>
              let edited = edited_message J message_id content data in perform [
                on_msg_cache (\<lambda>c. snd (mc_updateMessageById message_id (\<lambda>m. m\<lparr>m_content := m_content edited,
                    m_status := if m_status edited \<noteq> 0 then m_status edited else m_status m\<rparr>) c)),
                updateMessageDbStatusAndContent message_id (m_status edited) (Some (m_content edited)),
                succeed cb ()]
          | Inl e \<Rightarrow> transient_fallback (w_edit_frame J \<lparr>me_message_id = message_id, me_content = content\<rparr>) resp e cb)))"

definition sendTyping :: "msg_json \<Rightarrow> string \<Rightarrow> bool \<Rightarrow> int \<Rightarrow> unit callback \<Rightarrow> client_act" where
  "sendTyping J conversation_id typing ttl_seconds cb =
     (if conversation_id = [] then fail cb (- 1) ''conversation_id must not be empty''
      else with_json (w_typing_frame J \<lparr>mt_conversation_id = conversation_id, mt_typing = typing,
             mt_ttl_seconds = if ttl_seconds > 0 then Some ttl_seconds else None\<rparr>) cb (\<lambda>frame_json.
        sendTransient frame_json (\<lambda>sent.
          if sent then succeed cb () else fail cb (- 1) ''websocket not connected'')))"

definition msg_setListener :: "bool \<Rightarrow> client_act" where
  "msg_setListener l = modify (\<lambda>s. s\<lparr>msg_listener := l\<rparr>)"

definition setCurrentUserId :: "string \<Rightarrow> client_act" where
  "setCurrentUserId uid = modify (\<lambda>s. s\<lparr>current_user_id := uid\<rparr>)"

section \<open>Notifications\<close>

definition tell_msg_listener :: "event \<Rightarrow> client_act" where
  "tell_msg_listener e = reading (\<lambda>s. act_if (msg_listener s) (emit e))"

text \<open>\<open>if (!parseJsonObject(event.data, payload, err)) return;\<close>\<close>

definition with_payload :: "(string \<Rightarrow> string + 'a) \<Rightarrow> notification_event \<Rightarrow> ('a \<Rightarrow> client_act) \<Rightarrow> client_act" where
  "with_payload read ev k = (case parseJsonObject read (ev_data ev) of Inl err \<Rightarrow> skip | Inr p \<Rightarrow> k p)"

definition handle_new :: "msg_json \<Rightarrow> (message \<Rightarrow> event) \<Rightarrow> notification_event \<Rightarrow> client_act" where
  "handle_new J tell ev = with_payload (r_notif_message J) ev (\<lambda>payload.
     let msg0 = parseMessageFromNotification [] payload;
         msg = (if m_timestamp_ms msg0 = 0 then msg0\<lparr>m_timestamp_ms := normalizeEpochMs (ev_timestamp ev)\<rparr> else msg0)
     in if m_message_id msg0 = [] then skip
        else perform [on_msg_cache (mc_insert msg), upsertMessageDb msg, tell_msg_listener (tell msg)])"

definition handleIncomingMessage :: "msg_json \<Rightarrow> notification_event \<Rightarrow> client_act" where
  "handleIncomingMessage J ev = handle_new J MessageReceived ev"

definition handleMentioned :: "msg_json \<Rightarrow> notification_event \<Rightarrow> client_act" where
  "handleMentioned J ev = handle_new J MessageMentioned ev"

definition handleReadReceipt :: "msg_json \<Rightarrow> notification_event \<Rightarrow> client_act" where
  "handleReadReceipt J ev = with_payload (r_notif_receipt J) ev (\<lambda>payload.
     let receipt = parseReadReceiptFromNotification payload in
     tell_msg_listener (MessageReadReceipt
       (if rr_read_at_ms receipt = 0 then receipt\<lparr>rr_read_at_ms := normalizeEpochMs (ev_timestamp ev)\<rparr> else receipt)))"

definition handleTyping :: "msg_json \<Rightarrow> notification_event \<Rightarrow> client_act" where
  "handleTyping J ev = with_payload (r_notif_typing J) ev (\<lambda>payload.
     let typing = parseTypingFromNotification payload in
     tell_msg_listener (MessageTyping
       (if ty_expire_at_ms typing = 0 \<and> ev_timestamp ev > 0
        then typing\<lparr>ty_expire_at_ms := normalizeEpochMs (ev_timestamp ev)\<rparr> else typing)))"

text \<open>
  Recall, delete and edit share the course: the cached message is changed by the closure
  and read back, or the notification's own message is inserted when nothing is cached; the
  database row follows, then the listener hears of it.
\<close>

definition change_cached :: "message \<Rightarrow> (message \<Rightarrow> message) \<Rightarrow> (message \<Rightarrow> client_act) \<Rightarrow> client_act" where
  "change_cached msg updater k = reading (\<lambda>s.
     case mc_updateMessageById (m_message_id msg) updater (msg_cache s) of
       (Some cached, c) \<Rightarrow> perform [modify (\<lambda>s. s\<lparr>msg_cache := c\<rparr>), k cached]
     | (None, c) \<Rightarrow> perform [act_if (m_conv_id msg \<noteq> []) (on_msg_cache (mc_insert msg)), k msg])"

definition content_if_any :: "message \<Rightarrow> string option" where
  "content_if_any msg = (if m_content msg = [] then None else Some (m_content msg))"

definition handleMessageRecalled :: "msg_json \<Rightarrow> notification_event \<Rightarrow> client_act" where
  "handleMessageRecalled J ev = with_payload (r_notif_message J) ev (\<lambda>payload.
     let msg0 = parseMessageFromNotification [] payload;
         msg = msg0\<lparr>m_status := 1,
           m_timestamp_ms := if m_timestamp_ms msg0 = 0
             then (case nm_recalled_at payload of Some t \<Rightarrow> parseTimestampMs (Some t)
                   | None \<Rightarrow> normalizeEpochMs (ev_timestamp ev))
             else m_timestamp_ms msg0\<rparr>
     in if m_message_id msg0 = [] then skip
        else change_cached msg (\<lambda>cached. cached
               \<lparr>m_conv_id := if m_conv_id msg \<noteq> [] then m_conv_id msg else m_conv_id cached,
                m_content := if m_content msg \<noteq> [] then m_content msg else m_content cached,
                m_status := 1\<rparr>) (\<lambda>msg. perform [
               updateMessageDbStatusAndContent (m_message_id msg) 1 (content_if_any msg),
               tell_msg_listener (MessageRecalled msg)]))"

definition handleMessageDeleted :: "msg_json \<Rightarrow> notification_event \<Rightarrow> client_act" where
  "handleMessageDeleted J ev = with_payload (r_notif_message J) ev (\<lambda>payload.
     let msg0 = parseMessageFromNotification [] payload;
         msg = msg0\<lparr>m_status := 2,
           m_timestamp_ms := if m_timestamp_ms msg0 = 0
             then (case nm_deleted_at payload of Some t \<Rightarrow> parseTimestampMs (Some t)
                   | None \<Rightarrow> normalizeEpochMs (ev_timestamp ev))
             else m_timestamp_ms msg0\<rparr>
     in if m_message_id msg0 = [] then skip
        else change_cached msg (\<lambda>cached. cached
               \<lparr>m_conv_id := if m_conv_id msg \<noteq> [] then m_conv_id msg else m_conv_id cached,
                m_status := 2\<rparr>) (\<lambda>msg. perform [
               updateMessageDbStatusAndContent (m_message_id msg) 2 None,
               tell_msg_listener (MessageDeleted msg)]))"

definition handleMessageEdited :: "msg_json \<Rightarrow> notification_event \<Rightarrow> client_act" where
  "handleMessageEdited J ev = with_payload (r_notif_message J) ev (\<lambda>payload.
     let msg = parseMessageFromNotification [] payload
     in if m_message_id msg = [] then skip
        else change_cached msg (\<lambda>cached. cached
               \<lparr>m_content := if m_content msg \<noteq> [] then m_content msg else m_content cached,
                m_content_type := if m_content_type msg \<noteq> 0 then m_content_type msg else m_content_type cached,
                m_status := if m_status msg \<noteq> 0 then m_status msg else m_status cached\<rparr>) (\<lambda>msg. perform [
               updateMessageDbStatusAndContent (m_message_id msg) (m_status msg) (content_if_any msg),
               tell_msg_listener (MessageEdited msg)]))"

text \<open>The handler that the constructor registers.\<close>

definition msg_notification :: "msg_json \<Rightarrow> notification_event \<Rightarrow> client_act" where
  "msg_notification J ev =
     (let type = notification_type ev
      in if type = ''message.new'' then handleIncomingMessage J ev
         else if type = ''message.read_receipt'' then handleReadReceipt J ev
         else if type = ''message.recalled'' then handleMessageRecalled J ev
         else if type = ''message.deleted'' then handleMessageDeleted J ev
         else if type = ''message.edited'' then handleMessageEdited J ev
         else if type = ''message.typing'' then handleTyping J ev
         else if type = ''message.mentioned'' then handleMentioned J ev
         else skip)"

section \<open>Invariant and answers\<close>

lemma stmt_ok_upsert_message [inv_intro, simp]: "stmt_ok (sql_upsert_message r)"
proof
  fix t t'
  assume inv: "tables_inv t" and run: "sql_upsert_message r t = Some t'"
  then have t': "t' = t\<lparr>messages := upsert_row mrow_message_id r (\<lambda>_. r) (messages t)\<rparr>"
    and other: "\<And>q. q \<in> set (messages t) \<Longrightarrow> mrow_local_id q = mrow_local_id r \<Longrightarrow> mrow_message_id q = mrow_message_id r"
    and conv: "has_row crow_conv_id (mrow_conv_id r) (conversations t)"
    by (auto simp: sql_upsert_message_def list_ex_iff split: if_splits)
  have ids: "unique mrow_message_id (upsert_row mrow_message_id r (\<lambda>_. r) (messages t))"
    using inv by (intro unique_upsert) (auto simp: tables_inv_def)
  have locals: "unique mrow_local_id (upsert_row mrow_message_id r (\<lambda>_. r) (messages t))"
    using inv by (intro unique_upsert_other other) (auto simp: tables_inv_def)
  have "list_all (\<lambda>m. has_row crow_conv_id (mrow_conv_id m) (conversations t))
      (upsert_row mrow_message_id r (\<lambda>_. r) (messages t))"
    using inv conv by (intro list_all_upsert) (auto simp: tables_inv_def)
  then show "tables_inv t'" using inv ids locals by (simp add: t' tables_inv_def)
qed

lemma stmt_ok_messages_updateI:
  "(\<And>r. mrow_message_id (f r) = mrow_message_id r \<and> mrow_local_id (f r) = mrow_local_id r \<and> mrow_conv_id (f r) = mrow_conv_id r) \<Longrightarrow>
   stmt_ok (\<lambda>t. Some (t\<lparr>messages := update_rows P f (messages t)\<rparr>))"
proof
  fix t t'
  assume "\<And>r. mrow_message_id (f r) = mrow_message_id r \<and> mrow_local_id (f r) = mrow_local_id r \<and> mrow_conv_id (f r) = mrow_conv_id r"
    and "tables_inv t" and "Some (t\<lparr>messages := update_rows P f (messages t)\<rparr>) = Some t'"
  then show "tables_inv t'"
    by (auto simp: tables_inv_def unique_update list_all_iff update_rows_def) (simp_all add: unique_def o_def if_distrib cong: if_cong)
qed

lemma stmt_ok_update_status [inv_intro, simp]:
  "stmt_ok (sql_update_status st mid)" "stmt_ok (sql_update_status_content st txt mid)"
  unfolding sql_update_status_def [abs_def] sql_update_status_content_def [abs_def]
  by (rule stmt_ok_messages_updateI, simp)+

lemma keeps_place_simps [simp]: "keeps_place (\<lambda>m. m\<lparr>m_status := f m\<rparr>)" "keeps_place (\<lambda>m. m\<lparr>m_is_read := True\<rparr>)"
  "keeps_place (\<lambda>m. m\<lparr>m_content := g m, m_status := f m\<rparr>)"
  "keeps_place (\<lambda>m. m\<lparr>m_conv_id := h m, m_status := f m\<rparr>)"
  "keeps_place (\<lambda>m. m\<lparr>m_conv_id := h m, m_content := g m, m_status := f m\<rparr>)"
  "keeps_place (\<lambda>m. m\<lparr>m_content := g m, m_content_type := k m, m_status := f m\<rparr>)"
  by (simp_all add: keeps_place_def)

lemma keeps_update_cached [keeps_intro]:
  "keeps_place f \<Longrightarrow> keeps (client_inv X) (on_msg_cache (\<lambda>c. snd (mc_updateMessageById i f c)))"
  by (intro keeps_intro mc_inv_updateMessageById)

lemma keeps_insert_cached [keeps_intro]: "keeps (client_inv X) (on_msg_cache (mc_insert msg))"
  by (intro keeps_intro mc_inv_insert)

lemma keeps_message_db [keeps_intro]: "keeps (client_inv X) (upsertMessageDb msg)"
    "keeps (client_inv X) (updateMessageDbStatusAndContent mid st txt)"
  unfolding upsertMessageDb_def updateMessageDbStatusAndContent_def
  by (intro keeps_intro stmt_ok_upsert_message stmt_ok_update_status)+

lemma keeps_store_message [keeps_intro]: "keeps (client_inv X) (store_message msg)"
  unfolding store_message_def by (intro keeps_intro)

lemma keeps_mark_message_ids_read [keeps_intro]: "keeps (client_inv X) (mark_message_ids_read ids)"
  unfolding mark_message_ids_read_def by (intro keeps_intro keeps_place_simps)

lemma keeps_parse_and_return [keeps_intro]: "cb_keeps (client_inv X) cb \<Longrightarrow> keeps (client_inv X) (parse_and_return J cid cb resp)"
  unfolding parse_and_return_def Let_def by (intro keeps_intro; assumption)+

lemma keeps_ackMessages [keeps_intro]: "cb_keeps (client_inv X) cb \<Longrightarrow> keeps (client_inv X) (ackMessages J cid ids cb)"
  unfolding ackMessages_def by (intro keeps_intro; assumption)+

lemma keeps_transient_fallback [keeps_intro]:
  "cb_keeps (client_inv X) cb \<Longrightarrow> keeps (client_inv X) (transient_fallback frame resp e cb)"
  unfolding transient_fallback_def by (intro keeps_intro; assumption)+

lemma keeps_sendTextMessage [keeps_intro]: "cb_id u \<notin> fst X \<or> mute u \<Longrightarrow> keeps (client_inv X) (sendTextMessage J cid txt u)"
  unfolding sendTextMessage_def Let_def by (intro keeps_intro) (simp add: client_inv_def)

lemma keeps_msg_ops:
  "cb_keeps (client_inv X) mcb \<Longrightarrow> keeps (client_inv X) (getHistory J cid ts n mcb)"
  "cb_keeps (client_inv X) ocb \<Longrightarrow> keeps (client_inv X) (getOfflineMessages J ts n ocb)"
  "cb_keeps (client_inv X) cb \<Longrightarrow> keeps (client_inv X) (markAsRead J cid mid cb)"
  "cb_keeps (client_inv X) gcb \<Longrightarrow> keeps (client_inv X) (getGroupMessageReadState J cid mid gcb)"
  "cb_keeps (client_inv X) scb \<Longrightarrow> keeps (client_inv X) (searchMessages J kw cid ct n off scb)"
  "cb_keeps (client_inv X) cb \<Longrightarrow> keeps (client_inv X) (recallMessage J mid cb)"
  "cb_keeps (client_inv X) cb \<Longrightarrow> keeps (client_inv X) (deleteMessage J mid cb)"
  "cb_keeps (client_inv X) cb \<Longrightarrow> keeps (client_inv X) (editMessage J mid txt cb)"
  "cb_keeps (client_inv X) cb \<Longrightarrow> keeps (client_inv X) (sendTyping J cid ty ttl cb)"
  unfolding getHistory_def getOfflineMessages_def markAsRead_def getGroupMessageReadState_def searchMessages_def
    recallMessage_def deleteMessage_def editMessage_def sendTyping_def Let_def
  by (intro keeps_intro keeps_place_simps; assumption)+

lemma keeps_tell_msg_listener [keeps_intro]: "keeps (client_inv X) (tell_msg_listener e)"
  unfolding tell_msg_listener_def by (intro keeps_intro)

lemma keeps_with_payload [keeps_intro]: "(\<And>p. keeps (client_inv X) (k p)) \<Longrightarrow> keeps (client_inv X) (with_payload rd ev k)"
  unfolding with_payload_def by (intro keeps_intro)

lemma keeps_change_cached [keeps_intro]:
  assumes "keeps_place f" and "\<And>m. keeps (client_inv X) (k m)"
  shows "keeps (client_inv X) (change_cached msg f k)"
  unfolding change_cached_def
proof (rule keeps_reading)
  fix s assume inv: "(client_inv X) s"
  obtain r c where u: "mc_updateMessageById (m_message_id msg) f (msg_cache s) = (r, c)"
    by (cases "mc_updateMessageById (m_message_id msg) f (msg_cache s)")
  then have "mc_inv c" using mc_inv_updateMessageById [OF _ assms(1), of "msg_cache s" "m_message_id msg"] inv
    by (simp add: client_inv_def)
  then have "keeps (client_inv X) (modify (\<lambda>s. s\<lparr>msg_cache := c\<rparr>))"
    by (intro keeps_modify) (simp add: client_inv_def)
  then show "keeps (client_inv X) (case mc_updateMessageById (m_message_id msg) f (msg_cache s) of
       (Some cached, c) \<Rightarrow> perform [modify (\<lambda>s. s\<lparr>msg_cache := c\<rparr>), k cached]
     | (None, c) \<Rightarrow> perform [act_if (m_conv_id msg \<noteq> []) (on_msg_cache (mc_insert msg)), k msg])"
    unfolding u by (cases r) (auto intro: keeps_seq keeps_act_if keeps_insert_cached assms(2))
qed

lemma keeps_msg_notification [keeps_intro]: "keeps (client_inv X) (msg_notification J ev)"
  unfolding msg_notification_def handleIncomingMessage_def handleMentioned_def handle_new_def handleReadReceipt_def
    handleTyping_def handleMessageRecalled_def handleMessageDeleted_def handleMessageEdited_def Let_def
  by (intro keeps_intro keeps_place_simps)

lemma answers_message_acts [answers_intro]: "answers P 0 (upsertMessageDb msg)"
    "answers P 0 (updateMessageDbStatusAndContent mid st txt)" "answers P 0 (store_message msg)"
    "answers P 0 (mark_message_ids_read ids)"
  unfolding upsertMessageDb_def updateMessageDbStatusAndContent_def store_message_def mark_message_ids_read_def
  by (intro answers_intro)+

lemma answers_parse_and_return [answers_intro]:
  "cb_answers i n cb \<Longrightarrow> answers (about i) n (parse_and_return J cid cb resp)"
  unfolding parse_and_return_def Let_def by (intro answers_intro; assumption)+

lemma answers_ackMessages [answers_intro]: "cb_answers i n cb \<Longrightarrow> answers (about i) n (ackMessages J cid ids cb)"
  unfolding ackMessages_def by (intro answers_intro; assumption)+

lemma answers_transient_fallback [answers_intro]:
  "cb_answers i n cb \<Longrightarrow> answers (about i) n (transient_fallback frame resp e cb)"
  unfolding transient_fallback_def by (intro answers_intro; assumption)+

lemma answers_msg_ops:
  "cb_answers i n mcb \<Longrightarrow> answers (about i) n (getHistory J cid ts k mcb)"
  "cb_answers i n ocb \<Longrightarrow> answers (about i) n (getOfflineMessages J ts k ocb)"
  "cb_answers i n cb \<Longrightarrow> answers (about i) n (markAsRead J cid mid cb)"
  "cb_answers i n gcb \<Longrightarrow> answers (about i) n (getGroupMessageReadState J cid mid gcb)"
  "cb_answers i n scb \<Longrightarrow> answers (about i) n (searchMessages J kw cid ct k off scb)"
  "cb_answers i n cb \<Longrightarrow> answers (about i) n (recallMessage J mid cb)"
  "cb_answers i n cb \<Longrightarrow> answers (about i) n (deleteMessage J mid cb)"
  "cb_answers i n cb \<Longrightarrow> answers (about i) n (editMessage J mid txt cb)"
  "cb_answers i n cb \<Longrightarrow> answers (about i) n (sendTyping J cid ty ttl cb)"
  unfolding getHistory_def getOfflineMessages_def markAsRead_def getGroupMessageReadState_def searchMessages_def
    recallMessage_def deleteMessage_def editMessage_def sendTyping_def Let_def
  by (intro answers_intro; assumption)+

lemma answers_sendTextMessage: "answers (about i) 0 (sendTextMessage J cid txt u)"
  unfolding sendTextMessage_def Let_def by (intro answers_intro)

lemma answers_tell_msg_listener: "\<not> about i e \<Longrightarrow> answers (about i) 0 (tell_msg_listener e)"
  unfolding tell_msg_listener_def by (intro answers_intro)

lemma answers_with_payload [answers_intro]: "(\<And>p. answers P 0 (k p)) \<Longrightarrow> answers P 0 (with_payload rd ev k)"
  unfolding with_payload_def by (intro answers_intro)

lemma answers_change_cached [answers_intro]: "(\<And>m. answers P 0 (k m)) \<Longrightarrow> answers P 0 (change_cached msg f k)"
  unfolding change_cached_def by (intro answers_intro)

lemma answers_handle_new [answers_intro]:
  "(\<And>m. \<not> about i (tell m)) \<Longrightarrow> answers (about i) 0 (handle_new J tell ev)"
  unfolding handle_new_def Let_def by (intro answers_intro answers_tell_msg_listener)

lemma answers_msg_notification [answers_intro]: "answers (about i) 0 (msg_notification J ev)"
  unfolding msg_notification_def handleIncomingMessage_def handleMentioned_def handleReadReceipt_def
    handleTyping_def handleMessageRecalled_def handleMessageDeleted_def handleMessageEdited_def Let_def
  by (intro answers_intro answers_tell_msg_listener about_simps)

end
