(* ===== verification/ConversationManager.thy ===== *)
theory ConversationManager
  imports NotificationManager
begin

text \<open>
  \<open>ConversationManagerImpl\<close> (core/src/conversation_manager.cpp): the conversation list from
  the cache, the database or the server, the settings of a conversation, unread counts and
  the notifications about conversations. JSON readers and writers are the fields of
  \<open>conv_json\<close>.
\<close>

section \<open>Payloads\<close>

record conversation_payload =
  cpl_conversation_id :: string
  cpl_conversation_type :: string
  cpl_target_id :: string
  cpl_last_message_id :: string
  cpl_last_message_content :: string
  cpl_last_message_time :: "timestamp_value option"
  cpl_unread_count :: "int option"
  cpl_is_pinned :: "bool option"
  cpl_is_muted :: "bool option"
  cpl_burn_after_reading :: "int option"
  cpl_auto_delete_duration :: "int option"
  cpl_pin_time :: "timestamp_value option"
  cpl_updated_at :: "timestamp_value option"

record conversation_list_payload =
  cll_conversations :: "conversation_payload list option"
  cll_has_more :: "bool option"

record mark_messages_read_payload =
  mmp_accepted_ids :: "string list option"
  mmp_ignored_ids :: "string list option"
  mmp_advanced_last_read_seq :: "int option"

record unread_state_message_payload =
  usm_message_id :: string
  usm_conversation_id :: string
  usm_sender_id :: string
  usm_content_type :: "int option"
  usm_content :: "content_value option"
  usm_sequence :: "int option"
  usm_timestamp :: "timestamp_value option"
  usm_created_at :: "timestamp_value option"
  usm_status :: "int option"

record unread_state_payload =
  usp_unread_count :: "int option"
  usp_last_message_seq :: "int option"
  usp_last_message :: "unread_state_message_payload option"

record receipt_user_info_payload =
  rup_user_id :: string
  rup_nickname :: string
  rup_avatar :: string
  rup_phone :: "string option"
  rup_email :: "string option"

record read_receipt_payload =
  rrp_user_id :: string
  rrp_last_read_seq :: "int option"
  rrp_last_read_message_id :: string
  rrp_read_at :: "timestamp_value option"
  rrp_user_info :: "receipt_user_info_payload option"

record notification_conversation_payload =
  ncp_conversation_id :: "string option"
  ncp_unread_count :: "int option"
  ncp_total_unread :: "int option"
  ncp_is_pinned :: "bool option"
  ncp_is_muted :: "bool option"
  ncp_burn_after_reading :: "int option"
  ncp_auto_delete_duration :: "int option"

text \<open>Structs of one field (\<open>TotalUnreadDataPayload\<close>, \<open>MessageSequencePayload\<close>, the receipt list
  and the four request bodies) are that field.\<close>

record conv_json =
  w_mark_read :: "string list \<Rightarrow> string + string"
  w_pinned :: "bool \<Rightarrow> string + string"
  w_muted :: "bool \<Rightarrow> string + string"
  w_duration :: "int \<Rightarrow> string + string"
  r_conv_void :: "string \<Rightarrow> string + unit envelope"
  r_conversations :: "string \<Rightarrow> string + conversation_list_payload envelope"
  r_conversation :: "string \<Rightarrow> string + conversation_payload envelope"
  r_mark_read :: "string \<Rightarrow> string + mark_messages_read_payload envelope"
  r_total_unread :: "string \<Rightarrow> string + int option envelope"
  r_unread_state :: "string \<Rightarrow> string + unread_state_payload envelope"
  r_receipts :: "string \<Rightarrow> string + read_receipt_payload list option envelope"
  r_sequence :: "string \<Rightarrow> string + int option envelope"
  r_notif_conversation :: "string \<Rightarrow> string + notification_conversation_payload"
  r_content_string :: "string \<Rightarrow> string option"

definition parseBoolOpt :: "bool option \<Rightarrow> bool \<Rightarrow> bool" where
  "parseBoolOpt v dflt = (case v of None \<Rightarrow> dflt | Some b \<Rightarrow> b)"

definition parseConversationPayload :: "conversation_payload \<Rightarrow> conversation" where
  "parseConversationPayload p = new_conversation
     \<lparr>c_conv_id := cpl_conversation_id p,
      c_conv_type := if toLower (cpl_conversation_type p) = ''group'' then Group else Private,
      c_target_id := cpl_target_id p, c_last_msg_id := cpl_last_message_id p,
      c_last_msg_text := cpl_last_message_content p,
      c_last_msg_time_ms := parseTimestampMs (cpl_last_message_time p),
      c_unread_count := parseInt32Opt (cpl_unread_count p) 0,
      c_is_pinned := parseBoolOpt (cpl_is_pinned p) False, c_is_muted := parseBoolOpt (cpl_is_muted p) False,
      c_burn_after_reading := parseInt32Opt (cpl_burn_after_reading p) 0,
      c_auto_delete_duration := parseInt32Opt (cpl_auto_delete_duration p) 0,
      c_pin_time_ms := parseTimestampMs (cpl_pin_time p), c_updated_at_ms := parseTimestampMs (cpl_updated_at p)\<rparr>"

definition toConversationPayloadList :: "conversation_list_payload \<Rightarrow> conversation_payload list" where
  "toConversationPayloadList d = (case cll_conversations d of None \<Rightarrow> [] | Some ps \<Rightarrow> ps)"

definition parseUnreadStateMessage :: "conv_json \<Rightarrow> unread_state_message_payload \<Rightarrow> string \<Rightarrow> message" where
  "parseUnreadStateMessage J p conv_id = new_message
     \<lparr>m_message_id := usm_message_id p,
      m_conv_id := if usm_conversation_id p = [] then conv_id else usm_conversation_id p,
      m_sender_id := usm_sender_id p, m_content_type := parseInt32Opt (usm_content_type p) 1,
      m_content := parseMessageContent (r_content_string J) (usm_content p),
      m_seq := parseInt64Opt (usm_sequence p) 0,
      m_timestamp_ms := (case usm_timestamp p of None \<Rightarrow> parseTimestampMs (usm_created_at p)
                         | Some t \<Rightarrow> parseTimestampMs (Some t)),
      m_status := wrap32 (parseInt64Opt (usm_status p) 0)\<rparr>"

definition parseReceiptUserInfo :: "receipt_user_info_payload \<Rightarrow> user_info" where
  "parseReceiptUserInfo p = new_user_info
     \<lparr>ui_user_id := rup_user_id p, ui_username := rup_nickname p, ui_avatar_url := rup_avatar p\<rparr>"

definition parseReadReceipt :: "read_receipt_payload \<Rightarrow> conversation_read_receipt" where
  "parseReadReceipt p =
     (let info = (case rrp_user_info p of None \<Rightarrow> new_user_info | Some i \<Rightarrow> parseReceiptUserInfo i)
      in \<lparr>cr_user_id = rrp_user_id p, cr_last_read_seq = parseInt64Opt (rrp_last_read_seq p) 0,
          cr_last_read_message_id = rrp_last_read_message_id p, cr_read_at_ms = parseTimestampMs (rrp_read_at p),
          cr_user_info = if ui_user_id info = [] then info\<lparr>ui_user_id := rrp_user_id p\<rparr> else info\<rparr>)"

definition notificationConversationId :: "notification_conversation_payload \<Rightarrow> string" where
  "notificationConversationId p = (case ncp_conversation_id p of None \<Rightarrow> [] | Some cid \<Rightarrow> cid)"

definition applyNotificationPatch :: "notification_conversation_payload \<Rightarrow> conversation \<Rightarrow> conversation" where
  "applyNotificationPatch p c = c
     \<lparr>c_conv_id := if notificationConversationId p \<noteq> [] then notificationConversationId p else c_conv_id c,
      c_unread_count := (case ncp_unread_count p of None \<Rightarrow> c_unread_count c | Some n \<Rightarrow> n),
      c_is_pinned := (case ncp_is_pinned p of None \<Rightarrow> c_is_pinned c | Some b \<Rightarrow> b),
      c_is_muted := (case ncp_is_muted p of None \<Rightarrow> c_is_muted c | Some b \<Rightarrow> b),
      c_burn_after_reading := (case ncp_burn_after_reading p of None \<Rightarrow> c_burn_after_reading c | Some n \<Rightarrow> n),
      c_auto_delete_duration := (case ncp_auto_delete_duration p of None \<Rightarrow> c_auto_delete_duration c | Some n \<Rightarrow> n)\<rparr>"

definition isConversationNotification :: "string \<Rightarrow> bool" where
  "isConversationNotification type \<longleftrightarrow> type = ''conversation.unread_updated'' \<or> type = ''conversation.pin_updated''
     \<or> type = ''conversation.mute_updated'' \<or> type = ''conversation.deleted''
     \<or> type = ''conversation.burn_updated'' \<or> type = ''conversation.auto_delete_updated''"

section \<open>Rows\<close>

text \<open>The columns the SELECT names, and the columns the INSERT writes.\<close>

definition conv_cells :: "conversation_row \<Rightarrow> row" where
  "conv_cells r = [(''conv_id'', text_cell (crow_conv_id r)), (''conv_type'', text_cell (crow_conv_type r)),
     (''target_id'', text_cell (crow_target_id r)), (''last_msg_id'', null_cell (crow_last_msg_id r)),
     (''last_msg_text'', text_cell (crow_last_msg_text r)), (''last_msg_time_ms'', int_cell (crow_last_msg_time_ms r)),
     (''unread_count'', int_cell (crow_unread_count r)), (''is_pinned'', int_cell (crow_is_pinned r)),
     (''is_muted'', int_cell (crow_is_muted r)), (''burn_after_reading'', int_cell (crow_burn_after_reading r)),
     (''auto_delete_duration'', int_cell (crow_auto_delete_duration r)), (''pin_time_ms'', int_cell (crow_pin_time_ms r)),
     (''local_seq'', int_cell (crow_local_seq r)), (''updated_at_ms'', int_cell (crow_updated_at_ms r))]"

definition row_get :: "row \<Rightarrow> string \<Rightarrow> string" where
  "row_get r k = (case map_of r k of None \<Rightarrow> [] | Some v \<Rightarrow> v)"

definition row_getI :: "row \<Rightarrow> string \<Rightarrow> int" where
  "row_getI r k = (case map_of r k of None \<Rightarrow> 0
     | Some v \<Rightarrow> if v = [] then 0 else (case stoll v of None \<Rightarrow> 0 | Some i \<Rightarrow> i))"

text \<open>A timestamp from its millisecond column, or from the older column in seconds.\<close>

definition row_time :: "row \<Rightarrow> string \<Rightarrow> string \<Rightarrow> int" where
  "row_time r k old = (if row_getI r k = 0 then normalizeUnixEpochMs (row_getI r old) else row_getI r k)"

definition rowToConversation :: "row \<Rightarrow> conversation" where
  "rowToConversation r =
     \<lparr>c_conv_id = row_get r ''conv_id'', c_conv_type = if row_get r ''conv_type'' = ''group'' then Group else Private,
      c_target_id = row_get r ''target_id'', c_last_msg_id = row_get r ''last_msg_id'',
      c_last_msg_text = row_get r ''last_msg_text'',
      c_last_msg_time_ms = row_time r ''last_msg_time_ms'' ''last_msg_time'',
      c_unread_count = wrap32 (row_getI r ''unread_count''), c_is_pinned = (row_getI r ''is_pinned'' \<noteq> 0),
      c_is_muted = (row_getI r ''is_muted'' \<noteq> 0), c_burn_after_reading = wrap32 (row_getI r ''burn_after_reading''),
      c_auto_delete_duration = wrap32 (row_getI r ''auto_delete_duration''),
      c_pin_time_ms = row_time r ''pin_time_ms'' ''pin_time'', c_local_seq = row_getI r ''local_seq'',
      c_updated_at_ms = row_time r ''updated_at_ms'' ''updated_at''\<rparr>"

definition conversation_to_row :: "conversation \<Rightarrow> conversation_row" where
  "conversation_to_row c = \<lparr>crow_conv_id = c_conv_id c,
     crow_conv_type = if c_conv_type c = Group then ''group'' else ''private'',
     crow_target_id = c_target_id c, crow_last_msg_id = Some (c_last_msg_id c),
     crow_last_msg_text = c_last_msg_text c, crow_last_msg_time_ms = c_last_msg_time_ms c,
     crow_unread_count = c_unread_count c, crow_is_pinned = (if c_is_pinned c then 1 else 0),
     crow_is_muted = (if c_is_muted c then 1 else 0), crow_burn_after_reading = c_burn_after_reading c,
     crow_auto_delete_duration = c_auto_delete_duration c, crow_pin_time_ms = c_pin_time_ms c,
     crow_local_seq = c_local_seq c, crow_updated_at_ms = c_updated_at_ms c\<rparr>"

definition sql_upsert_conversation :: "conversation_row \<Rightarrow> stmt" where
  "sql_upsert_conversation r t = Some (t\<lparr>conversations := upsert_row crow_conv_id r (\<lambda>_. r) (conversations t)\<rparr>)"

text \<open>\<open>ORDER BY is_pinned DESC, pin_time_ms DESC, last_msg_time_ms DESC\<close>\<close>

definition conv_row_less :: "conversation_row \<Rightarrow> conversation_row \<Rightarrow> bool" where
  "conv_row_less a b \<longleftrightarrow> crow_is_pinned a > crow_is_pinned b
     \<or> crow_is_pinned a = crow_is_pinned b \<and> (crow_pin_time_ms a > crow_pin_time_ms b
     \<or> crow_pin_time_ms a = crow_pin_time_ms b \<and> crow_last_msg_time_ms a > crow_last_msg_time_ms b)"

definition sql_conversations :: select where
  "sql_conversations t = map conv_cells (stable_sort conv_row_less (conversations t))"

text \<open>The foreign key of the messages table makes SQLite refuse to delete a conversation that
  has messages.\<close>

definition sql_delete_conversation :: "string \<Rightarrow> stmt" where
  "sql_delete_conversation cid t =
     (if list_ex (\<lambda>m. mrow_conv_id m = cid) (messages t) then None
      else Some (t\<lparr>conversations := delete_rows (\<lambda>r. crow_conv_id r = cid) (conversations t)\<rparr>))"

definition sql_clear_unread :: "string \<Rightarrow> stmt" where
  "sql_clear_unread cid t = Some (t\<lparr>conversations :=
     update_rows (\<lambda>r. crow_conv_id r = cid) (\<lambda>r. r\<lparr>crow_unread_count := 0\<rparr>) (conversations t)\<rparr>)"

definition sql_raise_local_seq :: "int \<Rightarrow> string \<Rightarrow> stmt" where
  "sql_raise_local_seq n cid t = Some (t\<lparr>conversations :=
     update_rows (\<lambda>r. crow_conv_id r = cid) (\<lambda>r. r\<lparr>crow_local_seq := max (crow_local_seq r) n\<rparr>) (conversations t)\<rparr>)"

definition upsertDb :: "conversation \<Rightarrow> client_act" where
  "upsertDb c = exec (sql_upsert_conversation (conversation_to_row c))"

section \<open>Operations\<close>

text \<open>The loop over the server's list: entries without an identifier are skipped, the rest
  stamped and written to the database.\<close>

definition stamp_updated :: "int \<Rightarrow> conversation \<Rightarrow> conversation" where
  "stamp_updated now c = (if c_updated_at_ms c = 0 then c\<lparr>c_updated_at_ms := now\<rparr> else c)"

definition listed_conversations :: "int \<Rightarrow> conversation_list_payload \<Rightarrow> conversation list" where
  "listed_conversations now d = map (stamp_updated now)
     (filter (\<lambda>c. c_conv_id c \<noteq> []) (map parseConversationPayload (toConversationPayloadList d)))"

definition getConversationList :: "conv_json \<Rightarrow> conversation list callback \<Rightarrow> client_act" where
  "getConversationList J cb = reading (\<lambda>s.
     let cached = cc_getAll (conv_cache s);
         rows = queryDirect sql_conversations (db s);
         from_db = map rowToConversation rows
     in if cached \<noteq> [] then succeed cb cached
        else if rows \<noteq> [] then perform [on_conv_cache (\<lambda>_. cc_setAll from_db), succeed cb from_db]
        else http_get ''/conversations'' (\<lambda>resp.
          on_envelope (r_conversations J) resp ''get conversations failed'' True cb (\<lambda>data. reading (\<lambda>s.
            let convs = listed_conversations (now_ms s) data
            in perform [for_each upsertDb convs, on_conv_cache (\<lambda>_. cc_setAll convs),
                 reading (\<lambda>s. succeed cb (cc_getAll (conv_cache s)))]))))"

definition getConversation :: "conv_json \<Rightarrow> string \<Rightarrow> conversation callback \<Rightarrow> client_act" where
  "getConversation J conv_id cb = http_get (''/conversations/'' @ conv_id) (\<lambda>resp.
     on_envelope (r_conversation J) resp ''get conversation failed'' True cb (\<lambda>data. reading (\<lambda>s.
       let c = parseConversationPayload data;
           conv = stamp_updated (now_ms s) (if c_conv_id c = [] then c\<lparr>c_conv_id := conv_id\<rparr> else c)
       in perform [on_conv_cache (cc_upsert conv), upsertDb conv, succeed cb conv])))"

definition deleteConversation :: "conv_json \<Rightarrow> string \<Rightarrow> unit callback \<Rightarrow> client_act" where
  "deleteConversation J conv_id cb = http_del (''/conversations/'' @ conv_id) (\<lambda>resp.
     on_envelope (r_conv_void J) resp ''delete conversation failed'' True cb (\<lambda>_.
       perform [on_conv_cache (cc_remove conv_id), exec (sql_delete_conversation conv_id), succeed cb ()]))"

definition markAllRead :: "conv_json \<Rightarrow> string \<Rightarrow> unit callback \<Rightarrow> client_act" where
  "markAllRead J conv_id cb = http_post (''/conversations/'' @ conv_id @ ''/read-all'') [] (\<lambda>resp.
     on_envelope (r_conv_void J) resp ''mark read failed'' True cb (\<lambda>_.
       perform [on_conv_cache (cc_clearUnread conv_id), exec (sql_clear_unread conv_id), succeed cb ()]))"

definition nonempty_ids :: "string list option \<Rightarrow> string list" where
  "nonempty_ids ids = (case ids of None \<Rightarrow> [] | Some xs \<Rightarrow> filter (\<lambda>x. x \<noteq> []) xs)"

definition markMessagesRead ::
  "conv_json \<Rightarrow> string \<Rightarrow> string list \<Rightarrow> conversation_mark_read_result callback \<Rightarrow> client_act" where
  "markMessagesRead J conv_id message_ids cb =
     (if message_ids = [] then fail cb (- 1) ''message_ids is empty''
      else with_json (w_mark_read J message_ids) cb (\<lambda>json.
        http_post (''/conversations/'' @ conv_id @ ''/messages/read'') json (\<lambda>resp.
          on_envelope (r_mark_read J) resp ''mark messages read failed'' True cb (\<lambda>data.
            succeed cb \<lparr>mk_accepted_ids = nonempty_ids (mmp_accepted_ids data),
                        mk_ignored_ids = nonempty_ids (mmp_ignored_ids data),
                        mk_advanced_last_read_seq = parseInt64Opt (mmp_advanced_last_read_seq data) 0\<rparr>))))"

text \<open>The four setters: a PUT, and on success the cached conversation, if there is one, is
  changed in the cache and written to the database.\<close>

definition change_conversation :: "string \<Rightarrow> (int \<Rightarrow> conversation \<Rightarrow> conversation) \<Rightarrow> client_act" where
  "change_conversation conv_id f = reading (\<lambda>s.
     case cc_get conv_id (conv_cache s) of None \<Rightarrow> skip
     | Some c \<Rightarrow> perform [on_conv_cache (cc_upsert (f (now_ms s) c)), upsertDb (f (now_ms s) c)])"

definition put_setting :: "conv_json \<Rightarrow> string \<Rightarrow> string \<Rightarrow> string + string \<Rightarrow> string
   \<Rightarrow> (int \<Rightarrow> conversation \<Rightarrow> conversation) \<Rightarrow> unit callback \<Rightarrow> client_act" where
  "put_setting J conv_id leaf body_json fallback f cb = with_json body_json cb (\<lambda>json.
     http_put (''/conversations/'' @ conv_id @ leaf) json (\<lambda>resp.
       on_envelope (r_conv_void J) resp fallback True cb (\<lambda>_.
         perform [change_conversation conv_id f, succeed cb ()])))"

definition setPinned :: "conv_json \<Rightarrow> string \<Rightarrow> bool \<Rightarrow> unit callback \<Rightarrow> client_act" where
  "setPinned J conv_id pinned cb = put_setting J conv_id ''/pin'' (w_pinned J pinned) ''set pinned failed''
     (\<lambda>now c. c\<lparr>c_is_pinned := pinned, c_pin_time_ms := if pinned then now else 0, c_updated_at_ms := now\<rparr>) cb"

definition setMuted :: "conv_json \<Rightarrow> string \<Rightarrow> bool \<Rightarrow> unit callback \<Rightarrow> client_act" where
  "setMuted J conv_id muted cb = put_setting J conv_id ''/mute'' (w_muted J muted) ''set muted failed''
     (\<lambda>now c. c\<lparr>c_is_muted := muted, c_updated_at_ms := now\<rparr>) cb"

definition setBurnAfterReading :: "conv_json \<Rightarrow> string \<Rightarrow> int \<Rightarrow> unit callback \<Rightarrow> client_act" where
  "setBurnAfterReading J conv_id duration cb = put_setting J conv_id ''/burn'' (w_duration J duration)
     ''set burn_after_reading failed'' (\<lambda>now c. c\<lparr>c_burn_after_reading := duration, c_updated_at_ms := now\<rparr>) cb"

definition setAutoDelete :: "conv_json \<Rightarrow> string \<Rightarrow> int \<Rightarrow> unit callback \<Rightarrow> client_act" where
  "setAutoDelete J conv_id duration cb = put_setting J conv_id ''/auto_delete'' (w_duration J duration)
     ''set auto_delete failed'' (\<lambda>now c. c\<lparr>c_auto_delete_duration := duration, c_updated_at_ms := now\<rparr>) cb"

definition getTotalUnread :: "conv_json \<Rightarrow> int callback \<Rightarrow> client_act" where
  "getTotalUnread J cb = http_get ''/conversations/unread/total'' (\<lambda>resp.
     on_envelope (r_total_unread J) resp ''get total unread failed'' True cb (\<lambda>data.
       succeed cb (wrap32 (parseInt64Opt data 0))))"

definition getMessageUnreadCount ::
  "conv_json \<Rightarrow> string \<Rightarrow> int \<Rightarrow> conversation_unread_state callback \<Rightarrow> client_act" where
  "getMessageUnreadCount J conv_id last_read_seq cb =
     http_get (''/conversations/'' @ conv_id @ ''/messages/unread-count'' @
         (if last_read_seq \<ge> 0 then ''?last_read_seq='' @ to_string last_read_seq else [])) (\<lambda>resp.
       on_envelope (r_unread_state J) resp ''get unread count failed'' True cb (\<lambda>data.
         let state = \<lparr>us_unread_count = parseInt64Opt (usp_unread_count data) 0,
               us_last_message_seq = parseInt64Opt (usp_last_message_seq data) 0,
               us_has_last_message = (usp_last_message data \<noteq> None),
               us_last_message = (case usp_last_message data of None \<Rightarrow> new_message
                 | Some m \<Rightarrow> parseUnreadStateMessage J m conv_id)\<rparr>
         in perform [change_conversation conv_id (\<lambda>_ c. c\<lparr>c_unread_count := wrap32 (us_unread_count state)\<rparr>),
              succeed cb state]))"

definition getMessageReadReceipts ::
  "conv_json \<Rightarrow> string \<Rightarrow> conversation_read_receipt list callback \<Rightarrow> client_act" where
  "getMessageReadReceipts J conv_id cb = http_get (''/conversations/'' @ conv_id @ ''/messages/read-receipts'') (\<lambda>resp.
     on_envelope (r_receipts J) resp ''get message read receipts failed'' True cb (\<lambda>data.
       succeed cb (case data of None \<Rightarrow> [] | Some payloads \<Rightarrow> map parseReadReceipt payloads)))"

definition raise_local_seq :: "int \<Rightarrow> string \<Rightarrow> client_act" where
  "raise_local_seq n conv_id = reading (\<lambda>s. case cc_get conv_id (conv_cache s) of
       Some c \<Rightarrow> act_if (n > c_local_seq c) (perform [on_conv_cache (cc_upsert (c\<lparr>c_local_seq := n\<rparr>)),
                   upsertDb (c\<lparr>c_local_seq := n\<rparr>)])
     | None \<Rightarrow> act_if (n > 0) (exec (sql_raise_local_seq n conv_id)))"

definition getMessageSequence :: "conv_json \<Rightarrow> string \<Rightarrow> int callback \<Rightarrow> client_act" where
  "getMessageSequence J conv_id cb = http_get (''/conversations/'' @ conv_id @ ''/messages/sequence'') (\<lambda>resp.
     on_envelope (r_sequence J) resp ''get message sequence failed'' True cb (\<lambda>data.
       let n = parseInt64Opt data 0 in perform [raise_local_seq n conv_id, succeed cb n]))"

definition conv_setListener :: "bool \<Rightarrow> client_act" where
  "conv_setListener l = modify (\<lambda>s. s\<lparr>conv_listener := l\<rparr>)"

section \<open>Notifications\<close>

definition tell_conv_listener :: "conversation \<Rightarrow> client_act" where
  "tell_conv_listener c = reading (\<lambda>s. act_if (conv_listener s) (emit (ConversationUpdated c)))"

definition patched_conversation ::
  "string \<Rightarrow> notification_conversation_payload \<Rightarrow> int \<Rightarrow> string \<Rightarrow> conversation option \<Rightarrow> conversation" where
  "patched_conversation type p now conv_id existing =
     (let base = (case existing of None \<Rightarrow> new_conversation | Some c \<Rightarrow> c);
          conv = applyNotificationPatch p (base\<lparr>c_conv_id := conv_id\<rparr>);
          pinned = parseBoolOpt (ncp_is_pinned p) (c_is_pinned conv);
          conv = (if type \<noteq> ''conversation.pin_updated'' then conv
                  else if \<not> pinned then conv\<lparr>c_pin_time_ms := 0\<rparr>
                  else if c_pin_time_ms conv = 0 then conv\<lparr>c_pin_time_ms := now\<rparr> else conv)
      in stamp_updated now conv)"

definition handleConversationNotification :: "conv_json \<Rightarrow> notification_event \<Rightarrow> client_act" where
  "handleConversationNotification J ev =
     (case parseJsonObject (r_notif_conversation J) (ev_data ev) of
        Inl err \<Rightarrow> skip
      | Inr payload \<Rightarrow> reading (\<lambda>s.
          let conv_id = notificationConversationId payload;
              existing = cc_get conv_id (conv_cache s)
          in if conv_id = [] then skip
             else if notification_type ev = ''conversation.deleted''
             then perform [on_conv_cache (cc_remove conv_id), exec (sql_delete_conversation conv_id),
                    tell_conv_listener (case existing of None \<Rightarrow> new_conversation\<lparr>c_conv_id := conv_id\<rparr> | Some c \<Rightarrow> c)]
             else
               let conv = patched_conversation (notification_type ev) payload (now_ms s) conv_id existing
               in perform [on_conv_cache (cc_upsert conv), upsertDb conv, tell_conv_listener conv]))"

definition conv_notification :: "conv_json \<Rightarrow> notification_event \<Rightarrow> client_act" where
  "conv_notification J ev =
     (if isConversationNotification (notification_type ev) then handleConversationNotification J ev else skip)"

section \<open>Invariant and answers\<close>

lemma stmt_ok_conversations_updateI:
  "(\<And>r. crow_conv_id (f r) = crow_conv_id r) \<Longrightarrow> stmt_ok (\<lambda>t. Some (t\<lparr>conversations := update_rows P f (conversations t)\<rparr>))"
proof
  fix t t'
  assume f: "\<And>r. crow_conv_id (f r) = crow_conv_id r" and inv: "tables_inv t"
    and "Some (t\<lparr>conversations := update_rows P f (conversations t)\<rparr>) = Some t'"
  then have t': "t' = t\<lparr>conversations := update_rows P f (conversations t)\<rparr>" by simp
  have ids: "map crow_conv_id (update_rows P f (conversations t)) = map crow_conv_id (conversations t)"
    by (simp add: update_rows_def f)
  then have "has_row crow_conv_id k (update_rows P f (conversations t)) = has_row crow_conv_id k (conversations t)" for k
    unfolding has_row_iff by (metis set_map)
  then show "tables_inv t'" using inv ids by (simp add: t' tables_inv_def unique_def)
qed

lemma stmt_ok_conversations [inv_intro, simp]:
  "stmt_ok (sql_clear_unread cid)" "stmt_ok (sql_raise_local_seq n cid)"
  unfolding sql_clear_unread_def [abs_def] sql_raise_local_seq_def [abs_def]
  by (rule stmt_ok_conversations_updateI, simp)+

lemma stmt_ok_upsert_conversation [inv_intro, simp]: "stmt_ok (sql_upsert_conversation r)"
proof
  fix t t'
  assume inv: "tables_inv t" and "sql_upsert_conversation r t = Some t'"
  moreover have "crow_conv_id ` set (upsert_row crow_conv_id r (\<lambda>_. r) (conversations t))
      = insert (crow_conv_id r) (crow_conv_id ` set (conversations t))"
    by (rule keys_upsert) auto
  moreover have "unique crow_conv_id (upsert_row crow_conv_id r (\<lambda>_. r) (conversations t))"
    using inv by (intro unique_upsert) (auto simp: tables_inv_def)
  ultimately show "tables_inv t'"
    by (auto simp: tables_inv_def sql_upsert_conversation_def list_all_iff has_row_iff)
qed

lemma stmt_ok_delete_conversation [inv_intro, simp]: "stmt_ok (sql_delete_conversation cid)"
proof
  fix t t'
  assume inv: "tables_inv t" and run: "sql_delete_conversation cid t = Some t'"
  then have t': "t' = t\<lparr>conversations := delete_rows (\<lambda>r. crow_conv_id r = cid) (conversations t)\<rparr>"
    and other: "\<And>m. m \<in> set (messages t) \<Longrightarrow> mrow_conv_id m \<noteq> cid"
    by (auto simp: sql_delete_conversation_def list_ex_iff split: if_splits)
  have kept: "has_row crow_conv_id k (delete_rows (\<lambda>r. crow_conv_id r = cid) rows)"
    if "has_row crow_conv_id k rows" "k \<noteq> cid" for k rows
    using that by (auto simp: has_row_def delete_rows_def list_ex_iff)
  have "list_all (\<lambda>m. has_row crow_conv_id (mrow_conv_id m) (conversations t')) (messages t)"
    unfolding list_all_iff t'
  proof
    fix m assume m: "m \<in> set (messages t)"
    then have "has_row crow_conv_id (mrow_conv_id m) (conversations t)"
      using inv by (simp add: tables_inv_def list_all_iff)
    then show "has_row crow_conv_id (mrow_conv_id m) (conversations (t\<lparr>conversations :=
        delete_rows (\<lambda>r. crow_conv_id r = cid) (conversations t)\<rparr>))"
      using kept other [OF m] by simp
  qed
  then show "tables_inv t'" using inv by (simp add: t' tables_inv_def)
qed

lemma keeps_upsertDb [keeps_intro]: "keeps (client_inv X) (upsertDb c)"
  unfolding upsertDb_def by (intro keeps_intro stmt_ok_upsert_conversation)

lemma keeps_cache_ops [keeps_intro]: "keeps (client_inv X) (on_conv_cache (\<lambda>_. cc_setAll convs))"
  "keeps (client_inv X) (on_conv_cache (cc_upsert c))" "keeps (client_inv X) (on_conv_cache (cc_remove k))"
  "keeps (client_inv X) (on_conv_cache (cc_clearUnread k))"
  by (intro keeps_intro cc_ordered_ops, assumption?)+

lemma keeps_conv_parts [keeps_intro]: "keeps (client_inv X) (change_conversation cid f)"
  "keeps (client_inv X) (raise_local_seq n cid)" "keeps (client_inv X) (tell_conv_listener c)"
  unfolding change_conversation_def raise_local_seq_def tell_conv_listener_def
  by (intro keeps_intro stmt_ok_conversations)+

lemma keeps_put_setting [keeps_intro]:
  "cb_keeps (client_inv X) cb \<Longrightarrow> keeps (client_inv X) (put_setting J cid leaf w fb f cb)"
  unfolding put_setting_def by (intro keeps_intro; assumption)+

lemma keeps_conv_ops:
  "cb_keeps (client_inv X) lcb \<Longrightarrow> keeps (client_inv X) (getConversationList J lcb)"
  "cb_keeps (client_inv X) ccb \<Longrightarrow> keeps (client_inv X) (getConversation J cid ccb)"
  "cb_keeps (client_inv X) cb \<Longrightarrow> keeps (client_inv X) (deleteConversation J cid cb)"
  "cb_keeps (client_inv X) cb \<Longrightarrow> keeps (client_inv X) (markAllRead J cid cb)"
  "cb_keeps (client_inv X) kcb \<Longrightarrow> keeps (client_inv X) (markMessagesRead J cid ids kcb)"
  "cb_keeps (client_inv X) cb \<Longrightarrow> keeps (client_inv X) (setPinned J cid b cb)"
  "cb_keeps (client_inv X) cb \<Longrightarrow> keeps (client_inv X) (setMuted J cid b cb)"
  "cb_keeps (client_inv X) cb \<Longrightarrow> keeps (client_inv X) (setBurnAfterReading J cid n cb)"
  "cb_keeps (client_inv X) cb \<Longrightarrow> keeps (client_inv X) (setAutoDelete J cid n cb)"
  "cb_keeps (client_inv X) ncb \<Longrightarrow> keeps (client_inv X) (getTotalUnread J ncb)"
  "cb_keeps (client_inv X) ucb \<Longrightarrow> keeps (client_inv X) (getMessageUnreadCount J cid n ucb)"
  "cb_keeps (client_inv X) rcb \<Longrightarrow> keeps (client_inv X) (getMessageReadReceipts J cid rcb)"
  "cb_keeps (client_inv X) ncb \<Longrightarrow> keeps (client_inv X) (getMessageSequence J cid ncb)"
  unfolding getConversationList_def getConversation_def deleteConversation_def markAllRead_def markMessagesRead_def
    setPinned_def setMuted_def setBurnAfterReading_def setAutoDelete_def getTotalUnread_def getMessageUnreadCount_def
    getMessageReadReceipts_def getMessageSequence_def Let_def
  by (intro keeps_intro stmt_ok_conversations stmt_ok_delete_conversation; assumption)+

lemma keeps_conv_notification [keeps_intro]: "keeps (client_inv X) (conv_notification J ev)"
  unfolding conv_notification_def handleConversationNotification_def Let_def
  by (intro keeps_intro stmt_ok_delete_conversation)

lemma answers_conv_parts [answers_intro]: "answers P 0 (upsertDb c)" "answers P 0 (change_conversation cid f)"
  "answers P 0 (raise_local_seq n cid)" "answers (about i) 0 (tell_conv_listener c)"
  unfolding upsertDb_def change_conversation_def raise_local_seq_def tell_conv_listener_def
  by (intro answers_intro about_simps)+

lemma answers_put_setting [answers_intro]:
  "cb_answers i n cb \<Longrightarrow> answers (about i) n (put_setting J cid leaf w fb f cb)"
  unfolding put_setting_def by (intro answers_intro; assumption)+

lemma answers_conv_ops:
  "cb_answers i n lcb \<Longrightarrow> answers (about i) n (getConversationList J lcb)"
  "cb_answers i n ccb \<Longrightarrow> answers (about i) n (getConversation J cid ccb)"
  "cb_answers i n cb \<Longrightarrow> answers (about i) n (deleteConversation J cid cb)"
  "cb_answers i n cb \<Longrightarrow> answers (about i) n (markAllRead J cid cb)"
  "cb_answers i n kcb \<Longrightarrow> answers (about i) n (markMessagesRead J cid ids kcb)"
  "cb_answers i n cb \<Longrightarrow> answers (about i) n (setPinned J cid b cb)"
  "cb_answers i n cb \<Longrightarrow> answers (about i) n (setMuted J cid b cb)"
  "cb_answers i n cb \<Longrightarrow> answers (about i) n (setBurnAfterReading J cid k cb)"
  "cb_answers i n cb \<Longrightarrow> answers (about i) n (setAutoDelete J cid k cb)"
  "cb_answers i n ncb \<Longrightarrow> answers (about i) n (getTotalUnread J ncb)"
  "cb_answers i n ucb \<Longrightarrow> answers (about i) n (getMessageUnreadCount J cid k ucb)"
  "cb_answers i n rcb \<Longrightarrow> answers (about i) n (getMessageReadReceipts J cid rcb)"
  "cb_answers i n ncb \<Longrightarrow> answers (about i) n (getMessageSequence J cid ncb)"
  unfolding getConversationList_def getConversation_def deleteConversation_def markAllRead_def markMessagesRead_def
    setPinned_def setMuted_def setBurnAfterReading_def setAutoDelete_def getTotalUnread_def getMessageUnreadCount_def
    getMessageReadReceipts_def getMessageSequence_def Let_def
  by (intro answers_intro; assumption)+

lemma answers_conv_notification [answers_intro]: "answers (about i) 0 (conv_notification J ev)"
  unfolding conv_notification_def handleConversationNotification_def Let_def
  by (intro answers_intro)

section \<open>Properties\<close>

text \<open>What SQLite stores unchanged: text without NUL bytes, integers of their width.\<close>

definition storable :: "conversation \<Rightarrow> bool" where
  "storable c \<longleftrightarrow> nul \<notin> set (c_conv_id c) \<and> nul \<notin> set (c_target_id c) \<and> nul \<notin> set (c_last_msg_id c)
     \<and> nul \<notin> set (c_last_msg_text c) \<and> is_i64 (c_last_msg_time_ms c) \<and> is_i32 (c_unread_count c)
     \<and> is_i32 (c_burn_after_reading c) \<and> is_i32 (c_auto_delete_duration c) \<and> is_i64 (c_pin_time_ms c)
     \<and> is_i64 (c_local_seq c) \<and> is_i64 (c_updated_at_ms c)"

lemma nul_neq [simp]: "nul \<notin> set ''group''" "nul \<notin> set ''private''"
  by (auto simp: nul_def dest!: arg_cong [where f = "of_char :: char \<Rightarrow> nat"])

lemma c_str_types [simp]: "c_str ''group'' = ''group''" "c_str ''private'' = ''private''"
  by (rule c_str_id, rule nul_neq)+

lemma row_time_cells:
  assumes "map_of r k = Some (to_string n)" and "map_of r old = None" and "is_i64 n"
  shows "row_time r k old = n"
  using assms by (simp add: row_time_def row_getI_def normalizeUnixEpochMs_def)

lemma row_getI_cells: "map_of r k = Some (to_string n) \<Longrightarrow> is_i64 n \<Longrightarrow> row_getI r k = n"
  by (simp add: row_getI_def)

lemma is_i64_flags [simp]: "is_i64 0" "is_i64 1"
  by (simp_all add: is_i64_def)

lemma rowToConversation_cells:
  assumes "storable c"
  shows "rowToConversation (conv_cells (conversation_to_row c)) = c"
proof -
  have i: "is_i64 (c_unread_count c)" "is_i64 (c_burn_after_reading c)" "is_i64 (c_auto_delete_duration c)"
    using assms by (simp_all add: storable_def is_i32_is_i64)
  have t: "c_conv_type c = Group \<or> c_conv_type c = Private" by (cases "c_conv_type c") simp_all
  show ?thesis
    using assms i t
    by (cases c) (auto simp: storable_def rowToConversation_def conv_cells_def conversation_to_row_def row_get_def
        row_getI_def row_time_def text_cell_def null_cell_def normalizeUnixEpochMs_def)
qed

lemma upsert_all_new:
  assumes "distinct (map c_conv_id cs)" and "\<forall>c \<in> set cs. \<not> has_row crow_conv_id (c_conv_id c) (conversations t)"
  shows "fold (\<lambda>c. db_exec (sql_upsert_conversation (conversation_to_row c))) cs (Some t)
    = Some (t\<lparr>conversations := conversations t @ map conversation_to_row cs\<rparr>)"
  using assms
proof (induction cs arbitrary: t)
  case (Cons c cs)
  have "\<not> has_row crow_conv_id (crow_conv_id (conversation_to_row c)) (conversations t)"
    using Cons.prems(2) by (simp add: conversation_to_row_def)
  moreover have other: "c_conv_id c \<notin> c_conv_id ` set cs" using Cons.prems(1) by simp
  moreover have "\<forall>d \<in> set cs. \<not> has_row crow_conv_id (c_conv_id d) (conversations t @ [conversation_to_row c])"
  proof
    fix d assume d: "d \<in> set cs"
    then have "c_conv_id d \<in> c_conv_id ` set cs" by (rule imageI)
    then have "c_conv_id d \<noteq> c_conv_id c" using other by metis
    then show "\<not> has_row crow_conv_id (c_conv_id d) (conversations t @ [conversation_to_row c])"
      using Cons.prems(2) d by (simp add: has_row_def conversation_to_row_def)
  qed
  ultimately show ?case
    using Cons.prems(1) Cons.IH [of "t\<lparr>conversations := conversations t @ [conversation_to_row c]\<rparr>"]
    by (simp add: db_exec_Some sql_upsert_conversation_def upsert_row_def)
qed simp

text \<open>
  C28: The conversation list survives a restart without a server: a list of distinct
  conversations (texts without NUL bytes) that was written to a database without conversations
  is what \<open>getConversationList\<close> answers on an empty cache, at once and without a request, and
  what it puts into the cache.
\<close>

theorem conversation_list_survives:
  assumes "distinct (map c_conv_id convs)" and "\<forall>c \<in> set convs. storable c" and "convs \<noteq> []"
    and "db s = Some t" and "conversations t = []" and "conv_cache s' = []"
    and "db s' = db (fst (for_each upsertDb convs s))"
  shows "\<exists>L. mset L = mset convs \<and> getConversationList J (user_callback VConversations u) s' =
    (s'\<lparr>conv_cache := cc_setAll L\<rparr>, if has_success u then [Succeeded (cb_id u) (VConversations L)] else [], [])"
proof -
  define rows where "rows = stable_sort conv_row_less (map conversation_to_row convs)"
  have db: "db s' = Some (t\<lparr>conversations := map conversation_to_row convs\<rparr>)"
    using assms(4,5,7) upsert_all_new [OF assms(1), of t]
    by (simp add: upsertDb_def [abs_def] for_each_exec has_row_def)
  have "mset rows = mset (map conversation_to_row convs)" by (simp add: rows_def)
  then have "mset (map (rowToConversation \<circ> conv_cells) rows)
      = mset (map (rowToConversation \<circ> conv_cells) (map conversation_to_row convs))"
    by (metis mset_map)
  also have "map (rowToConversation \<circ> conv_cells) (map conversation_to_row convs) = convs"
    using assms(2) by (simp add: o_def rowToConversation_cells map_idI)
  finally have same: "mset (map (rowToConversation \<circ> conv_cells) rows) = mset convs" .
  have "rows \<noteq> []" using assms(3) by (auto simp: rows_def dest: arg_cong [where f = mset])
  then have "getConversationList J (user_callback VConversations u) s' =
    (s'\<lparr>conv_cache := cc_setAll (map (rowToConversation \<circ> conv_cells) rows)\<rparr>,
     if has_success u then [Succeeded (cb_id u) (VConversations (map (rowToConversation \<circ> conv_cells) rows))] else [], [])"
    using assms(6)
    by (simp add: getConversationList_def reading_def db queryDirect_def sql_conversations_def Let_def cc_getAll_def
        rows_def on_conv_cache_def seq_def modify_def succeed_def user_callback_def emit_def skip_def comp_def)
  then show ?thesis using same by blast
qed

theorem conversation_list_survives_witness:
  "\<forall>J. \<exists>L. mset L = {# new_conversation\<lparr>c_conv_id := ''a'', c_last_msg_text := ''hi''\<rparr> #}
     \<and> getConversationList J (user_callback VConversations (full_cb 2))
        (demo_client\<lparr>db := db (fst (for_each upsertDb [new_conversation\<lparr>c_conv_id := ''a'', c_last_msg_text := ''hi''\<rparr>] demo_client))\<rparr>)
      = (demo_client\<lparr>db := db (fst (for_each upsertDb [new_conversation\<lparr>c_conv_id := ''a'', c_last_msg_text := ''hi''\<rparr>] demo_client)),
           conv_cache := cc_setAll L\<rparr>, [Succeeded 2 (VConversations L)], [])"
proof
  fix J
  let ?c = "new_conversation\<lparr>c_conv_id := ''a'', c_last_msg_text := ''hi''\<rparr>"
  have nul: "nul \<noteq> CHR ''a''" "nul \<noteq> CHR ''h''" "nul \<noteq> CHR ''i''"
    by (auto simp: nul_def dest!: arg_cong [where f = "of_char :: char \<Rightarrow> nat"])
  have ok: "distinct (map c_conv_id [?c])" "\<forall>c \<in> set [?c]. storable c" "[?c] \<noteq> []"
    using nul by (auto simp: storable_def new_conversation_def is_i64_def is_i32_def)
  show "\<exists>L. mset L = {# ?c #} \<and> getConversationList J (user_callback VConversations (full_cb 2))
        (demo_client\<lparr>db := db (fst (for_each upsertDb [?c] demo_client))\<rparr>)
      = (demo_client\<lparr>db := db (fst (for_each upsertDb [?c] demo_client)), conv_cache := cc_setAll L\<rparr>,
          [Succeeded 2 (VConversations L)], [])"
    using conversation_list_survives [OF ok, of demo_client kSchemav1
        "demo_client\<lparr>db := db (fst (for_each upsertDb [?c] demo_client))\<rparr>" J "full_cb 2"]
    by (auto simp: kSchemav1_def full_cb_def)
qed

text \<open>
  C29: A conversation with stored messages cannot be deleted from the database. When the server
  accepts the deletion, the caller hears of a success and the conversation is gone from the
  cache; its row stays exactly when a message refers to it, so that the next list that is read
  from the database has the conversation again.
\<close>

theorem delete_conversation_outcome:
  assumes "deleteConversation J cid (user_callback (\<lambda>_. VUnit) u) s = (s1, es, [Pending q k])"
    and "parseApiEnvelopeResponse (r_conv_void J) resp ''delete conversation failed'' True False = Inr ()"
    and "db s2 = Some t" and "k resp s2 = (s3, es', ps)"
  shows "cc_get cid (conv_cache s3) = None \<and> es' = (if has_success u then [Succeeded (cb_id u) VUnit] else []) \<and> ps = []
    \<and> (\<exists>t'. db s3 = Some t' \<and> messages t' = messages t
         \<and> (row_with crow_conv_id cid (conversations t') =
              (if \<exists>m \<in> set (messages t). mrow_conv_id m = cid then row_with crow_conv_id cid (conversations t) else None)))"
proof -
  let ?cb = "user_callback (\<lambda>_. VUnit) u :: unit callback"
  have k: "k = (\<lambda>resp. on_envelope (r_conv_void J) resp ''delete conversation failed'' True ?cb (\<lambda>_.
       perform [on_conv_cache (cc_remove cid), exec (sql_delete_conversation cid), succeed ?cb ()]))"
    using assms(1) by (auto simp: deleteConversation_def http_defs await_def)
  have none: "cc_get cid (cc_remove cid cs) = None" for cs
    by (auto simp: cc_get_def cc_remove_def find_None_iff)
  show ?thesis
    using assms(2-4) none [of "conv_cache s2"]
    by (auto simp: k on_envelope_def act_defs on_conv_cache_def exec_def on_db_def db_exec_Some sql_delete_conversation_def
        list_ex_iff row_with_delete succeed_def user_callback_def split: if_splits)
qed

text \<open>A server that accepts, a database with one conversation and one message of it.\<close>

definition accepting :: "conv_json \<Rightarrow> conv_json" where
  "accepting J = J\<lparr>r_conv_void := \<lambda>_. Inr \<lparr>env_code = 0, env_message = [], env_data = ()\<rparr>\<rparr>"

definition talked :: client where
  "talked = demo_client\<lparr>db := Some (kSchemav1\<lparr>conversations := [conversation_to_row (new_conversation\<lparr>c_conv_id := ''a''\<rparr>)],
     messages := [\<lparr>mrow_message_id = ''m'', mrow_local_id = [], mrow_conv_id = ''a'', mrow_sender_id = ''u'',
       mrow_content_type = 1, mrow_content = ''hi'', mrow_seq = 1, mrow_reply_to = [], mrow_status = 0,
       mrow_send_state = 1, mrow_is_read = 0, mrow_timestamp_ms = 1\<rparr>]\<rparr>)\<rparr>"

theorem delete_conversation_outcome_witness:
  "\<forall>J. \<exists>q k s3 ps t'. deleteConversation (accepting J) ''a'' (user_callback (\<lambda>_. VUnit) (full_cb 5)) talked
        = (talked, [], [Pending q k])
     \<and> k \<lparr>status_code = 200, body = ''{}'', resp_error = []\<rparr> talked = (s3, [Succeeded 5 VUnit], ps)
     \<and> db s3 = Some t'
     \<and> row_with crow_conv_id ''a'' (conversations t') = Some (conversation_to_row (new_conversation\<lparr>c_conv_id := ''a''\<rparr>))"
proof
  fix J
  let ?resp = "\<lparr>status_code = 200, body = ''{}'', resp_error = []\<rparr>"
  obtain q k where call: "deleteConversation (accepting J) ''a'' (user_callback (\<lambda>_. VUnit) (full_cb 5)) talked
      = (talked, [], [Pending q k])"
    by (simp add: deleteConversation_def http_defs await_def)
  obtain s3 es ps where run: "k ?resp talked = (s3, es, ps)" by (cases "k ?resp talked")
  have ok: "parseApiEnvelopeResponse (r_conv_void (accepting J)) ?resp ''delete conversation failed'' True False = Inr ()"
    by (simp add: parseApiEnvelopeResponse_def accepting_def)
  obtain t where t: "db talked = Some t" "\<exists>m \<in> set (messages t). mrow_conv_id m = ''a''"
    "row_with crow_conv_id ''a'' (conversations t) = Some (conversation_to_row (new_conversation\<lparr>c_conv_id := ''a''\<rparr>))"
    by (auto simp: talked_def row_with_def conversation_to_row_def)
  from delete_conversation_outcome [OF call ok t(1) run] t(2,3) call run
  show "\<exists>q k s3 ps t'. deleteConversation (accepting J) ''a'' (user_callback (\<lambda>_. VUnit) (full_cb 5)) talked
        = (talked, [], [Pending q k])
     \<and> k ?resp talked = (s3, [Succeeded 5 VUnit], ps) \<and> db s3 = Some t'
     \<and> row_with crow_conv_id ''a'' (conversations t') = Some (conversation_to_row (new_conversation\<lparr>c_conv_id := ''a''\<rparr>))"
    by (auto simp: full_cb_def)
qed

end
