(* ===== verification/SyncEngine.thy ===== *)
theory SyncEngine
  imports ConversationManager
begin

text \<open>
  \<open>SyncEngine\<close> (core/src/sync_engine.cpp): the request with what the client has, and the
  merge of the server's deltas into the database and the two caches. Every statement runs
  by \<open>execSync\<close>, so the merge is one act. JSON readers and writers are \<open>sync_json\<close>.
\<close>

section \<open>Payloads\<close>

record conversation_seq_request =
  csr_conversation_id :: string
  csr_conversation_type :: string
  csr_last_seq :: int

record sync_request_payload =
  srp_last_sync_time :: int
  srp_conversation_seqs :: "conversation_seq_request list"

record friend_delta_payload =
  fd_user_id :: string
  fd_remark :: string
  fd_updated_at :: "integer_value option"
  fd_is_deleted :: "bool_value option"

record friend_list_delta =
  fl_friends :: "friend_delta_payload list option"
  fl_total :: "integer_value option"

record group_delta_payload =
  gd_group_id :: string
  gd_name :: string
  gd_avatar :: string
  gd_updated_at :: "integer_value option"
  gd_member_count :: "integer_value option"

record group_list_delta =
  gl_groups :: "group_delta_payload list option"
  gl_total :: "integer_value option"

record conversation_delta_payload =
  cd_conversation_id :: string
  cd_conversation_type :: string
  cd_target_id :: string
  cd_last_message_content :: "content_value option"
  cd_last_message_time :: "timestamp_value option"
  cd_unread_count :: "integer_value option"
  cd_is_pinned :: "bool_value option"
  cd_is_muted :: "bool_value option"

record conversation_delta_list =
  cdl_conversations :: "conversation_delta_payload list option"
  cdl_has_more :: "bool_value option"

record message_delta_payload =
  md_message_id :: string
  md_sender_id :: string
  md_content_type :: "integer_value option"
  md_content :: "content_value option"
  md_sequence :: "integer_value option"
  md_reply_to :: string
  md_status :: "integer_value option"
  md_created_at :: "timestamp_value option"

record conversation_messages_payload =
  cm_conversation_id :: string
  cm_conversation_type :: string
  cm_messages :: "message_delta_payload list option"
  cm_has_more :: "bool_value option"

record sync_response_payload =
  sr_friends :: "friend_list_delta option"
  sr_groups :: "group_list_delta option"
  sr_conversation_data :: "conversation_delta_list option"
  sr_conversations :: "conversation_messages_payload list option"
  sr_sync_time :: "integer_value option"

record sync_json =
  w_sync :: "sync_request_payload \<Rightarrow> string + string"
  r_sync :: "string \<Rightarrow> string + sync_response_payload envelope"
  r_sync_string :: "string \<Rightarrow> string option"

definition toFriendPayloadList :: "friend_list_delta option \<Rightarrow> friend_delta_payload list" where
  "toFriendPayloadList v = (case v of None \<Rightarrow> [] | Some l \<Rightarrow> (case fl_friends l of None \<Rightarrow> [] | Some ps \<Rightarrow> ps))"

definition toGroupPayloadList :: "group_list_delta option \<Rightarrow> group_delta_payload list" where
  "toGroupPayloadList v = (case v of None \<Rightarrow> [] | Some l \<Rightarrow> (case gl_groups l of None \<Rightarrow> [] | Some ps \<Rightarrow> ps))"

definition toConversationDeltaPayloadList :: "conversation_delta_list option \<Rightarrow> conversation_delta_payload list" where
  "toConversationDeltaPayloadList v =
     (case v of None \<Rightarrow> [] | Some l \<Rightarrow> (case cdl_conversations l of None \<Rightarrow> [] | Some ps \<Rightarrow> ps))"

definition toConversationMessagesList :: "conversation_messages_payload list option \<Rightarrow> conversation_messages_payload list" where
  "toConversationMessagesList v = (case v of None \<Rightarrow> [] | Some ps \<Rightarrow> ps)"

section \<open>Statements\<close>

definition sql_merge_friend :: "string \<Rightarrow> string \<Rightarrow> int \<Rightarrow> int \<Rightarrow> stmt" where
  "sql_merge_friend uid remark updated deleted t = Some (t\<lparr>friends := upsert_row frow_user_id
     \<lparr>frow_user_id = uid, frow_remark = remark, frow_updated_at_ms = updated, frow_is_deleted = deleted,
      frow_friend_nickname = None, frow_friend_avatar = None\<rparr>
     (\<lambda>r. r\<lparr>frow_remark := remark, frow_updated_at_ms := updated, frow_is_deleted := deleted\<rparr>) (friends t)\<rparr>)"

definition sql_merge_group :: "string \<Rightarrow> string \<Rightarrow> string \<Rightarrow> int \<Rightarrow> int \<Rightarrow> stmt" where
  "sql_merge_group gid name avatar members updated t = Some (t\<lparr>groups := upsert_row grow_group_id
     \<lparr>grow_group_id = gid, grow_name = name, grow_avatar_url = avatar, grow_owner_id = None,
      grow_member_count = members, grow_my_role = None, grow_updated_at_ms = updated\<rparr>
     (\<lambda>r. r\<lparr>grow_name := name, grow_avatar_url := avatar, grow_member_count := members,
            grow_updated_at_ms := updated\<rparr>) (groups t)\<rparr>)"

text \<open>The columns left out of the INSERT take their defaults; the SET list leaves them alone.\<close>

definition session_row :: "conversation \<Rightarrow> conversation_row" where
  "session_row c = (conversation_to_row c)\<lparr>crow_last_msg_id := None\<rparr>"

definition sql_merge_session :: "conversation \<Rightarrow> stmt" where
  "sql_merge_session c t = Some (t\<lparr>conversations := upsert_row crow_conv_id (session_row c)
     (\<lambda>r. r\<lparr>crow_conv_type := crow_conv_type (session_row c), crow_target_id := c_target_id c,
            crow_last_msg_text := c_last_msg_text c, crow_last_msg_time_ms := c_last_msg_time_ms c,
            crow_unread_count := c_unread_count c, crow_is_pinned := crow_is_pinned (session_row c),
            crow_is_muted := crow_is_muted (session_row c), crow_updated_at_ms := c_updated_at_ms c\<rparr>)
     (conversations t)\<rparr>)"

text \<open>\<open>INSERT OR IGNORE\<close>: a row with the same \<open>message_id\<close> or the same \<open>local_id\<close> makes it do
  nothing; a missing conversation is an error (IGNORE does not cover foreign keys).\<close>

definition sql_insert_message :: "message_row \<Rightarrow> stmt" where
  "sql_insert_message r t =
     (if has_row mrow_message_id (mrow_message_id r) (messages t) \<or> has_row mrow_local_id (mrow_local_id r) (messages t)
      then Some t
      else if \<not> has_row crow_conv_id (mrow_conv_id r) (conversations t) then None
      else Some (t\<lparr>messages := messages t @ [r]\<rparr>))"

section \<open>Merging\<close>

definition merge_friend :: "friend_delta_payload \<Rightarrow> client_act" where
  "merge_friend p = act_if (fd_user_id p \<noteq> []) (exec (sql_merge_friend (fd_user_id p) (fd_remark p)
     (parseInt64Value (fd_updated_at p) 0) (if parseBoolValue (fd_is_deleted p) False then 1 else 0)))"

definition mergeFriends :: "friend_delta_payload list \<Rightarrow> client_act" where
  "mergeFriends ps = for_each merge_friend ps"

definition merge_group :: "group_delta_payload \<Rightarrow> client_act" where
  "merge_group p = act_if (gd_group_id p \<noteq> []) (exec (sql_merge_group (gd_group_id p) (gd_name p) (gd_avatar p)
     (parseInt64Value (gd_member_count p) 0) (parseInt64Value (gd_updated_at p) 0)))"

definition mergeGroups :: "group_delta_payload list \<Rightarrow> client_act" where
  "mergeGroups ps = for_each merge_group ps"

definition session_conversation :: "sync_json \<Rightarrow> int \<Rightarrow> conversation_delta_payload \<Rightarrow> conversation" where
  "session_conversation J now p = new_conversation
     \<lparr>c_conv_id := cd_conversation_id p,
      c_conv_type := if toLower (cd_conversation_type p) = ''group'' then Group else Private,
      c_target_id := cd_target_id p,
      c_last_msg_text := parseMessageContent (r_sync_string J) (cd_last_message_content p),
      c_last_msg_time_ms := parseTimestampMs (cd_last_message_time p),
      c_unread_count := wrap32 (parseInt64Value (cd_unread_count p) 0),
      c_is_pinned := parseBoolValue (cd_is_pinned p) False, c_is_muted := parseBoolValue (cd_is_muted p) False,
      c_updated_at_ms := now\<rparr>"

definition merge_session :: "sync_json \<Rightarrow> conversation_delta_payload \<Rightarrow> client_act" where
  "merge_session J p = act_if (cd_conversation_id p \<noteq> []) (reading (\<lambda>s.
     let conv = session_conversation J (now_ms s) p
     in perform [exec (sql_merge_session conv), on_conv_cache (cc_upsert conv)]))"

definition mergeSessions :: "sync_json \<Rightarrow> conversation_delta_payload list \<Rightarrow> client_act" where
  "mergeSessions J ps = for_each (merge_session J) ps"

definition delta_message :: "sync_json \<Rightarrow> string \<Rightarrow> message_delta_payload \<Rightarrow> message" where
  "delta_message J conv_id p =
     (let content_type_raw = wrap32 (parseInt64Value (md_content_type p) 1)
      in new_message
        \<lparr>m_message_id := md_message_id p, m_conv_id := conv_id, m_sender_id := md_sender_id p,
         m_content_type := if content_type_raw \<ge> 1 \<and> content_type_raw \<le> 7 then content_type_raw else 1,
         m_content := parseMessageContent (r_sync_string J) (md_content p),
         m_seq := parseInt64Value (md_sequence p) 0, m_reply_to := md_reply_to p,
         m_status := wrap32 (parseInt64Value (md_status p) 0), m_send_state := 1,
         m_timestamp_ms := parseTimestampMs (md_created_at p)\<rparr>)"

definition delta_row :: "message \<Rightarrow> message_row" where
  "delta_row m = \<lparr>mrow_message_id = m_message_id m, mrow_local_id = [], mrow_conv_id = m_conv_id m,
     mrow_sender_id = m_sender_id m, mrow_content_type = m_content_type m, mrow_content = m_content m,
     mrow_seq = m_seq m, mrow_reply_to = m_reply_to m, mrow_status = m_status m, mrow_send_state = 1,
     mrow_is_read = 0, mrow_timestamp_ms = m_timestamp_ms m\<rparr>"

definition merge_message :: "message \<Rightarrow> client_act" where
  "merge_message m = perform [exec (sql_insert_message (delta_row m)), on_msg_cache (mc_insert m)]"

definition max_seq_seen :: "message list \<Rightarrow> int" where
  "max_seq_seen ms = fold (\<lambda>m n. if m_seq m > n then m_seq m else n) ms 0"

definition advance_local_seq :: "int \<Rightarrow> string \<Rightarrow> client_act" where
  "advance_local_seq n conv_id = act_if (n > 0) (perform [
     exec (sql_raise_local_seq n conv_id),
     reading (\<lambda>s. case cc_get conv_id (conv_cache s) of None \<Rightarrow> skip
       | Some c \<Rightarrow> act_if (n > c_local_seq c) (on_conv_cache (cc_upsert (c\<lparr>c_local_seq := n\<rparr>))))])"

definition merge_conversation :: "sync_json \<Rightarrow> conversation_messages_payload \<Rightarrow> client_act" where
  "merge_conversation J p = (case cm_messages p of None \<Rightarrow> skip
     | Some payloads \<Rightarrow> act_if (cm_conversation_id p \<noteq> [])
        (let ms = map (delta_message J (cm_conversation_id p)) (filter (\<lambda>d. md_message_id d \<noteq> []) payloads)
         in perform [for_each merge_message ms, advance_local_seq (max_seq_seen ms) (cm_conversation_id p)]))"

definition mergeConvMessages :: "sync_json \<Rightarrow> conversation_messages_payload list \<Rightarrow> client_act" where
  "mergeConvMessages J ps = for_each (merge_conversation J) ps"

section \<open>The response\<close>

definition handleSyncResponse :: "sync_json \<Rightarrow> string \<Rightarrow> client_act" where
  "handleSyncResponse J bdy = (case r_sync J bdy of
     Inl err \<Rightarrow> skip
   | Inr env \<Rightarrow>
       if env_code env \<noteq> 0 then skip
       else
         let data = env_data env; sync_time = parseInt64Value (sr_sync_time data) 0 in perform [
           mergeFriends (toFriendPayloadList (sr_friends data)),
           mergeGroups (toGroupPayloadList (sr_groups data)),
           mergeSessions J (toConversationDeltaPayloadList (sr_conversation_data data)),
           mergeConvMessages J (toConversationMessagesList (sr_conversations data)),
           act_if (sync_time > 0) (on_db (setMeta ''last_sync_time'' (to_string sync_time)))])"

section \<open>The request\<close>

definition seq_cells :: "conversation_row \<Rightarrow> row" where
  "seq_cells r = [(''conv_id'', text_cell (crow_conv_id r)), (''conv_type'', text_cell (crow_conv_type r)),
     (''local_seq'', int_cell (crow_local_seq r))]"

definition sql_conversation_seqs :: select where
  "sql_conversation_seqs t = map seq_cells (conversations t)"

definition seq_request :: "conversation_cache \<Rightarrow> row \<Rightarrow> conversation_seq_request" where
  "seq_request cache r =
     (let cid = row_get r ''conv_id'';
          ctype = (case map_of r ''conv_type'' of None \<Rightarrow> ''private'' | Some v \<Rightarrow> v);
          local_seq = (case cc_get cid cache of Some c \<Rightarrow> c_local_seq c
            | None \<Rightarrow> (case map_of r ''local_seq'' of None \<Rightarrow> 0
                | Some v \<Rightarrow> (case stoll v of None \<Rightarrow> 0 | Some n \<Rightarrow> n)))
      in \<lparr>csr_conversation_id = cid, csr_conversation_type = if ctype = ''group'' then ''group'' else ''single'',
          csr_last_seq = local_seq\<rparr>)"

definition sync_request :: "client \<Rightarrow> sync_request_payload" where
  "sync_request s =
     \<lparr>srp_last_sync_time = (case stoll (getMeta ''last_sync_time'' ''0'' (db s)) of None \<Rightarrow> 0 | Some n \<Rightarrow> n),
      srp_conversation_seqs = map (seq_request (conv_cache s))
        (filter (\<lambda>r. row_get r ''conv_id'' \<noteq> []) (queryDirect sql_conversation_seqs (db s)))\<rparr>"

definition sync :: "sync_json \<Rightarrow> client_act" where
  "sync J = reading (\<lambda>s. case w_sync J (sync_request s) of
     Inl err \<Rightarrow> skip
   | Inr body_str \<Rightarrow> http_post ''/sync'' body_str (\<lambda>resp.
       act_if (resp_error resp = [] \<and> status_code resp = 200) (handleSyncResponse J (body resp))))"

section \<open>Invariant and answers\<close>

lemma stmt_ok_merge [inv_intro, simp]: "stmt_ok (sql_merge_friend u r up d)" "stmt_ok (sql_merge_group g nm a mem up)"
proof -
  show "stmt_ok (sql_merge_friend u r up d)"
    by (rule stmt_okI) (auto simp: sql_merge_friend_def tables_inv_def intro!: unique_upsert)
  show "stmt_ok (sql_merge_group g nm a mem up)"
    by (rule stmt_okI) (auto simp: sql_merge_group_def tables_inv_def intro!: unique_upsert)
qed

lemma stmt_ok_merge_session [inv_intro, simp]: "stmt_ok (sql_merge_session c)"
proof
  fix t t'
  assume inv: "tables_inv t" and run: "sql_merge_session c t = Some t'"
  let ?upd = "\<lambda>r. r\<lparr>crow_conv_type := crow_conv_type (session_row c), crow_target_id := c_target_id c,
            crow_last_msg_text := c_last_msg_text c, crow_last_msg_time_ms := c_last_msg_time_ms c,
            crow_unread_count := c_unread_count c, crow_is_pinned := crow_is_pinned (session_row c),
            crow_is_muted := crow_is_muted (session_row c), crow_updated_at_ms := c_updated_at_ms c\<rparr>"
  have t': "t' = t\<lparr>conversations := upsert_row crow_conv_id (session_row c) ?upd (conversations t)\<rparr>"
    using run by (simp add: sql_merge_session_def)
  have "crow_conv_id ` set (upsert_row crow_conv_id (session_row c) ?upd (conversations t))
      = insert (crow_conv_id (session_row c)) (crow_conv_id ` set (conversations t))"
    by (rule keys_upsert) simp
  moreover have "unique crow_conv_id (upsert_row crow_conv_id (session_row c) ?upd (conversations t))"
    using inv by (intro unique_upsert) (auto simp: tables_inv_def)
  ultimately show "tables_inv t'"
    using inv by (simp add: t' tables_inv_def list_all_iff has_row_iff)
qed

lemma stmt_ok_insert_message [inv_intro, simp]: "stmt_ok (sql_insert_message r)"
  by (rule stmt_okI) (auto simp: sql_insert_message_def tables_inv_def unique_append split: if_splits)

lemma keeps_sync_parts [keeps_intro]: "keeps (client_inv X) (merge_friend fp)" "keeps (client_inv X) (merge_group gp)"
  "keeps (client_inv X) (merge_session J sp)" "keeps (client_inv X) (merge_message msg)"
  "keeps (client_inv X) (advance_local_seq n cid)"
  unfolding merge_friend_def merge_group_def merge_session_def merge_message_def advance_local_seq_def Let_def
  by (intro keeps_intro stmt_ok_merge stmt_ok_merge_session stmt_ok_insert_message stmt_ok_conversations
      mc_inv_insert; assumption?)+

lemma keeps_merge_conversation [keeps_intro]: "keeps (client_inv X) (merge_conversation J p)"
  unfolding merge_conversation_def Let_def by (intro keeps_intro)

lemma keeps_handleSyncResponse [keeps_intro]: "keeps (client_inv X) (handleSyncResponse J bdy)"
  unfolding handleSyncResponse_def mergeFriends_def mergeGroups_def mergeSessions_def mergeConvMessages_def Let_def
  by (intro keeps_intro db_inv_setMeta)

lemma keeps_sync [keeps_intro]: "keeps (client_inv X) (sync J)"
  unfolding sync_def by (intro keeps_intro)

lemma answers_sync_parts [answers_intro]: "answers P 0 (merge_friend fp)" "answers P 0 (merge_group gp)"
  "answers P 0 (merge_session J sp)" "answers P 0 (merge_message msg)" "answers P 0 (advance_local_seq n cid)"
  unfolding merge_friend_def merge_group_def merge_session_def merge_message_def advance_local_seq_def Let_def
  by (intro answers_intro)+

lemma answers_merge_conversation [answers_intro]: "answers P 0 (merge_conversation J p)"
  unfolding merge_conversation_def Let_def by (intro answers_intro)

lemma answers_handleSyncResponse [answers_intro]: "answers P 0 (handleSyncResponse J bdy)"
  unfolding handleSyncResponse_def mergeFriends_def mergeGroups_def mergeSessions_def mergeConvMessages_def Let_def
  by (intro answers_intro)

lemma answers_sync [answers_intro]: "answers P 0 (sync J)"
  unfolding sync_def by (intro answers_intro)

section \<open>What a response does to the database\<close>

text \<open>A property of the connection that every statement of the merge keeps.\<close>

lemma keeps_on_db: "(\<And>x. P x \<Longrightarrow> P (f x)) \<Longrightarrow> keeps (\<lambda>s. P (db s)) (on_db f)"
  unfolding on_db_def by (rule keeps_modify) simp

lemma keeps_caches: "keeps (\<lambda>s. P (db s)) (on_conv_cache g)" "keeps (\<lambda>s. P (db s)) (on_msg_cache h)"
  unfolding on_conv_cache_def on_msg_cache_def by (rule keeps_modify, simp)+

lemma keeps_sync_db:
  assumes "\<And>x uid rem up del. P x \<Longrightarrow> P (db_exec (sql_merge_friend uid rem up del) x)"
    and "\<And>x gid nm av k up. P x \<Longrightarrow> P (db_exec (sql_merge_group gid nm av k up) x)"
    and "\<And>x c. P x \<Longrightarrow> P (db_exec (sql_merge_session c) x)"
    and "\<And>x m. P x \<Longrightarrow> P (db_exec (sql_insert_message (delta_row m)) x)"
    and "\<And>x n cid. P x \<Longrightarrow> P (db_exec (sql_raise_local_seq n cid) x)"
    and "\<And>x k v. P x \<Longrightarrow> P (setMeta k v x)"
  shows "keeps (\<lambda>s. P (db s)) (handleSyncResponse J bdy)"
proof -
  note step = keeps_on_db [where P = P]
  have "keeps (\<lambda>s. P (db s)) (merge_friend fp)" for fp
    unfolding merge_friend_def exec_def by (intro keeps_act_if step assms)
  moreover have "keeps (\<lambda>s. P (db s)) (merge_group gp)" for gp
    unfolding merge_group_def exec_def by (intro keeps_act_if step assms)
  moreover have "keeps (\<lambda>s. P (db s)) (merge_session J sp)" for sp
    unfolding merge_session_def exec_def Let_def
    by (intro keeps_act_if keeps_reading keeps_perform_Cons keeps_perform_single step assms keeps_caches)
  moreover have "keeps (\<lambda>s. P (db s)) (merge_message m)" for m
    unfolding merge_message_def exec_def by (intro keeps_perform_Cons keeps_perform_single step assms keeps_caches)
  moreover have "keeps (\<lambda>s. P (db s)) (advance_local_seq n cid)" for n cid
    unfolding advance_local_seq_def exec_def
    by (intro keeps_act_if keeps_perform_Cons keeps_perform_single keeps_reading keeps_case_option keeps_skip step assms keeps_caches)
  ultimately show ?thesis
    unfolding handleSyncResponse_def mergeFriends_def mergeGroups_def mergeSessions_def mergeConvMessages_def
      merge_conversation_def Let_def
    by (intro keeps_case_sum keeps_if keeps_skip keeps_perform_Cons keeps_perform_single keeps_for_each keeps_case_option
        keeps_act_if step assms)
qed

lemma setMeta_open: "setMeta k v (Some t) = Some (case sql_set_meta k v t of None \<Rightarrow> t | Some t' \<Rightarrow> t')"
  by (simp add: setMeta_def db_exec_Some)

lemmas sync_sql = db_exec_Some setMeta_open sql_set_meta_def sql_merge_friend_def sql_merge_group_def sql_merge_session_def
  sql_insert_message_def sql_raise_local_seq_def

text \<open>The conversations only move forward.\<close>

definition conv_row_kept :: "conversation_row \<Rightarrow> conversation_row \<Rightarrow> bool" where
  "conv_row_kept r r' \<longleftrightarrow> crow_conv_id r' = crow_conv_id r \<and> crow_local_seq r \<le> crow_local_seq r'
     \<and> crow_pin_time_ms r' = crow_pin_time_ms r \<and> crow_burn_after_reading r' = crow_burn_after_reading r
     \<and> crow_auto_delete_duration r' = crow_auto_delete_duration r"

definition kept_rows :: "conversation_row list \<Rightarrow> conversation_row list \<Rightarrow> bool" where
  "kept_rows rs rs' \<longleftrightarrow> (\<forall>r \<in> set rs. \<exists>r' \<in> set rs'. conv_row_kept r r')"

lemma kept_update:
  assumes "kept_rows rs rs'" and "\<And>r r'. conv_row_kept r r' \<Longrightarrow> P r' \<Longrightarrow> conv_row_kept r (f r')"
  shows "kept_rows rs (update_rows P f rs')"
  unfolding kept_rows_def
proof
  fix r assume "r \<in> set rs"
  then obtain r' where r': "r' \<in> set rs'" "conv_row_kept r r'" using assms(1) by (auto simp: kept_rows_def)
  then have "(if P r' then f r' else r') \<in> set (update_rows P f rs')"
    unfolding update_rows_def set_map by (rule_tac imageI)
  moreover have "conv_row_kept r (if P r' then f r' else r')" using assms(2) r'(2) by simp
  ultimately show "\<exists>r' \<in> set (update_rows P f rs'). conv_row_kept r r'" by blast
qed

lemma kept_upsert:
  "kept_rows rs rs' \<Longrightarrow> (\<And>r r'. conv_row_kept r r' \<Longrightarrow> conv_row_kept r (f r')) \<Longrightarrow> kept_rows rs (upsert_row key n f rs')"
  using kept_update [of rs rs' "\<lambda>r. key r = key n" f] by (auto simp: upsert_row_def) (auto simp: kept_rows_def)


text \<open>
  C21: However many messages a response carries, at most one of them reaches the database:
  every row of the merge has the empty text in the unique column \<open>local_id\<close>, and
  \<open>INSERT OR IGNORE\<close> drops all but the first; once a message without local id is stored, no
  synchronisation stores another one.
\<close>

theorem sync_stores_one_message:
  assumes "db s = Some t" and "handleSyncResponse J bdy s = (s', es, ps)"
  shows "\<exists>t' new. db s' = Some t' \<and> messages t' = messages t @ new \<and> length new \<le> 1
    \<and> (has_row mrow_local_id [] (messages t) \<longrightarrow> new = [])"
proof -
  define P :: "connection \<Rightarrow> bool" where "P x \<longleftrightarrow> (\<exists>t' new. x = Some t' \<and> messages t' = messages t @ new
    \<and> (new = [] \<or> \<not> has_row mrow_local_id [] (messages t) \<and> (\<exists>m. new = [m] \<and> mrow_local_id m = [])))"for x
  have "P (db s)" using assms(1) by (simp add: P_def)
  moreover have "keeps (\<lambda>s. P (db s)) (handleSyncResponse J bdy)"
    by (rule keeps_sync_db) (auto simp: P_def sync_sql has_row_def delta_row_def)
  ultimately have "P (db s')" using assms(2) by (auto simp: keeps_def)
  then show ?thesis by (auto simp: P_def)
qed

text \<open>
  After a session delta the client asks for the whole conversation again. The merge puts a
  fresh entry into the cache, with sequence number 0, while the row keeps its own; the next
  request takes the cache's, so that it asks for everything after 0 however far the
  conversation was synchronised.
\<close>

theorem sync_forgets_sequence:
  assumes "merge_session J p s = (s', es, ps)" and "cd_conversation_id p = k" and "k \<noteq> []" and "nul \<notin> set k"
    and "db s = Some t" and "row_with crow_conv_id k (conversations t) = Some r" and "cc_inv (conv_cache s)"
  shows "(\<exists>t' r'. db s' = Some t' \<and> row_with crow_conv_id k (conversations t') = Some r' \<and> crow_local_seq r' = crow_local_seq r)
    \<and> (\<exists>q \<in> set (srp_conversation_seqs (sync_request s')). csr_conversation_id q = k \<and> csr_last_seq q = 0)"
proof -
  let ?conv = "session_conversation J (now_ms s) p"
  have id: "c_conv_id ?conv = k" and zero: "c_local_seq ?conv = 0"
    using assms(2) by (simp_all add: session_conversation_def new_conversation_def)
  have s': "s' = s\<lparr>db := db_exec (sql_merge_session ?conv) (db s), conv_cache := cc_upsert ?conv (conv_cache s)\<rparr>"
    using assms(1-3) by (auto simp: merge_session_def act_defs exec_def on_db_def on_conv_cache_def Let_def)
  obtain t' where t': "sql_merge_session ?conv t = Some t'" by (simp add: sql_merge_session_def)
  have key: "crow_conv_id (session_row ?conv) = k" using id by (simp add: session_row_def conversation_to_row_def)
  obtain r' where r': "row_with crow_conv_id k (conversations t') = Some r'" "crow_local_seq r' = crow_local_seq r"
    using t' assms(6) key by (auto simp: sql_merge_session_def row_with_upsert)
  have db: "db s' = Some t'" using assms(5) t' by (simp add: s' db_exec_Some)
  have cache: "cc_get k (conv_cache s') = Some ?conv"
    using fun_cong [OF cc_abs_upsert [OF assms(7), of ?conv], of k] id by (simp add: s' cc_abs_def)
  have "r' \<in> set (conversations t')" "crow_conv_id r' = k" using row_with_key [OF r'(1)] by simp_all
  have "row_get (seq_cells r') ''conv_id'' \<noteq> []"
    using \<open>crow_conv_id r' = k\<close> assms(3,4) by (simp add: row_get_def seq_cells_def text_cell_def)
  moreover have "seq_cells r' \<in> seq_cells ` set (conversations t')" using \<open>r' \<in> set (conversations t')\<close> by (rule imageI)
  ultimately have "seq_cells r' \<in> set (filter (\<lambda>r. row_get r ''conv_id'' \<noteq> []) (queryDirect sql_conversation_seqs (db s')))"
    by (simp add: db queryDirect_def sql_conversation_seqs_def)
  then have "seq_request (conv_cache s') (seq_cells r') \<in> set (srp_conversation_seqs (sync_request s'))"
    by (simp add: sync_request_def)
  moreover have "csr_conversation_id (seq_request (conv_cache s') (seq_cells r')) = k"
    "csr_last_seq (seq_request (conv_cache s') (seq_cells r')) = 0"
    using \<open>crow_conv_id r' = k\<close> assms(4) cache zero by (simp_all add: seq_request_def seq_cells_def row_get_def text_cell_def Let_def)
  ultimately show ?thesis using db r' by blast
qed

text \<open>A database with one conversation, synchronised up to sequence number 9.\<close>

definition synced_row :: conversation_row where
  "synced_row = conversation_to_row (new_conversation\<lparr>c_conv_id := ''a'', c_local_seq := 9\<rparr>)"

definition synced :: client where
  "synced = demo_client\<lparr>db := Some (kSchemav1\<lparr>conversations := [synced_row]\<rparr>)\<rparr>"


theorem sync_stores_one_message_witness:
  "\<forall>J bdy. \<exists>s' es ps t' new. handleSyncResponse J bdy talked = (s', es, ps) \<and> db s' = Some t' \<and> length (messages t') = 1"
proof (intro allI)
  fix J bdy
  obtain s' es ps where run: "handleSyncResponse J bdy talked = (s', es, ps)" by (cases "handleSyncResponse J bdy talked")
  obtain t where t: "db talked = Some t" "length (messages t) = 1" "has_row mrow_local_id [] (messages t)"
    by (simp add: talked_def has_row_def)
  from sync_stores_one_message [OF t(1) run] run t(2,3)
  show "\<exists>s' es ps t' new. handleSyncResponse J bdy talked = (s', es, ps) \<and> db s' = Some t' \<and> length (messages t') = 1" by auto
qed

definition demo_delta :: conversation_delta_payload where
  "demo_delta = \<lparr>cd_conversation_id = ''a'', cd_conversation_type = ''group'', cd_target_id = ''g'',
     cd_last_message_content = None, cd_last_message_time = None, cd_unread_count = None, cd_is_pinned = None,
     cd_is_muted = None\<rparr>"

theorem sync_forgets_sequence_witness:
  "\<forall>J. \<exists>s' es ps. merge_session J demo_delta synced = (s', es, ps)
     \<and> (\<exists>q \<in> set (srp_conversation_seqs (sync_request s')). csr_conversation_id q = ''a'' \<and> csr_last_seq q = 0)"
proof
  fix J
  obtain s' es ps where run: "merge_session J demo_delta synced = (s', es, ps)" by (cases "merge_session J demo_delta synced")
  have nul: "nul \<notin> set ''a''" by (auto simp: nul_def dest!: arg_cong [where f = "of_char :: char \<Rightarrow> nat"])
  have at: "cd_conversation_id demo_delta = ''a''" by (simp add: demo_delta_def)
  have row: "row_with crow_conv_id ''a'' [synced_row] = Some synced_row"
    by (simp add: synced_row_def conversation_to_row_def)
  have db: "db synced = Some (kSchemav1\<lparr>conversations := [synced_row]\<rparr>)" by (simp add: synced_def)
  have inv: "cc_inv (conv_cache synced)" by (simp add: synced_def cc_inv_def ordered_by_def)
  show "\<exists>s' es ps. merge_session J demo_delta synced = (s', es, ps)
     \<and> (\<exists>q \<in> set (srp_conversation_seqs (sync_request s')). csr_conversation_id q = ''a'' \<and> csr_last_seq q = 0)"
    using sync_forgets_sequence [OF run at _ nul db _ inv] row run by auto
qed

end
