(* ===== verification/FriendManager.thy ===== *)
theory FriendManager
  imports NotificationManager
begin

text \<open>
  \<open>FriendManagerImpl\<close> (core/src/friend_manager.cpp): the friend list with its database copy,
  requests, remarks, the blacklist and the notifications about friends. JSON readers and
  writers are the fields of \<open>friend_json\<close>; request bodies of one field are that field.
\<close>

section \<open>Payloads\<close>

record user_info_payload =
  nup_user_id :: string
  nup_nickname :: string
  nup_avatar :: string
  nup_signature :: string
  nup_gender :: int
  nup_region :: string
  nup_is_friend :: bool
  nup_is_blocked :: bool

record friend_event_payload =
  fe_user_id :: string
  fe_friend_user_id :: string
  fe_target_user_id :: string
  fe_added_by_user_id :: string
  fe_remark :: string
  fe_is_deleted :: bool
  fe_request_id :: int
  fe_from_user_id :: string
  fe_to_user_id :: string
  fe_message :: string
  fe_source :: "bool_value option"
  fe_status :: "bool_value option"
  fe_action :: string
  fe_updated_at :: "timestamp_value option"
  fe_created_at :: "timestamp_value option"
  fe_changed_at :: "timestamp_value option"
  fe_deleted_at :: "timestamp_value option"
  fe_handled_at :: "timestamp_value option"
  fe_user_info :: "user_info_payload option"
  fe_from_user_info :: "user_info_payload option"
  fe_blocked_user_info :: "user_info_payload option"

record friend_payload =
  fp_user_id :: string
  fp_remark :: string
  fp_updated_at :: "timestamp_value option"
  fp_is_deleted :: bool
  fp_user_info :: "user_info_payload option"

record friend_request_payload =
  frp_id :: int
  frp_from_user_id :: string
  frp_to_user_id :: string
  frp_message :: string
  frp_source :: "bool_value option"
  frp_status :: "bool_value option"
  frp_created_at :: "timestamp_value option"
  frp_from_user_info :: "user_info_payload option"

record blacklist_item_payload =
  bp_id :: int
  bp_user_id :: string
  bp_blocked_user_id :: string
  bp_created_at :: "timestamp_value option"
  bp_blocked_user_info :: "user_info_payload option"

record send_friend_request_body =
  sfr_user_id :: string
  sfr_message :: string
  sfr_source :: int

record friend_json =
  w_friend_request :: "send_friend_request_body \<Rightarrow> string + string"
  w_friend_action :: "int \<Rightarrow> string + string"
  w_remark :: "string \<Rightarrow> string + string"
  w_blacklist :: "string \<Rightarrow> string + string"
  r_friend_void :: "string \<Rightarrow> string + unit envelope"
  r_friends :: "string \<Rightarrow> string + friend_payload list option envelope"
  r_friend_requests :: "string \<Rightarrow> string + friend_request_payload list option envelope"
  r_blacklist :: "string \<Rightarrow> string + blacklist_item_payload list option envelope"
  r_friend_event :: "string \<Rightarrow> string + friend_event_payload"

definition kFriendSourceSearch :: int where "kFriendSourceSearch = 1"
definition kFriendRequestStatusPending :: int where "kFriendRequestStatusPending = 1"
definition kFriendRequestStatusAccepted :: int where "kFriendRequestStatusAccepted = 2"
definition kFriendRequestStatusRejected :: int where "kFriendRequestStatusRejected = 3"
definition kFriendRequestStatusExpired :: int where "kFriendRequestStatusExpired = 4"
definition kFriendRequestActionAccept :: int where "kFriendRequestActionAccept = 1"
definition kFriendRequestActionReject :: int where "kFriendRequestActionReject = 2"
definition kFriendRequestQueryTypeReceived :: int where "kFriendRequestQueryTypeReceived = 1"
definition kFriendRequestQueryTypeSent :: int where "kFriendRequestQueryTypeSent = 2"

lemmas friend_constants = kFriendSourceSearch_def kFriendRequestStatusPending_def kFriendRequestStatusAccepted_def
  kFriendRequestStatusRejected_def kFriendRequestStatusExpired_def kFriendRequestActionAccept_def
  kFriendRequestActionReject_def kFriendRequestQueryTypeReceived_def kFriendRequestQueryTypeSent_def

definition toUserInfo :: "user_info_payload \<Rightarrow> user_info" where
  "toUserInfo p = \<lparr>ui_user_id = nup_user_id p, ui_username = nup_nickname p, ui_avatar_url = nup_avatar p,
     ui_signature = nup_signature p, ui_gender = nup_gender p, ui_region = nup_region p,
     ui_is_friend = nup_is_friend p, ui_is_blocked = nup_is_blocked p\<rparr>"

text \<open>The user info of a payload, with the owner's identifier when it has none.\<close>

definition info_for :: "string \<Rightarrow> user_info_payload option \<Rightarrow> user_info" where
  "info_for uid p = (let info = (case p of None \<Rightarrow> new_user_info | Some i \<Rightarrow> toUserInfo i)
     in if ui_user_id info = [] then info\<lparr>ui_user_id := uid\<rparr> else info)"

definition normalizeSource :: "bool_value option \<Rightarrow> int" where
  "normalizeSource v = parseInt32Value_b v kFriendSourceSearch"

definition normalizeStatus :: "bool_value option \<Rightarrow> int" where
  "normalizeStatus v = parseInt32Value_b v kFriendRequestStatusPending"

definition toFriend :: "friend_payload \<Rightarrow> friend_info" where
  "toFriend p = \<lparr>f_user_id = fp_user_id p, f_remark = fp_remark p,
     f_updated_at_ms = parseTimestampMs (fp_updated_at p), f_is_deleted = fp_is_deleted p,
     f_user_info = info_for (fp_user_id p) (fp_user_info p)\<rparr>"

definition toFriendRequest :: "friend_request_payload \<Rightarrow> friend_request" where
  "toFriendRequest p = \<lparr>fr_request_id = frp_id p, fr_from_user_id = frp_from_user_id p,
     fr_to_user_id = frp_to_user_id p, fr_message = frp_message p, fr_source = normalizeSource (frp_source p),
     fr_status = normalizeStatus (frp_status p), fr_created_at_ms = parseTimestampMs (frp_created_at p),
     fr_from_user_info = info_for (frp_from_user_id p) (frp_from_user_info p)\<rparr>"

definition toBlacklistItem :: "blacklist_item_payload \<Rightarrow> blacklist_item" where
  "toBlacklistItem p = \<lparr>bl_id = bp_id p, bl_user_id = bp_user_id p, bl_blocked_user_id = bp_blocked_user_id p,
     bl_created_at_ms = parseTimestampMs (bp_created_at p),
     bl_blocked_user_info = info_for (bp_blocked_user_id p) (bp_blocked_user_info p)\<rparr>"

definition parseNotificationFriend :: "friend_event_payload \<Rightarrow> friend_info" where
  "parseNotificationFriend p =
     (let uid = (if fe_user_id p \<noteq> [] then fe_user_id p
                 else if fe_friend_user_id p \<noteq> [] then fe_friend_user_id p
                 else if fe_added_by_user_id p \<noteq> [] then fe_added_by_user_id p
                 else fe_target_user_id p)
      in \<lparr>f_user_id = uid, f_remark = fe_remark p, f_updated_at_ms = parseTimestampMs (fe_updated_at p),
          f_is_deleted = fe_is_deleted p, f_user_info = info_for uid (fe_user_info p)\<rparr>)"

definition parseNotificationFriendRequest :: "friend_event_payload \<Rightarrow> friend_request" where
  "parseNotificationFriendRequest p = \<lparr>fr_request_id = fe_request_id p, fr_from_user_id = fe_from_user_id p,
     fr_to_user_id = fe_to_user_id p, fr_message = fe_message p, fr_source = normalizeSource (fe_source p),
     fr_status = normalizeStatus (fe_status p), fr_created_at_ms = parseTimestampMs (fe_created_at p),
     fr_from_user_info = info_for (fe_from_user_id p) (fe_from_user_info p)\<rparr>"

definition parseNotificationBlacklistItem :: "friend_event_payload \<Rightarrow> blacklist_item" where
  "parseNotificationBlacklistItem p = \<lparr>bl_id = fe_request_id p, bl_user_id = fe_user_id p,
     bl_blocked_user_id = fe_target_user_id p, bl_created_at_ms = parseTimestampMs (fe_changed_at p),
     bl_blocked_user_info = info_for (fe_target_user_id p) (fe_blocked_user_info p)\<rparr>"

definition isAddAction :: "string \<Rightarrow> bool" where
  "isAddAction action \<longleftrightarrow> toLowerCopy action \<in> set [''add'', ''added'', ''create'', ''created'', ''block'', ''blocked'']"

definition isRemoveAction :: "string \<Rightarrow> bool" where
  "isRemoveAction action \<longleftrightarrow>
     toLowerCopy action \<in> set [''remove'', ''removed'', ''delete'', ''deleted'', ''unblock'', ''unblocked'']"

section \<open>Operations\<close>

definition completeRequest :: "friend_json \<Rightarrow> unit callback \<Rightarrow> http_response \<Rightarrow> string \<Rightarrow> client_act" where
  "completeRequest J cb resp fallback_error = on_envelope (r_friend_void J) resp fallback_error False cb (\<lambda>_. succeed cb ())"

definition friend_to_row :: "friend_info \<Rightarrow> friend_row" where
  "friend_to_row f = \<lparr>frow_user_id = f_user_id f, frow_remark = f_remark f, frow_updated_at_ms = f_updated_at_ms f,
     frow_is_deleted = (if f_is_deleted f then 1 else 0), frow_friend_nickname = Some (ui_username (f_user_info f)),
     frow_friend_avatar = Some (ui_avatar_url (f_user_info f))\<rparr>"

definition sql_replace_friend :: "friend_row \<Rightarrow> stmt" where
  "sql_replace_friend r t = Some (t\<lparr>friends := insert_or_replace frow_user_id r (friends t)\<rparr>)"

definition getFriendList :: "friend_json \<Rightarrow> friend_info list callback \<Rightarrow> client_act" where
  "getFriendList J cb = http_get ''/friends'' (\<lambda>resp.
     on_envelope (r_friends J) resp ''server error'' False cb (\<lambda>data.
       let fs = map toFriend (case data of None \<Rightarrow> [] | Some ps \<Rightarrow> ps)
       in perform [for_each (\<lambda>f. exec (sql_replace_friend (friend_to_row f))) fs, succeed cb fs]))"

definition addFriend :: "friend_json \<Rightarrow> string \<Rightarrow> string \<Rightarrow> int \<Rightarrow> unit callback \<Rightarrow> client_act" where
  "addFriend J to_user_id message source cb =
     with_json (w_friend_request J \<lparr>sfr_user_id = to_user_id, sfr_message = message,
                 sfr_source = if source > 0 then source else kFriendSourceSearch\<rparr>) cb (\<lambda>json.
       http_post ''/friends/requests'' json (\<lambda>resp. completeRequest J cb resp ''send request failed''))"

definition deleteFriend :: "friend_json \<Rightarrow> string \<Rightarrow> unit callback \<Rightarrow> client_act" where
  "deleteFriend J friend_id cb =
     http_del (''/friends/'' @ friend_id) (\<lambda>resp. completeRequest J cb resp ''delete friend failed'')"

definition updateRemark :: "friend_json \<Rightarrow> string \<Rightarrow> string \<Rightarrow> unit callback \<Rightarrow> client_act" where
  "updateRemark J friend_id remark cb = with_json (w_remark J remark) cb (\<lambda>json.
     http_put (''/friends/'' @ friend_id @ ''/remark'') json (\<lambda>resp. completeRequest J cb resp ''update remark failed''))"

definition handleFriendRequest :: "friend_json \<Rightarrow> int \<Rightarrow> int \<Rightarrow> unit callback \<Rightarrow> client_act" where
  "handleFriendRequest J request_id action cb =
     (if action \<noteq> kFriendRequestActionAccept \<and> action \<noteq> kFriendRequestActionReject
      then fail cb (- 1) ''invalid action''
      else with_json (w_friend_action J action) cb (\<lambda>json.
        http_put (''/friends/requests/'' @ to_string request_id) json (\<lambda>resp.
          completeRequest J cb resp ''handle request failed'')))"

definition getFriendRequests :: "friend_json \<Rightarrow> int \<Rightarrow> friend_request list callback \<Rightarrow> client_act" where
  "getFriendRequests J request_type cb =
     (let type = (if request_type = 0 then kFriendRequestQueryTypeReceived else request_type)
      in if type \<noteq> kFriendRequestQueryTypeReceived \<and> type \<noteq> kFriendRequestQueryTypeSent
         then fail cb (- 1) ''invalid request_type''
         else http_get (''/friends/requests?request_type='' @ to_string type) (\<lambda>resp.
           on_envelope (r_friend_requests J) resp ''server error'' False cb (\<lambda>data.
             succeed cb (map toFriendRequest (case data of None \<Rightarrow> [] | Some ps \<Rightarrow> ps)))))"

definition getBlacklist :: "friend_json \<Rightarrow> blacklist_item list callback \<Rightarrow> client_act" where
  "getBlacklist J cb = http_get ''/friends/blacklist'' (\<lambda>resp.
     on_envelope (r_blacklist J) resp ''server error'' False cb (\<lambda>data.
       succeed cb (map toBlacklistItem (case data of None \<Rightarrow> [] | Some ps \<Rightarrow> ps))))"

definition addToBlacklist :: "friend_json \<Rightarrow> string \<Rightarrow> unit callback \<Rightarrow> client_act" where
  "addToBlacklist J user_id cb = with_json (w_blacklist J user_id) cb (\<lambda>json.
     http_post ''/friends/blacklist'' json (\<lambda>resp. completeRequest J cb resp ''add blacklist failed''))"

definition removeFromBlacklist :: "friend_json \<Rightarrow> string \<Rightarrow> unit callback \<Rightarrow> client_act" where
  "removeFromBlacklist J user_id cb =
     http_del (''/friends/blacklist/'' @ user_id) (\<lambda>resp. completeRequest J cb resp ''remove blacklist failed'')"

definition friend_setListener :: "bool \<Rightarrow> client_act" where
  "friend_setListener l = modify (\<lambda>s. s\<lparr>friend_listener := l\<rparr>)"

section \<open>Notifications\<close>

text \<open>What the listener is told; \<open>None\<close> when nothing is.\<close>

definition friend_event :: "string \<Rightarrow> friend_event_payload \<Rightarrow> event option" where
  "friend_event type p =
     (if type = ''friend.added'' then Some (FriendAdded (parseNotificationFriend p))
      else if type = ''friend.deleted'' then Some (FriendDeleted (fe_friend_user_id p))
      else if type = ''friend.remark_updated'' then Some (FriendInfoChanged (parseNotificationFriend p))
      else if type = ''friend.blacklist_changed''
      then (if isAddAction (fe_action p) then Some (BlacklistAdded (parseNotificationBlacklistItem p))
            else if isRemoveAction (fe_action p) then Some (BlacklistRemoved (fe_target_user_id p))
            else None)
      else if type = ''friend.request'' then Some (FriendRequestReceived (parseNotificationFriendRequest p))
      else if type = ''friend.request_handled''
      then (let req = parseNotificationFriendRequest p; status = normalizeStatus (fe_status p)
            in if status = kFriendRequestStatusAccepted then Some (FriendRequestAccepted req)
               else if status = kFriendRequestStatusRejected then Some (FriendRequestRejected req)
               else if status = kFriendRequestStatusExpired then Some (FriendRequestDeleted req)
               else None)
      else None)"

definition handleFriendNotification :: "friend_json \<Rightarrow> notification_event \<Rightarrow> client_act" where
  "handleFriendNotification J ev = reading (\<lambda>s.
     if take 7 (notification_type ev) \<noteq> ''friend.'' then skip
     else if \<not> friend_listener s then skip
     else (case parseJsonObject (r_friend_event J) (ev_data ev) of
         Inl err \<Rightarrow> skip
       | Inr payload \<Rightarrow> (case friend_event (notification_type ev) payload of None \<Rightarrow> skip | Some e \<Rightarrow> emit e)))"

section \<open>Invariant and answers\<close>

lemma stmt_ok_replace_friend [inv_intro, simp]: "stmt_ok (sql_replace_friend r)"
  by (rule stmt_okI) (auto simp: sql_replace_friend_def tables_inv_def)

lemma keeps_completeRequest [keeps_intro]:
  "cb_keeps (client_inv X) cb \<Longrightarrow> keeps (client_inv X) (completeRequest J cb resp fb)"
  unfolding completeRequest_def by (intro keeps_intro; assumption)+

lemma keeps_friend_ops:
  "cb_keeps (client_inv X) fcb \<Longrightarrow> keeps (client_inv X) (getFriendList J fcb)"
  "cb_keeps (client_inv X) cb \<Longrightarrow> keeps (client_inv X) (addFriend J uid txt n cb)"
  "cb_keeps (client_inv X) cb \<Longrightarrow> keeps (client_inv X) (deleteFriend J uid cb)"
  "cb_keeps (client_inv X) cb \<Longrightarrow> keeps (client_inv X) (updateRemark J uid txt cb)"
  "cb_keeps (client_inv X) cb \<Longrightarrow> keeps (client_inv X) (handleFriendRequest J n a cb)"
  "cb_keeps (client_inv X) rcb \<Longrightarrow> keeps (client_inv X) (getFriendRequests J n rcb)"
  "cb_keeps (client_inv X) bcb \<Longrightarrow> keeps (client_inv X) (getBlacklist J bcb)"
  "cb_keeps (client_inv X) cb \<Longrightarrow> keeps (client_inv X) (addToBlacklist J uid cb)"
  "cb_keeps (client_inv X) cb \<Longrightarrow> keeps (client_inv X) (removeFromBlacklist J uid cb)"
  unfolding getFriendList_def addFriend_def deleteFriend_def updateRemark_def handleFriendRequest_def
    getFriendRequests_def getBlacklist_def addToBlacklist_def removeFromBlacklist_def Let_def
  by (intro keeps_intro stmt_ok_replace_friend; assumption)+

lemma keeps_friend_notification [keeps_intro]: "keeps (client_inv X) (handleFriendNotification J ev)"
  unfolding handleFriendNotification_def by (intro keeps_intro)

lemma answers_completeRequest [answers_intro]:
  "cb_answers i n cb \<Longrightarrow> answers (about i) n (completeRequest J cb resp fb)"
  unfolding completeRequest_def by (intro answers_intro; assumption)+

lemma answers_friend_ops:
  "cb_answers i n fcb \<Longrightarrow> answers (about i) n (getFriendList J fcb)"
  "cb_answers i n cb \<Longrightarrow> answers (about i) n (addFriend J uid txt k cb)"
  "cb_answers i n cb \<Longrightarrow> answers (about i) n (deleteFriend J uid cb)"
  "cb_answers i n cb \<Longrightarrow> answers (about i) n (updateRemark J uid txt cb)"
  "cb_answers i n cb \<Longrightarrow> answers (about i) n (handleFriendRequest J k a cb)"
  "cb_answers i n rcb \<Longrightarrow> answers (about i) n (getFriendRequests J k rcb)"
  "cb_answers i n bcb \<Longrightarrow> answers (about i) n (getBlacklist J bcb)"
  "cb_answers i n cb \<Longrightarrow> answers (about i) n (addToBlacklist J uid cb)"
  "cb_answers i n cb \<Longrightarrow> answers (about i) n (removeFromBlacklist J uid cb)"
  unfolding getFriendList_def addFriend_def deleteFriend_def updateRemark_def handleFriendRequest_def
    getFriendRequests_def getBlacklist_def addToBlacklist_def removeFromBlacklist_def Let_def
  by (intro answers_intro; assumption)+

lemma friend_event_not_about: "friend_event type p = Some e \<Longrightarrow> \<not> about i e"
  by (auto simp: friend_event_def Let_def split: if_splits)

lemma answers_friend_notification [answers_intro]: "answers (about i) 0 (handleFriendNotification J ev)"
  unfolding handleFriendNotification_def by (intro answers_intro friend_event_not_about)

end
