(* ===== verification/CallManager.thy ===== *)
theory CallManager
  imports NotificationManager
begin

text \<open>
  \<open>CallManagerImpl\<close> (core/src/call_manager.cpp): calls, meetings and the notifications about
  calls. JSON readers and writers are the fields of \<open>call_json\<close>. \<open>CallTypeValue\<close> is a
  variant of two numbers: an \<open>integer_value\<close> that is never a string.
\<close>

section \<open>Payloads\<close>

record initiate_call_request =
  ic_callee_id :: string
  ic_call_type :: int

record create_meeting_request =
  cmr_title :: string
  cmr_password :: "string option"
  cmr_max_participants :: "int option"

record call_session_payload =
  csp_call_id :: string
  csp_caller_id :: string
  csp_callee_id :: string
  csp_room_name :: string
  csp_token :: string
  csp_started_at :: "integer_value option"
  csp_connected_at :: "integer_value option"
  csp_ended_at :: "integer_value option"
  csp_duration :: "integer_value option"
  csp_call_type :: "integer_value option"
  csp_status :: "integer_value option"

record call_session_list_payload =
  csl_total :: "integer_value option"
  csl_sessions :: "call_session_payload list option"

record meeting_room_payload =
  mrp_room_id :: string
  mrp_creator_id :: string
  mrp_title :: string
  mrp_room_name :: string
  mrp_token :: string
  mrp_has_password :: "bool_value option"
  mrp_max_participants :: "integer_value option"
  mrp_started_at :: "integer_value option"
  mrp_created_at :: "integer_value option"
  mrp_status :: "integer_value option"

record meeting_result_payload =
  mres_meeting :: "meeting_room_payload option"
  mres_token :: string

record meeting_list_payload =
  mlp_total :: "integer_value option"
  mlp_meetings :: "meeting_room_payload list option"

record call_status_payload =
  cst_call_id :: string
  cst_status :: "integer_value option"

record call_json =
  w_call :: "initiate_call_request \<Rightarrow> string + string"
  w_create_meeting :: "create_meeting_request \<Rightarrow> string + string"
  w_join_meeting :: "string option \<Rightarrow> string + string"
  r_call_void :: "string \<Rightarrow> string + unit envelope"
  r_call :: "string \<Rightarrow> string + call_session_payload envelope"
  r_calls :: "string \<Rightarrow> string + call_session_list_payload envelope"
  r_meeting_result :: "string \<Rightarrow> string + meeting_result_payload envelope"
  r_meeting :: "string \<Rightarrow> string + meeting_room_payload envelope"
  r_meetings :: "string \<Rightarrow> string + meeting_list_payload envelope"
  r_notif_call :: "string \<Rightarrow> string + call_session_payload"
  r_notif_status :: "string \<Rightarrow> string + call_status_payload"

definition parseCallTypeValue :: "integer_value option \<Rightarrow> call_type" where
  "parseCallTypeValue v = (if parseInt64Value v 0 = 1 then Video else Audio)"

definition call_status_of_int :: "int \<Rightarrow> call_status \<Rightarrow> call_status" where
  "call_status_of_int i dflt = (if i = 1 then CallConnected else if i = 2 then Ended else if i = 3 then Rejected
     else if i = 4 then Missed else if i = 5 then Cancelled else dflt)"

definition parseCallStatusValue :: "integer_value option \<Rightarrow> call_status \<Rightarrow> call_status" where
  "parseCallStatusValue v dflt = (case v of None \<Rightarrow> dflt
     | Some (IV_int i) \<Rightarrow> call_status_of_int i dflt
     | Some (IV_double d) \<Rightarrow> call_status_of_int (double_to_i64 d) dflt
     | Some (IV_string text) \<Rightarrow>
         (let status = toLower text
          in if status = ''connected'' then CallConnected
             else if status = ''ended'' then Ended
             else if status = ''rejected'' then Rejected
             else if status = ''missed'' then Missed
             else if status = ''cancelled'' then Cancelled
             else dflt))"

definition parseMeetingIsActive :: "integer_value option \<Rightarrow> bool" where
  "parseMeetingIsActive v = (case v of None \<Rightarrow> True
     | Some (IV_int i) \<Rightarrow> i \<noteq> 1
     | Some (IV_double d) \<Rightarrow> double_to_i64 d \<noteq> 1
     | Some (IV_string text) \<Rightarrow> toLower text \<noteq> ''ended'')"

definition parseCallSessionPayload :: "call_session_payload \<Rightarrow> call_session" where
  "parseCallSessionPayload p = \<lparr>cs_call_id = csp_call_id p, cs_caller_id = csp_caller_id p,
     cs_callee_id = csp_callee_id p, cs_call_type = parseCallTypeValue (csp_call_type p),
     cs_status = parseCallStatusValue (csp_status p) Ringing, cs_room_name = csp_room_name p,
     cs_token = csp_token p, cs_started_at = parseInt64Value (csp_started_at p) 0,
     cs_connected_at = parseInt64Value (csp_connected_at p) 0, cs_ended_at = parseInt64Value (csp_ended_at p) 0,
     cs_duration = wrap32 (parseInt64Value (csp_duration p) 0)\<rparr>"

text \<open>\<open>created_at * 1000\<close> overflows for values no clock has (undefined in C++; wrapped here).\<close>

definition parseMeetingRoomPayload :: "meeting_room_payload \<Rightarrow> meeting_room" where
  "parseMeetingRoomPayload p = \<lparr>mr_room_id = mrp_room_id p, mr_creator_id = mrp_creator_id p,
     mr_title = mrp_title p, mr_room_name = mrp_room_name p, mr_token = mrp_token p,
     mr_has_password = parseBoolValue (mrp_has_password p) False,
     mr_max_participants = wrap32 (parseInt64Value (mrp_max_participants p) 0),
     mr_is_active = parseMeetingIsActive (mrp_status p), mr_started_at = parseInt64Value (mrp_started_at p) 0,
     mr_created_at_ms = wrap64 (parseInt64Value (mrp_created_at p) 0 * 1000)\<rparr>"

definition parseMeetingResult :: "meeting_result_payload \<Rightarrow> meeting_room" where
  "parseMeetingResult w =
     (let room = (case mres_meeting w of None \<Rightarrow> new_meeting_room | Some p \<Rightarrow> parseMeetingRoomPayload p)
      in if mres_token w \<noteq> [] then room\<lparr>mr_token := mres_token w\<rparr> else room)"

section \<open>Operations\<close>

definition initiateCall :: "call_json \<Rightarrow> string \<Rightarrow> call_type \<Rightarrow> call_session callback \<Rightarrow> client_act" where
  "initiateCall J callee_id type cb =
     with_json (w_call J \<lparr>ic_callee_id = callee_id, ic_call_type = if type = Video then 1 else 0\<rparr>) cb (\<lambda>json.
       http_post ''/calling/calls'' json (\<lambda>resp.
         on_envelope (r_call J) resp ''initiate call failed'' True cb (\<lambda>data.
           succeed cb (parseCallSessionPayload data))))"

definition session_for :: "string \<Rightarrow> call_session_payload \<Rightarrow> call_session" where
  "session_for call_id data = (let session = parseCallSessionPayload data
     in if cs_call_id session = [] then session\<lparr>cs_call_id := call_id\<rparr> else session)"

definition room_for :: "string \<Rightarrow> meeting_room \<Rightarrow> meeting_room" where
  "room_for room_id room = (if mr_room_id room = [] then room\<lparr>mr_room_id := room_id\<rparr> else room)"

definition joinCall :: "call_json \<Rightarrow> string \<Rightarrow> call_session callback \<Rightarrow> client_act" where
  "joinCall J call_id cb = http_post (''/calling/calls/'' @ call_id @ ''/join'') [] (\<lambda>resp.
     on_envelope (r_call J) resp ''join call failed'' True cb (\<lambda>data. succeed cb (session_for call_id data)))"

definition rejectCall :: "call_json \<Rightarrow> string \<Rightarrow> unit callback \<Rightarrow> client_act" where
  "rejectCall J call_id cb = http_post (''/calling/calls/'' @ call_id @ ''/reject'') [] (\<lambda>resp.
     on_envelope (r_call_void J) resp ''reject call failed'' True cb (\<lambda>_. succeed cb ()))"

definition endCall :: "call_json \<Rightarrow> string \<Rightarrow> unit callback \<Rightarrow> client_act" where
  "endCall J call_id cb = http_post (''/calling/calls/'' @ call_id @ ''/end'') [] (\<lambda>resp.
     on_envelope (r_call_void J) resp ''end call failed'' True cb (\<lambda>_. succeed cb ()))"

definition getCallSession :: "call_json \<Rightarrow> string \<Rightarrow> call_session callback \<Rightarrow> client_act" where
  "getCallSession J call_id cb = http_get (''/calling/calls/'' @ call_id) (\<lambda>resp.
     on_envelope (r_call J) resp ''get call session failed'' True cb (\<lambda>data. succeed cb (session_for call_id data)))"

definition getCallLogs :: "call_json \<Rightarrow> int \<Rightarrow> int \<Rightarrow> call_log_result callback \<Rightarrow> client_act" where
  "getCallLogs J page page_size cb =
     http_get (''/calling/calls?page='' @ to_string page @ ''&page_size='' @ to_string page_size) (\<lambda>resp.
       on_envelope (r_calls J) resp ''get call logs failed'' True cb (\<lambda>data.
         succeed cb \<lparr>cl_calls = map parseCallSessionPayload (case csl_sessions data of None \<Rightarrow> [] | Some ps \<Rightarrow> ps),
                     cl_total = parseInt64Value (csl_total data) 0\<rparr>))"

definition createMeeting :: "call_json \<Rightarrow> string \<Rightarrow> string \<Rightarrow> int \<Rightarrow> meeting_room callback \<Rightarrow> client_act" where
  "createMeeting J title password max_participants cb =
     with_json (w_create_meeting J \<lparr>cmr_title = title, cmr_password = if password \<noteq> [] then Some password else None,
        cmr_max_participants = if max_participants > 0 then Some max_participants else None\<rparr>) cb (\<lambda>json.
       http_post ''/calling/meetings'' json (\<lambda>resp.
         on_envelope (r_meeting_result J) resp ''create meeting failed'' True cb (\<lambda>data.
           succeed cb (parseMeetingResult data))))"

definition joinMeeting :: "call_json \<Rightarrow> string \<Rightarrow> string \<Rightarrow> meeting_room callback \<Rightarrow> client_act" where
  "joinMeeting J room_id password cb =
     with_json (w_join_meeting J (if password \<noteq> [] then Some password else None)) cb (\<lambda>json.
       http_post (''/calling/meetings/'' @ room_id @ ''/join'') json (\<lambda>resp.
         on_envelope (r_meeting_result J) resp ''join meeting failed'' True cb (\<lambda>data.
           succeed cb (room_for room_id (parseMeetingResult data)))))"

definition endMeeting :: "call_json \<Rightarrow> string \<Rightarrow> unit callback \<Rightarrow> client_act" where
  "endMeeting J room_id cb = http_post (''/calling/meetings/'' @ room_id @ ''/end'') [] (\<lambda>resp.
     on_envelope (r_call_void J) resp ''end meeting failed'' True cb (\<lambda>_. succeed cb ()))"

definition getMeeting :: "call_json \<Rightarrow> string \<Rightarrow> meeting_room callback \<Rightarrow> client_act" where
  "getMeeting J room_id cb = http_get (''/calling/meetings/'' @ room_id) (\<lambda>resp.
     on_envelope (r_meeting J) resp ''get meeting failed'' True cb (\<lambda>data.
       succeed cb (room_for room_id (parseMeetingRoomPayload data))))"

definition listMeetings :: "call_json \<Rightarrow> int \<Rightarrow> int \<Rightarrow> meeting_list_result callback \<Rightarrow> client_act" where
  "listMeetings J page page_size cb =
     http_get (''/calling/meetings?page='' @ to_string page @ ''&page_size='' @ to_string page_size) (\<lambda>resp.
       on_envelope (r_meetings J) resp ''list meetings failed'' True cb (\<lambda>data.
         succeed cb \<lparr>ml_rooms = map parseMeetingRoomPayload (case mlp_meetings data of None \<Rightarrow> [] | Some ps \<Rightarrow> ps),
                     ml_total = parseInt64Value (mlp_total data) 0\<rparr>))"

definition call_setListener :: "bool \<Rightarrow> client_act" where
  "call_setListener l = modify (\<lambda>s. s\<lparr>call_listener := l\<rparr>)"

definition handleCallNotification :: "call_json \<Rightarrow> notification_event \<Rightarrow> client_act" where
  "handleCallNotification J ev = reading (\<lambda>s.
     let nt = notification_type ev in
     if nt = ''livekit.call_invite''
     then act_if (call_listener s) (case parseJsonObject (r_notif_call J) (ev_data ev) of
            Inl err \<Rightarrow> skip
          | Inr payload \<Rightarrow> emit (IncomingCall (parseCallSessionPayload payload)))
     else if nt = ''livekit.call_status'' \<or> nt = ''livekit.call_rejected''
     then act_if (call_listener s) (case parseJsonObject (r_notif_status J) (ev_data ev) of
            Inl err \<Rightarrow> skip
          | Inr payload \<Rightarrow> emit (CallStatusChanged (cst_call_id payload)
              (if nt = ''livekit.call_rejected'' then Rejected
               else parseCallStatusValue (cst_status payload) Ringing)))
     else skip)"

section \<open>Invariant and answers\<close>

lemma keeps_call_ops:
  "cb_keeps (client_inv X) scb \<Longrightarrow> keeps (client_inv X) (initiateCall J uid type scb)"
  "cb_keeps (client_inv X) scb \<Longrightarrow> keeps (client_inv X) (joinCall J cid scb)"
  "cb_keeps (client_inv X) cb \<Longrightarrow> keeps (client_inv X) (rejectCall J cid cb)"
  "cb_keeps (client_inv X) cb \<Longrightarrow> keeps (client_inv X) (endCall J cid cb)"
  "cb_keeps (client_inv X) scb \<Longrightarrow> keeps (client_inv X) (getCallSession J cid scb)"
  "cb_keeps (client_inv X) lcb \<Longrightarrow> keeps (client_inv X) (getCallLogs J p k lcb)"
  "cb_keeps (client_inv X) rcb \<Longrightarrow> keeps (client_inv X) (createMeeting J txt pw k rcb)"
  "cb_keeps (client_inv X) rcb \<Longrightarrow> keeps (client_inv X) (joinMeeting J rid pw rcb)"
  "cb_keeps (client_inv X) cb \<Longrightarrow> keeps (client_inv X) (endMeeting J rid cb)"
  "cb_keeps (client_inv X) rcb \<Longrightarrow> keeps (client_inv X) (getMeeting J rid rcb)"
  "cb_keeps (client_inv X) mcb \<Longrightarrow> keeps (client_inv X) (listMeetings J p k mcb)"
  unfolding initiateCall_def joinCall_def rejectCall_def endCall_def getCallSession_def getCallLogs_def
    createMeeting_def joinMeeting_def endMeeting_def getMeeting_def listMeetings_def
  by (intro keeps_intro; assumption)+

lemma keeps_call_notification [keeps_intro]: "keeps (client_inv X) (handleCallNotification J ev)"
  unfolding handleCallNotification_def Let_def by (intro keeps_intro)

lemma answers_call_ops:
  "cb_answers i n scb \<Longrightarrow> answers (about i) n (initiateCall J uid type scb)"
  "cb_answers i n scb \<Longrightarrow> answers (about i) n (joinCall J cid scb)"
  "cb_answers i n cb \<Longrightarrow> answers (about i) n (rejectCall J cid cb)"
  "cb_answers i n cb \<Longrightarrow> answers (about i) n (endCall J cid cb)"
  "cb_answers i n scb \<Longrightarrow> answers (about i) n (getCallSession J cid scb)"
  "cb_answers i n lcb \<Longrightarrow> answers (about i) n (getCallLogs J p k lcb)"
  "cb_answers i n rcb \<Longrightarrow> answers (about i) n (createMeeting J txt pw k rcb)"
  "cb_answers i n rcb \<Longrightarrow> answers (about i) n (joinMeeting J rid pw rcb)"
  "cb_answers i n cb \<Longrightarrow> answers (about i) n (endMeeting J rid cb)"
  "cb_answers i n rcb \<Longrightarrow> answers (about i) n (getMeeting J rid rcb)"
  "cb_answers i n mcb \<Longrightarrow> answers (about i) n (listMeetings J p k mcb)"
  unfolding initiateCall_def joinCall_def rejectCall_def endCall_def getCallSession_def getCallLogs_def
    createMeeting_def joinMeeting_def endMeeting_def getMeeting_def listMeetings_def
  by (intro answers_intro; assumption)+

lemma answers_call_notification [answers_intro]: "answers (about i) 0 (handleCallNotification J ev)"
  unfolding handleCallNotification_def Let_def by (intro answers_intro about_simps)

end
