(* ===== verification/GroupManager.thy ===== *)
theory GroupManager
  imports NotificationManager
begin

text \<open>
  \<open>GroupManagerImpl\<close> (core/src/group_manager.cpp): groups with their database copy, members,
  join requests, QR codes and the notifications about groups. JSON readers and writers are
  the fields of \<open>group_json\<close>; request bodies of one field are that field.
\<close>

section \<open>Payloads\<close>

record create_group_body =
  cgb_name :: string
  cgb_member_ids :: "string list"

record update_group_body =
  ugb_name :: "string option"
  ugb_avatar :: "string option"

record short_user_payload =
  sup_user_id :: string
  sup_nickname :: string
  sup_avatar :: string

record group_payload =
  gpl_group_id :: string
  gpl_name :: string
  gpl_display_name :: string
  gpl_avatar :: string
  gpl_announcement :: string
  gpl_description :: string
  gpl_owner_id :: string
  gpl_member_count :: "integer_value option"
  gpl_max_members :: "integer_value option"
  gpl_my_role :: "integer_value option"
  gpl_join_verify :: "bool_value option"
  gpl_is_muted :: "bool_value option"
  gpl_created_at :: "timestamp_value option"
  gpl_updated_at :: "timestamp_value option"

record group_info_payload =
  gip_group_id :: string
  gip_name :: string
  gip_display_name :: string
  gip_avatar :: string
  gip_announcement :: string
  gip_description :: string
  gip_owner_id :: string
  gip_member_count :: int
  gip_max_members :: int
  gip_my_role :: int
  gip_join_verify :: bool
  gip_is_muted :: bool
  gip_created_at :: "timestamp_value option"
  gip_updated_at :: "timestamp_value option"

record group_member_payload =
  gmp_user_id :: string
  gmp_group_nickname :: string
  gmp_role :: "integer_value option"
  gmp_is_muted :: "bool_value option"
  gmp_muted_until :: "timestamp_value option"
  gmp_joined_at :: "timestamp_value option"
  gmp_user_info :: "short_user_payload option"

record group_join_request_payload =
  gjp_id :: int
  gjp_group_id :: string
  gjp_user_id :: string
  gjp_inviter_id :: string
  gjp_message :: string
  gjp_status :: int
  gjp_created_at :: "timestamp_value option"
  gjp_user_info :: "short_user_payload option"

record group_qrcode_payload =
  gqp_group_id :: string
  gqp_token :: string
  gqp_deep_link :: string
  gqp_expire_at :: "timestamp_value option"

text \<open>The fields of \<open>NotificationGroupEventPayload\<close> that the handler reads, first those it
  shares with \<open>NotificationGroupPayload\<close>.\<close>

record notification_group_payload =
  ngp_group_id :: string
  ngp_group_name :: string
  ngp_group_avatar :: string
  ngp_announcement :: string
  ngp_description :: string
  ngp_owner_id :: string
  ngp_member_count :: int
  ngp_max_members :: int
  ngp_my_role :: int
  ngp_join_verify :: bool
  ngp_is_muted :: bool
  ngp_created_at :: "timestamp_value option"
  ngp_updated_at :: "timestamp_value option"

record notification_group_event_payload = notification_group_payload +
  nge_inviter_user_id :: string
  nge_operator_user_id :: string
  nge_target_user_id :: string
  nge_user_id :: string
  nge_old_role :: int
  nge_new_role :: int
  nge_request_id :: int
  nge_source :: string
  nge_token :: string
  nge_expire_at :: "timestamp_value option"
  nge_updated_fields :: "string list option"

record group_json =
  w_create_group :: "create_group_body \<Rightarrow> string + string"
  w_join_group :: "string \<Rightarrow> string + string"
  w_invite :: "string list \<Rightarrow> string + string"
  w_update_group :: "update_group_body \<Rightarrow> string + string"
  w_role :: "int \<Rightarrow> string + string"
  w_nickname :: "string \<Rightarrow> string + string"
  w_transfer :: "string \<Rightarrow> string + string"
  w_accept :: "bool \<Rightarrow> string + string"
  r_group_void :: "string \<Rightarrow> string + unit envelope"
  r_groups :: "string \<Rightarrow> string + group_payload list option envelope"
  r_group_info :: "string \<Rightarrow> string + group_info_payload envelope"
  r_members :: "string \<Rightarrow> string + group_member_payload list option envelope"
  r_join_requests :: "string \<Rightarrow> string + group_join_request_payload list option envelope"
  r_group_qrcode :: "string \<Rightarrow> string + group_qrcode_payload envelope"
  r_group_event :: "string \<Rightarrow> string + notification_group_event_payload"

definition parseRoleCode :: "int \<Rightarrow> group_role \<Rightarrow> group_role" where
  "parseRoleCode code dflt = (if code = 1 then Owner else if code = 2 then Admin else if code = 3 then Member else dflt)"

definition isValidGroupRoleCode :: "int \<Rightarrow> bool" where
  "isValidGroupRoleCode code \<longleftrightarrow> code = 1 \<or> code = 2 \<or> code = 3"

definition isValidJoinRequestStatusCode :: "int \<Rightarrow> bool" where
  "isValidJoinRequestStatusCode status \<longleftrightarrow> status = 1 \<or> status = 2 \<or> status = 3"

text \<open>The overload for a variant, and the one for two optionals, which every caller gives
  \<open>std::nullopt\<close> as the second.\<close>

definition parseRoleValue :: "integer_value \<Rightarrow> group_role \<Rightarrow> group_role" where
  "parseRoleValue v dflt = (case v of
     IV_int i \<Rightarrow> parseRoleCode (wrap32 i) dflt
   | IV_double d \<Rightarrow> parseRoleCode (wrap32 (double_to_i64 d)) dflt
   | IV_string text \<Rightarrow>
       if text = [] then dflt
       else (case strtoll text of
           (parsed, Some rest) \<Rightarrow> if rest = [] then parseRoleCode (wrap32 parsed) dflt else dflt
         | (parsed, None) \<Rightarrow> if c_str text = [] then parseRoleCode (wrap32 parsed) dflt else dflt))"

definition parseRoleOpt :: "integer_value option \<Rightarrow> group_role \<Rightarrow> group_role" where
  "parseRoleOpt v dflt = (case v of None \<Rightarrow> dflt | Some i \<Rightarrow> parseRoleValue i dflt)"

definition short_user_info :: "short_user_payload \<Rightarrow> user_info" where
  "short_user_info p = new_user_info
     \<lparr>ui_user_id := sup_user_id p, ui_username := sup_nickname p, ui_avatar_url := sup_avatar p\<rparr>"

definition short_info_for :: "string \<Rightarrow> short_user_payload option \<Rightarrow> user_info" where
  "short_info_for uid p = (let info = (case p of None \<Rightarrow> new_user_info | Some i \<Rightarrow> short_user_info i)
     in if ui_user_id info = [] then info\<lparr>ui_user_id := uid\<rparr> else info)"

definition parseGroup :: "group_payload \<Rightarrow> group_info" where
  "parseGroup p =
     (let name = (if gpl_name p = [] then gpl_display_name p else gpl_name p)
      in \<lparr>g_group_id = gpl_group_id p, g_name = name,
          g_display_name = if gpl_display_name p = [] then name else gpl_display_name p,
          g_avatar_url = gpl_avatar p, g_announcement = gpl_announcement p, g_description = gpl_description p,
          g_group_remark = [], g_owner_id = gpl_owner_id p, g_member_count = parseInt32Value (gpl_member_count p) 0,
          g_max_members = parseInt32Value (gpl_max_members p) 0, g_my_role = parseRoleOpt (gpl_my_role p) Member,
          g_join_verify = parseBoolValue (gpl_join_verify p) False, g_is_muted = parseBoolValue (gpl_is_muted p) False,
          g_created_at_ms = parseTimestampMs (gpl_created_at p), g_updated_at_ms = parseTimestampMs (gpl_updated_at p)\<rparr>)"

definition parseGroupInfo :: "group_info_payload \<Rightarrow> group_info" where
  "parseGroupInfo p = \<lparr>g_group_id = gip_group_id p, g_name = gip_name p,
     g_display_name = if gip_display_name p = [] then gip_name p else gip_display_name p,
     g_avatar_url = gip_avatar p, g_announcement = gip_announcement p, g_description = gip_description p,
     g_group_remark = [], g_owner_id = gip_owner_id p, g_member_count = gip_member_count p,
     g_max_members = gip_max_members p, g_my_role = parseRoleCode (gip_my_role p) Member,
     g_join_verify = gip_join_verify p, g_is_muted = gip_is_muted p,
     g_created_at_ms = parseTimestampMs (gip_created_at p), g_updated_at_ms = parseTimestampMs (gip_updated_at p)\<rparr>"

definition parseGroupMember :: "group_member_payload \<Rightarrow> group_member" where
  "parseGroupMember p = \<lparr>gmb_user_id = gmp_user_id p, gmb_group_nickname = gmp_group_nickname p,
     gmb_role = parseRoleOpt (gmp_role p) Member, gmb_is_muted = parseBoolValue (gmp_is_muted p) False,
     gmb_muted_until_ms = parseTimestampMs (gmp_muted_until p), gmb_joined_at_ms = parseTimestampMs (gmp_joined_at p),
     gmb_user_info = short_info_for (gmp_user_id p) (gmp_user_info p)\<rparr>"

definition parseJoinRequest :: "group_join_request_payload \<Rightarrow> group_join_request" where
  "parseJoinRequest p =
     (let status = (if gjp_status p = 0 then 1 else gjp_status p)
      in \<lparr>gj_request_id = gjp_id p, gj_group_id = gjp_group_id p, gj_user_id = gjp_user_id p,
          gj_inviter_id = gjp_inviter_id p, gj_message = gjp_message p,
          gj_status = if isValidJoinRequestStatusCode status then status else 1,
          gj_created_at_ms = parseTimestampMs (gjp_created_at p),
          gj_user_info = short_info_for (gjp_user_id p) (gjp_user_info p)\<rparr>)"

definition parseGroupQRCode :: "group_qrcode_payload \<Rightarrow> group_qrcode" where
  "parseGroupQRCode p = \<lparr>gq_group_id = gqp_group_id p, gq_token = gqp_token p, gq_deep_link = gqp_deep_link p,
     gq_expire_at_ms = parseTimestampMs (gqp_expire_at p)\<rparr>"

definition parseNotificationRole :: "int \<Rightarrow> group_role" where
  "parseNotificationRole my_role = (if my_role \<noteq> 0 then parseRoleCode my_role Member else Member)"

text \<open>The part of an event that describes the group.\<close>

definition toGroupPayload :: "notification_group_event_payload \<Rightarrow> notification_group_payload" where
  "toGroupPayload p = notification_group_payload.truncate p"

definition parseNotificationGroup :: "notification_group_payload \<Rightarrow> group_info" where
  "parseNotificationGroup p = \<lparr>g_group_id = ngp_group_id p, g_name = ngp_group_name p,
     g_display_name = ngp_group_name p, g_avatar_url = ngp_group_avatar p, g_announcement = ngp_announcement p,
     g_description = ngp_description p, g_group_remark = [], g_owner_id = ngp_owner_id p,
     g_member_count = ngp_member_count p, g_max_members = ngp_max_members p,
     g_my_role = parseNotificationRole (ngp_my_role p), g_join_verify = ngp_join_verify p,
     g_is_muted = ngp_is_muted p, g_created_at_ms = parseTimestampMs (ngp_created_at p),
     g_updated_at_ms = parseTimestampMs (ngp_updated_at p)\<rparr>"

section \<open>Operations\<close>

definition completeEmptyRequest :: "group_json \<Rightarrow> unit callback \<Rightarrow> http_response \<Rightarrow> string \<Rightarrow> client_act" where
  "completeEmptyRequest J cb resp fallback_error =
     on_envelope (r_group_void J) resp fallback_error False cb (\<lambda>_. succeed cb ())"

text \<open>The \<open>my_role\<close> column has type TEXT: SQLite stores the number as its digits.\<close>

definition group_to_row :: "group_info \<Rightarrow> group_row" where
  "group_to_row g = \<lparr>grow_group_id = g_group_id g, grow_name = g_name g, grow_avatar_url = g_avatar_url g,
     grow_owner_id = Some (g_owner_id g), grow_member_count = g_member_count g,
     grow_my_role = Some (to_string (role_code (g_my_role g))), grow_updated_at_ms = g_updated_at_ms g\<rparr>"

definition sql_replace_group :: "group_row \<Rightarrow> stmt" where
  "sql_replace_group r t = Some (t\<lparr>groups := insert_or_replace grow_group_id r (groups t)\<rparr>)"

definition getGroupList :: "group_json \<Rightarrow> group_info list callback \<Rightarrow> client_act" where
  "getGroupList J cb = http_get ''/groups'' (\<lambda>resp.
     on_envelope (r_groups J) resp ''get group list failed'' False cb (\<lambda>data.
       let gs = map parseGroup (case data of None \<Rightarrow> [] | Some ps \<Rightarrow> ps)
       in perform [for_each (\<lambda>g. exec (sql_replace_group (group_to_row g))) gs, succeed cb gs]))"

definition getInfo :: "group_json \<Rightarrow> string \<Rightarrow> group_info callback \<Rightarrow> client_act" where
  "getInfo J group_id cb = http_get (''/groups/'' @ group_id) (\<lambda>resp.
     on_envelope (r_group_info J) resp ''get group info failed'' False cb (\<lambda>data. succeed cb (parseGroupInfo data)))"

definition create_group :: "group_json \<Rightarrow> string \<Rightarrow> string list \<Rightarrow> group_info callback \<Rightarrow> client_act" where
  "create_group J name member_ids cb =
     with_json (w_create_group J \<lparr>cgb_name = name, cgb_member_ids = member_ids\<rparr>) cb (\<lambda>json.
       http_post ''/groups'' json (\<lambda>resp.
         on_envelope (r_group_info J) resp ''create group failed'' False cb (\<lambda>data.
           let g = parseGroupInfo data
           in perform [act_if (g_group_id g \<noteq> []) (exec (sql_replace_group (group_to_row g))), succeed cb g])))"

definition join_group :: "group_json \<Rightarrow> string \<Rightarrow> string \<Rightarrow> unit callback \<Rightarrow> client_act" where
  "join_group J group_id message cb = with_json (w_join_group J message) cb (\<lambda>json.
     http_post (''/groups/'' @ group_id @ ''/join'') json (\<lambda>resp. completeEmptyRequest J cb resp ''join group failed''))"

definition invite :: "group_json \<Rightarrow> string \<Rightarrow> string list \<Rightarrow> unit callback \<Rightarrow> client_act" where
  "invite J group_id user_ids cb = with_json (w_invite J user_ids) cb (\<lambda>json.
     http_post (''/groups/'' @ group_id @ ''/members'') json (\<lambda>resp.
       completeEmptyRequest J cb resp ''invite group member failed''))"

definition quit_group :: "group_json \<Rightarrow> string \<Rightarrow> unit callback \<Rightarrow> client_act" where
  "quit_group J group_id cb = http_post (''/groups/'' @ group_id @ ''/quit'') empty_object (\<lambda>resp.
     completeEmptyRequest J cb resp ''quit group failed'')"

definition disband :: "group_json \<Rightarrow> string \<Rightarrow> unit callback \<Rightarrow> client_act" where
  "disband J group_id cb = http_del (''/groups/'' @ group_id) (\<lambda>resp.
     completeEmptyRequest J cb resp ''disband group failed'')"

definition update_group :: "group_json \<Rightarrow> string \<Rightarrow> string \<Rightarrow> string \<Rightarrow> unit callback \<Rightarrow> client_act" where
  "update_group J group_id name avatar_url cb =
     with_json (w_update_group J \<lparr>ugb_name = if name \<noteq> [] then Some name else None,
                                  ugb_avatar = if avatar_url \<noteq> [] then Some avatar_url else None\<rparr>) cb (\<lambda>json.
       http_put (''/groups/'' @ group_id) json (\<lambda>resp. completeEmptyRequest J cb resp ''update group failed''))"

definition getMembers :: "group_json \<Rightarrow> string \<Rightarrow> int \<Rightarrow> int \<Rightarrow> group_member list callback \<Rightarrow> client_act" where
  "getMembers J group_id page page_size cb =
     http_get (''/groups/'' @ group_id @ ''/members'' @ ''?page='' @ to_string page @ ''&page_size='' @ to_string page_size)
       (\<lambda>resp. on_envelope (r_members J) resp ''get group members failed'' False cb (\<lambda>data.
          succeed cb (map parseGroupMember (case data of None \<Rightarrow> [] | Some ps \<Rightarrow> ps))))"

definition removeMember :: "group_json \<Rightarrow> string \<Rightarrow> string \<Rightarrow> unit callback \<Rightarrow> client_act" where
  "removeMember J group_id user_id cb = http_del (''/groups/'' @ group_id @ ''/members/'' @ user_id) (\<lambda>resp.
     completeEmptyRequest J cb resp ''remove group member failed'')"

definition updateMemberRole :: "group_json \<Rightarrow> string \<Rightarrow> string \<Rightarrow> int \<Rightarrow> unit callback \<Rightarrow> client_act" where
  "updateMemberRole J group_id user_id role cb =
     (if \<not> isValidGroupRoleCode role then fail cb (- 1) ''invalid role''
      else with_json (w_role J role) cb (\<lambda>json.
        http_put (''/groups/'' @ group_id @ ''/members/'' @ user_id @ ''/role'') json (\<lambda>resp.
          completeEmptyRequest J cb resp ''update group member role failed'')))"

definition updateNickname :: "group_json \<Rightarrow> string \<Rightarrow> string \<Rightarrow> unit callback \<Rightarrow> client_act" where
  "updateNickname J group_id nickname cb = with_json (w_nickname J nickname) cb (\<lambda>json.
     http_put (''/groups/'' @ group_id @ ''/nickname'') json (\<lambda>resp.
       completeEmptyRequest J cb resp ''update group nickname failed''))"

definition transferOwnership :: "group_json \<Rightarrow> string \<Rightarrow> string \<Rightarrow> unit callback \<Rightarrow> client_act" where
  "transferOwnership J group_id new_owner_id cb = with_json (w_transfer J new_owner_id) cb (\<lambda>json.
     http_post (''/groups/'' @ group_id @ ''/transfer'') json (\<lambda>resp.
       completeEmptyRequest J cb resp ''transfer ownership failed''))"

definition getJoinRequests :: "group_json \<Rightarrow> string \<Rightarrow> int \<Rightarrow> group_join_request list callback \<Rightarrow> client_act" where
  "getJoinRequests J group_id status cb =
     (if status \<noteq> 0 \<and> \<not> isValidJoinRequestStatusCode status then fail cb (- 1) ''invalid status''
      else http_get (''/groups/'' @ group_id @ ''/requests'' @
               (if status \<noteq> 0 then ''?status='' @ to_string status else [])) (\<lambda>resp.
        on_envelope (r_join_requests J) resp ''get group join requests failed'' False cb (\<lambda>data.
          succeed cb (map parseJoinRequest (case data of None \<Rightarrow> [] | Some ps \<Rightarrow> ps)))))"

definition handleJoinRequest :: "group_json \<Rightarrow> string \<Rightarrow> int \<Rightarrow> bool \<Rightarrow> unit callback \<Rightarrow> client_act" where
  "handleJoinRequest J group_id request_id accept cb = with_json (w_accept J accept) cb (\<lambda>json.
     http_put (''/groups/'' @ group_id @ ''/requests/'' @ to_string request_id) json (\<lambda>resp.
       completeEmptyRequest J cb resp ''handle join request failed''))"

definition getQRCode :: "group_json \<Rightarrow> string \<Rightarrow> group_qrcode callback \<Rightarrow> client_act" where
  "getQRCode J group_id cb = http_get (''/groups/'' @ group_id @ ''/qrcode'') (\<lambda>resp.
     on_envelope (r_group_qrcode J) resp ''get group qrcode failed'' False cb (\<lambda>data. succeed cb (parseGroupQRCode data)))"

definition refreshGroupQRCode :: "group_json \<Rightarrow> string \<Rightarrow> group_qrcode callback \<Rightarrow> client_act" where
  "refreshGroupQRCode J group_id cb = http_post (''/groups/'' @ group_id @ ''/qrcode/refresh'') empty_object (\<lambda>resp.
     on_envelope (r_group_qrcode J) resp ''refresh group qrcode failed'' False cb (\<lambda>data.
       succeed cb (parseGroupQRCode data)))"

definition group_setListener :: "bool \<Rightarrow> client_act" where
  "group_setListener l = modify (\<lambda>s. s\<lparr>group_listener := l\<rparr>)"

definition group_update_types :: "string list" where
  "group_update_types = [''group.info_updated'', ''group.member_joined'', ''group.member_left'', ''group.role_changed'',
     ''group.muted'', ''group.disbanded'', ''group.member_muted'', ''group.member_unmuted'']"

definition handleGroupNotification :: "group_json \<Rightarrow> notification_event \<Rightarrow> client_act" where
  "handleGroupNotification J ev =
     (if take 6 (notification_type ev) \<noteq> ''group.'' then skip
      else (case parseJsonObject (r_group_event J) (ev_data ev) of
          Inl err \<Rightarrow> skip
        | Inr payload \<Rightarrow> reading (\<lambda>s.
            if notification_type ev = ''group.invited''
            then act_if (group_listener s) (emit (GroupInvited (parseNotificationGroup (toGroupPayload payload)) (nge_inviter_user_id payload)))
            else act_if (notification_type ev \<in> set group_update_types \<and> group_listener s)
                   (emit (GroupUpdated (parseNotificationGroup (toGroupPayload payload)))))))"

section \<open>Invariant and answers\<close>

lemma stmt_ok_replace_group [inv_intro, simp]: "stmt_ok (sql_replace_group r)"
  by (rule stmt_okI) (auto simp: sql_replace_group_def tables_inv_def)

lemma keeps_completeEmptyRequest [keeps_intro]:
  "cb_keeps (client_inv X) cb \<Longrightarrow> keeps (client_inv X) (completeEmptyRequest J cb resp fb)"
  unfolding completeEmptyRequest_def by (intro keeps_intro; assumption)+

lemma keeps_group_ops:
  "cb_keeps (client_inv X) lcb \<Longrightarrow> keeps (client_inv X) (getGroupList J lcb)"
  "cb_keeps (client_inv X) gcb \<Longrightarrow> keeps (client_inv X) (getInfo J gid gcb)"
  "cb_keeps (client_inv X) gcb \<Longrightarrow> keeps (client_inv X) (create_group J txt ids gcb)"
  "cb_keeps (client_inv X) cb \<Longrightarrow> keeps (client_inv X) (join_group J gid txt cb)"
  "cb_keeps (client_inv X) cb \<Longrightarrow> keeps (client_inv X) (invite J gid ids cb)"
  "cb_keeps (client_inv X) cb \<Longrightarrow> keeps (client_inv X) (quit_group J gid cb)"
  "cb_keeps (client_inv X) cb \<Longrightarrow> keeps (client_inv X) (disband J gid cb)"
  "cb_keeps (client_inv X) cb \<Longrightarrow> keeps (client_inv X) (update_group J gid txt av cb)"
  "cb_keeps (client_inv X) mcb \<Longrightarrow> keeps (client_inv X) (getMembers J gid p k mcb)"
  "cb_keeps (client_inv X) cb \<Longrightarrow> keeps (client_inv X) (removeMember J gid uid cb)"
  "cb_keeps (client_inv X) cb \<Longrightarrow> keeps (client_inv X) (updateMemberRole J gid uid k cb)"
  "cb_keeps (client_inv X) cb \<Longrightarrow> keeps (client_inv X) (updateNickname J gid txt cb)"
  "cb_keeps (client_inv X) cb \<Longrightarrow> keeps (client_inv X) (transferOwnership J gid uid cb)"
  "cb_keeps (client_inv X) jcb \<Longrightarrow> keeps (client_inv X) (getJoinRequests J gid k jcb)"
  "cb_keeps (client_inv X) cb \<Longrightarrow> keeps (client_inv X) (handleJoinRequest J gid k b cb)"
  "cb_keeps (client_inv X) qcb \<Longrightarrow> keeps (client_inv X) (getQRCode J gid qcb)"
  "cb_keeps (client_inv X) qcb \<Longrightarrow> keeps (client_inv X) (refreshGroupQRCode J gid qcb)"
  unfolding getGroupList_def getInfo_def create_group_def join_group_def invite_def quit_group_def disband_def
    update_group_def getMembers_def removeMember_def updateMemberRole_def updateNickname_def transferOwnership_def
    getJoinRequests_def handleJoinRequest_def getQRCode_def refreshGroupQRCode_def Let_def
  by (intro keeps_intro stmt_ok_replace_group; assumption)+

lemma keeps_group_notification [keeps_intro]: "keeps (client_inv X) (handleGroupNotification J ev)"
  unfolding handleGroupNotification_def by (intro keeps_intro)

lemma answers_completeEmptyRequest [answers_intro]:
  "cb_answers i n cb \<Longrightarrow> answers (about i) n (completeEmptyRequest J cb resp fb)"
  unfolding completeEmptyRequest_def by (intro answers_intro; assumption)+

lemma answers_group_ops:
  "cb_answers i n lcb \<Longrightarrow> answers (about i) n (getGroupList J lcb)"
  "cb_answers i n gcb \<Longrightarrow> answers (about i) n (getInfo J gid gcb)"
  "cb_answers i n gcb \<Longrightarrow> answers (about i) n (create_group J txt ids gcb)"
  "cb_answers i n cb \<Longrightarrow> answers (about i) n (join_group J gid txt cb)"
  "cb_answers i n cb \<Longrightarrow> answers (about i) n (invite J gid ids cb)"
  "cb_answers i n cb \<Longrightarrow> answers (about i) n (quit_group J gid cb)"
  "cb_answers i n cb \<Longrightarrow> answers (about i) n (disband J gid cb)"
  "cb_answers i n cb \<Longrightarrow> answers (about i) n (update_group J gid txt av cb)"
  "cb_answers i n mcb \<Longrightarrow> answers (about i) n (getMembers J gid p k mcb)"
  "cb_answers i n cb \<Longrightarrow> answers (about i) n (removeMember J gid uid cb)"
  "cb_answers i n cb \<Longrightarrow> answers (about i) n (updateMemberRole J gid uid k cb)"
  "cb_answers i n cb \<Longrightarrow> answers (about i) n (updateNickname J gid txt cb)"
  "cb_answers i n cb \<Longrightarrow> answers (about i) n (transferOwnership J gid uid cb)"
  "cb_answers i n jcb \<Longrightarrow> answers (about i) n (getJoinRequests J gid k jcb)"
  "cb_answers i n cb \<Longrightarrow> answers (about i) n (handleJoinRequest J gid k b cb)"
  "cb_answers i n qcb \<Longrightarrow> answers (about i) n (getQRCode J gid qcb)"
  "cb_answers i n qcb \<Longrightarrow> answers (about i) n (refreshGroupQRCode J gid qcb)"
  unfolding getGroupList_def getInfo_def create_group_def join_group_def invite_def quit_group_def disband_def
    update_group_def getMembers_def removeMember_def updateMemberRole_def updateNickname_def transferOwnership_def
    getJoinRequests_def handleJoinRequest_def getQRCode_def refreshGroupQRCode_def Let_def
  by (intro answers_intro; assumption)+

lemma answers_group_notification [answers_intro]: "answers (about i) 0 (handleGroupNotification J ev)"
  unfolding handleGroupNotification_def by (intro answers_intro about_simps)

end
