(* ===== verification/UserManager.thy ===== *)
theory UserManager
  imports NotificationManager UrlEncode
begin

text \<open>
  \<open>UserManagerImpl\<close> (core/src/user_manager.cpp): profile, settings, push token, search, phone
  and mail, QR codes and the notifications about users. JSON readers and writers are the
  fields of \<open>user_json\<close>; what they read is converted field by field into the types of the
  interface, timestamps from whatever form the server uses.
\<close>

section \<open>Payloads\<close>

record user_profile_payload =
  upp_user_id :: string
  upp_nickname :: string
  upp_avatar :: string
  upp_phone :: string
  upp_email :: string
  upp_signature :: string
  upp_region :: string
  upp_gender :: int
  upp_qrcode_url :: string
  upp_birthday :: "timestamp_value option"
  upp_created_at :: "timestamp_value option"

record user_settings_payload =
  usp_user_id :: string
  usp_notification_enabled :: bool
  usp_sound_enabled :: bool
  usp_vibration_enabled :: bool
  usp_message_preview_enabled :: bool
  usp_friend_verify_required :: bool
  usp_search_by_phone :: bool
  usp_search_by_id :: bool
  usp_language :: string

record user_info_data =
  uid_user_id :: string
  uid_nickname :: string
  uid_avatar :: string
  uid_signature :: string
  uid_gender :: int
  uid_region :: string
  uid_is_friend :: bool
  uid_is_blocked :: bool

record user_qrcode_payload =
  uqp_qrcode_url :: string
  uqp_expires_at :: "timestamp_value option"

record bind_phone_payload =
  bpp_phone_number :: string
  bpp_is_primary :: bool

record change_phone_payload =
  cpp_old_phone_number :: string
  cpp_new_phone_number :: string

record bind_email_payload =
  bep_email :: string
  bep_is_primary :: bool

record change_email_payload =
  cep_old_email :: string
  cep_new_email :: string

record search_users_payload =
  su_total :: int
  su_users :: "user_info_data list"

record update_profile_request =
  upr_nickname :: "string option"
  upr_avatar :: "string option"
  upr_signature :: "string option"
  upr_region :: "string option"
  upr_gender :: "int option"
  upr_birthday :: "string option"

record update_settings_request =
  usq_notification_enabled :: bool
  usq_sound_enabled :: bool
  usq_vibration_enabled :: bool
  usq_message_preview_enabled :: bool
  usq_friend_verify_required :: bool
  usq_search_by_phone :: bool
  usq_search_by_id :: bool
  usq_language :: "string option"

record push_token_request =
  ptr_push_token :: string
  ptr_platform :: int
  ptr_device_id :: "string option"

record bind_phone_request =
  bph_phone_number :: string
  bph_verify_code :: string

record change_phone_request =
  chp_old_phone_number :: string
  chp_new_phone_number :: string
  chp_new_verify_code :: string
  chp_old_verify_code :: "string option"
  chp_device_id :: "string option"

record bind_email_request =
  bem_email :: string
  bem_verify_code :: string

record change_email_request =
  che_old_email :: string
  che_new_email :: string
  che_new_verify_code :: string
  che_old_verify_code :: "string option"
  che_device_id :: "string option"

record notification_user_payload =
  nup_user_id :: string
  nup_nickname :: string
  nup_avatar :: string
  nup_signature :: string
  nup_gender :: int
  nup_region :: string
  nup_is_friend :: bool
  nup_is_blocked :: bool

record user_status_payload =
  usl_user_id :: string
  usl_status :: "bool_value option"
  usl_last_active_at :: "timestamp_value option"
  usl_platform :: int

record user_json =
  w_profile :: "update_profile_request \<Rightarrow> string + string"
  w_settings :: "update_settings_request \<Rightarrow> string + string"
  w_push_token :: "push_token_request \<Rightarrow> string + string"
  w_bind_phone :: "bind_phone_request \<Rightarrow> string + string"
  w_change_phone :: "change_phone_request \<Rightarrow> string + string"
  w_bind_email :: "bind_email_request \<Rightarrow> string + string"
  w_change_email :: "change_email_request \<Rightarrow> string + string"
  r_user_void :: "string \<Rightarrow> string + unit envelope"
  r_profile :: "string \<Rightarrow> string + user_profile_payload envelope"
  r_settings :: "string \<Rightarrow> string + user_settings_payload envelope"
  r_user_info :: "string \<Rightarrow> string + user_info_data envelope"
  r_search_users :: "string \<Rightarrow> string + search_users_payload envelope"
  r_bind_phone :: "string \<Rightarrow> string + bind_phone_payload envelope"
  r_change_phone :: "string \<Rightarrow> string + change_phone_payload envelope"
  r_bind_email :: "string \<Rightarrow> string + bind_email_payload envelope"
  r_change_email :: "string \<Rightarrow> string + change_email_payload envelope"
  r_user_qrcode :: "string \<Rightarrow> string + user_qrcode_payload envelope"
  r_notif_user :: "string \<Rightarrow> string + notification_user_payload"
  r_notif_user_status :: "string \<Rightarrow> string + user_status_payload"

definition isValidPushPlatform :: "int \<Rightarrow> bool" where
  "isValidPushPlatform platform \<longleftrightarrow> platform = 1 \<or> platform = 2"

definition kUserStatusOffline :: int where "kUserStatusOffline = 0"
definition kUserStatusOnline :: int where "kUserStatusOnline = 1"
definition kUserStatusAway :: int where "kUserStatusAway = 2"

definition status_of_code :: "bool_value option \<Rightarrow> int" where
  "status_of_code v = (let n = parseInt32Value_b v kUserStatusOffline
     in if n = kUserStatusOffline \<or> n = kUserStatusOnline \<or> n = kUserStatusAway then n else kUserStatusOffline)"

definition normalizeUserStatus :: "bool_value option \<Rightarrow> int" where
  "normalizeUserStatus v = (case v of
     Some (BV_string text) \<Rightarrow>
       (let lowered = toLowerCopy text
        in if lowered = ''online'' then kUserStatusOnline
           else if lowered = ''away'' then kUserStatusAway
           else if lowered = ''offline'' then kUserStatusOffline
           else status_of_code v)
   | _ \<Rightarrow> status_of_code v)"

definition user_of_data :: "user_info_data \<Rightarrow> user_info" where
  "user_of_data p = \<lparr>ui_user_id = uid_user_id p, ui_username = uid_nickname p, ui_avatar_url = uid_avatar p,
     ui_signature = uid_signature p, ui_gender = uid_gender p, ui_region = uid_region p,
     ui_is_friend = uid_is_friend p, ui_is_blocked = uid_is_blocked p\<rparr>"

definition parseNotificationUserInfo :: "user_json \<Rightarrow> string \<Rightarrow> user_info" where
  "parseNotificationUserInfo J data =
     (case parseJsonObject (r_notif_user J) data of
        Inl err \<Rightarrow> new_user_info
      | Inr p \<Rightarrow> \<lparr>ui_user_id = nup_user_id p, ui_username = nup_nickname p, ui_avatar_url = nup_avatar p,
                 ui_signature = nup_signature p, ui_gender = nup_gender p, ui_region = nup_region p,
                 ui_is_friend = nup_is_friend p, ui_is_blocked = nup_is_blocked p\<rparr>)"

definition parseNotificationStatusEvent :: "user_json \<Rightarrow> string \<Rightarrow> user_status_event" where
  "parseNotificationStatusEvent J data =
     (case parseJsonObject (r_notif_user_status J) data of
        Inl err \<Rightarrow> new_user_status_event
      | Inr p \<Rightarrow> \<lparr>use_user_id = usl_user_id p, use_status = normalizeUserStatus (usl_status p),
                 use_last_active_at_ms = parseTimestampMs (usl_last_active_at p), use_platform = usl_platform p\<rparr>)"

definition toUserProfile :: "user_profile_payload \<Rightarrow> user_profile" where
  "toUserProfile p = \<lparr>up_user_id = upp_user_id p, up_nickname = upp_nickname p, up_avatar_url = upp_avatar p,
     up_phone = upp_phone p, up_email = upp_email p, up_signature = upp_signature p, up_region = upp_region p,
     up_gender = upp_gender p, up_birthday_ms = parseTimestampMs (upp_birthday p),
     up_qrcode_url = upp_qrcode_url p, up_created_at_ms = parseTimestampMs (upp_created_at p)\<rparr>"

definition toUserSettings :: "user_settings_payload \<Rightarrow> user_settings" where
  "toUserSettings p = \<lparr>st_user_id = usp_user_id p, st_notification_enabled = usp_notification_enabled p, st_sound_enabled = usp_sound_enabled p,
     st_vibration_enabled = usp_vibration_enabled p, st_message_preview_enabled = usp_message_preview_enabled p, st_friend_verify_required = usp_friend_verify_required p,
     st_search_by_phone = usp_search_by_phone p, st_search_by_id = usp_search_by_id p, st_language = usp_language p\<rparr>"

definition toUserQRCode :: "user_qrcode_payload \<Rightarrow> user_qrcode" where
  "toUserQRCode p = \<lparr>uq_qrcode_url = uqp_qrcode_url p, uq_expires_at_ms = parseTimestampMs (uqp_expires_at p)\<rparr>"

definition toBindPhoneResult :: "bind_phone_payload \<Rightarrow> bind_phone_result" where
  "toBindPhoneResult p = \<lparr>bpr_phone_number = bpp_phone_number p, bpr_is_primary = bpp_is_primary p\<rparr>"

definition toChangePhoneResult :: "change_phone_payload \<Rightarrow> change_phone_result" where
  "toChangePhoneResult p = \<lparr>cpr_old_phone_number = cpp_old_phone_number p, cpr_new_phone_number = cpp_new_phone_number p\<rparr>"

definition toBindEmailResult :: "bind_email_payload \<Rightarrow> bind_email_result" where
  "toBindEmailResult p = \<lparr>ber_email = bep_email p, ber_is_primary = bep_is_primary p\<rparr>"

definition toChangeEmailResult :: "change_email_payload \<Rightarrow> change_email_result" where
  "toChangeEmailResult p = \<lparr>cer_old_email = cep_old_email p, cer_new_email = cep_new_email p\<rparr>"

section \<open>Operations\<close>

definition some_if :: "string \<Rightarrow> string option" where
  "some_if text = (if text = [] then None else Some text)"

definition server_call :: "(string \<Rightarrow> string + 'a envelope) \<Rightarrow> ('a \<Rightarrow> 'b) \<Rightarrow> 'b callback \<Rightarrow> http_response \<Rightarrow> client_act" where
  "server_call read conv cb resp = on_envelope read resp ''server error'' False cb (\<lambda>data. succeed cb (conv data))"

definition getProfile :: "user_json \<Rightarrow> user_profile callback \<Rightarrow> client_act" where
  "getProfile J cb = http_get ''/users/me'' (server_call (r_profile J) toUserProfile cb)"

definition profile_request :: "user_profile \<Rightarrow> update_profile_request" where
  "profile_request p = \<lparr>upr_nickname = some_if (up_nickname p), upr_avatar = some_if (up_avatar_url p),
     upr_signature = some_if (up_signature p), upr_region = some_if (up_region p),
     upr_gender = if up_gender p \<noteq> 0 then Some (up_gender p) else None,
     upr_birthday = if up_birthday_ms p > 0 then some_if (formatIso8601Utc (up_birthday_ms p)) else None\<rparr>"

definition updateProfile :: "user_json \<Rightarrow> user_profile \<Rightarrow> user_profile callback \<Rightarrow> client_act" where
  "updateProfile J profile cb = with_json (w_profile J (profile_request profile)) cb (\<lambda>json.
     http_put ''/users/me'' json (server_call (r_profile J) toUserProfile cb))"

definition getSettings :: "user_json \<Rightarrow> user_settings callback \<Rightarrow> client_act" where
  "getSettings J cb = http_get ''/users/me/settings'' (server_call (r_settings J) toUserSettings cb)"

definition updateSettings :: "user_json \<Rightarrow> user_settings \<Rightarrow> user_settings callback \<Rightarrow> client_act" where
  "updateSettings J st cb = with_json (w_settings J
       \<lparr>usq_notification_enabled = st_notification_enabled st, usq_sound_enabled = st_sound_enabled st,
        usq_vibration_enabled = st_vibration_enabled st, usq_message_preview_enabled = st_message_preview_enabled st,
        usq_friend_verify_required = st_friend_verify_required st, usq_search_by_phone = st_search_by_phone st,
        usq_search_by_id = st_search_by_id st, usq_language = some_if (st_language st)\<rparr>) cb (\<lambda>json.
     http_put ''/users/me/settings'' json (server_call (r_settings J) toUserSettings cb))"

definition updatePushToken_for :: "user_json \<Rightarrow> string \<Rightarrow> int \<Rightarrow> string \<Rightarrow> unit callback \<Rightarrow> client_act" where
  "updatePushToken_for J push_token platform dev cb =
     (if \<not> isValidPushPlatform platform then fail cb (- 1) ''invalid platform''
      else with_json (w_push_token J \<lparr>ptr_push_token = push_token, ptr_platform = platform,
                                      ptr_device_id = some_if dev\<rparr>) cb (\<lambda>json.
        http_post ''/users/me/push-token'' json (server_call (r_user_void J) id cb)))"

definition updatePushToken :: "user_json \<Rightarrow> string \<Rightarrow> int \<Rightarrow> unit callback \<Rightarrow> client_act" where
  "updatePushToken J push_token platform cb =
     reading (\<lambda>s. updatePushToken_for J push_token platform (device_id s) cb)"

definition searchUsers :: "user_json \<Rightarrow> string \<Rightarrow> int \<Rightarrow> int \<Rightarrow> user_search_result callback \<Rightarrow> client_act" where
  "searchUsers J keyword page page_size cb =
     http_get (''/users/search?keyword='' @ urlEncode keyword @ ''&page='' @ to_string page @
         ''&page_size='' @ to_string page_size)
       (server_call (r_search_users J)
          (\<lambda>d. \<lparr>usr_users = map user_of_data (su_users d), usr_total = su_total d\<rparr>) cb)"

definition getUserInfo :: "user_json \<Rightarrow> string \<Rightarrow> user_info callback \<Rightarrow> client_act" where
  "getUserInfo J user_id cb = http_get (''/users/'' @ user_id) (server_call (r_user_info J) user_of_data cb)"

definition bindPhone :: "user_json \<Rightarrow> string \<Rightarrow> string \<Rightarrow> bind_phone_result callback \<Rightarrow> client_act" where
  "bindPhone J phone_number verify_code cb =
     with_json (w_bind_phone J \<lparr>bph_phone_number = phone_number, bph_verify_code = verify_code\<rparr>) cb (\<lambda>json.
       http_post ''/users/me/phone/bind'' json (server_call (r_bind_phone J) toBindPhoneResult cb))"

definition changePhone ::
  "user_json \<Rightarrow> string \<Rightarrow> string \<Rightarrow> string \<Rightarrow> string \<Rightarrow> change_phone_result callback \<Rightarrow> client_act" where
  "changePhone J old_phone new_phone new_code old_code cb = reading (\<lambda>s.
     with_json (w_change_phone J
         \<lparr>chp_old_phone_number = old_phone, chp_new_phone_number = new_phone, chp_new_verify_code = new_code,
          chp_old_verify_code = some_if old_code, chp_device_id = some_if (device_id s)\<rparr>) cb (\<lambda>json.
       http_post ''/users/me/phone/change'' json (server_call (r_change_phone J) toChangePhoneResult cb)))"

definition bindEmail :: "user_json \<Rightarrow> string \<Rightarrow> string \<Rightarrow> bind_email_result callback \<Rightarrow> client_act" where
  "bindEmail J email verify_code cb =
     with_json (w_bind_email J \<lparr>bem_email = email, bem_verify_code = verify_code\<rparr>) cb (\<lambda>json.
       http_post ''/users/me/email/bind'' json (server_call (r_bind_email J) toBindEmailResult cb))"

definition changeEmail ::
  "user_json \<Rightarrow> string \<Rightarrow> string \<Rightarrow> string \<Rightarrow> string \<Rightarrow> change_email_result callback \<Rightarrow> client_act" where
  "changeEmail J old_email new_email new_code old_code cb = reading (\<lambda>s.
     with_json (w_change_email J
         \<lparr>che_old_email = old_email, che_new_email = new_email, che_new_verify_code = new_code,
          che_old_verify_code = some_if old_code, che_device_id = some_if (device_id s)\<rparr>) cb (\<lambda>json.
       http_post ''/users/me/email/change'' json (server_call (r_change_email J) toChangeEmailResult cb)))"

definition refreshUserQRCode :: "user_json \<Rightarrow> user_qrcode callback \<Rightarrow> client_act" where
  "refreshUserQRCode J cb =
     http_post ''/users/me/qrcode/refresh'' empty_object (server_call (r_user_qrcode J) toUserQRCode cb)"

definition getUserByQRCode :: "user_json \<Rightarrow> string \<Rightarrow> user_info callback \<Rightarrow> client_act" where
  "getUserByQRCode J qrcode cb =
     http_get (''/users/qrcode?qrcode='' @ urlEncode qrcode) (server_call (r_user_info J) user_of_data cb)"

definition user_setListener :: "bool \<Rightarrow> client_act" where
  "user_setListener l = modify (\<lambda>s. s\<lparr>user_listener := l\<rparr>)"

definition handleUserNotification :: "user_json \<Rightarrow> notification_event \<Rightarrow> client_act" where
  "handleUserNotification J ev = reading (\<lambda>s.
     let type = notification_type ev in
     if type = ''user.profile_updated''
     then act_if (user_listener s) (emit (ProfileUpdated (parseNotificationUserInfo J (ev_data ev))))
     else if type = ''user.friend_profile_changed''
     then act_if (user_listener s) (emit (FriendProfileChanged (parseNotificationUserInfo J (ev_data ev))))
     else act_if (type = ''user.status_changed'' \<and> user_listener s)
            (emit (UserStatusChanged (parseNotificationStatusEvent J (ev_data ev)))))"

section \<open>Invariant and answers\<close>

lemma keeps_server_call [keeps_intro]: "cb_keeps (client_inv X) cb \<Longrightarrow> keeps (client_inv X) (server_call rd f cb resp)"
  unfolding server_call_def by (intro keeps_intro; assumption)+

lemma keeps_updatePushToken_for [keeps_intro]:
  "cb_keeps (client_inv X) cb \<Longrightarrow> keeps (client_inv X) (updatePushToken_for J tok k dev cb)"
  unfolding updatePushToken_for_def by (intro keeps_intro; assumption)+

lemma keeps_user_ops:
  "cb_keeps (client_inv X) pcb \<Longrightarrow> keeps (client_inv X) (getProfile J pcb)"
  "cb_keeps (client_inv X) pcb \<Longrightarrow> keeps (client_inv X) (updateProfile J pr pcb)"
  "cb_keeps (client_inv X) scb \<Longrightarrow> keeps (client_inv X) (getSettings J scb)"
  "cb_keeps (client_inv X) scb \<Longrightarrow> keeps (client_inv X) (updateSettings J st scb)"
  "cb_keeps (client_inv X) cb \<Longrightarrow> keeps (client_inv X) (updatePushToken J tok k cb)"
  "cb_keeps (client_inv X) rcb \<Longrightarrow> keeps (client_inv X) (searchUsers J kw p k rcb)"
  "cb_keeps (client_inv X) ucb \<Longrightarrow> keeps (client_inv X) (getUserInfo J uid ucb)"
  "cb_keeps (client_inv X) bpcb \<Longrightarrow> keeps (client_inv X) (bindPhone J a b bpcb)"
  "cb_keeps (client_inv X) cpcb \<Longrightarrow> keeps (client_inv X) (changePhone J a b c d cpcb)"
  "cb_keeps (client_inv X) becb \<Longrightarrow> keeps (client_inv X) (bindEmail J a b becb)"
  "cb_keeps (client_inv X) cecb \<Longrightarrow> keeps (client_inv X) (changeEmail J a b c d cecb)"
  "cb_keeps (client_inv X) qcb \<Longrightarrow> keeps (client_inv X) (refreshUserQRCode J qcb)"
  "cb_keeps (client_inv X) ucb \<Longrightarrow> keeps (client_inv X) (getUserByQRCode J a ucb)"
  unfolding getProfile_def updateProfile_def getSettings_def updateSettings_def updatePushToken_def searchUsers_def
    getUserInfo_def bindPhone_def changePhone_def bindEmail_def changeEmail_def refreshUserQRCode_def getUserByQRCode_def
  by (intro keeps_intro; assumption)+

lemma keeps_user_notification [keeps_intro]: "keeps (client_inv X) (handleUserNotification J ev)"
  unfolding handleUserNotification_def Let_def by (intro keeps_intro)

lemma answers_server_call [answers_intro]: "cb_answers i n cb \<Longrightarrow> answers (about i) n (server_call rd f cb resp)"
  unfolding server_call_def by (intro answers_intro; assumption)+

lemma answers_updatePushToken_for [answers_intro]:
  "cb_answers i n cb \<Longrightarrow> answers (about i) n (updatePushToken_for J tok k dev cb)"
  unfolding updatePushToken_for_def by (intro answers_intro; assumption)+

lemma answers_user_ops:
  "cb_answers i n pcb \<Longrightarrow> answers (about i) n (getProfile J pcb)"
  "cb_answers i n pcb \<Longrightarrow> answers (about i) n (updateProfile J pr pcb)"
  "cb_answers i n scb \<Longrightarrow> answers (about i) n (getSettings J scb)"
  "cb_answers i n scb \<Longrightarrow> answers (about i) n (updateSettings J st scb)"
  "cb_answers i n cb \<Longrightarrow> answers (about i) n (updatePushToken J tok k cb)"
  "cb_answers i n rcb \<Longrightarrow> answers (about i) n (searchUsers J kw p k rcb)"
  "cb_answers i n ucb \<Longrightarrow> answers (about i) n (getUserInfo J uid ucb)"
  "cb_answers i n bpcb \<Longrightarrow> answers (about i) n (bindPhone J a b bpcb)"
  "cb_answers i n cpcb \<Longrightarrow> answers (about i) n (changePhone J a b c d cpcb)"
  "cb_answers i n becb \<Longrightarrow> answers (about i) n (bindEmail J a b becb)"
  "cb_answers i n cecb \<Longrightarrow> answers (about i) n (changeEmail J a b c d cecb)"
  "cb_answers i n qcb \<Longrightarrow> answers (about i) n (refreshUserQRCode J qcb)"
  "cb_answers i n ucb \<Longrightarrow> answers (about i) n (getUserByQRCode J a ucb)"
  unfolding getProfile_def updateProfile_def getSettings_def updateSettings_def updatePushToken_def searchUsers_def
    getUserInfo_def bindPhone_def changePhone_def bindEmail_def changeEmail_def refreshUserQRCode_def getUserByQRCode_def
  by (intro answers_intro; assumption)+

lemma answers_user_notification [answers_intro]: "answers (about i) 0 (handleUserNotification J ev)"
  unfolding handleUserNotification_def Let_def by (intro answers_intro about_simps)

end
