(* ===== verification/VersionManager.thy ===== *)
theory VersionManager
  imports ClientState UrlEncode
begin

text \<open>
  \<open>VersionManagerImpl\<close> (core/src/version_manager.cpp): version check, latest version, list and
  report. JSON readers and writers are the fields of \<open>version_json\<close>. \<open>VersionUpdatePayload\<close>
  has the fields of \<open>VersionUpdateInfo\<close> and is copied (\<open>toUpdateInfo\<close>).
\<close>

record version_check_payload =
  vcp_has_update :: bool
  vcp_latest_version :: string
  vcp_latest_build_number :: int
  vcp_force_update :: bool
  vcp_min_version :: string
  vcp_min_build_number :: int
  vcp_update_info :: "version_update_info option"

record version_info_payload =
  vip_id :: int
  vip_platform :: int
  vip_version :: string
  vip_build_number :: int
  vip_version_code :: int
  vip_min_version :: string
  vip_min_build_number :: int
  vip_force_update :: bool
  vip_release_type :: int
  vip_title :: string
  vip_content :: string
  vip_download_url :: string
  vip_file_size :: int
  vip_file_hash :: string
  vip_published_at :: "timestamp_value option"

record version_list_payload =
  vlp_total :: int
  vlp_versions :: "version_info_payload list option"

record report_version_request =
  rvr_platform :: int
  rvr_version :: string
  rvr_build_number :: "int option"
  rvr_device_id :: "string option"
  rvr_os_version :: "string option"
  rvr_sdk_version :: "string option"

record version_json =
  w_report :: "report_version_request \<Rightarrow> string + string"
  r_version_void :: "string \<Rightarrow> string + unit envelope"
  r_version_check :: "string \<Rightarrow> string + version_check_payload envelope"
  r_latest_version :: "string \<Rightarrow> string + version_info_payload option envelope"
  r_version_list :: "string \<Rightarrow> string + version_list_payload envelope"

definition isValidRequiredPlatform :: "int \<Rightarrow> bool" where
  "isValidRequiredPlatform platform \<longleftrightarrow> platform \<ge> 1 \<and> platform \<le> 5"

definition isValidLatestReleaseType :: "int \<Rightarrow> bool" where
  "isValidLatestReleaseType release_type \<longleftrightarrow> release_type \<ge> 1 \<and> release_type \<le> 3"

definition isValidListReleaseType :: "int \<Rightarrow> bool" where
  "isValidListReleaseType release_type \<longleftrightarrow> release_type \<ge> 0 \<and> release_type \<le> 3"

definition toCheckResult :: "version_check_payload \<Rightarrow> version_check_result" where
  "toCheckResult p = \<lparr>vcr_has_update = vcp_has_update p, vcr_latest_version = vcp_latest_version p,
     vcr_latest_build_number = vcp_latest_build_number p, vcr_force_update = vcp_force_update p,
     vcr_min_version = vcp_min_version p, vcr_min_build_number = vcp_min_build_number p,
     vcr_update_info = (case vcp_update_info p of None \<Rightarrow> new_version_update_info | Some i \<Rightarrow> i)\<rparr>"

definition toVersionInfo :: "version_info_payload \<Rightarrow> app_version_info" where
  "toVersionInfo p = \<lparr>av_id = vip_id p, av_platform = vip_platform p, av_version = vip_version p,
     av_build_number = vip_build_number p, av_version_code = vip_version_code p,
     av_min_version = vip_min_version p, av_min_build_number = vip_min_build_number p,
     av_force_update = vip_force_update p, av_release_type = vip_release_type p, av_title = vip_title p,
     av_content = vip_content p, av_download_url = vip_download_url p, av_file_size = vip_file_size p,
     av_file_hash = vip_file_hash p, av_published_at_ms = parseTimestampMs (vip_published_at p)\<rparr>"

definition checkVersion :: "version_json \<Rightarrow> int \<Rightarrow> string \<Rightarrow> int \<Rightarrow> version_check_result callback \<Rightarrow> client_act" where
  "checkVersion J platform version build_number cb =
     (if \<not> isValidRequiredPlatform platform \<or> version = [] then fail cb (- 1) ''platform and version are required''
      else http_get (''/versions/check?platform='' @ to_string platform @ ''&version='' @ urlEncode version @
             (if build_number > 0 then ''&build_number='' @ to_string build_number else [])) (\<lambda>resp.
        on_envelope (r_version_check J) resp ''server error'' False cb (\<lambda>data. succeed cb (toCheckResult data))))"

definition getLatestVersion :: "version_json \<Rightarrow> int \<Rightarrow> int \<Rightarrow> app_version_info callback \<Rightarrow> client_act" where
  "getLatestVersion J platform release_type cb =
     (if \<not> isValidRequiredPlatform platform \<or> \<not> isValidLatestReleaseType release_type
      then fail cb (- 1) ''invalid platform or release_type''
      else http_get (''/versions/latest?platform='' @ to_string platform @ ''&release_type='' @ to_string release_type)
        (\<lambda>resp. on_envelope (r_latest_version J) resp ''server error'' False cb (\<lambda>data.
           case data of None \<Rightarrow> fail cb (- 1) ''missing version'' | Some v \<Rightarrow> succeed cb (toVersionInfo v))))"

definition listVersions :: "version_json \<Rightarrow> int \<Rightarrow> int \<Rightarrow> int \<Rightarrow> int \<Rightarrow> version_list_result callback \<Rightarrow> client_act" where
  "listVersions J platform release_type page0 page_size0 cb =
     (if \<not> isValidRequiredPlatform platform \<or> \<not> isValidListReleaseType release_type
      then fail cb (- 1) ''invalid platform or release_type''
      else
        let page = (if page0 < 1 then 1 else page0); page_size = (if page_size0 < 1 then 20 else page_size0)
        in http_get (''/versions/list?page='' @ to_string page @ ''&page_size='' @ to_string page_size @
               ''&platform='' @ to_string platform @ ''&release_type='' @ to_string release_type) (\<lambda>resp.
             on_envelope (r_version_list J) resp ''server error'' False cb (\<lambda>data.
               succeed cb \<lparr>vlr_versions = map toVersionInfo (case vlp_versions data of None \<Rightarrow> [] | Some ps \<Rightarrow> ps),
                           vlr_total = vlp_total data, vlr_page = page, vlr_page_size = page_size\<rparr>)))"

definition reportVersion ::
  "version_json \<Rightarrow> int \<Rightarrow> string \<Rightarrow> int \<Rightarrow> string \<Rightarrow> string \<Rightarrow> string \<Rightarrow> unit callback \<Rightarrow> client_act" where
  "reportVersion J platform version build_number dev os sdk cb =
     (if \<not> isValidRequiredPlatform platform \<or> version = [] then fail cb (- 1) ''platform and version are required''
      else with_json (w_report J \<lparr>rvr_platform = platform, rvr_version = version,
               rvr_build_number = if build_number > 0 then Some build_number else None,
               rvr_device_id = if dev \<noteq> [] then Some dev else None, rvr_os_version = if os \<noteq> [] then Some os else None,
               rvr_sdk_version = if sdk \<noteq> [] then Some sdk else None\<rparr>) cb (\<lambda>json.
        http_post ''/versions/report'' json (\<lambda>resp.
          on_envelope (r_version_void J) resp ''server error'' False cb (\<lambda>_. succeed cb ()))))"

lemma keeps_version_ops:
  "cb_keeps (client_inv X) ccb \<Longrightarrow> keeps (client_inv X) (checkVersion J p v k ccb)"
  "cb_keeps (client_inv X) acb \<Longrightarrow> keeps (client_inv X) (getLatestVersion J p r acb)"
  "cb_keeps (client_inv X) lcb \<Longrightarrow> keeps (client_inv X) (listVersions J p r k k' lcb)"
  "cb_keeps (client_inv X) cb \<Longrightarrow> keeps (client_inv X) (reportVersion J p v k a b c cb)"
  unfolding checkVersion_def getLatestVersion_def listVersions_def reportVersion_def Let_def
  by (intro keeps_intro; assumption)+

lemma answers_version_ops:
  "cb_answers i n ccb \<Longrightarrow> answers (about i) n (checkVersion J p v k ccb)"
  "cb_answers i n acb \<Longrightarrow> answers (about i) n (getLatestVersion J p r acb)"
  "cb_answers i n lcb \<Longrightarrow> answers (about i) n (listVersions J p r k k' lcb)"
  "cb_answers i n cb \<Longrightarrow> answers (about i) n (reportVersion J p v k a b c cb)"
  unfolding checkVersion_def getLatestVersion_def listVersions_def reportVersion_def Let_def
  by (intro answers_intro; assumption)+

end
