(* ===== verification/FileManager.thy ===== *)
theory FileManager
  imports NotificationManager
begin

text \<open>
  \<open>FileManagerImpl\<close> (core/src/file_manager.cpp): uploads in three requests (token, PUT of the
  bytes, completion), downloads, listing and deletion. The file system is the argument
  \<open>fs\<close>: what \<open>std::ifstream\<close> finds under a path. JSON readers and writers are the fields of
  \<open>file_json\<close>. \<open>prog\<close> is the progress callback, if any.
\<close>

record upload_token_request =
  utr_file_name :: string
  utr_file_type :: int
  utr_file_size :: int
  utr_mime_type :: string

record upload_log_init_request =
  ulr_file_name :: string
  ulr_file_size :: int
  ulr_expires_hours :: int

record upload_token_payload =
  utp_file_id :: string
  utp_upload_url :: string

record file_info_payload =
  fip_file_id :: string
  fip_file_name :: string
  fip_file_type :: "integer_value option"
  fip_file_size :: "integer_value option"
  fip_mime_type :: string
  fip_download_url :: string
  fip_created_at :: "timestamp_value option"

record file_list_payload =
  flp_files :: "file_info_payload list option"
  flp_total :: "integer_value option"

datatype file_read = CannotOpen | ReadFailed | FileBytes string

type_synonym file_system = "string \<Rightarrow> file_read"

text \<open>\<open>FileInfoDataValue\<close> is a payload or nothing: an option. \<open>DownloadUrlPayload\<close> and
  \<open>DeleteFilePayload\<close> have one field.\<close>

record file_json =
  w_upload_token :: "upload_token_request \<Rightarrow> string + string"
  w_log_init :: "upload_log_init_request \<Rightarrow> string + string"
  w_log_complete :: "string \<Rightarrow> string + string"
  r_upload_token :: "string \<Rightarrow> string + upload_token_payload envelope"
  r_file :: "string \<Rightarrow> string + file_info_payload option envelope"
  r_files :: "string \<Rightarrow> string + file_list_payload envelope"
  r_download_url :: "string \<Rightarrow> string + string envelope"
  r_delete_file :: "string \<Rightarrow> string + bool_value option envelope"

definition kFileTypeUnspecified :: int where "kFileTypeUnspecified = 0"
definition kFileTypeLog :: int where "kFileTypeLog = 5"

definition normalizeFileType :: "int \<Rightarrow> int \<Rightarrow> int" where
  "normalizeFileType file_type fallback = (if 1 \<le> file_type \<and> file_type \<le> kFileTypeLog then file_type else fallback)"

text \<open>The part after the last slash.\<close>

definition extractFileName :: "string \<Rightarrow> string" where
  "extractFileName local_path = rev (takeWhile (\<lambda>c. c \<noteq> CHR ''/'') (rev local_path))"

definition readFileBytes :: "file_system \<Rightarrow> string \<Rightarrow> string + string" where
  "readFileBytes fs local_path = (case fs local_path of
     CannotOpen \<Rightarrow> Inl (''cannot open file: '' @ local_path)
   | ReadFailed \<Rightarrow> Inl (''read file failed: '' @ local_path)
   | FileBytes bytes \<Rightarrow> if bytes = [] then Inl (''file is empty: '' @ local_path) else Inr bytes)"

text \<open>\<open>parseTypedDataResponse\<close> asks for a 2xx status instead of 200.\<close>

definition on_typed_data ::
  "(string \<Rightarrow> string + 'a envelope) \<Rightarrow> http_response \<Rightarrow> string \<Rightarrow> 'v callback \<Rightarrow> ('a \<Rightarrow> client_act) \<Rightarrow> client_act" where
  "on_typed_data read resp fallback cb k =
     (case parseApiEnvelopeResponse read resp fallback False True of
        Inl e \<Rightarrow> fail cb (fst e) (snd e)
      | Inr data \<Rightarrow> k data)"

definition parseFileInfoPayload :: "file_info_payload \<Rightarrow> file_info" where
  "parseFileInfoPayload p = \<lparr>fi_file_id = fip_file_id p, fi_file_name = fip_file_name p,
     fi_file_type = normalizeFileType (parseInt32Value (fip_file_type p) kFileTypeUnspecified) kFileTypeUnspecified,
     fi_file_size_bytes = parseInt64Value (fip_file_size p) 0, fi_mime_type = fip_mime_type p,
     fi_download_url = fip_download_url p, fi_created_at_ms = parseTimestampMs (fip_created_at p)\<rparr>"

definition parseFileInfoData :: "file_info_payload option \<Rightarrow> file_info" where
  "parseFileInfoData d = (case d of None \<Rightarrow> new_file_info | Some p \<Rightarrow> parseFileInfoPayload p)"

definition file_for :: "string \<Rightarrow> file_info_payload option \<Rightarrow> file_info" where
  "file_for file_id d = (let info = parseFileInfoData d
     in if fi_file_id info = [] then info\<lparr>fi_file_id := file_id\<rparr> else info)"

type_synonym progress_callback = "(int \<Rightarrow> int \<Rightarrow> client_act) option"

definition progress :: "progress_callback \<Rightarrow> int \<Rightarrow> int \<Rightarrow> client_act" where
  "progress prog sent tot = (case prog of None \<Rightarrow> skip | Some f \<Rightarrow> f sent tot)"

definition user_progress :: "nat \<Rightarrow> progress_callback" where
  "user_progress i = Some (\<lambda>sent tot. emit (UploadProgress i sent tot))"

text \<open>A progress callback only reports.\<close>

definition only_reports :: "progress_callback \<Rightarrow> bool" where
  "only_reports prog \<longleftrightarrow> (\<forall>I sent tot. keeps I (progress prog sent tot)) \<and> (\<forall>i sent tot. answers (about i) 0 (progress prog sent tot))"

text \<open>The middle of both uploads, from the answer to the first request on: the bytes go to
  the URL the server named, then \<open>complete\<close> is sent.\<close>

definition upload_steps :: "file_json \<Rightarrow> string \<Rightarrow> progress_callback \<Rightarrow> file_info callback \<Rightarrow> string \<Rightarrow> string \<Rightarrow> string
   \<Rightarrow> (string \<Rightarrow> client_act) \<Rightarrow> http_response \<Rightarrow> client_act" where
  "upload_steps J bytes prog cb fallback missing put_failed k resp =
     on_typed_data (r_upload_token J) resp fallback cb (\<lambda>tok.
       if utp_file_id tok = [] \<or> utp_upload_url tok = [] then fail cb (- 1) missing
       else perform [progress prog 0 (int (length bytes)),
         http_put (utp_upload_url tok) bytes (\<lambda>put_resp.
           if resp_error put_resp \<noteq> [] then fail cb (- 1) (resp_error put_resp)
           else if status_code put_resp < 200 \<or> status_code put_resp \<ge> 300
           then fail cb (- 1) (put_failed @ body put_resp)
           else perform [progress prog (int (length bytes)) (int (length bytes)), k (utp_file_id tok)])])"

definition upload :: "file_json \<Rightarrow> file_system \<Rightarrow> string \<Rightarrow> int \<Rightarrow> progress_callback \<Rightarrow> file_info callback \<Rightarrow> client_act" where
  "upload J fs local_path file_type prog cb = (case readFileBytes fs local_path of
     Inl read_err \<Rightarrow> fail cb (- 1) read_err
   | Inr bytes \<Rightarrow> with_json (w_upload_token J
         \<lparr>utr_file_name = extractFileName local_path, utr_file_type = normalizeFileType file_type kFileTypeUnspecified,
          utr_file_size = int (length bytes), utr_mime_type = ''application/octet-stream''\<rparr>) cb (\<lambda>json.
       http_post ''/files/upload-token'' json (upload_steps J bytes prog cb ''upload-token failed''
         ''upload-token response missing file id or upload url'' ''upload PUT failed: '' (\<lambda>file_id.
           http_post (''/files/'' @ file_id @ ''/complete'') empty_object (\<lambda>complete_resp.
             on_typed_data (r_file J) complete_resp ''complete failed'' cb (\<lambda>data.
               succeed cb (file_for file_id data)))))))"

definition uploadClientLog :: "file_json \<Rightarrow> file_system \<Rightarrow> string \<Rightarrow> progress_callback \<Rightarrow> file_info callback \<Rightarrow> int \<Rightarrow> client_act" where
  "uploadClientLog J fs local_path prog cb expires_hours = (case readFileBytes fs local_path of
     Inl read_err \<Rightarrow> fail cb (- 1) read_err
   | Inr bytes \<Rightarrow> with_json (w_log_init J
         \<lparr>ulr_file_name = extractFileName local_path, ulr_file_size = int (length bytes),
          ulr_expires_hours = if expires_hours < 0 then 0 else expires_hours\<rparr>) cb (\<lambda>json.
       http_post ''/logs/upload'' json (upload_steps J bytes prog cb ''log upload init failed''
         ''log upload init response missing file id or upload url'' ''log upload PUT failed: '' (\<lambda>file_id.
           with_json (w_log_complete J file_id) cb (\<lambda>complete_json.
             http_post ''/logs/complete'' complete_json (\<lambda>complete_resp.
               on_typed_data (r_file J) complete_resp ''log upload complete failed'' cb (\<lambda>data.
                 let info = file_for file_id data
                 in succeed cb (if fi_file_type info = kFileTypeUnspecified
                      then info\<lparr>fi_file_type := kFileTypeLog\<rparr> else info))))))))"

definition getDownloadUrl :: "file_json \<Rightarrow> string \<Rightarrow> string callback \<Rightarrow> client_act" where
  "getDownloadUrl J file_id cb = http_get (''/files/'' @ file_id @ ''/download'') (\<lambda>resp.
     on_typed_data (r_download_url J) resp ''getDownloadUrl failed'' cb (\<lambda>url.
       if url = [] then fail cb (- 1) ''download url missing in response'' else succeed cb url))"

definition getFileInfo :: "file_json \<Rightarrow> string \<Rightarrow> file_info callback \<Rightarrow> client_act" where
  "getFileInfo J file_id cb = http_get (''/files/'' @ file_id) (\<lambda>resp.
     on_typed_data (r_file J) resp ''getFileInfo failed'' cb (\<lambda>data. succeed cb (file_for file_id data)))"

definition listFiles :: "file_json \<Rightarrow> int \<Rightarrow> int \<Rightarrow> int \<Rightarrow> file_list_result callback \<Rightarrow> client_act" where
  "listFiles J file_type page page_size cb =
     (let safe_page = (if page > 0 then page else 1);
          safe_page_size = (if page_size > 0 then page_size else 20);
          normalized = normalizeFileType file_type kFileTypeUnspecified
      in http_get (''/files?page='' @ to_string safe_page @ ''&page_size='' @ to_string safe_page_size @
             (if normalized \<noteq> kFileTypeUnspecified then ''&file_type='' @ to_string normalized else [])) (\<lambda>resp.
           on_typed_data (r_files J) resp ''listFiles failed'' cb (\<lambda>data.
             let files = map parseFileInfoPayload (case flp_files data of None \<Rightarrow> [] | Some ps \<Rightarrow> ps);
                 tot = parseInt64Value (flp_total data) 0
             in succeed cb \<lparr>flr_files = files,
                  flr_total = if tot = 0 \<and> files \<noteq> [] then int (length files) else tot,
                  flr_page = safe_page, flr_page_size = safe_page_size\<rparr>)))"

definition deleteFile :: "file_json \<Rightarrow> string \<Rightarrow> unit callback \<Rightarrow> client_act" where
  "deleteFile J file_id cb = http_del (''/files/'' @ file_id) (\<lambda>resp.
     on_typed_data (r_delete_file J) resp ''deleteFile failed'' cb (\<lambda>success.
       if success \<noteq> None \<and> \<not> parseBoolValue success True then fail cb (- 1) ''deleteFile failed'' else succeed cb ()))"

lemma keeps_on_typed_data [keeps_intro]:
  "cb_keeps (client_inv X) cb \<Longrightarrow> (\<And>d. keeps (client_inv X) (k d)) \<Longrightarrow> keeps (client_inv X) (on_typed_data rd resp fb cb k)"
  unfolding on_typed_data_def by (intro keeps_intro)

lemma only_reports_user [simp]: "only_reports (user_progress i)" "only_reports None"
  by (auto simp: only_reports_def progress_def user_progress_def intro: answers_intro)

lemma keeps_progress [keeps_intro]: "only_reports prog \<Longrightarrow> keeps I (progress prog a b)"
  by (simp add: only_reports_def)

lemma keeps_upload_steps [keeps_intro]:
  "only_reports prog \<Longrightarrow> cb_keeps (client_inv X) cb \<Longrightarrow> (\<And>fid. keeps (client_inv X) (k fid)) \<Longrightarrow>
   keeps (client_inv X) (upload_steps J bytes prog cb fb ms pf k resp)"
  unfolding upload_steps_def by (intro keeps_intro)

lemma keeps_file_ops:
  "only_reports prog \<Longrightarrow> cb_keeps (client_inv X) fcb \<Longrightarrow> keeps (client_inv X) (upload J fs pth k prog fcb)"
  "only_reports prog \<Longrightarrow> cb_keeps (client_inv X) fcb \<Longrightarrow> keeps (client_inv X) (uploadClientLog J fs pth prog fcb k)"
  "cb_keeps (client_inv X) ucb \<Longrightarrow> keeps (client_inv X) (getDownloadUrl J fid ucb)"
  "cb_keeps (client_inv X) fcb \<Longrightarrow> keeps (client_inv X) (getFileInfo J fid fcb)"
  "cb_keeps (client_inv X) lcb \<Longrightarrow> keeps (client_inv X) (listFiles J k p q lcb)"
  "cb_keeps (client_inv X) cb \<Longrightarrow> keeps (client_inv X) (deleteFile J fid cb)"
  unfolding upload_def uploadClientLog_def getDownloadUrl_def getFileInfo_def listFiles_def deleteFile_def Let_def
  by (intro keeps_intro; assumption)+

lemma answers_on_typed_data [answers_intro]:
  "cb_answers i n cb \<Longrightarrow> (\<And>d. answers (about i) n (k d)) \<Longrightarrow> answers (about i) n (on_typed_data rd resp fb cb k)"
  unfolding on_typed_data_def by (intro answers_intro)

lemma answers_progress [answers_intro]: "only_reports prog \<Longrightarrow> answers (about i) 0 (progress prog a b)"
  by (simp add: only_reports_def)

lemma answers_upload_steps [answers_intro]:
  "only_reports prog \<Longrightarrow> cb_answers i n cb \<Longrightarrow> (\<And>fid. answers (about i) n (k fid)) \<Longrightarrow>
   answers (about i) n (upload_steps J bytes prog cb fb ms pf k resp)"
  unfolding upload_steps_def by (intro answers_intro)

lemma answers_file_ops:
  "only_reports prog \<Longrightarrow> cb_answers i n fcb \<Longrightarrow> answers (about i) n (upload J fs pth k prog fcb)"
  "only_reports prog \<Longrightarrow> cb_answers i n fcb \<Longrightarrow> answers (about i) n (uploadClientLog J fs pth prog fcb k)"
  "cb_answers i n ucb \<Longrightarrow> answers (about i) n (getDownloadUrl J fid ucb)"
  "cb_answers i n fcb \<Longrightarrow> answers (about i) n (getFileInfo J fid fcb)"
  "cb_answers i n lcb \<Longrightarrow> answers (about i) n (listFiles J k p q lcb)"
  "cb_answers i n cb \<Longrightarrow> answers (about i) n (deleteFile J fid cb)"
  unfolding upload_def uploadClientLog_def getDownloadUrl_def getFileInfo_def listFiles_def deleteFile_def Let_def
  by (intro answers_intro; assumption)+

end
