(* ===== verification/DbWorker.thy ===== *)
theory DbWorker
  imports Database
begin

text \<open>
  The worker thread of the database (\<open>struct Database::Impl\<close> in core/src/db/database.cpp)
  and the public operations on top of its task queue. The managers are modelled over a
  \<open>connection\<close> on which every statement executes at once; the refinement here is what makes
  that sound: the queue is first in first out, so what a blocking call sees is the
  connection after every statement posted before it, whatever the worker has done so far.
\<close>

section \<open>A queue served by one thread\<close>

text \<open>\<open>view\<close> is the state once everything posted so far has run.\<close>

datatype 't sched = Post 't | Work

fun posts :: "'t sched list \<Rightarrow> 't list" where
  "posts [] = []"
| "posts (Post t # es) = t # posts es"
| "posts (Work # es) = posts es"

locale serial_service =
  fixes post :: "'t \<Rightarrow> 'w \<Rightarrow> 'w"
    and work :: "'w \<Rightarrow> 'w"
    and view :: "'w \<Rightarrow> 'v"
    and effect :: "'t \<Rightarrow> 'v \<Rightarrow> 'v"
  assumes view_post: "view (post t w) = effect t (view w)"
    and view_work: "view (work w) = view w"
begin

definition sched_step :: "'t sched \<Rightarrow> 'w \<Rightarrow> 'w" where
  "sched_step e w = (case e of Post t \<Rightarrow> post t w | Work \<Rightarrow> work w)"

text \<open>The scheduler cannot be observed: only the order of the posts counts.\<close>

lemma view_schedule: "view (fold sched_step es w) = fold effect (posts es) (view w)"
proof (induction es arbitrary: w)
  case (Cons e es)
  then show ?case by (cases e) (simp_all add: sched_step_def view_post view_work)
qed simp

lemma view_schedule_cong: "posts es = posts es' \<Longrightarrow> view (fold sched_step es w) = view (fold sched_step es' w)"
  by (simp add: view_schedule)

end

section \<open>The worker\<close>

datatype db_event = Exec_done nat bool | Query_done nat "row list" bool

type_synonym task = "connection \<Rightarrow> connection \<times> db_event list"

record worker =
  raw_db :: connection
  db_tasks :: "task list"
  db_running :: bool
  db_stopping :: bool
  db_fired :: "db_event list"

definition new_worker :: worker where
  "new_worker = \<lparr>raw_db = None, db_tasks = [], db_running = False, db_stopping = False, db_fired = []\<rparr>"

definition db_start :: "worker \<Rightarrow> worker" where
  "db_start w = w\<lparr>db_running := True\<rparr>"

definition run_task :: "task \<Rightarrow> connection \<times> db_event list \<Rightarrow> connection \<times> db_event list" where
  "run_task t v = (case t (fst v) of (c, es) \<Rightarrow> (c, snd v @ es))"

text \<open>One turn of the loop: take the first task and run it; with no task the thread waits,
  or ends when it is told to stop.\<close>

definition db_work :: "worker \<Rightarrow> worker" where
  "db_work w =
     (if \<not> db_running w then w
      else case db_tasks w of
        [] \<Rightarrow> if db_stopping w then w\<lparr>db_running := False\<rparr> else w
      | t # ts \<Rightarrow> (case run_task t (raw_db w, db_fired w) of (c, es) \<Rightarrow>
          w\<lparr>raw_db := c, db_fired := es, db_tasks := ts\<rparr>))"

definition db_post :: "task \<Rightarrow> worker \<Rightarrow> worker" where
  "db_post t w = w\<lparr>db_tasks := db_tasks w @ [t]\<rparr>"

text \<open>What the worker has done once it is idle again.\<close>

definition db_view :: "worker \<Rightarrow> connection \<times> db_event list" where
  "db_view w = fold run_task (db_tasks w) (raw_db w, db_fired w)"

definition db_drain :: "worker \<Rightarrow> worker" where
  "db_drain w = w\<lparr>raw_db := fst (db_view w), db_fired := snd (db_view w), db_tasks := []\<rparr>"

text \<open>\<open>postSync\<close>: the caller blocks on the future until its task has run. When no worker
  runs the future is never set: \<open>None\<close>.\<close>

definition postSync :: "(connection \<Rightarrow> 'r \<times> connection) \<Rightarrow> worker \<Rightarrow> ('r \<times> worker) option" where
  "postSync f w =
     (if db_running w
      then (let w' = db_drain w; (r, c) = f (raw_db w') in Some (r, w'\<lparr>raw_db := c\<rparr>))
      else None)"

definition exec_task :: "stmt \<Rightarrow> nat option \<Rightarrow> task" where
  "exec_task s cb c = (case execDirect s c of (ok, c') \<Rightarrow>
     (c', case cb of None \<Rightarrow> [] | Some i \<Rightarrow> [Exec_done i ok]))"

definition query_task :: "select \<Rightarrow> nat option \<Rightarrow> task" where
  "query_task q cb c = (c, case cb of None \<Rightarrow> [] | Some i \<Rightarrow> [Query_done i (queryDirect q c) (c \<noteq> None)])"

definition exec_async :: "stmt \<Rightarrow> nat option \<Rightarrow> worker \<Rightarrow> worker" where
  "exec_async s cb w = db_post (exec_task s cb) w"

definition query_async :: "select \<Rightarrow> nat option \<Rightarrow> worker \<Rightarrow> worker" where
  "query_async q cb w = db_post (query_task q cb) w"

definition execSync :: "stmt \<Rightarrow> worker \<Rightarrow> (bool \<times> worker) option" where
  "execSync s w = postSync (execDirect s) w"

definition querySync :: "select \<Rightarrow> worker \<Rightarrow> (row list \<times> worker) option" where
  "querySync q w = postSync (\<lambda>c. (queryDirect q c, c)) w"

text \<open>
  \<open>open\<close> starts the worker and migrates the file; \<open>open_ok\<close> answers for \<open>sqlite3_open\<close>.
  \<open>close\<close> lets the worker finish its queue and then drops the handle; it returns the tables
  the file is left with.
\<close>

definition db_open ::
  "bool \<Rightarrow> bool \<Rightarrow> (nat \<Rightarrow> bool) \<Rightarrow> dbfile \<Rightarrow> worker \<Rightarrow> (bool \<times> worker \<times> dbfile) option" where
  "db_open open_ok version_ok ok f w =
     (case postSync (\<lambda>c.
        if \<not> open_ok then ((False, f), None)
        else (case runMigrations version_ok ok f of
                (False, f') \<Rightarrow> ((False, f'), None)
              | (True, f') \<Rightarrow> ((True, f'), file_tables f'))) (db_start w) of
        None \<Rightarrow> None
      | Some ((r, f'), w') \<Rightarrow> Some (r, w', f'))"

definition db_close :: "worker \<Rightarrow> connection \<times> worker" where
  "db_close w = (let w' = (if db_running w then db_drain w else w)
     in (raw_db w', w'\<lparr>db_running := False, db_stopping := True, raw_db := None\<rparr>))"

section \<open>The worker refines a database that executes at once\<close>

lemma db_view_post: "db_view (db_post t w) = run_task t (db_view w)"
  by (simp add: db_view_def db_post_def)

lemma db_view_work: "db_view (db_work w) = db_view w"
  by (auto simp: db_view_def db_work_def split: list.split prod.split)

interpretation db_queue: serial_service db_post db_work db_view run_task
  by unfold_locales (simp_all add: db_view_post db_view_work)

lemma fst_db_view_exec: "fst (db_view (exec_async s cb w)) = db_exec s (fst (db_view w))"
  by (auto simp: exec_async_def db_view_post run_task_def exec_task_def db_exec_def split: prod.split)

lemma fst_db_view_query: "fst (db_view (query_async q cb w)) = fst (db_view w)"
  by (simp add: query_async_def db_view_post run_task_def query_task_def split: prod.split)

lemma querySync_view:
  "db_running w \<Longrightarrow> \<exists>w'. querySync q w = Some (queryDirect q (fst (db_view w)), w') \<and> db_view w' = db_view w"
  by (simp add: querySync_def postSync_def Let_def db_drain_def db_view_def)

lemma execSync_view:
  "db_running w \<Longrightarrow> \<exists>w'. execSync s w = Some (fst (execDirect s (fst (db_view w))), w')
     \<and> fst (db_view w') = db_exec s (fst (db_view w))"
  by (auto simp: execSync_def postSync_def Let_def db_drain_def db_view_def db_exec_def split: prod.split)

text \<open>Posted statements survive a close: the worker finishes its queue first.\<close>

lemma db_close_keeps_posted: "db_running w \<Longrightarrow> fst (db_close w) = fst (db_view w)"
  by (simp add: db_close_def db_drain_def)

text \<open>The loop reaches that point by itself, one task a turn.\<close>

lemma db_work_drains: "db_running w \<Longrightarrow> (db_work ^^ length (db_tasks w)) w = db_drain w"
proof (induction "length (db_tasks w)" arbitrary: w)
  case 0
  then show ?case by (cases w) (simp add: db_drain_def db_view_def)
next
  case (Suc n)
  then obtain t ts where ts: "db_tasks w = t # ts" by (cases "db_tasks w") auto
  then have len: "length (db_tasks (db_work w)) = n" and run: "db_running (db_work w)"
    using Suc.hyps(2) Suc.prems by (auto simp: db_work_def split: prod.split)
  have "db_drain (db_work w) = db_drain w"
    using ts Suc.prems by (auto simp: db_drain_def db_view_def db_work_def split: prod.split)
  then show ?case
    using Suc.hyps(1) [of "db_work w"] len run by (simp add: funpow_swap1 flip: Suc.hyps(2))
qed

text \<open>Without a worker nothing that blocks ever returns.\<close>

lemma sync_blocks_without_worker: "\<not> db_running w \<Longrightarrow> querySync q w = None \<and> execSync s w = None"
  by (simp add: querySync_def execSync_def postSync_def)

section \<open>Properties\<close>

text \<open>One event of a run: a caller posts a task, or the worker thread takes a turn.\<close>

fun db_sched_step :: "task sched \<Rightarrow> worker \<Rightarrow> worker" where
  "db_sched_step (Post t) w = db_post t w"
| "db_sched_step Work w = db_work w"

lemma db_sched_step_serial: "db_sched_step = db_queue.sched_step"
  by (rule ext)+ (simp add: db_queue.sched_step_def split: sched.split)

lemma db_running_sched: "\<not> db_stopping w \<Longrightarrow> db_running (fold db_sched_step es w) = db_running w"
proof (induction es arbitrary: w)
  case (Cons e es)
  have run: "db_running (db_sched_step e w) = db_running w"
    using Cons.prems by (cases e) (auto simp: db_post_def db_work_def split: list.split prod.split)
  have "db_stopping (db_sched_step e w) = db_stopping w"
    by (cases e) (auto simp: db_post_def db_work_def split: list.split prod.split)
  then show ?case using Cons run by simp
qed simp

text \<open>
  C22: Calls of the database are executed in the order in which they were made, whatever turns
  the worker takes in between: a blocking query sees the connection after every statement
  posted before it, it returns, the queue is then empty and every posted call's callback has
  run, in that order.
\<close>

theorem db_calls_in_order:
  assumes "db_running w" and "\<not> db_stopping w"
  shows "\<exists>w'. querySync q (fold db_sched_step es w) = Some (queryDirect q (fst (fold run_task (posts es) (db_view w))), w')
    \<and> db_tasks w' = [] \<and> db_fired w' = snd (fold run_task (posts es) (db_view w))"
proof -
  let ?w = "fold db_sched_step es w"
  have "db_running ?w" using assms by (simp add: db_running_sched)
  moreover have "db_view ?w = fold run_task (posts es) (db_view w)"
    by (simp add: db_sched_step_serial db_queue.view_schedule)
  ultimately show ?thesis by (simp add: querySync_def postSync_def Let_def db_drain_def)
qed

definition demo_worker :: worker where
  "demo_worker = new_worker\<lparr>raw_db := Some kSchemav1, db_running := True\<rparr>"

theorem db_calls_in_order_witness:
  "\<exists>w'. querySync (\<lambda>t. map (\<lambda>m. [m]) (metadata t))
     (fold db_sched_step [Post (exec_task (sql_set_meta ''k'' ''1'') (Some 1)), Work, Post (exec_task (sql_set_meta ''k'' ''2'') None)]
        demo_worker)
     = Some ([[(''k'', ''2'')]], w') \<and> db_fired w' = [Exec_done 1 True]"
  using db_calls_in_order [of demo_worker "\<lambda>t. map (\<lambda>m. [m]) (metadata t)"
      "[Post (exec_task (sql_set_meta ''k'' ''1'') (Some 1)), Work, Post (exec_task (sql_set_meta ''k'' ''2'') None)]"]
  by (auto simp: demo_worker_def new_worker_def db_view_def run_task_def exec_task_def execDirect_def queryDirect_def
      sql_set_meta_def kSchemav1_def upsert_row_def has_row_def update_rows_def insert_or_replace_def delete_rows_def)

text \<open>
  C23: The join in \<open>close()\<close> ends: a worker that is told to stop leaves its loop after one turn
  for each task still queued and one more, has then executed all of them, and what the
  connection holds at that moment is what \<open>close()\<close> leaves in the file.
\<close>

theorem db_close_terminates:
  assumes "db_running w" and "db_stopping w"
  shows "(db_work ^^ Suc (length (db_tasks w))) w = (db_drain w)\<lparr>db_running := False\<rparr>
    \<and> raw_db ((db_work ^^ Suc (length (db_tasks w))) w) = fst (db_close w)"
proof -
  have "db_work (db_drain w) = (db_drain w)\<lparr>db_running := False\<rparr>"
    using assms by (simp add: db_work_def db_drain_def)
  then show ?thesis using assms db_work_drains [OF assms(1)] by (simp add: db_close_def Let_def)
qed

theorem db_close_terminates_witness:
  "raw_db ((db_work ^^ 2) (exec_async (sql_set_meta ''k'' ''1'') None (demo_worker\<lparr>db_stopping := True\<rparr>)))
     = fst (db_close (exec_async (sql_set_meta ''k'' ''1'') None (demo_worker\<lparr>db_stopping := True\<rparr>)))"
proof -
  let ?w = "exec_async (sql_set_meta ''k'' ''1'') None (demo_worker\<lparr>db_stopping := True\<rparr>)"
  have two: "(2 :: nat) = Suc (length (db_tasks ?w))" "db_running ?w" "db_stopping ?w"
    by (simp_all add: exec_async_def db_post_def demo_worker_def new_worker_def)
  show ?thesis unfolding two(1) by (rule conjunct2 [OF db_close_terminates [OF two(2,3)]])
qed

end
