(* ===== verification/Client.thy ===== *)
theory Client
  imports AuthManager MessageManager ConversationManager SyncEngine FriendManager CallManager GroupManager
    UserManager VersionManager FileManager DbWorker
begin

text \<open>
  \<open>AnyChatClient\<close> (core/src/client_impl.cpp): how one client is put together from the
  managers and how the callbacks between them are wired. The WebSocket client drives the
  connection manager, a frame goes through the notification manager to every manager that
  registered a handler, \<open>onReady\<close> flushes the outbound queue and starts a synchronisation.
  \<open>closing\<close> answers for libwebsockets: what it reports while a context is destroyed.
\<close>

record client_config =
  cfg_gateway_url :: string
  cfg_api_base_url :: string
  cfg_device_id :: string
  cfg_db_path :: string
  cfg_network_monitor :: "network_status option"
  cfg_connect_timeout_ms :: int
  cfg_max_reconnect_attempts :: int
  cfg_auto_reconnect :: bool

text \<open>Everything the client reaches outside its own code.\<close>

record client_env =
  j_auth :: auth_json
  j_notif :: notif_json
  j_msg :: msg_json
  j_conv :: conv_json
  j_sync :: sync_json
  j_friend :: friend_json
  j_group :: group_json
  j_user :: user_json
  j_call :: call_json
  j_version :: version_json
  j_file :: file_json
  files :: file_system
  closing :: "ws_client \<Rightarrow> lws_reason option"

section \<open>The connection\<close>

definition buildWsUrl :: "string \<Rightarrow> string \<Rightarrow> string" where
  "buildWsUrl gateway tok =
     (let url = (if gateway \<noteq> [] \<and> last gateway \<noteq> CHR ''/'' then gateway @ ''/'' else gateway) @ ''api/v1/ws''
      in if tok \<noteq> [] then url @ ''?token='' @ tok else url)"

definition onStateChanged :: "connection_state \<Rightarrow> client_act" where
  "onStateChanged st = reading (\<lambda>s. act_if (state_cb s) (emit (ConnectionStateChanged st)))"

definition onReady :: "client_env \<Rightarrow> client_act" where
  "onReady E = perform [
     reading (\<lambda>s. act_if (link s \<noteq> None) (oq_onConnected (w_frame (j_msg E)))),
     sync (j_sync E)]"

text \<open>What the connection manager calls: the client's two callbacks, the WebSocket client,
  the platform's network monitor (outside).\<close>

definition set_ws :: "(ws_client \<Rightarrow> ws_client) \<Rightarrow> client_act" where
  "set_ws f = modify (\<lambda>s. s\<lparr>link := map_option (\<lambda>l. l\<lparr>lk_ws := f (lk_ws l)\<rparr>) (link s)\<rparr>)"

definition conn_out_act :: "client_env \<Rightarrow> conn_out \<Rightarrow> client_act" where
  "conn_out_act E x = (case x of
     StateChanged st \<Rightarrow> onStateChanged st
   | Ready \<Rightarrow> onReady E
   | MonitorStart \<Rightarrow> skip
   | MonitorStop \<Rightarrow> skip
   | _ \<Rightarrow> set_ws (on_ws x))"

definition conn_act :: "client_env \<Rightarrow> conn_event \<Rightarrow> client_act" where
  "conn_act E e = reading (\<lambda>s. case link s of None \<Rightarrow> skip
     | Some l \<Rightarrow> (case conn_step e (lk_conn l) of
         None \<Rightarrow> emit Terminated
       | Some (c, out) \<Rightarrow> seq (modify (\<lambda>s. s\<lparr>link := Some (l\<lparr>lk_conn := c\<rparr>)\<rparr>)) (for_each (conn_out_act E) out)))"

text \<open>The notification manager as the constructors leave it: the acknowledgement handler, then
  one handler per manager in the order the managers are made, the pong handler once there
  is a connection; \<open>now\<close> is the steady clock.\<close>

definition notification_list :: "client_env \<Rightarrow> (notification_event \<Rightarrow> client_act) list" where
  "notification_list E = [handleAuthNotification (j_auth E), msg_notification (j_msg E), conv_notification (j_conv E),
     handleFriendNotification (j_friend E), handleGroupNotification (j_group E), handleUserNotification (j_user E),
     handleCallNotification (j_call E)]"

definition wired_notif_mgr :: "client_env \<Rightarrow> int \<Rightarrow> notif_mgr" where
  "wired_notif_mgr E now = setOnPong (Some (conn_act E (Pong now)))
     (fold (\<lambda>h. addNotificationHandler (Some h)) (notification_list E)
       (setOnMessageSent (Some onMessageSentAck) new_notif_mgr))"

text \<open>A handler of the WebSocket client is called.\<close>

definition ws_out_act :: "client_env \<Rightarrow> int \<Rightarrow> ws_out \<Rightarrow> client_act" where
  "ws_out_act E now x = (case x of
     OnConnected \<Rightarrow> conn_act E (WsConnected now)
   | OnDisconnected \<Rightarrow> conn_act E WsDisconnected
   | OnError err \<Rightarrow> conn_act E WsError
   | OnMessage raw \<Rightarrow> handleRaw (j_notif E) (wired_notif_mgr E now) raw
   | _ \<Rightarrow> skip)"

definition ws_act :: "client_env \<Rightarrow> int \<Rightarrow> (ws_client \<Rightarrow> ws_client \<times> ws_out list) \<Rightarrow> client_act" where
  "ws_act E now f = reading (\<lambda>s. case link s of None \<Rightarrow> skip
     | Some l \<Rightarrow> (case f (lk_ws l) of (w, out) \<Rightarrow>
         seq (modify (\<lambda>s. s\<lparr>link := Some (l\<lparr>lk_ws := w\<rparr>)\<rparr>)) (for_each (ws_out_act E now) out)))"

text \<open>An event of the connection, with the guards of \<open>link_step\<close>.\<close>

definition with_ws :: "(ws_client \<Rightarrow> bool) \<Rightarrow> client_act \<Rightarrow> client_act" where
  "with_ws p a = reading (\<lambda>s. case link s of None \<Rightarrow> skip | Some l \<Rightarrow> act_if (p (lk_ws l)) a)"

definition link_act :: "client_env \<Rightarrow> link_event \<Rightarrow> client_act" where
  "link_act E e = (case e of
     Conn ce \<Rightarrow> conn_act E ce
   | LoopStart ok \<Rightarrow> with_ws ws_running (ws_act E 0 (loop_start True ok))
   | LoopTurn ok \<Rightarrow> ws_act E 0 (loop_turn ok)
   | Lws now r \<Rightarrow> with_ws (\<lambda>w. ws_running w \<and> ws_wsi w) (ws_act E now (lws_callback r)))"

text \<open>The old connection manager and WebSocket client, when new ones take their place: the
  manager's destructor runs, and its handlers are still called while the old context goes.\<close>

definition retired_states :: "client_env \<Rightarrow> link option \<Rightarrow> connection_state list" where
  "retired_states E old = (case old of None \<Rightarrow> [] | Some l \<Rightarrow>
     (case destroy (lk_conn l) of (c, out) \<Rightarrow>
        state_changes out @ (case closing E (lk_ws l) of None \<Rightarrow> [] | Some r \<Rightarrow> state_changes (snd (onWsDisconnected c)))))"

text \<open>The constructor of the WebSocket client throws when the URL has no number for a port:
  the exception leaves the thread of the HTTP client and the process ends. \<open>k\<close> is what
  follows a normal return.\<close>

definition initializeWebSocket :: "client_env \<Rightarrow> string \<Rightarrow> client_act \<Rightarrow> client_act" where
  "initializeWebSocket E tok k = reading (\<lambda>s.
     case new_ws_client (buildWsUrl (gateway_url s) tok) of
       None \<Rightarrow> emit Terminated
     | Some w \<Rightarrow> perform [
         modify (\<lambda>s. s\<lparr>link := Some (new_link (monitor s) w)\<rparr>),
         for_each onStateChanged (retired_states E (link s)),
         k])"

section \<open>Operations\<close>

definition client_login ::
  "client_env \<Rightarrow> string \<Rightarrow> string \<Rightarrow> int \<Rightarrow> string \<Rightarrow> auth_token callback \<Rightarrow> client_act" where
  "client_login E account password device_type client_version cb =
     auth_login (j_auth E) account password device_type client_version
       \<lparr>on_success = Some (\<lambda>tok. initializeWebSocket E (access_token tok)
           (perform [conn_act E Connect, succeed cb tok])),
        on_error = Some (\<lambda>code err. fail cb code err)\<rparr>"

definition client_logout :: "client_env \<Rightarrow> unit callback \<Rightarrow> client_act" where
  "client_logout E cb = perform [
     reading (\<lambda>s. act_if (link s \<noteq> None) (perform [conn_act E Disconnect, oq_onDisconnected])),
     auth_logout (j_auth E) cb]"

definition connectionState :: "client \<Rightarrow> connection_state" where
  "connectionState s = (case link s of None \<Rightarrow> Disconnected | Some l \<Rightarrow> cm_state (lk_conn l))"

definition setOnConnectionStateChanged :: "bool \<Rightarrow> client_act" where
  "setOnConnectionStateChanged b = modify (\<lambda>s. s\<lparr>state_cb := b\<rparr>)"

text \<open>The destructor's own part.\<close>

definition client_destroy :: "client_env \<Rightarrow> client_act" where
  "client_destroy E = conn_act E Disconnect"

section \<open>Construction\<close>

text \<open>
  The constructor throws, blocks, or leaves a client. The database is opened only when it
  has a path, so that without one its worker thread does not exist and the first thing the
  constructor of the authentication manager asks of it is never answered.
\<close>

datatype construction = Throws string | Blocks | Built client

record db_world =
  open_ok :: bool
  version_ok :: bool
  step_ok :: "nat \<Rightarrow> bool"
  db_file :: dbfile

definition open_worker :: "client_config \<Rightarrow> db_world \<Rightarrow> worker option" where
  "open_worker cfg W =
     (if cfg_db_path cfg = [] then Some new_worker
      else (case db_open (open_ok W) (version_ok W) (step_ok W) (db_file W) new_worker of
              None \<Rightarrow> None | Some (ok, w, f) \<Rightarrow> Some w))"

definition construct ::
  "client_config \<Rightarrow> db_world \<Rightarrow> (message list \<Rightarrow> message list) \<Rightarrow> int \<Rightarrow> construction" where
  "construct cfg W srt now =
     (if cfg_gateway_url cfg = [] then Throws ''ClientConfig::gateway_url must not be empty''
      else if cfg_api_base_url cfg = [] then Throws ''ClientConfig::api_base_url must not be empty''
      else if cfg_device_id cfg = [] then Throws ''ClientConfig::device_id must not be empty''
      else (case open_worker cfg W of
          None \<Rightarrow> Blocks
        | Some w \<Rightarrow> (case querySync (sql_get_meta ''auth.access_token'') w of
            None \<Rightarrow> Blocks
          | Some _ \<Rightarrow> Built (fst (auth_restore (new_client (cfg_api_base_url cfg) (cfg_gateway_url cfg)
              (cfg_device_id cfg) (cfg_network_monitor cfg) srt (raw_db w) now))))))"

section \<open>Invariant\<close>

lemma keeps_onStateChanged [keeps_intro]: "keeps I (onStateChanged st)"
  unfolding onStateChanged_def by (intro keeps_intro)

text \<open>A property of the connection manager that its constructor gives and its steps keep, as
  long as the timer's check and its connect are not separated.\<close>

definition conn_safe :: "(conn \<Rightarrow> bool) \<Rightarrow> bool" where
  "conn_safe J \<longleftrightarrow> (\<forall>m. J (new_conn m)) \<and> (\<forall>e c r. atomic_event e \<longrightarrow> J c \<longrightarrow> conn_step e c = Some r \<longrightarrow> J (fst r))"

lemma conn_safe_True: "conn_safe (\<lambda>_. True)"
  by (simp add: conn_safe_def)

lemma conn_safe_inv: "conn_safe conn_inv"
  unfolding conn_safe_def by (intro conjI allI impI conn_inv_new) (rule conn_inv_result)

lemma conn_safe_step: "conn_safe J \<Longrightarrow> atomic_event e \<Longrightarrow> J c \<Longrightarrow> conn_step e c = Some (c', out) \<Longrightarrow> J c'"
  by (force simp: conn_safe_def)

lemma keeps_set_ws [keeps_intro]: "keeps (client_inv X) (set_ws f)"
  unfolding set_ws_def by (rule keeps_modify) (auto simp: client_inv_def)

lemma keeps_onReady [keeps_intro]: "keeps (client_inv X) (onReady E)"
  unfolding onReady_def by (intro keeps_intro)

lemma keeps_conn_out_act [keeps_intro]: "keeps (client_inv X) (conn_out_act E x)"
  by (cases x) (simp_all add: conn_out_act_def keeps_onStateChanged keeps_onReady keeps_set_ws)

lemma keeps_link_conn:
  assumes "snd X c"
  shows "keeps (client_inv X) (modify (\<lambda>s. s\<lparr>link := Some (l\<lparr>lk_conn := c\<rparr>)\<rparr>))"
  by (rule keeps_modify) (use assms in \<open>auto simp: client_inv_def\<close>)

lemma keeps_conn_step:
  assumes "\<And>c r. snd X c \<Longrightarrow> conn_step e c = Some r \<Longrightarrow> snd X (fst r)"
  shows "keeps (client_inv X) (conn_act E e)"
  unfolding conn_act_def
proof (rule keeps_reading)
  fix s assume inv: "client_inv X s"
  show "keeps (client_inv X) (case link s of None \<Rightarrow> skip
     | Some l \<Rightarrow> (case conn_step e (lk_conn l) of None \<Rightarrow> emit Terminated
       | Some (c, out) \<Rightarrow> seq (modify (\<lambda>s. s\<lparr>link := Some (l\<lparr>lk_conn := c\<rparr>)\<rparr>)) (for_each (conn_out_act E) out)))"
  proof (cases "link s")
    case (Some l)
    then have "snd X c" if "conn_step e (lk_conn l) = Some (c, out)" for c out
      using assms [OF _ that] inv by (simp add: client_inv_def)
    then show ?thesis using Some
      by (auto intro!: keeps_emit keeps_seq keeps_link_conn keeps_for_each keeps_conn_out_act split: option.split)
  qed (simp add: keeps_skip)
qed

lemma keeps_conn_act: "conn_safe (snd X) \<Longrightarrow> atomic_event e \<Longrightarrow> keeps (client_inv X) (conn_act E e)"
  by (rule keeps_conn_step) (auto simp: conn_safe_def)

lemma set_handlers: "set (notification_handlers (fold (\<lambda>h. addNotificationHandler (Some h)) hs nm))
    = set (notification_handlers nm) \<union> Some ` set hs"
  by (induction hs arbitrary: nm) (auto simp: addNotificationHandler_def)

lemma on_msg_sent_handlers: "on_msg_sent (fold (\<lambda>h. addNotificationHandler (Some h)) hs nm) = on_msg_sent nm"
  by (induction hs arbitrary: nm) (auto simp: addNotificationHandler_def)

lemma wired_handlers:
  "set (notification_handlers (wired_notif_mgr E now)) = Some ` set (notification_list E)"
  "on_msg_sent (wired_notif_mgr E now) = Some onMessageSentAck"
  "on_pong (wired_notif_mgr E now) = Some (conn_act E (Pong now))"
  by (simp_all add: wired_notif_mgr_def setOnPong_def setOnMessageSent_def new_notif_mgr_def set_handlers
      on_msg_sent_handlers)

lemma keeps_notification_list: "h \<in> set (notification_list E) \<Longrightarrow> keeps (client_inv X) (h e)"
  unfolding notification_list_def
  by (auto intro: keeps_auth_notification keeps_msg_notification keeps_conv_notification keeps_friend_notification
      keeps_group_notification keeps_user_notification keeps_call_notification)

lemma atomic_events [simp]: "atomic_event Connect" "atomic_event Disconnect" "atomic_event (Pong now)"
  "atomic_event (WsConnected now)" "atomic_event WsDisconnected" "atomic_event WsError"
  by (simp_all add: atomic_event_def)

lemma keeps_frame: "conn_safe (snd X) \<Longrightarrow> keeps (client_inv X) (handleRaw J (wired_notif_mgr E now) raw)"
  by (rule keeps_handleRaw) (auto simp: wired_handlers intro: keeps_notification_list keeps_onMessageSentAck keeps_conn_act)

lemma keeps_ws_out_act: "conn_safe (snd X) \<Longrightarrow> keeps (client_inv X) (ws_out_act E now x)"
  by (cases x) (simp_all add: ws_out_act_def keeps_conn_act keeps_frame keeps_skip)

lemma keeps_link_ws:
  assumes "client_inv X s" and "link s = Some l"
  shows "keeps (client_inv X) (modify (\<lambda>s. s\<lparr>link := Some (l\<lparr>lk_ws := w\<rparr>)\<rparr>))"
  by (rule keeps_modify) (use assms in \<open>auto simp: client_inv_def\<close>)

lemma keeps_ws_act: "conn_safe (snd X) \<Longrightarrow> keeps (client_inv X) (ws_act E now f)"
  unfolding ws_act_def
  by (intro keeps_reading keeps_case_option keeps_skip keeps_case_prod keeps_seq keeps_for_each keeps_ws_out_act)
    (auto intro: keeps_link_ws)

lemma keeps_with_ws [keeps_intro]: "keeps I a \<Longrightarrow> keeps I (with_ws p a)"
  unfolding with_ws_def by (intro keeps_intro)

text \<open>The events of a scope: with a property of the connection only the undivided ones.\<close>

definition in_scope :: "scope \<Rightarrow> link_event \<Rightarrow> bool" where
  "in_scope X e \<longleftrightarrow> conn_safe (snd X) \<and> (\<forall>ce. e = Conn ce \<longrightarrow> atomic_event ce \<or> snd X = (\<lambda>_. True))"

lemma keeps_link_act:
  assumes "in_scope X e"
  shows "keeps (client_inv X) (link_act E e)"
proof (cases e)
  case (Conn ce)
  then show ?thesis
    using assms keeps_conn_step [of X ce] keeps_conn_act [of X ce] by (auto simp: link_act_def in_scope_def)
qed (use assms in \<open>simp_all add: link_act_def in_scope_def keeps_ws_act keeps_with_ws\<close>)

lemma keeps_initializeWebSocket:
  assumes "conn_safe (snd X)" and "keeps (client_inv X) k"
  shows "keeps (client_inv X) (initializeWebSocket E tok k)"
proof -
  have "keeps (client_inv X) (modify (\<lambda>s. s\<lparr>link := Some (new_link (monitor s) w)\<rparr>))" for w
    by (rule keeps_modify) (use assms(1) in \<open>auto simp: client_inv_def new_link_def conn_safe_def\<close>)
  then show ?thesis unfolding initializeWebSocket_def
    by (intro keeps_reading keeps_case_option keeps_emit keeps_perform_Cons keeps_perform_single keeps_for_each keeps_onStateChanged assms(2))
qed

lemma keeps_client_ops:
  assumes "conn_safe (snd X)"
  shows "cb_keeps (client_inv X) tcb \<Longrightarrow> keeps (client_inv X) (client_login E a b d f tcb)"
    and "cb_keeps (client_inv X) cb \<Longrightarrow> keeps (client_inv X) (client_logout E cb)"
  unfolding client_login_def client_logout_def
  by (intro keeps_intro keeps_auth_ops keeps_initializeWebSocket keeps_conn_act assms atomic_events; assumption)+

section \<open>Answers\<close>

lemma answers_onStateChanged [answers_intro]: "answers (about i) 0 (onStateChanged st)"
  unfolding onStateChanged_def by (intro answers_intro) simp

lemma answers_set_ws [answers_intro]: "answers P 0 (set_ws f)"
  unfolding set_ws_def by (rule answers_modify)

lemma answers_onReady [answers_intro]: "answers (about i) 0 (onReady E)"
  unfolding onReady_def by (intro answers_intro)

lemma answers_conn_out_act [answers_intro]: "answers (about i) 0 (conn_out_act E x)"
  by (cases x) (simp_all add: conn_out_act_def answers_onStateChanged answers_onReady answers_set_ws answers_skip)

lemma answers_conn_act [answers_intro]: "answers (about i) 0 (conn_act E e)"
  unfolding conn_act_def by (intro answers_intro) simp

lemma answers_notification_list: "h \<in> set (notification_list E) \<Longrightarrow> answers (about i) 0 (h e)"
  unfolding notification_list_def
  by (auto intro: answers_auth_notification answers_msg_notification answers_conv_notification
      answers_friend_notification answers_group_notification answers_user_notification answers_call_notification)

text \<open>A frame answers a call only through an acknowledgement; calls in the scope wait for none.\<close>

lemma answers_frame:
  assumes "i \<in> fst X" and "conn_safe (snd X)"
  shows "answers_in (client_inv X) (about i) 0 (handleRaw J (wired_notif_mgr E now) raw)"
proof -
  have "answers_in (client_inv X) (about i) 0 (conn_act E (Pong now))"
    by (rule answers_keeps, rule answers_conn_act, rule keeps_conn_act [OF assms(2)]) simp
  then show ?thesis
    by (intro answers_handleRaw)
      (auto simp: wired_handlers intro: answers_ack assms answers_keeps answers_notification_list keeps_notification_list)
qed

lemma answers_ws_out_act:
  assumes "i \<in> fst X" and "conn_safe (snd X)"
  shows "answers_in (client_inv X) (about i) 0 (ws_out_act E now x)"
proof -
  have c: "answers_in (client_inv X) (about i) 0 (conn_act E e)" if "atomic_event e" for e
    by (rule answers_keeps, rule answers_conn_act, rule keeps_conn_act [OF assms(2) that])
  show ?thesis by (cases x) (simp_all add: ws_out_act_def c answers_frame assms answers_skip)
qed

lemma answers_ws_act:
  assumes "i \<in> fst X" and "conn_safe (snd X)"
  shows "answers_in (client_inv X) (about i) 0 (ws_act E now f)"
proof -
  have put: "answers_in (client_inv X) (about i) 0 (modify (\<lambda>s. s\<lparr>link := Some (l\<lparr>lk_ws := w\<rparr>)\<rparr>))"
    if "client_inv X s" "link s = Some l" for s l w
    by (rule answers_keeps, rule answers_modify, rule keeps_link_ws [OF that])
  show ?thesis
    unfolding ws_act_def
    by (rule answers_in_reading)
      (intro answers_case_option answers_skip answers_case_prod answers_seq_quiet answers_for_each
        answers_ws_out_act assms, rule put)
qed

lemma answers_link_act:
  assumes "i \<in> fst X" and "in_scope X e"
  shows "answers_in (client_inv X) (about i) 0 (link_act E e)"
proof -
  have w: "answers_in (client_inv X) (about i) 0 (with_ws p a)" if "answers_in (client_inv X) (about i) 0 a" for p a
    unfolding with_ws_def by (intro answers_reading answers_case_option answers_skip answers_act_if that)
  have safe: "conn_safe (snd X)" using assms(2) by (simp add: in_scope_def)
  have "answers_in (client_inv X) (about i) 0 (conn_act E ce)" if "e = Conn ce" for ce
    by (rule answers_keeps, rule answers_conn_act) (use keeps_link_act [OF assms(2), of E] that in \<open>simp add: link_act_def\<close>)
  then show ?thesis by (cases e) (simp_all add: link_act_def w answers_ws_act assms(1) safe)
qed

text \<open>A login of somebody else, and a logout.\<close>

lemma answers_initializeWebSocket [answers_intro]:
  "answers (about i) 0 k \<Longrightarrow> answers (about i) 0 (initializeWebSocket E tok k)"
  unfolding initializeWebSocket_def by (intro answers_intro) simp

lemma answers_client_ops:
  "cb_answers i 0 tcb \<Longrightarrow> answers (about i) 0 (client_login E a b d f tcb)"
  "cb_answers i n cb \<Longrightarrow> answers (about i) n (client_logout E cb)"
  unfolding client_login_def client_logout_def by (intro answers_intro answers_auth_ops; assumption)+

end
