(* ===== verification/System.thy ===== *)
theory System
  imports Client
begin

text \<open>
  The whole client at work: every operation of every manager as a value, what else may
  happen to a client (connection events, frames, listeners, the clock) and the two
  statements about every interleaving of calls and responses: the invariant of the client
  holds, and a call is answered once.
\<close>

section \<open>The operations\<close>

datatype auth_call =
    RegisterUser string string string int string string
  | SendVerificationCode string int int
  | AuthLogin string string int string
  | AuthLogout
  | GetDeviceList
  | LogoutDevice string
  | RefreshToken string
  | ChangePassword string string
  | ResetPassword string string string
  | EnsureValidToken

datatype msg_call =
    GetHistory string int int
  | GetOfflineMessages int int
  | MarkAsRead string string
  | AckMessages string "string list"
  | GetGroupMessageReadState string string
  | SearchMessages string string int int int
  | RecallMessage string
  | DeleteMessage string
  | EditMessage string string
  | SendTyping string bool int

datatype conv_call =
    GetConversationList
  | GetConversation string
  | DeleteConversation string
  | MarkAllRead string
  | MarkMessagesRead string "string list"
  | SetPinned string bool
  | SetMuted string bool
  | SetBurnAfterReading string int
  | SetAutoDelete string int
  | GetTotalUnread
  | GetMessageUnreadCount string int
  | GetMessageReadReceipts string
  | GetMessageSequence string

datatype friend_call =
    GetFriendList
  | AddFriend string string int
  | DeleteFriend string
  | UpdateRemark string string
  | HandleFriendRequest int int
  | GetFriendRequests int
  | GetBlacklist
  | AddToBlacklist string
  | RemoveFromBlacklist string

datatype group_call =
    GetGroupList
  | GetGroupInfo string
  | CreateGroup string "string list"
  | JoinGroup string string
  | InviteToGroup string "string list"
  | QuitGroup string
  | DisbandGroup string
  | UpdateGroup string string string
  | GetMembers string int int
  | RemoveMember string string
  | UpdateMemberRole string string int
  | UpdateNickname string string
  | TransferOwnership string string
  | GetJoinRequests string int
  | HandleJoinRequest string int bool
  | GetGroupQRCode string
  | RefreshGroupQRCode string

datatype user_call =
    GetProfile
  | UpdateProfile user_profile
  | GetSettings
  | UpdateSettings user_settings
  | UpdatePushToken string int
  | UpdatePushTokenFor string int string
  | SearchUsers string int int
  | GetUserInfo string
  | BindPhone string string
  | ChangePhone string string string string
  | BindEmail string string
  | ChangeEmail string string string string
  | RefreshUserQRCode
  | GetUserByQRCode string

datatype meeting_call =
    InitiateCall string call_type
  | JoinCall string
  | RejectCall string
  | EndCall string
  | GetCallSession string
  | GetCallLogs int int
  | CreateMeeting string string int
  | JoinMeeting string string
  | EndMeeting string
  | GetMeeting string
  | ListMeetings int int

datatype file_call =
    Upload string int bool
  | UploadClientLog string int bool
  | GetDownloadUrl string
  | GetFileInfo string
  | ListFiles int int int
  | DeleteFile string

datatype version_call =
    CheckVersion int string int
  | GetLatestVersion int int
  | ListVersions int int int int
  | ReportVersion int string int string string string

datatype api =
    Auth auth_call
  | Msg msg_call
  | Conv conv_call
  | Friends friend_call
  | Groups group_call
  | Users user_call
  | Meetings meeting_call
  | Files file_call
  | Versions version_call
  | Logout

fun auth_act :: "auth_json \<Rightarrow> auth_call \<Rightarrow> user_cb \<Rightarrow> client_act" where
  "auth_act J (RegisterUser who pw code dt nick cv) u = registerUser J who pw code dt nick cv (user_callback VAuthToken u)"
| "auth_act J (SendVerificationCode target tt p) u = sendVerificationCode J target tt p (user_callback VVerificationCode u)"
| "auth_act J (AuthLogin account pw dt cv) u = auth_login J account pw dt cv (user_callback VAuthToken u)"
| "auth_act J AuthLogout u = auth_logout J (user_callback (\<lambda>_. VUnit) u)"
| "auth_act J GetDeviceList u = getDeviceList J (user_callback VDevices u)"
| "auth_act J (LogoutDevice dev) u = logoutDevice J dev (user_callback (\<lambda>_. VUnit) u)"
| "auth_act J (RefreshToken t) u = auth_refreshToken J t (user_callback VAuthToken u)"
| "auth_act J (ChangePassword old new) u = changePassword J old new (user_callback (\<lambda>_. VUnit) u)"
| "auth_act J (ResetPassword account code new) u = resetPassword J account code new (user_callback (\<lambda>_. VUnit) u)"
| "auth_act J EnsureValidToken u = ensureValidToken J (user_callback (\<lambda>_. VUnit) u)"

fun msg_act :: "msg_json \<Rightarrow> msg_call \<Rightarrow> user_cb \<Rightarrow> client_act" where
  "msg_act J (GetHistory cid ts n) u = getHistory J cid ts n (user_callback VMessages u)"
| "msg_act J (GetOfflineMessages n k) u = getOfflineMessages J n k (user_callback VOffline u)"
| "msg_act J (MarkAsRead cid mid) u = markAsRead J cid mid (user_callback (\<lambda>_. VUnit) u)"
| "msg_act J (AckMessages cid ids) u = ackMessages J cid ids (user_callback (\<lambda>_. VUnit) u)"
| "msg_act J (GetGroupMessageReadState gid mid) u = getGroupMessageReadState J gid mid (user_callback VGroupRead u)"
| "msg_act J (SearchMessages kw cid ct n off) u = searchMessages J kw cid ct n off (user_callback VSearch u)"
| "msg_act J (RecallMessage mid) u = recallMessage J mid (user_callback (\<lambda>_. VUnit) u)"
| "msg_act J (DeleteMessage mid) u = deleteMessage J mid (user_callback (\<lambda>_. VUnit) u)"
| "msg_act J (EditMessage mid txt) u = editMessage J mid txt (user_callback (\<lambda>_. VUnit) u)"
| "msg_act J (SendTyping cid ty ttl) u = sendTyping J cid ty ttl (user_callback (\<lambda>_. VUnit) u)"

fun conv_act :: "conv_json \<Rightarrow> conv_call \<Rightarrow> user_cb \<Rightarrow> client_act" where
  "conv_act J GetConversationList u = getConversationList J (user_callback VConversations u)"
| "conv_act J (GetConversation cid) u = getConversation J cid (user_callback VConversation u)"
| "conv_act J (DeleteConversation cid) u = deleteConversation J cid (user_callback (\<lambda>_. VUnit) u)"
| "conv_act J (MarkAllRead cid) u = markAllRead J cid (user_callback (\<lambda>_. VUnit) u)"
| "conv_act J (MarkMessagesRead cid ids) u = markMessagesRead J cid ids (user_callback VMarkRead u)"
| "conv_act J (SetPinned cid b) u = setPinned J cid b (user_callback (\<lambda>_. VUnit) u)"
| "conv_act J (SetMuted cid b) u = setMuted J cid b (user_callback (\<lambda>_. VUnit) u)"
| "conv_act J (SetBurnAfterReading cid n) u = setBurnAfterReading J cid n (user_callback (\<lambda>_. VUnit) u)"
| "conv_act J (SetAutoDelete cid n) u = setAutoDelete J cid n (user_callback (\<lambda>_. VUnit) u)"
| "conv_act J GetTotalUnread u = getTotalUnread J (user_callback VTotalUnread u)"
| "conv_act J (GetMessageUnreadCount cid n) u = getMessageUnreadCount J cid n (user_callback VUnreadState u)"
| "conv_act J (GetMessageReadReceipts cid) u = getMessageReadReceipts J cid (user_callback VReceipts u)"
| "conv_act J (GetMessageSequence cid) u = getMessageSequence J cid (user_callback VSequence u)"

fun friend_act :: "friend_json \<Rightarrow> friend_call \<Rightarrow> user_cb \<Rightarrow> client_act" where
  "friend_act J GetFriendList u = getFriendList J (user_callback VFriends u)"
| "friend_act J (AddFriend uid txt src) u = addFriend J uid txt src (user_callback (\<lambda>_. VUnit) u)"
| "friend_act J (DeleteFriend uid) u = deleteFriend J uid (user_callback (\<lambda>_. VUnit) u)"
| "friend_act J (UpdateRemark uid txt) u = updateRemark J uid txt (user_callback (\<lambda>_. VUnit) u)"
| "friend_act J (HandleFriendRequest rid a) u = handleFriendRequest J rid a (user_callback (\<lambda>_. VUnit) u)"
| "friend_act J (GetFriendRequests q) u = getFriendRequests J q (user_callback VFriendRequests u)"
| "friend_act J GetBlacklist u = getBlacklist J (user_callback VBlacklist u)"
| "friend_act J (AddToBlacklist uid) u = addToBlacklist J uid (user_callback (\<lambda>_. VUnit) u)"
| "friend_act J (RemoveFromBlacklist uid) u = removeFromBlacklist J uid (user_callback (\<lambda>_. VUnit) u)"

fun group_act :: "group_json \<Rightarrow> group_call \<Rightarrow> user_cb \<Rightarrow> client_act" where
  "group_act J GetGroupList u = getGroupList J (user_callback VGroups u)"
| "group_act J (GetGroupInfo gid) u = getInfo J gid (user_callback VGroup u)"
| "group_act J (CreateGroup txt ids) u = create_group J txt ids (user_callback VGroup u)"
| "group_act J (JoinGroup gid txt) u = join_group J gid txt (user_callback (\<lambda>_. VUnit) u)"
| "group_act J (InviteToGroup gid ids) u = invite J gid ids (user_callback (\<lambda>_. VUnit) u)"
| "group_act J (QuitGroup gid) u = quit_group J gid (user_callback (\<lambda>_. VUnit) u)"
| "group_act J (DisbandGroup gid) u = disband J gid (user_callback (\<lambda>_. VUnit) u)"
| "group_act J (UpdateGroup gid txt av) u = update_group J gid txt av (user_callback (\<lambda>_. VUnit) u)"
| "group_act J (GetMembers gid p n) u = getMembers J gid p n (user_callback VGroupMembers u)"
| "group_act J (RemoveMember gid uid) u = removeMember J gid uid (user_callback (\<lambda>_. VUnit) u)"
| "group_act J (UpdateMemberRole gid uid r) u = updateMemberRole J gid uid r (user_callback (\<lambda>_. VUnit) u)"
| "group_act J (UpdateNickname gid txt) u = updateNickname J gid txt (user_callback (\<lambda>_. VUnit) u)"
| "group_act J (TransferOwnership gid uid) u = transferOwnership J gid uid (user_callback (\<lambda>_. VUnit) u)"
| "group_act J (GetJoinRequests gid st) u = getJoinRequests J gid st (user_callback VJoinRequests u)"
| "group_act J (HandleJoinRequest gid rid b) u = handleJoinRequest J gid rid b (user_callback (\<lambda>_. VUnit) u)"
| "group_act J (GetGroupQRCode gid) u = getQRCode J gid (user_callback VGroupQRCode u)"
| "group_act J (RefreshGroupQRCode gid) u = refreshGroupQRCode J gid (user_callback VGroupQRCode u)"

fun user_act :: "user_json \<Rightarrow> user_call \<Rightarrow> user_cb \<Rightarrow> client_act" where
  "user_act J GetProfile u = getProfile J (user_callback VProfile u)"
| "user_act J (UpdateProfile p) u = updateProfile J p (user_callback VProfile u)"
| "user_act J GetSettings u = getSettings J (user_callback VSettings u)"
| "user_act J (UpdateSettings st) u = updateSettings J st (user_callback VSettings u)"
| "user_act J (UpdatePushToken t p) u = updatePushToken J t p (user_callback (\<lambda>_. VUnit) u)"
| "user_act J (UpdatePushTokenFor t p dev) u = updatePushToken_for J t p dev (user_callback (\<lambda>_. VUnit) u)"
| "user_act J (SearchUsers kw p n) u = searchUsers J kw p n (user_callback VUsers u)"
| "user_act J (GetUserInfo uid) u = getUserInfo J uid (user_callback VUser u)"
| "user_act J (BindPhone n code) u = bindPhone J n code (user_callback VBindPhone u)"
| "user_act J (ChangePhone a b c d) u = changePhone J a b c d (user_callback VChangePhone u)"
| "user_act J (BindEmail n code) u = bindEmail J n code (user_callback VBindEmail u)"
| "user_act J (ChangeEmail a b c d) u = changeEmail J a b c d (user_callback VChangeEmail u)"
| "user_act J RefreshUserQRCode u = refreshUserQRCode J (user_callback VUserQRCode u)"
| "user_act J (GetUserByQRCode q) u = getUserByQRCode J q (user_callback VUser u)"

fun meeting_act :: "call_json \<Rightarrow> meeting_call \<Rightarrow> user_cb \<Rightarrow> client_act" where
  "meeting_act J (InitiateCall uid ct) u = initiateCall J uid ct (user_callback VCall u)"
| "meeting_act J (JoinCall cid) u = joinCall J cid (user_callback VCall u)"
| "meeting_act J (RejectCall cid) u = rejectCall J cid (user_callback (\<lambda>_. VUnit) u)"
| "meeting_act J (EndCall cid) u = endCall J cid (user_callback (\<lambda>_. VUnit) u)"
| "meeting_act J (GetCallSession cid) u = getCallSession J cid (user_callback VCall u)"
| "meeting_act J (GetCallLogs p n) u = getCallLogs J p n (user_callback VCallLogs u)"
| "meeting_act J (CreateMeeting txt pw n) u = createMeeting J txt pw n (user_callback VMeeting u)"
| "meeting_act J (JoinMeeting rid pw) u = joinMeeting J rid pw (user_callback VMeeting u)"
| "meeting_act J (EndMeeting rid) u = endMeeting J rid (user_callback (\<lambda>_. VUnit) u)"
| "meeting_act J (GetMeeting rid) u = getMeeting J rid (user_callback VMeeting u)"
| "meeting_act J (ListMeetings p n) u = listMeetings J p n (user_callback VMeetings u)"

text \<open>The flag of an upload: whether its user wants progress reports.\<close>

fun file_act :: "file_json \<Rightarrow> file_system \<Rightarrow> file_call \<Rightarrow> user_cb \<Rightarrow> client_act" where
  "file_act J fs (Upload path ft prog) u = upload J fs path ft (if prog then user_progress (cb_id u) else None) (user_callback VFile u)"
| "file_act J fs (UploadClientLog path n prog) u =
     uploadClientLog J fs path (if prog then user_progress (cb_id u) else None) (user_callback VFile u) n"
| "file_act J fs (GetDownloadUrl fid) u = getDownloadUrl J fid (user_callback VUrl u)"
| "file_act J fs (GetFileInfo fid) u = getFileInfo J fid (user_callback VFile u)"
| "file_act J fs (ListFiles ft p n) u = listFiles J ft p n (user_callback VFiles u)"
| "file_act J fs (DeleteFile fid) u = deleteFile J fid (user_callback (\<lambda>_. VUnit) u)"

fun version_act :: "version_json \<Rightarrow> version_call \<Rightarrow> user_cb \<Rightarrow> client_act" where
  "version_act J (CheckVersion p v n) u = checkVersion J p v n (user_callback VVersionCheck u)"
| "version_act J (GetLatestVersion p r) u = getLatestVersion J p r (user_callback VVersion u)"
| "version_act J (ListVersions p r n k) u = listVersions J p r n k (user_callback VVersions u)"
| "version_act J (ReportVersion p v n dev os sdk) u = reportVersion J p v n dev os sdk (user_callback (\<lambda>_. VUnit) u)"

fun api_act :: "client_env \<Rightarrow> api \<Rightarrow> user_cb \<Rightarrow> client_act" where
  "api_act E (Auth c) u = auth_act (j_auth E) c u"
| "api_act E (Msg c) u = msg_act (j_msg E) c u"
| "api_act E (Conv c) u = conv_act (j_conv E) c u"
| "api_act E (Friends c) u = friend_act (j_friend E) c u"
| "api_act E (Groups c) u = group_act (j_group E) c u"
| "api_act E (Users c) u = user_act (j_user E) c u"
| "api_act E (Meetings c) u = meeting_act (j_call E) c u"
| "api_act E (Files c) u = file_act (j_file E) (files E) c u"
| "api_act E (Versions c) u = version_act (j_version E) c u"
| "api_act E Logout u = client_logout E (user_callback (\<lambda>_. VUnit) u)"

section \<open>Everything that may happen\<close>

datatype listener = AuthListener | MsgListener | ConvListener | FriendListener | GroupListener | UserListener
  | CallListener | StateListener

fun listener_act :: "listener \<Rightarrow> bool \<Rightarrow> client_act" where
  "listener_act AuthListener b = auth_setListener b"
| "listener_act MsgListener b = msg_setListener b"
| "listener_act ConvListener b = conv_setListener b"
| "listener_act FriendListener b = friend_setListener b"
| "listener_act GroupListener b = group_setListener b"
| "listener_act UserListener b = user_setListener b"
| "listener_act CallListener b = call_setListener b"
| "listener_act StateListener b = setOnConnectionStateChanged b"

datatype happening =
    Api api user_cb
  | Send string string user_cb
  | Login string string int string user_cb
  | Link link_event
  | SetListener listener bool
  | SetUser string
  | Clock int

fun happening_act :: "client_env \<Rightarrow> happening \<Rightarrow> client_act" where
  "happening_act E (Api c u) = api_act E c u"
| "happening_act E (Send cid txt u) = sendTextMessage (j_msg E) cid txt u"
| "happening_act E (Login account pw dt cv u) = client_login E account pw dt cv (user_callback VAuthToken u)"
| "happening_act E (Link e) = link_act E e"
| "happening_act E (SetListener l b) = listener_act l b"
| "happening_act E (SetUser uid) = setCurrentUserId uid"
| "happening_act E (Clock t) = modify (\<lambda>s. s\<lparr>now_ms := t\<rparr>)"

text \<open>The call an act belongs to.\<close>

fun call_of :: "happening \<Rightarrow> nat option" where
  "call_of (Api c u) = Some (cb_id u)"
| "call_of (Send cid txt u) = Some (cb_id u)"
| "call_of (Login account pw dt cv u) = Some (cb_id u)"
| "call_of _ = None"

section \<open>The invariant\<close>

lemma keeps_calls: "keeps (client_inv X) (auth_act JA ca u)" "keeps (client_inv X) (msg_act JM cm u)"
    "keeps (client_inv X) (conv_act JC cc u)" "keeps (client_inv X) (friend_act JF cf u)"
    "keeps (client_inv X) (group_act JG cg u)" "keeps (client_inv X) (user_act JU cu u)"
    "keeps (client_inv X) (meeting_act JK ck u)" "keeps (client_inv X) (file_act JL fs cl u)"
    "keeps (client_inv X) (version_act JV cv u)"
  by (cases ca, simp_all add: keeps_auth_ops)
    (cases cm, simp_all add: keeps_msg_ops keeps_ackMessages, cases cc, simp_all add: keeps_conv_ops,
     cases cf, simp_all add: keeps_friend_ops, cases cg, simp_all add: keeps_group_ops,
     cases cu, simp_all add: keeps_user_ops keeps_updatePushToken_for, cases ck, simp_all add: keeps_call_ops,
     cases cl, simp_all add: keeps_file_ops, cases cv, simp_all add: keeps_version_ops)

lemma keeps_api_act: "conn_safe (snd X) \<Longrightarrow> keeps (client_inv X) (api_act E c u)"
  by (cases c) (simp_all add: keeps_calls keeps_client_ops)

lemma keeps_listener_act: "keeps (client_inv X) (listener_act l b)"
  by (cases l) (auto simp: auth_setListener_def msg_setListener_def conv_setListener_def friend_setListener_def
      group_setListener_def user_setListener_def call_setListener_def setOnConnectionStateChanged_def client_inv_def
      intro!: keeps_modify)

text \<open>Calls in the scope are not sent messages, events of the connection are in the scope.\<close>

lemma keeps_happening:
  assumes "conn_safe (snd X)" and "\<And>cid txt u. h = Send cid txt u \<Longrightarrow> cb_id u \<notin> fst X" and "\<And>e. h = Link e \<Longrightarrow> in_scope X e"
  shows "keeps (client_inv X) (happening_act E h)"
  using assms
  by (cases h) (auto simp: keeps_api_act keeps_client_ops keeps_link_act keeps_listener_act keeps_sendTextMessage
      setCurrentUserId_def client_inv_def intro!: keeps_modify)

section \<open>Answers\<close>

text \<open>Either the call in question, with both functions set, or another one.\<close>

definition counted :: "nat \<Rightarrow> nat \<Rightarrow> user_cb \<Rightarrow> bool" where
  "counted i n u \<longleftrightarrow> n = 1 \<and> u = full_cb i \<or> n = 0 \<and> cb_id u \<noteq> i"

lemma cb_answers_counted [simp]: "counted i n u \<Longrightarrow> cb_answers i n (user_callback wrap u)"
  by (auto simp: counted_def cb_answers_user cb_answers_other simp del: One_nat_def)

lemma answers_calls:
  assumes "counted i n u"
  shows "answers (about i) n (auth_act JA ca u)" "answers (about i) n (msg_act JM cm u)"
    "answers (about i) n (conv_act JC cc u)" "answers (about i) n (friend_act JF cf u)"
    "answers (about i) n (group_act JG cg u)" "answers (about i) n (user_act JU cu u)"
    "answers (about i) n (meeting_act JK ck u)" "answers (about i) n (file_act JL fs cl u)"
    "answers (about i) n (version_act JV cv u)"
  using assms
  by (cases ca, simp_all add: answers_auth_ops)
    (cases cm, simp_all add: answers_msg_ops answers_ackMessages, cases cc, simp_all add: answers_conv_ops,
     cases cf, simp_all add: answers_friend_ops, cases cg, simp_all add: answers_group_ops,
     cases cu, simp_all add: answers_user_ops answers_updatePushToken_for, cases ck, simp_all add: answers_call_ops,
     cases cl, simp_all add: answers_file_ops, cases cv, simp_all add: answers_version_ops)

lemma answers_api_act: "counted i n u \<Longrightarrow> answers (about i) n (api_act E c u)"
  by (cases c) (simp_all add: answers_calls answers_client_ops)

lemma answers_listener_act: "answers P 0 (listener_act l b)"
  by (cases l) (simp_all add: auth_setListener_def msg_setListener_def conv_setListener_def friend_setListener_def
      group_setListener_def user_setListener_def call_setListener_def setOnConnectionStateChanged_def answers_modify)

text \<open>Whatever else happens does not answer the call.\<close>

text \<open>A call whose callback is not in the queue; nothing is asked of the connection.\<close>

abbreviation calls_only :: "nat \<Rightarrow> scope" where
  "calls_only i \<equiv> ({i}, \<lambda>_. True)"

lemma in_scope_True [simp]: "snd X = (\<lambda>_. True) \<Longrightarrow> in_scope X e"
  by (simp add: in_scope_def conn_safe_True)

lemma answers_happening:
  assumes "call_of h \<noteq> Some i"
  shows "answers_in (client_inv (calls_only i)) (about i) 0 (happening_act E h)"
proof (cases "\<exists>e. h = Link e")
  case True
  then show ?thesis by (auto intro!: answers_link_act)
next
  case False
  have "answers (about i) 0 (happening_act E h)"
    using assms False
    by (cases h) (auto simp: counted_def answers_api_act answers_client_ops answers_sendTextMessage answers_listener_act
        setCurrentUserId_def answers_modify)
  moreover have "keeps (client_inv (calls_only i)) (happening_act E h)"
    using assms by (intro keeps_happening) (auto simp: conn_safe_True)
  ultimately show ?thesis by (rule answers_keeps)
qed

end
