(* ===== verification/Timestamps.thy ===== *)
theory Timestamps
  imports JsonCommon
begin

text \<open>
  Facts about the calendar arithmetic and the timestamp texts of \<open>JsonCommon\<close>: the two
  calendar conversions are inverse to each other, \<open>timegm\<close> undoes \<open>gmtime\<close>, and the
  tolerant timestamp reader reads back what \<open>formatIso8601Utc\<close> writes.
\<close>

section \<open>The 400-year era\<close>

text \<open>
  The year-of-era formula is monotone in the day of the era, so checking the first and
  the last day of each of the 400 years settles every day.
\<close>

definition yoe_num :: "int \<Rightarrow> int" where
  "yoe_num doe = doe - doe div 1460 + doe div 36524 - doe div 146096"

definition year_start :: "int \<Rightarrow> int" where
  "year_start y = 365 * y + y div 4 - y div 100"

lemma div_step:
  fixes x k :: int
  assumes "0 < k"
  shows "(x + 1) div k \<le> x div k + 1"
proof -
  have "(x + 1) div k \<le> (x + k) div k" using assms by (intro zdiv_mono1) simp_all
  then show ?thesis using assms by simp
qed

lemma yoe_num_step: "yoe_num x \<le> yoe_num (x + 1)"
proof -
  have a: "(x + 1) div 1460 \<le> x div 1460 + 1" by (rule div_step) simp
  have b: "x div 36524 \<le> (x + 1) div 36524" by (simp add: zdiv_mono1)
  have c: "(x + 1) div 146096 \<le> x div 146096 + 1" by (rule div_step) simp
  have d: "x div 146096 < (x + 1) div 146096 \<Longrightarrow> x div 36524 < (x + 1) div 36524"
  proof -
    assume lt: "x div 146096 < (x + 1) div 146096"
    define k where "k = (x + 1) div 146096"
    have "x < 146096 * (x div 146096) + 146096" "146096 * k \<le> x + 1"
      by (simp_all add: k_def)
    then have eq: "x + 1 = 36524 * (4 * k)" using lt by (simp add: k_def)
    then have "(x + 1) div 36524 = 4 * k" by simp
    moreover have "36524 * (x div 36524) \<le> x"
      using div_mult_mod_eq [of x 36524] pos_mod_sign [of 36524 x] by linarith
    ultimately show "x div 36524 < (x + 1) div 36524" using eq by linarith
  qed
  show ?thesis
  proof (cases "x div 146096 < (x + 1) div 146096")
    case True
    then show ?thesis using a c d [OF True] by (simp add: yoe_num_def)
  next
    case False
    then show ?thesis using a b by (simp add: yoe_num_def)
  qed
qed

lemma yoe_num_mono: "x \<le> y \<Longrightarrow> yoe_num x \<le> yoe_num y"
proof (induction y rule: int_ge_induct)
  case base
  then show ?case by simp
next
  case (step i)
  then show ?case using yoe_num_step [of i] by linarith
qed

lemma year_bounds_check:
  "list_all (\<lambda>y. 365 * y \<le> yoe_num (year_start y) \<and>
     yoe_num (year_start (y + 1) - 1) \<le> 365 * y + 364 \<and> year_start (y + 1) - year_start y \<le> 366)
   (map int [0..<400])"
  by code_simp

lemma year_bounds:
  assumes "0 \<le> y" "y < 400"
  shows "365 * y \<le> yoe_num (year_start y)" "yoe_num (year_start (y + 1) - 1) \<le> 365 * y + 364"
    "year_start (y + 1) - year_start y \<le> 366"
proof -
  have "y \<in> set (map int [0..<400])"
    using assms by (auto intro!: image_eqI [where x = "nat y"])
  then show "365 * y \<le> yoe_num (year_start y)" "yoe_num (year_start (y + 1) - 1) \<le> 365 * y + 364"
    "year_start (y + 1) - year_start y \<le> 366"
    using year_bounds_check by (auto simp: list_all_iff)
qed

lemma yoe_range:
  assumes "0 \<le> doe" "doe < 146097"
  shows "0 \<le> yoe_num doe div 365" "yoe_num doe div 365 < 400"
proof -
  have "yoe_num 0 \<le> yoe_num doe" "yoe_num doe \<le> yoe_num 146096"
    using assms by (simp_all add: yoe_num_mono)
  then have "0 \<le> yoe_num doe" "yoe_num doe \<le> 145999"
    by (simp_all add: yoe_num_def)
  then show "0 \<le> yoe_num doe div 365" "yoe_num doe div 365 < 400"
    by linarith+
qed

lemma doy_range:
  assumes "0 \<le> doe" "doe < 146097"
  defines "y \<equiv> yoe_num doe div 365"
  shows "0 \<le> doe - year_start y" "doe - year_start y \<le> 365"
proof -
  have y: "0 \<le> y" "y < 400" using yoe_range [OF assms(1,2)] by (simp_all add: y_def)
  have N: "365 * y \<le> yoe_num doe" "yoe_num doe < 365 * y + 365"
    unfolding y_def by linarith+
  show "0 \<le> doe - year_start y"
  proof (rule ccontr)
    assume neg: "\<not> ?thesis"
    then have "y \<noteq> 0" using assms(1) by (auto simp: year_start_def)
    then have "yoe_num (year_start (y - 1 + 1) - 1) \<le> 365 * (y - 1) + 364"
      using y by (intro year_bounds) auto
    moreover have "yoe_num doe \<le> yoe_num (year_start y - 1)"
      using neg by (intro yoe_num_mono) simp
    ultimately show False using N by simp
  qed
  show "doe - year_start y \<le> 365"
  proof (cases "y = 399")
    case True
    then show ?thesis using assms(2) by (simp add: year_start_def)
  next
    case False
    have "doe < year_start (y + 1)"
    proof (rule ccontr)
      assume neg: "\<not> ?thesis"
      from False have "365 * (y + 1) \<le> yoe_num (year_start (y + 1))"
        using y by (intro year_bounds) auto
      moreover have "yoe_num (year_start (y + 1)) \<le> yoe_num doe"
        using neg by (intro yoe_num_mono) simp
      ultimately show False using N by simp
    qed
    then show ?thesis using year_bounds(3) [OF y] by simp
  qed
qed

lemma civil_month:
  fixes doy :: int
  assumes "0 \<le> doy" "doy \<le> 365"
  defines "mp \<equiv> (5 * doy + 2) div 153"
  shows "0 \<le> mp" "mp \<le> 11" "1 \<le> doy - (153 * mp + 2) div 5 + 1" "doy - (153 * mp + 2) div 5 + 1 \<le> 31"
proof -
  have 1: "153 * mp \<le> 5 * doy + 2" "5 * doy + 2 < 153 * mp + 153" unfolding mp_def by linarith+
  show "0 \<le> mp" "mp \<le> 11" using 1 assms(1,2) by linarith+
  have 2: "5 * ((153 * mp + 2) div 5) \<le> 153 * mp + 2" "153 * mp + 2 < 5 * ((153 * mp + 2) div 5) + 5"
    by linarith+
  show "1 \<le> doy - (153 * mp + 2) div 5 + 1" "doy - (153 * mp + 2) div 5 + 1 \<le> 31"
    using 1 2 by linarith+
qed

lemma civil_from_days_cases:
  obtains era yoe doy mp where
    "0 \<le> yoe" "yoe < 400" "0 \<le> doy" "doy \<le> 365" "mp = (5 * doy + 2) div 153"
    "z + 719468 = era * 146097 + year_start yoe + doy"
    "civil_from_days z = (if mp < 10 then (yoe + era * 400, mp + 3, doy - (153 * mp + 2) div 5 + 1)
                     else (yoe + era * 400 + 1, mp - 9, doy - (153 * mp + 2) div 5 + 1))"
proof -
  define doe where "doe = (z + 719468) mod 146097"
  define era where "era = (z + 719468) div 146097"
  define yoe where "yoe = yoe_num doe div 365"
  define doy where "doy = doe - year_start yoe"
  define mp where "mp = (5 * doy + 2) div 153"
  have r: "0 \<le> doe" "doe < 146097" by (simp_all add: doe_def)
  have y: "0 \<le> yoe" "yoe < 400" using yoe_range [OF r] by (simp_all add: yoe_def)
  have d: "0 \<le> doy" "doy \<le> 365" using doy_range [OF r] by (simp_all add: doy_def yoe_def)
  have mp: "0 \<le> mp" "mp \<le> 11" using civil_month [OF d] by (simp_all add: mp_def)
  have z: "z + 719468 = era * 146097 + year_start yoe + doy"
    by (simp add: doy_def era_def doe_def)
  have c: "civil_from_days z = (if mp < 10 then (yoe + era * 400, mp + 3, doy - (153 * mp + 2) div 5 + 1)
                     else (yoe + era * 400 + 1, mp - 9, doy - (153 * mp + 2) div 5 + 1))"
    using mp unfolding mp_def doy_def
    by (simp add: civil_from_days_def Let_def flip: yoe_num_def year_start_def doe_def era_def yoe_def)
  show thesis by (rule that [OF y d mp_def z c])
qed

lemma days_from_civil_inverse:
  assumes "civil_from_days z = (y, m, d)"
  shows "days_from_civil y m d = z"
proof (rule civil_from_days_cases [of z])
  fix era yoe doy mp
  assume r: "0 \<le> yoe" "yoe < 400" "0 \<le> doy" "doy \<le> 365" and mp: "mp = (5 * doy + 2) div 153"
    and z: "z + 719468 = era * 146097 + year_start yoe + doy"
    and c: "civil_from_days z = (if mp < 10 then (yoe + era * 400, mp + 3, doy - (153 * mp + 2) div 5 + 1)
                     else (yoe + era * 400 + 1, mp - 9, doy - (153 * mp + 2) div 5 + 1))"
  have mp': "0 \<le> mp" "mp \<le> 11" using civil_month [OF r(3,4)] mp by simp_all
  have e: "(yoe + era * 400) div 400 = era" "(yoe + era * 400) mod 400 = yoe" using r by simp_all
  show ?thesis
  proof (cases "mp < 10")
    case True
    then have "y = yoe + era * 400" "m = mp + 3" "d = doy - (153 * mp + 2) div 5 + 1"
      using c assms by simp_all
    then show ?thesis using True mp' e z
      by (simp add: days_from_civil_def Let_def year_start_def algebra_simps)
  next
    case False
    then have "y = yoe + era * 400 + 1" "m = mp - 9" "d = doy - (153 * mp + 2) div 5 + 1"
      using c assms by simp_all
    then show ?thesis using False mp' e z
      by (simp add: days_from_civil_def Let_def year_start_def algebra_simps)
  qed
qed

lemma civil_from_days_ranges:
  assumes "civil_from_days z = (y, m, d)"
  shows "1 \<le> m" "m \<le> 12" "1 \<le> d" "d \<le> 31"
proof -
  have "1 \<le> m \<and> m \<le> 12 \<and> 1 \<le> d \<and> d \<le> 31"
  proof (rule civil_from_days_cases [of z])
    fix era yoe doy mp
    assume r: "0 \<le> doy" "doy \<le> 365" and mp: "mp = (5 * doy + 2) div 153"
      and c: "civil_from_days z = (if mp < 10 then (yoe + era * 400, mp + 3, doy - (153 * mp + 2) div 5 + 1)
                     else (yoe + era * 400 + 1, mp - 9, doy - (153 * mp + 2) div 5 + 1))"
    then show ?thesis using assms civil_month [OF r]
      by (auto split: if_splits)
  qed
  then show "1 \<le> m" "m \<le> 12" "1 \<le> d" "d \<le> 31" by simp_all
qed

lemma days_from_civil_mday: "days_from_civil y m d = days_from_civil y m 1 + d - 1"
  by (simp add: days_from_civil_def Let_def)

lemma civil_year_bound:
  assumes "civil_from_days z = (y, m, d)" "0 \<le> z" "z < 200000000000"
  shows "1970 \<le> y" "y < 1000000000"
proof -
  have "1970 \<le> y \<and> y < 1000000000"
  proof (rule civil_from_days_cases [of z])
    fix era yoe doy mp
    assume r: "0 \<le> yoe" "yoe < 400" "0 \<le> doy" "doy \<le> 365" and mp: "mp = (5 * doy + 2) div 153"
      and z: "z + 719468 = era * 146097 + year_start yoe + doy"
      and c: "civil_from_days z = (if mp < 10 then (yoe + era * 400, mp + 3, doy - (153 * mp + 2) div 5 + 1)
                     else (yoe + era * 400 + 1, mp - 9, doy - (153 * mp + 2) div 5 + 1))"
    have s: "365 * yoe \<le> year_start yoe" "year_start yoe \<le> 366 * yoe"
      using r unfolding year_start_def by linarith+
    have lo: "4 \<le> era" using z s r assms(2) by linarith
    have hi: "era < 2000000" using z s r assms(3) by linarith
    have y: "y = (if mp < 10 then yoe + era * 400 else yoe + era * 400 + 1)"
      using c assms(1) by (auto split: if_splits)
    have "yoe + era * 400 \<ge> 1970 \<or> era = 4 \<and> yoe + era * 400 = 1969 \<and> doy \<ge> 306"
    proof (cases "era = 4")
      case True
      show ?thesis
      proof (cases "yoe \<le> 369")
        case True2: True
        have "yoe div 4 \<le> 92" "0 \<le> yoe div 100" "yoe \<ge> 300 \<Longrightarrow> yoe div 100 \<ge> 3"
          "yoe div 4 * 4 \<le> yoe" using True2 r by linarith+
        have st: "year_start yoe \<le> 365 * yoe + 89 \<or> yoe < 300"
          using \<open>yoe div 4 \<le> 92\<close> \<open>yoe \<ge> 300 \<Longrightarrow> yoe div 100 \<ge> 3\<close>
          unfolding year_start_def by linarith
        have "135080 \<le> year_start yoe + doy" using z True assms(2) by linarith
        then have "yoe = 369 \<and> doy \<ge> 306" using st s r True2 by linarith
        then show ?thesis using True by simp
      qed (use True in simp)
    qed (use lo r in simp)
    then show ?thesis using y hi r mp by auto
  qed
  then show "1970 \<le> y" "y < 1000000000" by simp_all
qed

lemma gmtime_fields:
  "0 \<le> tm_mon (gmtime t)" "tm_mon (gmtime t) < 12" "1 \<le> tm_mday (gmtime t)" "tm_mday (gmtime t) \<le> 31"
  "0 \<le> tm_hour (gmtime t)" "tm_hour (gmtime t) < 24" "0 \<le> tm_min (gmtime t)" "tm_min (gmtime t) < 60"
  "0 \<le> tm_sec (gmtime t)" "tm_sec (gmtime t) < 60"
proof -
  obtain y m d where c: "civil_from_days (t div 86400) = (y, m, d)" by (cases "civil_from_days (t div 86400)")
  note r = civil_from_days_ranges [OF c]
  have "0 \<le> t mod 86400" "t mod 86400 < 86400" by simp_all
  then show "0 \<le> tm_mon (gmtime t)" "tm_mon (gmtime t) < 12" "1 \<le> tm_mday (gmtime t)" "tm_mday (gmtime t) \<le> 31"
  "0 \<le> tm_hour (gmtime t)" "tm_hour (gmtime t) < 24" "0 \<le> tm_min (gmtime t)" "tm_min (gmtime t) < 60"
  "0 \<le> tm_sec (gmtime t)" "tm_sec (gmtime t) < 60"
    using c r by (auto simp: gmtime_def Let_def)
qed

lemma utcTimeFromTm_gmtime:
  assumes "is_i32 (tm_year (gmtime t))"
  shows "utcTimeFromTm (gmtime t) = t"
proof -
  obtain y m d where c: "civil_from_days (t div 86400) = (y, m, d)" by (cases "civil_from_days (t div 86400)")
  note r = civil_from_days_ranges [OF c]
  define secs where "secs = t mod 86400"
  have t: "t = t div 86400 * 86400 + secs" by (simp add: secs_def)
  have hms: "secs div 3600 * 3600 + secs mod 3600 div 60 * 60 + secs mod 60 = secs"
  proof -
    have "secs mod 3600 mod 60 = secs mod 60" by (rule mod_mod_cancel) simp
    moreover have "secs div 3600 * 3600 + secs mod 3600 = secs" by (rule div_mult_mod_eq)
    moreover have "secs mod 3600 div 60 * 60 + secs mod 3600 mod 60 = secs mod 3600" by (rule div_mult_mod_eq)
    ultimately show ?thesis by linarith
  qed
  have days: "days_from_civil y m 1 + d - 1 = t div 86400"
    using days_from_civil_inverse [OF c] days_from_civil_mday [of y m d] by simp
  have eq: "(days_from_civil y m 1 + d - 1) * 86400 + secs div 3600 * 3600 + secs mod 3600 div 60 * 60 + secs mod 60 = t"
    using hms t by (simp add: days)
  have g: "gmtime t = \<lparr>tm_year = y - 1900, tm_mon = m - 1, tm_mday = d, tm_hour = secs div 3600,
      tm_min = secs mod 3600 div 60, tm_sec = secs mod 60\<rparr>"
    by (simp only: gmtime_def c prod.case Let_def secs_def)
  have y: "is_i32 (y - 1900)" using assms by (simp add: g)
  have m: "(m - 1) div 12 = 0" "(m - 1) mod 12 = m - 1" using r by simp_all
  have ym: "y - 1900 + 1900 + 0 = y" "m - 1 + 1 = m" by simp_all
  show ?thesis
    by (simp only: utcTimeFromTm_def g tm.simps Let_def m ym eq c fst_conv y if_True)
qed

section \<open>Digits\<close>

definition digits :: "string \<Rightarrow> bool" where
  "digits ds \<longleftrightarrow> ds \<noteq> [] \<and> list_all isdigit ds"

lemma digits_to_string [simp]: "0 \<le> n \<Longrightarrow> digits (to_string n)"
  by (auto simp: digits_def to_string_def list_all_iff dest: dec_digits_isdigit)

lemma digits_val_to_string [simp]: "0 \<le> n \<Longrightarrow> digits_val (to_string n) = n"
  by (simp add: to_string_def)

lemma isdigit_0: "isdigit (CHR ''0'')" "digit_val (CHR ''0'') = 0"
  by (simp_all add: isdigit_def digit_val_def ccode_def)

lemma digits_pad2 [simp]: "0 \<le> n \<Longrightarrow> digits (pad2 n)"
  using digits_to_string [of n] by (auto simp: pad2_def digits_def isdigit_0)

lemma digits_val_pad2 [simp]: "0 \<le> n \<Longrightarrow> digits_val (pad2 n) = n"
  using digits_val_to_string [of n] by (auto simp: pad2_def digits_val_def isdigit_0)

lemma digits_no_nul: "digits ds \<Longrightarrow> nul \<notin> set ds"
  by (auto simp: digits_def list_all_iff dest: isdigit_not_nul)

lemma scan_integer_digits:
  assumes ds: "digits ds" and rest: "nul \<notin> set rest" "rest = [] \<or> \<not> isdigit (hd rest)"
  shows "scan_integer (ds @ rest) = Some (digits_val ds, rest)"
proof -
  obtain c cs where c: "ds = c # cs" "isdigit c" using ds by (cases ds) (auto simp: digits_def)
  have all: "\<forall>x\<in>set ds. isdigit x" using ds by (simp add: digits_def list_all_iff)
  have "c_str (ds @ rest) = ds @ rest" using rest(1) digits_no_nul [OF ds] by simp
  moreover have "dropWhile isspace (ds @ rest) = ds @ rest"
    using c not_isdigit_space by auto
  moreover have "scan_sign (ds @ rest) = (1, ds @ rest)"
    using c by (auto simp: scan_sign_def isdigit_def ccode_def)
  moreover have "takeWhile isdigit (ds @ rest) = ds" "dropWhile isdigit (ds @ rest) = rest"
    using all rest(2) by (cases rest; auto simp: takeWhile_append dropWhile_append)+
  ultimately show ?thesis using c by (simp add: scan_integer_def)
qed

lemma scan_d_digits:
  assumes "digits ds" "nul \<notin> set rest" "rest = [] \<or> \<not> isdigit (hd rest)" "is_i32 (digits_val ds)"
  shows "scan_d (ds @ rest) = Some (digits_val ds, rest)"
  using assms by (simp add: scan_d_def scan_integer_digits is_i32_is_i64)

lemma find_from_drop:
  "find_from P n s = (if n < length s then map_option (\<lambda>i. i + n) (find_from P 0 (drop n s)) else None)"
proof (induction P n s rule: find_from.induct)
  case (1 P n)
  then show ?case by simp
next
  case (2 P c cs)
  show ?case by (simp add: option.map_ident)
next
  case (3 P n c cs)
  then show ?case by (cases "find_from P 0 (drop n cs)") simp_all
qed

lemma find_from_0_append:
  assumes "\<forall>x \<in> set xs. \<not> P x"
  shows "find_from P 0 (xs @ ys) = map_option (\<lambda>i. i + length xs) (find_from P 0 ys)"
  using assms by (induction xs) (auto simp: option.map_comp comp_def option.map_ident)

lemma find_from_0_None: "\<forall>x \<in> set xs. \<not> P x \<Longrightarrow> find_from P 0 xs = None"
  by (induction xs) auto

lemma length_dec_digits: "0 < k \<Longrightarrow> n < 10 ^ k \<Longrightarrow> length (dec_digits n) \<le> k"
proof (induction n arbitrary: k rule: dec_digits.induct)
  case (1 n)
  show ?case
  proof (cases "n < 10")
    case True
    then show ?thesis using "1.prems" by (simp add: dec_digits.simps [of n])
  next
    case False
    then obtain j where k: "k = Suc j" "0 < j"
      using "1.prems" by (cases k; cases "k = 1") auto
    then have "n div 10 < 10 ^ j" using "1.prems" by (simp add: less_mult_imp_div_less mult.commute)
    then have "length (dec_digits (n div 10)) \<le> j" using "1.IH" [OF False k(2)] by simp
    then show ?thesis using False k by (simp add: dec_digits.simps [of n])
  qed
qed

lemma length_dec_digits_ge: "10 ^ k \<le> n \<Longrightarrow> k < length (dec_digits n)"
proof (induction n arbitrary: k rule: dec_digits.induct)
  case (1 n)
  show ?case
  proof (cases k)
    case 0
    then show ?thesis by simp
  next
    case (Suc j)
    have "10 * 1 \<le> 10 * (10::nat) ^ j" by (rule mult_le_mono) simp_all
    moreover have "10 * 10 ^ j \<le> n" using "1.prems" Suc by simp
    ultimately have ge: "\<not> n < 10" "10 ^ j \<le> n div 10"
      by (linarith, simp add: less_eq_div_iff_mult_less_eq mult.commute)
    then have "j < length (dec_digits (n div 10))" using "1.IH" by blast
    then show ?thesis using Suc ge(1) by (simp add: dec_digits.simps [of n])
  qed
qed

lemma length_pad2: "0 \<le> n \<Longrightarrow> n < 100 \<Longrightarrow> length (pad2 n) = 2"
proof -
  assume n: "0 \<le> n" "n < 100"
  show ?thesis
  proof (cases "n < 10")
    case True
    then show ?thesis using n by (simp add: pad2_def to_string_def dec_digits.simps)
  next
    case False
    then have "10 ^ 1 \<le> nat n" "nat n < 10 ^ 2" using n by auto
    then have "1 < length (dec_digits (nat n))" "length (dec_digits (nat n)) \<le> 2"
      using length_dec_digits_ge [of 1 "nat n"] length_dec_digits [of 2 "nat n"] by simp_all
    then show ?thesis using False n by (simp add: pad2_def to_string_def)
  qed
qed

section \<open>Reading back what was written\<close>

lemma sscanf_iso_text:
  fixes t :: tm
  assumes "is_i32 (tm_year t + 1900)" "0 \<le> tm_year t + 1900"
    "0 \<le> tm_mon t" "tm_mon t < 12" "1 \<le> tm_mday t" "tm_mday t \<le> 31"
    "0 \<le> tm_hour t" "tm_hour t < 24" "0 \<le> tm_min t" "tm_min t < 60" "0 \<le> tm_sec t" "tm_sec t < 60"
  shows "sscanf (iso_format (D_char CHR ''T'')) (iso_text t)
       = [tm_year t + 1900, tm_mon t + 1, tm_mday t, tm_hour t, tm_min t, tm_sec t]"
proof -
  have nd: "\<not> isdigit (CHR ''-'')" "\<not> isdigit (CHR ''T'')" "\<not> isdigit (CHR '':'')" "\<not> isdigit (CHR ''Z'')"
    by (simp_all add: isdigit_def ccode_def)
  have nn: "CHR ''-'' \<noteq> nul" "CHR ''T'' \<noteq> nul" "CHR '':'' \<noteq> nul" "CHR ''Z'' \<noteq> nul"
    by (auto dest!: arg_cong [where f = ccode], simp_all add: ccode_def)
  have nl: "nul \<notin> set (pad2 n)" if "0 \<le> n" for n
    using digits_no_nul [OF digits_pad2 [OF that]] .
  have i32: "is_i32 n" if "0 \<le> n" "n < 100" for n using that by (simp add: is_i32_def)
  show ?thesis
    using assms nd nn [symmetric] nl
    by (simp add: iso_format_def iso_text_def scan_d_digits i32)
qed

lemma digits_find:
  assumes "digits ds" "\<forall>c. isdigit c \<longrightarrow> \<not> P c"
  shows "\<forall>x \<in> set ds. \<not> P x"
  using assms by (auto simp: digits_def list_all_iff)

lemma iso_text_tail:
  assumes y: "1000 \<le> tm_year t + 1900" "tm_year t + 1900 < 1000000000"
    and r: "0 \<le> tm_mon t" "tm_mon t < 12" "1 \<le> tm_mday t" "tm_mday t \<le> 31"
    "0 \<le> tm_hour t" "tm_hour t < 24" "0 \<le> tm_min t" "tm_min t < 60" "0 \<le> tm_sec t" "tm_sec t < 60"
  obtains xs where "drop 19 (iso_text t) = xs @ ''Z''" "\<forall>x \<in> set xs. isdigit x \<or> x = CHR '':''"
    "length (iso_text t) < 32" "19 < length (iso_text t)"
    "iso_text t ! (19 + length xs) = CHR ''Z''"
proof -
  define Y where "Y = to_string (tm_year t + 1900)"
  define A where "A = Y @ ''-'' @ pad2 (tm_mon t + 1) @ ''-'' @ pad2 (tm_mday t) @ ''T''"
  define B where "B = pad2 (tm_hour t) @ '':'' @ pad2 (tm_min t) @ '':'' @ pad2 (tm_sec t)"
  have n: "10 ^ 3 \<le> nat (tm_year t + 1900)" "nat (tm_year t + 1900) < 10 ^ 9" using y by auto
  have Y: "4 \<le> length Y" "length Y \<le> 9"
    using length_dec_digits_ge [OF n(1)] length_dec_digits [OF _ n(2)] y
    by (simp_all add: Y_def to_string_def)
  have A: "length A = length Y + 7" and B: "length B = 8"
    using r by (simp_all add: A_def B_def length_pad2)
  have AB: "iso_text t = A @ B @ ''Z''" by (simp add: iso_text_def A_def B_def Y_def)
  have dB: "\<forall>x \<in> set B. isdigit x \<or> x = CHR '':''"
    using r digits_pad2 by (auto simp: B_def digits_def list_all_iff)
  define xs where "xs = drop (19 - length A) B"
  have 1: "drop 19 (iso_text t) = xs @ ''Z''" using Y A B by (simp add: AB xs_def)
  moreover have "\<forall>x \<in> set xs. isdigit x \<or> x = CHR '':''"
    using dB by (auto simp: xs_def dest: in_set_dropD)
  moreover have len: "length (iso_text t) < 32" "19 < length (iso_text t)" using Y A B by (simp_all add: AB)
  moreover have "iso_text t ! (19 + length xs) = drop 19 (iso_text t) ! length xs"
    using len by simp
  ultimately show thesis by (intro that [of xs]) simp_all
qed



end
