(* ===== verification/LruCache.thy ===== *)
theory LruCache
  imports Prelude
begin

text \<open>
  \<open>core/src/cache/lru_cache.h\<close>: a bounded map with least-recently-used eviction, built
  from a doubly linked list of entries (front is the most recently used) and a hash map
  from keys to list iterators. Iterators of \<open>std::list\<close> stay valid while their node
  lives, so the model gives every node an identity: \<open>lru_list\<close> holds nodes, \<open>lru_map\<close>
  maps a key to the identity of its node. What \<open>back()\<close> of an empty list would be is
  undefined behaviour in C++ and is \<open>None\<close> here.
\<close>

record ('k, 'v) node =
  node_id :: nat
  node_key :: 'k
  node_val :: 'v

record ('k, 'v) lru =
  lru_capacity :: nat
  lru_list :: "('k, 'v) node list"
  lru_map :: "'k \<rightharpoonup> nat"
  lru_next :: nat

definition lru_new :: "nat \<Rightarrow> ('k, 'v) lru" where
  "lru_new capacity = \<lparr>lru_capacity = capacity, lru_list = [], lru_map = Map.empty, lru_next = 0\<rparr>"

text \<open>\<open>list_.splice(list_.begin(), list_, it)\<close>: the node moves to the front.\<close>

definition find_node :: "nat \<Rightarrow> ('k, 'v) node list \<Rightarrow> ('k, 'v) node option" where
  "find_node i ns = List.find (\<lambda>n. node_id n = i) ns"

definition erase_node :: "nat \<Rightarrow> ('k, 'v) node list \<Rightarrow> ('k, 'v) node list" where
  "erase_node i ns = filter (\<lambda>n. node_id n \<noteq> i) ns"

definition splice_front :: "nat \<Rightarrow> ('k, 'v) node list \<Rightarrow> ('k, 'v) node list" where
  "splice_front i ns = (case find_node i ns of None \<Rightarrow> ns | Some n \<Rightarrow> n # erase_node i ns)"

definition lru_get :: "'k \<Rightarrow> ('k, 'v) lru \<Rightarrow> 'v option \<times> ('k, 'v) lru" where
  "lru_get key c = (case lru_map c key of
      None \<Rightarrow> (None, c)
    | Some it \<Rightarrow>
        let l = splice_front it (lru_list c) in
        (map_option node_val (find_node it l), c\<lparr>lru_list := l\<rparr>))"

definition lru_put :: "'k \<Rightarrow> 'v \<Rightarrow> ('k, 'v) lru \<Rightarrow> ('k, 'v) lru option" where
  "lru_put key value c = (case lru_map c key of
      Some it \<Rightarrow>
        let l = map (\<lambda>n. if node_id n = it then n\<lparr>node_val := value\<rparr> else n) (lru_list c)
        in Some (c\<lparr>lru_list := splice_front it l\<rparr>)
    | None \<Rightarrow>
        let evicted =
          (if length (lru_list c) \<ge> lru_capacity c
           then (if lru_list c = [] then None
                 else Some (butlast (lru_list c), (lru_map c)(node_key (last (lru_list c)) := None)))
           else Some (lru_list c, lru_map c))
        in case evicted of
             None \<Rightarrow> None
           | Some (l, m) \<Rightarrow>
               Some (c\<lparr>lru_list := \<lparr>node_id = lru_next c, node_key = key, node_val = value\<rparr> # l,
                        lru_map := m(key \<mapsto> lru_next c), lru_next := Suc (lru_next c)\<rparr>))"

definition lru_remove :: "'k \<Rightarrow> ('k, 'v) lru \<Rightarrow> ('k, 'v) lru" where
  "lru_remove key c = (case lru_map c key of
      None \<Rightarrow> c
    | Some it \<Rightarrow> c\<lparr>lru_list := erase_node it (lru_list c), lru_map := (lru_map c)(key := None)\<rparr>)"

definition lru_clear :: "('k, 'v) lru \<Rightarrow> ('k, 'v) lru" where
  "lru_clear c = c\<lparr>lru_list := [], lru_map := Map.empty\<rparr>"

definition lru_size :: "('k, 'v) lru \<Rightarrow> nat" where
  "lru_size c = length (lru_list c)"

definition lru_contains :: "'k \<Rightarrow> ('k, 'v) lru \<Rightarrow> bool" where
  "lru_contains key c \<longleftrightarrow> lru_map c key \<noteq> None"

section \<open>The contract of a bounded recency map\<close>

text \<open>
  The specification works on the recency list alone: key-value pairs, most recent first.
\<close>

definition touch :: "'k \<Rightarrow> 'v \<Rightarrow> ('k \<times> 'v) list \<Rightarrow> ('k \<times> 'v) list" where
  "touch k v ps = (k, v) # filter (\<lambda>p. fst p \<noteq> k) ps"

locale recency_map =
  fixes get :: "'k \<Rightarrow> 'c \<Rightarrow> 'v option \<times> 'c"
    and put :: "'k \<Rightarrow> 'v \<Rightarrow> 'c \<Rightarrow> 'c option"
    and remove :: "'k \<Rightarrow> 'c \<Rightarrow> 'c"
    and entries :: "'c \<Rightarrow> ('k \<times> 'v) list"
    and capacity :: "'c \<Rightarrow> nat"
    and invar :: "'c \<Rightarrow> bool"
  assumes get_result: "invar c \<Longrightarrow> fst (get k c) = map_of (entries c) k"
    and get_entries: "invar c \<Longrightarrow> entries (snd (get k c)) =
          (case map_of (entries c) k of None \<Rightarrow> entries c | Some v \<Rightarrow> touch k v (entries c))"
    and put_entries: "invar c \<Longrightarrow> put k v c = Some c' \<Longrightarrow> entries c' =
          (if k \<in> fst ` set (entries c) \<or> length (entries c) < capacity c then touch k v (entries c)
           else touch k v (butlast (entries c)))"
    and put_defined: "invar c \<Longrightarrow> 0 < capacity c \<Longrightarrow> put k v c \<noteq> None"
    and remove_entries: "invar c \<Longrightarrow> entries (remove k c) = filter (\<lambda>p. fst p \<noteq> k) (entries c)"
    and invar_get: "invar c \<Longrightarrow> invar (snd (get k c))"
    and invar_put: "invar c \<Longrightarrow> 0 < capacity c \<Longrightarrow> put k v c = Some c' \<Longrightarrow> invar c'"
    and invar_remove: "invar c \<Longrightarrow> invar (remove k c)"
    and capacity_get: "capacity (snd (get k c)) = capacity c"
    and capacity_put: "put k v c = Some c' \<Longrightarrow> capacity c' = capacity c"
begin

text \<open>A value that was put is returned by the next \<open>get\<close>.\<close>

lemma get_after_put:
  assumes "invar c" "0 < capacity c" "put k v c = Some c'"
  shows "fst (get k c') = Some v"
  using assms by (simp add: get_result [OF invar_put [OF assms]] put_entries touch_def)

text \<open>Only the least recent entry of a full cache is evicted.\<close>

lemma put_keeps_recent:
  assumes "invar c" "put k v c = Some c'" "k' \<noteq> k"
    and "(k', v') \<in> set (take (capacity c - 1) (entries c))" "length (entries c) \<le> capacity c"
  shows "(k', v') \<in> set (entries c')"
proof (cases "k \<in> fst ` set (entries c) \<or> length (entries c) < capacity c")
  case True
  then show ?thesis using assms by (auto simp: put_entries touch_def dest: in_set_takeD)
next
  case False
  then have "length (entries c) = capacity c" using assms(5) by simp
  then have "take (capacity c - 1) (entries c) = butlast (entries c)"
    by (simp add: butlast_conv_take)
  then show ?thesis using assms False by (auto simp: put_entries touch_def)
qed

text \<open>A value survives lookups of other keys.\<close>

lemma get_after_get:
  assumes "invar c"
  shows "fst (get k (snd (get k' c))) = fst (get k c)"
  using assms
  by (auto simp: get_result invar_get get_entries touch_def map_of_filter_fst [where P = "\<lambda>x. x \<noteq> k'"]
      split: option.splits)

lemma get_after_remove:
  assumes "invar c"
  shows "fst (get k (remove k c)) = None"
  using assms by (simp add: get_result invar_remove remove_entries map_of_filter_fst [where P = "\<lambda>x. x \<noteq> k"])

end

section \<open>The list and the hash map implement it\<close>

definition lru_entries :: "('k, 'v) lru \<Rightarrow> ('k \<times> 'v) list" where
  "lru_entries c = map (\<lambda>n. (node_key n, node_val n)) (lru_list c)"

definition lru_inv :: "('k, 'v) lru \<Rightarrow> bool" where
  "lru_inv c \<longleftrightarrow>
     distinct (map node_id (lru_list c)) \<and> distinct (map node_key (lru_list c)) \<and>
     (\<forall>k i. lru_map c k = Some i \<longleftrightarrow> (\<exists>n \<in> set (lru_list c). node_id n = i \<and> node_key n = k)) \<and>
     (\<forall>n \<in> set (lru_list c). node_id n < lru_next c) \<and>
     length (lru_list c) \<le> lru_capacity c"

lemma lru_invI:
  assumes "distinct (map node_id (lru_list c))" "distinct (map node_key (lru_list c))"
    and "\<And>k i. lru_map c k = Some i \<longleftrightarrow> (\<exists>n \<in> set (lru_list c). node_id n = i \<and> node_key n = k)"
    and "\<And>n. n \<in> set (lru_list c) \<Longrightarrow> node_id n < lru_next c"
    and "length (lru_list c) \<le> lru_capacity c"
  shows "lru_inv c"
  unfolding lru_inv_def using assms by blast

lemma lru_inv_new: "lru_inv (lru_new capacity)"
  by (simp add: lru_inv_def lru_new_def)

lemma find_node_Some:
  "distinct (map node_id ns) \<Longrightarrow> n \<in> set ns \<Longrightarrow> find_node (node_id n) ns = Some n"
  unfolding find_node_def by (rule find_distinct_key)

lemma lru_map_None: "lru_inv c \<Longrightarrow> lru_map c k = None \<longleftrightarrow> k \<notin> node_key ` set (lru_list c)"
  unfolding lru_inv_def by (metis (no_types, lifting) image_iff option.exhaust_sel option.distinct(1))

lemma map_of_entries:
  "distinct (map node_key ns) \<Longrightarrow> n \<in> set ns \<Longrightarrow>
   map_of (map (\<lambda>n. (node_key n, node_val n)) ns) (node_key n) = Some (node_val n)"
  by (rule map_of_is_SomeI) (auto simp: comp_def)

lemma map_of_entries_None:
  "map_of (map (\<lambda>n. (node_key n, node_val n)) ns) k = None \<longleftrightarrow> k \<notin> node_key ` set ns"
  by (simp add: map_of_eq_None_iff image_image)

lemma lru_lookup:
  assumes "lru_inv c" "lru_map c k = Some i"
  obtains n where "n \<in> set (lru_list c)" "node_id n = i" "node_key n = k"
    "find_node i (lru_list c) = Some n"
proof -
  from assms obtain n where n: "n \<in> set (lru_list c)" "node_id n = i" "node_key n = k"
    unfolding lru_inv_def by blast
  moreover have "find_node i (lru_list c) = Some n"
    using assms n find_node_Some [of "lru_list c" n] by (simp add: lru_inv_def)
  ultimately show thesis by (rule that)
qed

text \<open>Erasing by identity is erasing by key: identities and keys correspond.\<close>

lemma erase_node_key:
  assumes "distinct (map node_id ns)" "distinct (map node_key ns)" "n \<in> set ns"
  shows "erase_node (node_id n) ns = filter (\<lambda>m. node_key m \<noteq> node_key n) ns"
  unfolding erase_node_def using assms
  by (intro filter_cong) (auto simp: distinct_map inj_on_def)

lemma erase_node_map:
  "(\<And>n. node_id (f n) = node_id n) \<Longrightarrow>
   erase_node i (map (\<lambda>n. if node_id n = i then f n else n) ns) = erase_node i ns"
  unfolding erase_node_def by (induction ns) auto

lemma find_node_map:
  "(\<And>n. node_id (f n) = node_id n) \<Longrightarrow>
   find_node i (map (\<lambda>n. if node_id n = i then f n else n) ns) = map_option f (find_node i ns)"
  unfolding find_node_def by (induction ns) auto

lemma splice_front_eq:
  assumes "distinct (map node_id ns)" "distinct (map node_key ns)" "n \<in> set ns"
  shows "splice_front (node_id n) ns = n # filter (\<lambda>m. node_key m \<noteq> node_key n) ns"
  using assms by (simp add: splice_front_def find_node_Some erase_node_key)

text \<open>Promoting a node, with a new value or the old one, keeps the invariant.\<close>

lemma lru_inv_promote:
  assumes inv: "lru_inv c" and n: "n \<in> set (lru_list c)"
    and n': "node_id n' = node_id n" "node_key n' = node_key n"
  shows "lru_inv (c\<lparr>lru_list := n' # filter (\<lambda>m. node_key m \<noteq> node_key n) (lru_list c)\<rparr>)"
proof -
  let ?ns = "lru_list c" and ?F = "filter (\<lambda>m. node_key m \<noteq> node_key n) (lru_list c)"
  have d: "distinct (map node_id ?ns)" "distinct (map node_key ?ns)" using inv by (simp_all add: lru_inv_def)
  have F: "?F = filter (\<lambda>m. node_id m \<noteq> node_id n) ?ns"
    using erase_node_key [OF d n] by (simp add: erase_node_def)
  have "distinct (map node_id ?F)" "distinct (map node_key ?F)" using d by (simp_all add: distinct_map_filter)
  moreover have "node_id n \<notin> node_id ` set ?F" by (subst F) auto
  ultimately have "distinct (map node_id (n' # ?F))" "distinct (map node_key (n' # ?F))"
    using n' by auto
  moreover have "(\<exists>m \<in> set (n' # ?F). node_id m = i \<and> node_key m = k) \<longleftrightarrow>
      (\<exists>m \<in> set ?ns. node_id m = i \<and> node_key m = k)" for k i
  proof -
    have "m = n" if "m \<in> set ?ns" "node_key m = node_key n" for m
      using d(2) that n by (auto simp: distinct_map inj_on_def)
    then show ?thesis using n n' by (auto; metis)
  qed
  moreover have "length (n' # ?F) \<le> length ?ns"
  proof -
    have "length ?F < length ?ns" using n by (intro length_filter_less [of n]) simp_all
    then show ?thesis by simp
  qed
  ultimately show ?thesis using inv n n' by (auto simp: lru_inv_def)
qed

lemma lru_get_hit:
  assumes "lru_inv c" "lru_map c k = Some i"
  obtains n where "n \<in> set (lru_list c)" "node_id n = i" "node_key n = k"
    "lru_get k c = (Some (node_val n), c\<lparr>lru_list := n # filter (\<lambda>m. node_key m \<noteq> k) (lru_list c)\<rparr>)"
proof -
  obtain n where n: "n \<in> set (lru_list c)" "node_id n = i" "node_key n = k"
    using lru_lookup [OF assms] by blast
  have d: "distinct (map node_id (lru_list c))" "distinct (map node_key (lru_list c))"
    using assms by (simp_all add: lru_inv_def)
  have "lru_get k c = (Some (node_val n), c\<lparr>lru_list := n # filter (\<lambda>m. node_key m \<noteq> k) (lru_list c)\<rparr>)"
    using assms(2) n splice_front_eq [OF d n(1)] by (simp add: lru_get_def find_node_def)
  with n show thesis by (rule that)
qed

lemma lru_put_hit:
  assumes "lru_inv c" "lru_map c k = Some i"
  obtains n where "n \<in> set (lru_list c)" "node_id n = i" "node_key n = k"
    "lru_put k v c = Some (c\<lparr>lru_list := n\<lparr>node_val := v\<rparr> # filter (\<lambda>m. node_key m \<noteq> k) (lru_list c)\<rparr>)"
proof -
  obtain n where n: "n \<in> set (lru_list c)" "node_id n = i" "node_key n = k"
    and f: "find_node i (lru_list c) = Some n"
    using lru_lookup [OF assms] by blast
  have d: "distinct (map node_id (lru_list c))" "distinct (map node_key (lru_list c))"
    using assms by (simp_all add: lru_inv_def)
  have "lru_put k v c = Some (c\<lparr>lru_list := n\<lparr>node_val := v\<rparr> # filter (\<lambda>m. node_key m \<noteq> k) (lru_list c)\<rparr>)"
    using assms(2) n f erase_node_key [OF d n(1)]
    by (simp add: lru_put_def splice_front_def find_node_map erase_node_map)
  with n show thesis by (rule that)
qed

lemma lru_put_miss_inv:
  assumes inv: "lru_inv c" and miss: "lru_map c k = None" and cap: "0 < lru_capacity c"
    and put: "lru_put k v c = Some c'"
  shows "lru_inv c'"
proof -
  define l where "l = (if length (lru_list c) \<ge> lru_capacity c then butlast (lru_list c) else lru_list c)"
  define m where "m = (if length (lru_list c) \<ge> lru_capacity c
     then (lru_map c)(node_key (last (lru_list c)) := None) else lru_map c)"
  let ?n = "\<lparr>node_id = lru_next c, node_key = k, node_val = v\<rparr>"
  have c': "c' = c\<lparr>lru_list := ?n # l, lru_map := m(k \<mapsto> lru_next c), lru_next := Suc (lru_next c)\<rparr>"
    using put miss by (auto simp: lru_put_def l_def m_def split: if_splits)
  have d: "distinct (map node_id (lru_list c))" "distinct (map node_key (lru_list c))"
    and mp: "\<And>k i. lru_map c k = Some i \<longleftrightarrow> (\<exists>n \<in> set (lru_list c). node_id n = i \<and> node_key n = k)"
    and lt: "\<And>n. n \<in> set (lru_list c) \<Longrightarrow> node_id n < lru_next c"
    and len: "length (lru_list c) \<le> lru_capacity c"
    using inv by (simp_all add: lru_inv_def)
  have sub: "set l \<subseteq> set (lru_list c)" by (auto simp: l_def dest: in_set_butlastD)
  have k: "k \<notin> node_key ` set (lru_list c)" using lru_map_None [OF inv] miss by blast
  have dl: "distinct (map node_id l)" "distinct (map node_key l)"
    using d by (auto simp: l_def map_butlast intro: distinct_butlast)
  have ml: "m k' = Some i \<longleftrightarrow> (\<exists>n \<in> set l. node_id n = i \<and> node_key n = k')" for k' i
  proof (cases "length (lru_list c) \<ge> lru_capacity c")
    case True
    with cap have ne: "lru_list c \<noteq> []" by auto
    then obtain B x where B: "lru_list c = B @ [x]" by (metis append_butlast_last_id)
    have "node_key x \<notin> node_key ` set B" using d(2) by (simp add: B)
    then have nk: "n \<in> set B \<Longrightarrow> node_key n \<noteq> node_key x" for n by (metis imageI)
    have st: "set (lru_list c) = insert x (set B)" by (simp add: B)
    have bl: "butlast (lru_list c) = B" "last (lru_list c) = x" by (simp_all add: B)
    show ?thesis using True mp nk by (auto simp: m_def l_def st bl)
  next
    case False
    then show ?thesis using mp by (simp add: m_def l_def)
  qed
  have nid: "lru_next c \<notin> node_id ` set l" using sub lt by fastforce
  have nk: "k \<notin> node_key ` set l" using sub k by auto
  have new: "lru_list c' = ?n # l" "lru_map c' = m(k \<mapsto> lru_next c)" "lru_next c' = Suc (lru_next c)"
    "lru_capacity c' = lru_capacity c"
    by (simp_all add: c')
  show ?thesis
  proof (rule lru_invI)
    show "distinct (map node_id (lru_list c'))" using nid dl(1) by (simp add: new)
    show "distinct (map node_key (lru_list c'))" using nk dl(2) by (simp add: new)
    show "lru_map c' k' = Some i \<longleftrightarrow> (\<exists>n \<in> set (lru_list c'). node_id n = i \<and> node_key n = k')" for k' i
      using ml [of k' i] nk by (cases "k' = k") (auto simp: new)
    show "node_id n < lru_next c'" if "n \<in> set (lru_list c')" for n
      using that sub lt less_Suc_eq by (auto simp: new)
    show "length (lru_list c') \<le> lru_capacity c'" using cap len by (auto simp: new l_def)
  qed
qed

lemma entries_filter:
  "map (\<lambda>n. (node_key n, node_val n)) (filter (\<lambda>m. node_key m \<noteq> k) ns)
   = filter (\<lambda>p. fst p \<noteq> k) (map (\<lambda>n. (node_key n, node_val n)) ns)"
  by (simp add: filter_map comp_def)

lemma lru_put_entries:
  assumes inv: "lru_inv c" and put: "lru_put k v c = Some c'"
  shows "lru_entries c' = (if k \<in> fst ` set (lru_entries c) \<or> length (lru_entries c) < lru_capacity c
     then touch k v (lru_entries c) else touch k v (butlast (lru_entries c)))"
proof (cases "lru_map c k")
  case None
  then have k: "k \<notin> node_key ` set (lru_list c)" using lru_map_None [OF inv] by blast
  then have f: "filter (\<lambda>p. fst p \<noteq> k) (map (\<lambda>n. (node_key n, node_val n)) ns)
      = map (\<lambda>n. (node_key n, node_val n)) ns" if "set ns \<subseteq> set (lru_list c)" for ns
    using that by (auto simp: filter_id_conv)
  have b: "set (butlast (lru_list c)) \<subseteq> set (lru_list c)" by (auto dest: in_set_butlastD)
  show ?thesis using None put k f [OF order.refl] f [OF b]
    by (auto simp: lru_put_def lru_entries_def touch_def image_image map_butlast split: if_splits)
next
  case (Some i)
  obtain n where n: "n \<in> set (lru_list c)" "node_key n = k"
    "lru_put k v c = Some (c\<lparr>lru_list := n\<lparr>node_val := v\<rparr> # filter (\<lambda>m. node_key m \<noteq> k) (lru_list c)\<rparr>)"
    using lru_put_hit [OF inv Some] by blast
  then have "k \<in> fst ` set (lru_entries c)" by (force simp: lru_entries_def)
  then show ?thesis using n put by (auto simp: lru_entries_def touch_def entries_filter)
qed

lemma lru_get_spec:
  assumes inv: "lru_inv c"
  shows "fst (lru_get k c) = map_of (lru_entries c) k"
    and "lru_entries (snd (lru_get k c)) = (case map_of (lru_entries c) k of None \<Rightarrow> lru_entries c
       | Some v \<Rightarrow> touch k v (lru_entries c))"
    and "lru_inv (snd (lru_get k c))"
proof -
  have d: "distinct (map node_key (lru_list c))" using inv by (simp add: lru_inv_def)
  have "fst (lru_get k c) = map_of (lru_entries c) k \<and>
    lru_entries (snd (lru_get k c)) = (case map_of (lru_entries c) k of None \<Rightarrow> lru_entries c
       | Some v \<Rightarrow> touch k v (lru_entries c)) \<and> lru_inv (snd (lru_get k c))"
  proof (cases "lru_map c k")
    case None
    then have "map_of (lru_entries c) k = None"
      using lru_map_None [OF inv] by (simp add: lru_entries_def map_of_entries_None)
    then show ?thesis using None inv by (simp add: lru_get_def)
  next
    case (Some i)
    obtain n where n: "n \<in> set (lru_list c)" "node_key n = k" and
      g: "lru_get k c = (Some (node_val n), c\<lparr>lru_list := n # filter (\<lambda>m. node_key m \<noteq> k) (lru_list c)\<rparr>)"
      using lru_get_hit [OF inv Some] by blast
    then have "map_of (lru_entries c) k = Some (node_val n)"
      using map_of_entries [OF d n(1)] by (simp add: lru_entries_def)
    then show ?thesis using n g lru_inv_promote [OF inv n(1)]
      by (simp add: lru_entries_def touch_def entries_filter)
  qed
  then show "fst (lru_get k c) = map_of (lru_entries c) k"
    and "lru_entries (snd (lru_get k c)) = (case map_of (lru_entries c) k of None \<Rightarrow> lru_entries c
       | Some v \<Rightarrow> touch k v (lru_entries c))" and "lru_inv (snd (lru_get k c))" by simp_all
qed

lemma lru_inv_put:
  assumes a: "lru_inv c" "0 < lru_capacity c" "lru_put k v c = Some c'"
  shows "lru_inv c'"
proof (cases "lru_map c k")
  case None
  show ?thesis by (rule lru_put_miss_inv [OF a(1) None a(2,3)])
next
  case (Some i)
  obtain n where n: "n \<in> set (lru_list c)" "node_key n = k"
    "lru_put k v c = Some (c\<lparr>lru_list := n\<lparr>node_val := v\<rparr> # filter (\<lambda>m. node_key m \<noteq> k) (lru_list c)\<rparr>)"
    using lru_put_hit [OF a(1) Some] by blast
  then show ?thesis using lru_inv_promote [OF a(1) n(1), of "n\<lparr>node_val := v\<rparr>"] a(3) by simp
qed

lemma lru_remove_hit:
  assumes "lru_inv c" "lru_map c k = Some i"
  shows "lru_remove k c = c\<lparr>lru_list := filter (\<lambda>m. node_key m \<noteq> k) (lru_list c), lru_map := (lru_map c)(k := None)\<rparr>"
proof -
  obtain n where n: "n \<in> set (lru_list c)" "node_id n = i" "node_key n = k" using lru_lookup [OF assms] by blast
  then have "erase_node i (lru_list c) = filter (\<lambda>m. node_key m \<noteq> k) (lru_list c)"
    using assms(1) erase_node_key [of "lru_list c" n] by (simp add: lru_inv_def)
  then show ?thesis using assms(2) by (simp add: lru_remove_def)
qed

lemma lru_remove_entries:
  assumes inv: "lru_inv c"
  shows "lru_entries (lru_remove k c) = filter (\<lambda>p. fst p \<noteq> k) (lru_entries c)"
proof (cases "lru_map c k")
  case None
  then have "\<forall>p \<in> set (lru_entries c). fst p \<noteq> k"
    using lru_map_None [OF inv, of k] by (auto simp: lru_entries_def)
  then have "filter (\<lambda>p. fst p \<noteq> k) (lru_entries c) = lru_entries c" by (simp add: filter_id_conv)
  then show ?thesis using None by (simp add: lru_remove_def)
next
  case (Some i)
  then show ?thesis by (simp add: lru_remove_hit [OF inv] lru_entries_def entries_filter)
qed

lemma lru_inv_remove:
  assumes inv: "lru_inv c"
  shows "lru_inv (lru_remove k c)"
proof (cases "lru_map c k")
  case None
  then show ?thesis using inv by (simp add: lru_remove_def)
next
  case (Some i)
  have len: "length (filter (\<lambda>m. node_key m \<noteq> k) (lru_list c)) \<le> lru_capacity c"
    using inv le_trans [OF length_filter_le] by (auto simp: lru_inv_def)
  have mp: "lru_map c k' = Some j \<longleftrightarrow> (\<exists>n \<in> set (lru_list c). node_id n = j \<and> node_key n = k')" for k' j
    using inv by (simp add: lru_inv_def)
  show ?thesis unfolding lru_remove_hit [OF inv Some]
  proof (rule lru_invI, goal_cases)
    case (3 k' j)
    show ?case using mp [of k' j] by (cases "k' = k") auto
  qed (use inv len in \<open>simp_all add: lru_inv_def distinct_map_filter\<close>)
qed

interpretation lru: recency_map lru_get lru_put lru_remove lru_entries lru_capacity lru_inv
proof unfold_locales
  show "lru_capacity (snd (lru_get k c)) = lru_capacity c" for k and c :: "('a, 'b) lru"
    by (cases "lru_map c k") (simp_all add: lru_get_def Let_def)
  show "lru_put k v c = Some c' \<Longrightarrow> lru_capacity c' = lru_capacity c" for k v and c c' :: "('a, 'b) lru"
    by (cases "lru_map c k") (auto simp: lru_put_def split: if_splits)
  show "0 < lru_capacity c \<Longrightarrow> lru_put k v c \<noteq> None" for k v and c :: "('a, 'b) lru"
    by (auto simp: lru_put_def split: option.splits)
qed (simp_all add: lru_get_spec lru_put_entries lru_inv_put lru_remove_entries lru_inv_remove)

section \<open>Equivalence with the recency list\<close>

datatype ('k, 'v) lru_op =
    LruGet 'k
  | LruPut 'k 'v
  | LruRemove 'k
  | LruClear
  | LruContains 'k
  | LruSize

datatype 'v lru_answer = Found "'v option" | Stored | Contained bool | Counted nat

fun lru_step :: "('k, 'v) lru_op \<Rightarrow> ('k, 'v) lru \<Rightarrow> ('v lru_answer \<times> ('k, 'v) lru) option" where
  "lru_step (LruGet k) c = (case lru_get k c of (r, c') \<Rightarrow> Some (Found r, c'))"
| "lru_step (LruPut k v) c = map_option (Pair Stored) (lru_put k v c)"
| "lru_step (LruRemove k) c = Some (Stored, lru_remove k c)"
| "lru_step LruClear c = Some (Stored, lru_clear c)"
| "lru_step (LruContains k) c = Some (Contained (lru_contains k c), c)"
| "lru_step LruSize c = Some (Counted (lru_size c), c)"

fun lru_run :: "('k, 'v) lru_op list \<Rightarrow> ('k, 'v) lru \<Rightarrow> ('v lru_answer list \<times> ('k, 'v) lru) option" where
  "lru_run [] c = Some ([], c)"
| "lru_run (op # ops) c = Option.bind (lru_step op c)
     (\<lambda>(r, c'). map_option (\<lambda>(rs, c''). (r # rs, c'')) (lru_run ops c'))"

text \<open>The reference keeps the pairs in the order of their last use and cuts the list off.\<close>

fun recency_step :: "nat \<Rightarrow> ('k, 'v) lru_op \<Rightarrow> ('k \<times> 'v) list \<Rightarrow> 'v lru_answer \<times> ('k \<times> 'v) list" where
  "recency_step cap (LruGet k) ps = (Found (map_of ps k), case map_of ps k of None \<Rightarrow> ps | Some v \<Rightarrow> touch k v ps)"
| "recency_step cap (LruPut k v) ps = (Stored, take cap (touch k v ps))"
| "recency_step cap (LruRemove k) ps = (Stored, filter (\<lambda>p. fst p \<noteq> k) ps)"
| "recency_step cap LruClear ps = (Stored, [])"
| "recency_step cap (LruContains k) ps = (Contained (k \<in> fst ` set ps), ps)"
| "recency_step cap LruSize ps = (Counted (length ps), ps)"

fun recency_run :: "nat \<Rightarrow> ('k, 'v) lru_op list \<Rightarrow> ('k \<times> 'v) list \<Rightarrow> 'v lru_answer list \<times> ('k \<times> 'v) list" where
  "recency_run cap [] ps = ([], ps)"
| "recency_run cap (op # ops) ps =
     (case recency_step cap op ps of (r, ps') \<Rightarrow>
      case recency_run cap ops ps' of (rs, ps'') \<Rightarrow> (r # rs, ps''))"

lemma lru_entries_length: "lru_inv c \<Longrightarrow> length (lru_entries c) \<le> lru_capacity c"
  by (simp add: lru_entries_def lru_inv_def)

lemma take_touch:
  assumes "length ps \<le> cap" "0 < cap"
  shows "take cap (touch k v ps) = (if k \<in> fst ` set ps \<or> length ps < cap then touch k v ps
     else touch k v (butlast ps))"
proof (cases "k \<in> fst ` set ps \<or> length ps < cap")
  case True
  have "length (filter (\<lambda>p. fst p \<noteq> k) ps) < cap"
  proof (cases "k \<in> fst ` set ps")
    case True
    then have "length (filter (\<lambda>p. fst p \<noteq> k) ps) < length ps" by (auto intro: length_filter_less)
    then show ?thesis using assms by simp
  qed (use True in \<open>auto intro: le_less_trans [OF length_filter_le]\<close>)
  then show ?thesis using True by (simp add: touch_def)
next
  case False
  then have all: "filter (\<lambda>p. fst p \<noteq> k) ps = ps" "filter (\<lambda>p. fst p \<noteq> k) (butlast ps) = butlast ps"
    by (force simp: filter_id_conv dest: in_set_butlastD)+
  have "length ps = cap" using False assms by simp
  then have "take (cap - 1) ps = butlast ps" by (simp add: butlast_conv_take)
  then show ?thesis using False assms all(2) by (simp add: touch_def all(1) take_Cons')
qed

lemma lru_contains_entries: "lru_inv c \<Longrightarrow> lru_contains k c \<longleftrightarrow> k \<in> fst ` set (lru_entries c)"
  using lru_map_None [of c k] by (auto simp: lru_contains_def lru_entries_def image_image)

lemma lru_step_recency:
  assumes "lru_inv c" "0 < lru_capacity c"
  shows "\<exists>c'. lru_step op c = Some (fst (recency_step (lru_capacity c) op (lru_entries c)), c')
    \<and> lru_entries c' = snd (recency_step (lru_capacity c) op (lru_entries c))
    \<and> lru_inv c' \<and> lru_capacity c' = lru_capacity c"
proof (cases op)
  case (LruGet k)
  then show ?thesis
    using lru.get_result [OF assms(1), of k] lru.get_entries [OF assms(1), of k] lru.invar_get [OF assms(1), of k]
      lru.capacity_get [of k c]
    by (cases "lru_get k c") simp
next
  case (LruPut k v)
  obtain c' where "lru_put k v c = Some c'" using lru.put_defined [OF assms, of k v] by blast
  then show ?thesis
    using LruPut lru.put_entries [OF assms(1)] lru.invar_put [OF assms] lru.capacity_put
    by (fastforce simp: take_touch [OF lru_entries_length [OF assms(1)] assms(2)])
next
  case (LruRemove k)
  have "lru_capacity (lru_remove k c) = lru_capacity c" by (simp add: lru_remove_def split: option.split)
  then show ?thesis using LruRemove lru.remove_entries [OF assms(1)] lru.invar_remove [OF assms(1)] by simp
next
  case LruClear
  then show ?thesis by (simp add: lru_clear_def lru_entries_def lru_inv_def)
next
  case (LruContains k)
  then show ?thesis using assms by (simp add: lru_contains_entries)
next
  case LruSize
  then show ?thesis using assms by (simp add: lru_size_def lru_entries_def)
qed

lemma lru_run_recency:
  "lru_inv c \<Longrightarrow> 0 < lru_capacity c \<Longrightarrow>
   \<exists>c'. lru_run ops c = Some (fst (recency_run (lru_capacity c) ops (lru_entries c)), c')
     \<and> lru_entries c' = snd (recency_run (lru_capacity c) ops (lru_entries c)) \<and> lru_inv c'
     \<and> lru_capacity c' = lru_capacity c"
proof (induction ops arbitrary: c)
  case (Cons op ops)
  obtain r ps where r: "recency_step (lru_capacity c) op (lru_entries c) = (r, ps)" by fastforce
  obtain c1 where c1: "lru_step op c = Some (r, c1)" "lru_entries c1 = ps" "lru_inv c1" "lru_capacity c1 = lru_capacity c"
    using lru_step_recency [OF Cons.prems, of op] r by auto
  then show ?case using Cons.IH [of c1] Cons.prems(2) r by (auto split: prod.split)
qed simp

text \<open>
  C27: A cache of positive capacity answers every sequence of operations exactly as a plain
  list does that is kept in the order of last use and cut off at the capacity; no
  operation of such a cache touches the back of an empty list.
\<close>

theorem lru_equivalent:
  assumes "0 < capacity"
  shows "\<exists>c. lru_run ops (lru_new capacity) = Some (fst (recency_run capacity ops []), c)
    \<and> lru_entries c = snd (recency_run capacity ops []) \<and> lru_size c \<le> capacity"
proof -
  have "lru_capacity (lru_new capacity :: ('a, 'b) lru) = capacity" "lru_entries (lru_new capacity :: ('a, 'b) lru) = []"
    by (simp_all add: lru_new_def lru_entries_def)
  moreover obtain c where "lru_run ops (lru_new capacity) = Some (fst (recency_run capacity ops []), c)"
    "lru_entries c = snd (recency_run capacity ops [])" "lru_inv c" "lru_capacity c = capacity"
    using lru_run_recency [OF lru_inv_new, of capacity ops] assms calculation by auto
  ultimately show ?thesis by (auto simp: lru_size_def lru_inv_def)
qed

theorem lru_equivalent_witness:
  "\<exists>c. lru_run [LruPut ''a'' 1, LruPut ''b'' 2, LruGet ''a'', LruPut ''c'' (3 :: nat), LruGet ''b'', LruSize] (lru_new 2)
     = Some ([Stored, Stored, Found (Some 1), Stored, Found None, Counted 2], c)"
  using lru_equivalent [of 2 "[LruPut ''a'' 1, LruPut ''b'' 2, LruGet ''a'', LruPut ''c'' (3 :: nat), LruGet ''b'', LruSize]"]
  by (auto simp: touch_def)

end
