(* ===== verification/HttpWorker.thy ===== *)
theory HttpWorker
  imports HttpClient
begin

text \<open>
  The worker thread of \<open>HttpClient\<close> (\<open>struct HttpClient::Impl\<close> in
  core/src/network/http_client.cpp): the queue it takes requests from, the transfers libcurl
  has in hand, and the loop that harvests finished ones. Each turn of the thread is a step,
  and so is what libcurl does inside \<open>curl_multi_perform\<close>: it hands over bytes through
  \<open>write_cb\<close> or puts a message for a finished transfer into its queue, in whatever order it
  likes. Calls of other threads come between any two steps. The refinement at the end makes
  the \<open>reaches\<close> of \<open>Async\<close>, in which a pending request is answered by a response at any time,
  an abstraction of this loop.
\<close>

section \<open>The state\<close>

text \<open>\<open>rc_easy\<close> is the easy handle; the options set on it are the request. \<open>tr_result\<close> is a
  \<open>CURLcode\<close>, 0 being \<open>CURLE_OK\<close>.\<close>

record ('s, 'e) request_ctx =
  rc_easy :: nat
  rc_request :: http_request
  rc_response_body :: string
  rc_callback :: "(http_response \<Rightarrow> ('s, 'e) act) option"

record curl_msg =
  tr_easy :: nat
  tr_status :: int
  tr_result :: nat

datatype worker_pc = Loop_head | Transferring | Harvesting | Loop_left

record ('s, 'e) http_impl =
  hi_running :: bool
  hi_queue :: "('s, 'e) request_ctx list"
  hi_multi :: "('s, 'e) request_ctx list"
  hi_messages :: "curl_msg list"
  hi_handles :: nat
  hi_pc :: worker_pc
  hi_state :: 's
  hi_trace :: "'e list"

definition new_http_impl :: "'s \<Rightarrow> ('s, 'e) http_impl" where
  "new_http_impl s = \<lparr>hi_running = True, hi_queue = [], hi_multi = [], hi_messages = [], hi_handles = 0,
     hi_pc = Loop_head, hi_state = s, hi_trace = []\<rparr>"

section \<open>Operations\<close>

text \<open>The end of \<open>enqueue\<close>: a new handle, and the context goes to the back of the queue.\<close>

definition queue_request ::
  "http_request \<Rightarrow> (http_response \<Rightarrow> ('s, 'e) act) option \<Rightarrow> ('s, 'e) http_impl \<Rightarrow> ('s, 'e) http_impl" where
  "queue_request q cb h = h\<lparr>hi_queue := hi_queue h @ [\<lparr>rc_easy = hi_handles h, rc_request = q,
       rc_response_body = [], rc_callback = cb\<rparr>], hi_handles := Suc (hi_handles h)\<rparr>"

fun queue_pending :: "('s, 'e) pending \<Rightarrow> ('s, 'e) http_impl \<Rightarrow> ('s, 'e) http_impl" where
  "queue_pending (Pending q k) = queue_request q (Some k)"

text \<open>Code of the SDK that runs, on whatever thread: the requests it makes are queued.\<close>

definition run_act :: "('s, 'e) act \<Rightarrow> ('s, 'e) http_impl \<Rightarrow> ('s, 'e) http_impl" where
  "run_act a h = (case a (hi_state h) of (s', es, ps) \<Rightarrow>
     fold queue_pending ps (h\<lparr>hi_state := s', hi_trace := hi_trace h @ es\<rparr>))"

text \<open>The first block of the loop.\<close>

definition take_queue :: "('s, 'e) http_impl \<Rightarrow> ('s, 'e) http_impl" where
  "take_queue h = h\<lparr>hi_multi := hi_multi h @ hi_queue h, hi_queue := []\<rparr>"

definition write_cb :: "string \<Rightarrow> ('s, 'e) request_ctx \<Rightarrow> ('s, 'e) request_ctx" where
  "write_cb chunk ctx = ctx\<lparr>rc_response_body := rc_response_body ctx @ chunk\<rparr>"

definition receive :: "nat \<Rightarrow> string \<Rightarrow> ('s, 'e) http_impl \<Rightarrow> ('s, 'e) http_impl" where
  "receive e chunk h = h\<lparr>hi_multi := map (\<lambda>ctx. if rc_easy ctx = e then write_cb chunk ctx else ctx) (hi_multi h)\<rparr>"

text \<open>\<open>CURLINFO_PRIVATE\<close> of a handle, and the list of transfers without it.\<close>

fun remove_handle :: "nat \<Rightarrow> ('s, 'e) request_ctx list \<Rightarrow> (('s, 'e) request_ctx \<times> ('s, 'e) request_ctx list) option" where
  "remove_handle e [] = None"
| "remove_handle e (ctx # ctxs) =
     (if rc_easy ctx = e then Some (ctx, ctxs) else map_option (\<lambda>(c, cs). (c, ctx # cs)) (remove_handle e ctxs))"

definition build_response :: "(nat \<Rightarrow> string) \<Rightarrow> curl_msg \<Rightarrow> ('s, 'e) request_ctx \<Rightarrow> http_response" where
  "build_response strerror msg ctx = \<lparr>status_code = wrap32 (tr_status msg), body = rc_response_body ctx,
     resp_error = (if tr_result msg \<noteq> 0 then strerror (tr_result msg) else [])\<rparr>"

text \<open>One turn of the harvest: the next message is taken, its handle removed, the callback called
  and the context deleted.\<close>

definition harvest :: "(nat \<Rightarrow> string) \<Rightarrow> ('s, 'e) http_impl \<Rightarrow> ('s, 'e) http_impl" where
  "harvest strerror h = (case hi_messages h of
      [] \<Rightarrow> h
    | msg # msgs \<Rightarrow> (case remove_handle (tr_easy msg) (hi_multi h) of
          None \<Rightarrow> h\<lparr>hi_messages := msgs\<rparr>
        | Some (ctx, ctxs) \<Rightarrow>
            let h1 = h\<lparr>hi_messages := msgs, hi_multi := ctxs\<rparr>
            in (case rc_callback ctx of None \<Rightarrow> h1 | Some cb \<Rightarrow> run_act (cb (build_response strerror msg ctx)) h1)))"

text \<open>The destructor sets \<open>running\<close> and joins the thread.\<close>

definition stop_worker :: "('s, 'e) http_impl \<Rightarrow> ('s, 'e) http_impl" where
  "stop_worker h = h\<lparr>hi_running := False\<rparr>"

section \<open>Steps\<close>

definition transferring :: "nat \<Rightarrow> ('s, 'e) http_impl \<Rightarrow> bool" where
  "transferring e h \<longleftrightarrow> e \<in> rc_easy ` set (hi_multi h) \<and> e \<notin> tr_easy ` set (hi_messages h)"

inductive http_step :: "(nat \<Rightarrow> string) \<Rightarrow> ('s, 'e) act set \<Rightarrow> ('s, 'e) http_impl \<Rightarrow> ('s, 'e) http_impl \<Rightarrow> bool"
  for strerror :: "nat \<Rightarrow> string" and A :: "('s, 'e) act set" where
  called: "hi_running h \<Longrightarrow> a \<in> A \<Longrightarrow> http_step strerror A h (run_act a h)"
| head: "hi_pc h = Loop_head \<Longrightarrow> hi_running h \<Longrightarrow> http_step strerror A h ((take_queue h)\<lparr>hi_pc := Transferring\<rparr>)"
| chunk: "hi_pc h = Transferring \<Longrightarrow> transferring e h \<Longrightarrow> http_step strerror A h (receive e bytes h)"
| finished: "hi_pc h = Transferring \<Longrightarrow> transferring e h \<Longrightarrow>
    http_step strerror A h (h\<lparr>hi_messages := hi_messages h @ [\<lparr>tr_easy = e, tr_status = code, tr_result = res\<rparr>]\<rparr>)"
| waited: "hi_pc h = Transferring \<Longrightarrow> http_step strerror A h (h\<lparr>hi_pc := Harvesting\<rparr>)"
| harvested: "hi_pc h = Harvesting \<Longrightarrow> hi_messages h \<noteq> [] \<Longrightarrow> http_step strerror A h (harvest strerror h)"
| again: "hi_pc h = Harvesting \<Longrightarrow> hi_messages h = [] \<Longrightarrow> http_step strerror A h (h\<lparr>hi_pc := Loop_head\<rparr>)"
| left: "hi_pc h = Loop_head \<Longrightarrow> \<not> hi_running h \<Longrightarrow> http_step strerror A h (h\<lparr>hi_pc := Loop_left\<rparr>)"
| stopped: "hi_running h \<Longrightarrow> http_step strerror A h (stop_worker h)"

inductive http_runs :: "(nat \<Rightarrow> string) \<Rightarrow> ('s, 'e) act set \<Rightarrow> ('s, 'e) http_impl \<Rightarrow> ('s, 'e) http_impl \<Rightarrow> bool"
  for strerror :: "nat \<Rightarrow> string" and A :: "('s, 'e) act set" and first :: "('s, 'e) http_impl" where
  initially: "http_runs strerror A first first"
| step: "http_runs strerror A first h \<Longrightarrow> http_step strerror A h h' \<Longrightarrow> http_runs strerror A first h'"

inductive_simps http_step_left: "http_step strerror A h h'"

section \<open>Handles\<close>

definition http_inv :: "('s, 'e) http_impl \<Rightarrow> bool" where
  "http_inv h \<longleftrightarrow> distinct (map rc_easy (hi_multi h @ hi_queue h))
     \<and> (\<forall>e \<in> set (map rc_easy (hi_multi h @ hi_queue h)). e < hi_handles h)
     \<and> distinct (map tr_easy (hi_messages h)) \<and> set (map tr_easy (hi_messages h)) \<subseteq> set (map rc_easy (hi_multi h))"

lemma http_inv_new [simp]: "http_inv (new_http_impl s)"
  by (simp add: http_inv_def new_http_impl_def)

lemma queue_request_fields [simp]:
  "hi_multi (queue_request q cb h) = hi_multi h" "hi_messages (queue_request q cb h) = hi_messages h"
  "hi_state (queue_request q cb h) = hi_state h" "hi_trace (queue_request q cb h) = hi_trace h"
  "hi_pc (queue_request q cb h) = hi_pc h" "hi_running (queue_request q cb h) = hi_running h"
  by (simp_all add: queue_request_def)

lemma queue_pending_fields [simp]:
  "hi_multi (queue_pending p h) = hi_multi h" "hi_messages (queue_pending p h) = hi_messages h"
  "hi_state (queue_pending p h) = hi_state h" "hi_trace (queue_pending p h) = hi_trace h"
  "hi_pc (queue_pending p h) = hi_pc h" "hi_running (queue_pending p h) = hi_running h"
  by (cases p; simp)+

lemma queue_all_fields [simp]:
  "hi_multi (fold queue_pending ps h) = hi_multi h" "hi_messages (fold queue_pending ps h) = hi_messages h"
  "hi_state (fold queue_pending ps h) = hi_state h" "hi_trace (fold queue_pending ps h) = hi_trace h"
  "hi_pc (fold queue_pending ps h) = hi_pc h" "hi_running (fold queue_pending ps h) = hi_running h"
  by (induction ps arbitrary: h) simp_all

lemma http_inv_queue: "http_inv h \<Longrightarrow> http_inv (queue_request q cb h)"
  by (simp add: http_inv_def queue_request_def less_Suc_eq) (metis (no_types, lifting) UnCI imageI less_irrefl_nat)

lemma http_inv_run:
  assumes "http_inv h"
  shows "http_inv (run_act a h)"
proof -
  obtain s es ps where a: "a (hi_state h) = (s, es, ps)" by (cases "a (hi_state h)")
  have "http_inv (fold queue_pending ps g)" if "http_inv g" for g :: "('a, 'b) http_impl"
    using that
  proof (induction ps arbitrary: g)
    case (Cons p ps)
    then show ?case by (cases p) (simp add: http_inv_queue)
  qed simp
  moreover have "http_inv (h\<lparr>hi_state := s, hi_trace := hi_trace h @ es\<rparr>)" using assms by (simp add: http_inv_def)
  ultimately show ?thesis by (simp add: run_act_def a)
qed

lemma remove_handle_Some:
  "remove_handle e ctxs = Some (ctx, rest) \<Longrightarrow>
   \<exists>xs ys. ctxs = xs @ ctx # ys \<and> rest = xs @ ys \<and> rc_easy ctx = e"
proof (induction ctxs arbitrary: rest)
  case (Cons c cs)
  show ?case
  proof (cases "rc_easy c = e")
    case True
    with Cons.prems show ?thesis by (auto intro: exI [of _ "[]"])
  next
    case False
    with Cons.prems obtain r where r: "remove_handle e cs = Some (ctx, r)" "rest = c # r" by auto
    with Cons.IH obtain xs ys where "cs = xs @ ctx # ys" "r = xs @ ys" "rc_easy ctx = e" by blast
    with r show ?thesis by (metis append_Cons)
  qed
qed simp

lemma remove_handle_None: "remove_handle e ctxs = None \<longleftrightarrow> e \<notin> rc_easy ` set ctxs"
  by (induction ctxs) auto

text \<open>A message is about a handle that is still in hand, so the harvest always finds its context.\<close>

lemma harvest_finds:
  assumes "http_inv h" and "hi_messages h = msg # msgs"
  obtains xs ctx ys where "hi_multi h = xs @ ctx # ys" and "rc_easy ctx = tr_easy msg"
    and "harvest strerror h =
      (let h1 = h\<lparr>hi_messages := msgs, hi_multi := xs @ ys\<rparr>
       in case rc_callback ctx of None \<Rightarrow> h1 | Some cb \<Rightarrow> run_act (cb (build_response strerror msg ctx)) h1)"
proof -
  have "tr_easy msg \<in> rc_easy ` set (hi_multi h)" using assms by (auto simp: http_inv_def)
  then obtain ctx rest where rm: "remove_handle (tr_easy msg) (hi_multi h) = Some (ctx, rest)"
    using remove_handle_None [of "tr_easy msg" "hi_multi h"] by fastforce
  from remove_handle_Some [OF rm] obtain xs ys
    where "hi_multi h = xs @ ctx # ys" "rest = xs @ ys" "rc_easy ctx = tr_easy msg" by blast
  then show ?thesis using that rm assms(2) by (simp add: harvest_def)
qed

lemma http_inv_multi:
  assumes "map rc_easy cs = map rc_easy (hi_multi h)" and "http_inv h"
  shows "http_inv (h\<lparr>hi_multi := cs\<rparr>)"
proof -
  have "set (map rc_easy cs) = set (map rc_easy (hi_multi h))" using assms(1) by simp
  with assms show ?thesis by (simp add: http_inv_def)
qed

lemma http_inv_step: "http_step strerror A h h' \<Longrightarrow> http_inv h \<Longrightarrow> http_inv h'"
proof (induction rule: http_step.induct)
  case (called h a)
  then show ?case by (simp add: http_inv_run)
next
  case (head h)
  then show ?case by (auto simp: http_inv_def take_queue_def)
next
  case (chunk h e bytes)
  have "map rc_easy (hi_multi (receive e bytes h)) = map rc_easy (hi_multi h)" by (simp add: receive_def write_cb_def)
  from http_inv_multi [OF this chunk.prems] show ?case by (simp add: receive_def)
next
  case (finished h e code res)
  then show ?case by (auto simp: http_inv_def transferring_def)
next
  case (harvested h)
  then obtain msg msgs where m: "hi_messages h = msg # msgs" by (cases "hi_messages h") auto
  from harvest_finds [OF harvested.prems m, of strerror] obtain xs ctx ys
    where c: "hi_multi h = xs @ ctx # ys" "rc_easy ctx = tr_easy msg"
      "harvest strerror h = (let h1 = h\<lparr>hi_messages := msgs, hi_multi := xs @ ys\<rparr>
       in case rc_callback ctx of None \<Rightarrow> h1 | Some cb \<Rightarrow> run_act (cb (build_response strerror msg ctx)) h1)" .
  have "http_inv (h\<lparr>hi_messages := msgs, hi_multi := xs @ ys\<rparr>)"
    using harvested.prems m c(2) by (simp add: http_inv_def c(1)) (metis image_eqI subset_insert)
  then show ?case using c(3) by (auto simp: Let_def http_inv_run split: option.split)
qed (simp_all add: http_inv_def stop_worker_def)

lemma http_inv_runs: "http_runs strerror A h0 h \<Longrightarrow> http_inv h0 \<Longrightarrow> http_inv h"
  by (induction rule: http_runs.induct) (auto intro: http_inv_step)

section \<open>Refinement\<close>

definition ctx_pending :: "('s, 'e) request_ctx \<Rightarrow> ('s, 'e) pending" where
  "ctx_pending ctx = Pending (rc_request ctx) (case rc_callback ctx of None \<Rightarrow> \<lambda>_. skip | Some k \<Rightarrow> k)"

definition http_abs :: "('s, 'e) http_impl \<Rightarrow> ('s, 'e) system" where
  "http_abs h = \<lparr>sys_state = hi_state h, sys_pending = map ctx_pending (hi_multi h @ hi_queue h),
     sys_trace = hi_trace h\<rparr>"

lemma http_abs_cong:
  "hi_state h = hi_state g \<Longrightarrow> hi_trace h = hi_trace g \<Longrightarrow>
   map ctx_pending (hi_multi h @ hi_queue h) = map ctx_pending (hi_multi g @ hi_queue g) \<Longrightarrow> http_abs h = http_abs g"
  by (simp add: http_abs_def)

lemma queue_pending_pending: "map ctx_pending (hi_queue (queue_pending p h)) = map ctx_pending (hi_queue h) @ [p]"
  by (cases p) (simp add: queue_request_def ctx_pending_def)

lemma queue_all_pending:
  "map ctx_pending (hi_queue (fold queue_pending ps h)) = map ctx_pending (hi_queue h) @ ps"
  by (induction ps arbitrary: h) (simp_all add: queue_pending_pending)

lemma run_act_refines: "http_abs (run_act a h) = start a (http_abs h)"
proof -
  obtain s es ps where a: "a (hi_state h) = (s, es, ps)" by (cases "a (hi_state h)")
  show ?thesis by (simp add: run_act_def http_abs_def start_def a queue_all_pending)
qed

lemma start_skip: "start skip \<sigma> = \<sigma>"
  by (simp add: start_def skip_def)

lemma harvest_refines:
  assumes inv: "http_inv h" and m: "hi_messages h = msg # msgs"
  shows "\<exists>i ctx. i < length (hi_multi h) \<and> hi_multi h ! i = ctx \<and> rc_easy ctx = tr_easy msg \<and>
           http_abs (harvest strerror h) = deliver i (build_response strerror msg ctx) (http_abs h)"
proof -
  from harvest_finds [OF inv m, of strerror] obtain xs ctx ys
    where c: "hi_multi h = xs @ ctx # ys" "rc_easy ctx = tr_easy msg"
      "harvest strerror h = (let h1 = h\<lparr>hi_messages := msgs, hi_multi := xs @ ys\<rparr>
       in case rc_callback ctx of None \<Rightarrow> h1 | Some cb \<Rightarrow> run_act (cb (build_response strerror msg ctx)) h1)" .
  let ?r = "build_response strerror msg ctx"
  let ?h1 = "h\<lparr>hi_messages := msgs, hi_multi := xs @ ys\<rparr>"
  have at: "sys_pending (http_abs h) ! length xs = ctx_pending ctx" "length xs < length (sys_pending (http_abs h))"
    by (simp_all add: http_abs_def c(1) nth_append)
  have rest: "(http_abs h)\<lparr>sys_pending := take (length xs) (sys_pending (http_abs h)) @
      drop (Suc (length xs)) (sys_pending (http_abs h))\<rparr> = http_abs ?h1"
    by (simp add: http_abs_def c(1))
  have "deliver (length xs) ?r (http_abs h) =
      start (case rc_callback ctx of None \<Rightarrow> skip | Some k \<Rightarrow> k ?r) (http_abs ?h1)"
    using at rest by (auto simp: deliver_def ctx_pending_def split: option.split)
  also have "\<dots> = http_abs (harvest strerror h)"
    by (cases "rc_callback ctx") (simp_all add: c(3) run_act_refines start_skip)
  finally have eq: "http_abs (harvest strerror h) = deliver (length xs) ?r (http_abs h)" ..
  show ?thesis
    by (rule exI [of _ "length xs"], rule exI [of _ ctx]) (simp add: eq c(1,2))
qed

text \<open>What libcurl hands over is the body: bytes only ever go to the end of it.\<close>

lemma body_of_chunks:
  "rc_response_body (fold write_cb chunks ctx) = rc_response_body ctx @ concat chunks"
  by (induction chunks arbitrary: ctx) (simp_all add: write_cb_def)

text \<open>Once the thread has left its loop nothing is answered any more: what is still queued or in
  hand stays so.\<close>

lemma left_is_final:
  assumes "hi_pc h = Loop_left" and "\<not> hi_running h"
  shows "\<not> http_step strerror A h h'"
  using assms by (auto elim: http_step.cases)

text \<open>
  C38: The worker thread gives every request what the rest of the development assumes of the
  HTTP client. Whatever calls are made meanwhile from other threads and from callbacks, and
  however libcurl hands over bytes and finishes transfers, the state, the events and the
  requests in hand are those of a run in which calls and single deliveries of responses
  alternate freely: no callback runs twice, none runs for a request that was not made, and a
  request that is not answered yet is still in the queue or in hand.
\<close>

theorem http_worker_refines:
  assumes "http_runs strerror A h0 h" and "http_inv h0"
  shows "reaches A (http_abs h0) (http_abs h)"
  using assms(1)
proof induction
  case initially
  show ?case by (rule reaches.here)
next
  case (step h h')
  have inv: "http_inv h" using step.hyps(1) assms(2) by (rule http_inv_runs)
  from step.hyps(2) show ?case
  proof cases
    case (called a)
    then show ?thesis using step.IH by (simp add: run_act_refines reaches.call)
  next
    case harvested
    then obtain msg msgs where "hi_messages h = msg # msgs" by (cases "hi_messages h") auto
    from harvest_refines [OF inv this, of strerror] harvested step.IH show ?thesis by (auto intro: reaches.response)
  next
    case (chunk e bytes)
    then have "http_abs h' = http_abs h" by (simp add: http_abs_def receive_def write_cb_def ctx_pending_def)
    then show ?thesis using step.IH by simp
  qed (use step.IH in \<open>auto simp: http_abs_def take_queue_def stop_worker_def\<close>)
qed

text \<open>A request answered in two pieces.\<close>

definition hello_request :: http_request where
  "hello_request = \<lparr>rq_method = GET, rq_url = ''/hello'', rq_headers = [], rq_body = []\<rparr>"

definition hello_act :: "(unit, string) act" where
  "hello_act = await (\<lambda>_. hello_request) (\<lambda>r. emit (body r))"

definition hello_run :: "(unit, string) http_impl" where
  "hello_run =
     (let h1 = run_act hello_act (new_http_impl ());
          h2 = (take_queue h1)\<lparr>hi_pc := Transferring\<rparr>;
          h3 = receive 0 ''lo'' (receive 0 ''hel'' h2);
          h4 = h3\<lparr>hi_messages := hi_messages h3 @ [\<lparr>tr_easy = 0, tr_status = 200, tr_result = 0\<rparr>]\<rparr>
      in harvest (\<lambda>_. ''error'') (h4\<lparr>hi_pc := Harvesting\<rparr>))"

theorem http_worker_refines_witness:
  "reaches {hello_act} \<lparr>sys_state = (), sys_pending = [], sys_trace = []\<rparr>
     \<lparr>sys_state = (), sys_pending = [], sys_trace = [''hello'']\<rparr>"
proof -
  note defs = run_act_def hello_act_def await_def new_http_impl_def queue_request_def take_queue_def receive_def
    write_cb_def transferring_def
  have "http_runs (\<lambda>_. ''error'') {hello_act} (new_http_impl ()) hello_run"
    unfolding hello_run_def Let_def
    by (rule http_runs.step, rule http_runs.step, rule http_runs.step, rule http_runs.step, rule http_runs.step,
        rule http_runs.step, rule http_runs.step, rule http_runs.initially, rule http_step.called, simp add: defs, simp,
        rule http_step.head, simp add: defs, simp add: defs, rule http_step.chunk, simp, simp add: defs,
        rule http_step.chunk, simp add: receive_def, simp add: defs, rule http_step.finished, simp add: receive_def,
        simp add: defs, rule http_step.waited, simp add: receive_def, rule http_step.harvested) simp_all
  from http_worker_refines [OF this http_inv_new]
  show ?thesis
    by (simp add: http_abs_def hello_run_def Let_def defs harvest_def emit_def build_response_def)
qed

end
