(* ===== verification/CCallbacks.thy ===== *)
theory CCallbacks
  imports Client
begin

text \<open>
  How the C interface calls back (the anonymous namespaces of core/src/c_api/*.cpp, which all
  have the same helpers): the check and the copy of a callback struct, the closures that turn
  a result into a call of the application's function, and the listener classes. A closure
  that allocates releases what it allocated before it returns; \<open>c_exactly\<close> states it, and
  that the application's function is called once.
\<close>

section \<open>Calling the application\<close>

definition set_heap :: "heap \<Rightarrow> client_act" where
  "set_heap h = modify (\<lambda>s. s\<lparr>c_heap := h\<rparr>)"

text \<open>Undefined behaviour ends the process.\<close>

definition release_act :: "'s release \<Rightarrow> 's \<Rightarrow> client_act" where
  "release_act rel c = reading (\<lambda>s. case rel (Some c) (c_heap s) of None \<Rightarrow> emit Terminated | Some (c', h) \<Rightarrow> set_heap h)"

text \<open>Build a struct, call the application with it, release it.\<close>

definition with_allocation :: "(heap \<Rightarrow> 's \<times> heap) \<Rightarrow> 's release \<Rightarrow> ('s \<Rightarrow> client_act) \<Rightarrow> client_act" where
  "with_allocation build rel k = reading (\<lambda>s. case build (c_heap s) of (c, h) \<Rightarrow>
     perform [set_heap h, k c, release_act rel c])"

section \<open>Callback structs\<close>

definition validateCallbackStruct :: "c_callback option \<Rightarrow> bool" where
  "validateCallbackStruct callback = (case callback of None \<Rightarrow> True | Some c \<Rightarrow> False)"

definition copyCallbackStruct :: "c_callback option \<Rightarrow> c_callback" where
  "copyCallbackStruct callback = (case callback of None \<Rightarrow> no_callback | Some c \<Rightarrow> c)"

definition invokeClientError :: "nat \<Rightarrow> c_callback \<Rightarrow> int \<Rightarrow> string \<Rightarrow> client_act" where
  "invokeClientError i callback code error = c_invoke (CCompleted i) (cc_on_error callback) (cc_userdata callback)
     [AInt code, if error = [] then ANull else AText (c_str error)]"

definition makeResultCallback :: "nat \<Rightarrow> c_callback \<Rightarrow> unit callback" where
  "makeResultCallback i callback =
     \<lparr>on_success = Some (\<lambda>_. c_invoke (CCompleted i) (cc_on_success callback) (cc_userdata callback) []),
      on_error = Some (invokeClientError i callback)\<rparr>"

text \<open>A value without pointers, converted on the stack; \<open>convert\<close> includes the zeroed struct.\<close>

definition value_callback :: "nat \<Rightarrow> c_callback \<Rightarrow> ('v \<Rightarrow> c_arg) \<Rightarrow> 'v callback" where
  "value_callback i callback convert =
     \<lparr>on_success = Some (\<lambda>v. c_invoke (CCompleted i) (cc_on_success callback) (cc_userdata callback) [convert v]),
      on_error = Some (invokeClientError i callback)\<rparr>"

text \<open>A value that needs memory: nothing is allocated when there is no function to call.\<close>

definition alloc_callback :: "nat \<Rightarrow> c_callback \<Rightarrow> ('v \<Rightarrow> heap \<Rightarrow> 's \<times> heap) \<Rightarrow> 's release \<Rightarrow> ('s \<Rightarrow> c_arg) \<Rightarrow> 'v callback" where
  "alloc_callback i callback build rel wrap =
     \<lparr>on_success = Some (\<lambda>v. act_if (cc_on_success callback \<noteq> nullptr) (with_allocation (build v) rel (\<lambda>c.
        c_invoke (CCompleted i) (cc_on_success callback) (cc_userdata callback) [wrap c]))),
      on_error = Some (invokeClientError i callback)\<rparr>"

text \<open>\<open>std::free(c_list.items)\<close>.\<close>

definition free_list_items :: "c_list release" where
  "free_list_items = releasing (\<lambda>l. mfree (Li_items l)) id"

definition free_total_items :: "c_total_list release" where
  "free_total_items = releasing (\<lambda>l. mfree (Lt_items l)) id"

definition free_paged_items :: "c_paged_list release" where
  "free_paged_items = releasing (\<lambda>l. mfree (Lp_items l)) id"

definition list_callback :: "nat \<Rightarrow> c_callback \<Rightarrow> ('c list \<Rightarrow> c_cell) \<Rightarrow> ('v \<Rightarrow> 'c \<Rightarrow> 'c) \<Rightarrow> 'c \<Rightarrow> 'v list callback" where
  "list_callback i callback cell convert zero =
     alloc_callback i callback (list_struct (fill_array cell convert zero)) free_list_items AList"

definition total_callback :: "nat \<Rightarrow> c_callback \<Rightarrow> ('c list \<Rightarrow> c_cell) \<Rightarrow> ('v \<Rightarrow> 'c \<Rightarrow> 'c) \<Rightarrow> 'c \<Rightarrow> ('r \<Rightarrow> 'v list)
   \<Rightarrow> ('r \<Rightarrow> int) \<Rightarrow> 'r callback" where
  "total_callback i callback cell convert zero items tot =
     alloc_callback i callback (\<lambda>r. total_struct (fill_array cell convert zero) (items r) (tot r)) free_total_items ATotalList"

definition paged_callback :: "nat \<Rightarrow> c_callback \<Rightarrow> ('c list \<Rightarrow> c_cell) \<Rightarrow> ('v \<Rightarrow> 'c \<Rightarrow> 'c) \<Rightarrow> 'c \<Rightarrow> ('r \<Rightarrow> 'v list)
   \<Rightarrow> ('r \<Rightarrow> int) \<Rightarrow> ('r \<Rightarrow> int) \<Rightarrow> ('r \<Rightarrow> int) \<Rightarrow> 'r callback" where
  "paged_callback i callback cell convert zero items tot page page_size =
     alloc_callback i callback (\<lambda>r. paged_struct (fill_array cell convert zero) (items r) (tot r) (page r) (page_size r))
       free_paged_items APagedList"

section \<open>Listener classes\<close>

definition notify :: "addr \<Rightarrow> addr \<Rightarrow> c_arg list \<Rightarrow> client_act" where
  "notify f userdata args = c_invoke CNotified f userdata args"

text \<open>\<open>std::free(c_msg.content)\<close>.\<close>

definition free_content :: "AnyChatMessage_C release" where
  "free_content = releasing (\<lambda>m. mfree (Cm_content m)) id"

definition notify_message :: "addr \<Rightarrow> addr \<Rightarrow> message \<Rightarrow> client_act" where
  "notify_message f userdata msg = act_if (f \<noteq> nullptr)
     (with_allocation (messageToCStruct msg zero_Message) free_content (\<lambda>c. notify f userdata [AMessage c]))"

definition CAuthListener :: "AnyChatAuthListener_C \<Rightarrow> event \<Rightarrow> client_act" where
  "CAuthListener L e = (case e of AuthExpired \<Rightarrow> notify (Lauth_on_auth_expired L) (Lauth_userdata L) [] | _ \<Rightarrow> skip)"

definition CMessageListener :: "AnyChatMessageListener_C \<Rightarrow> event \<Rightarrow> client_act" where
  "CMessageListener L e = (case e of
     MessageReceived msg \<Rightarrow> notify_message (Lmsg_on_message_received L) (Lmsg_userdata L) msg
   | MessageReadReceipt ev \<Rightarrow> notify (Lmsg_on_message_read_receipt L) (Lmsg_userdata L)
       [AMessageReceipt (messageReadReceiptToC ev zero_MessageReadReceiptEvent)]
   | MessageRecalled msg \<Rightarrow> notify_message (Lmsg_on_message_recalled L) (Lmsg_userdata L) msg
   | MessageDeleted msg \<Rightarrow> notify_message (Lmsg_on_message_deleted L) (Lmsg_userdata L) msg
   | MessageEdited msg \<Rightarrow> notify_message (Lmsg_on_message_edited L) (Lmsg_userdata L) msg
   | MessageTyping ev \<Rightarrow> notify (Lmsg_on_message_typing L) (Lmsg_userdata L) [ATyping (typingToCStruct ev zero_MessageTypingEvent)]
   | MessageMentioned msg \<Rightarrow> notify_message (Lmsg_on_message_mentioned L) (Lmsg_userdata L) msg
   | _ \<Rightarrow> skip)"

definition CConversationListener :: "AnyChatConvListener_C \<Rightarrow> event \<Rightarrow> client_act" where
  "CConversationListener L e = (case e of
     ConversationUpdated conv \<Rightarrow> notify (Lconv_on_conversation_updated L) (Lconv_userdata L)
       [AConversation (convToCStruct conv zero_Conversation)]
   | _ \<Rightarrow> skip)"

definition CFriendListener :: "AnyChatFriendListener_C \<Rightarrow> event \<Rightarrow> client_act" where
  "CFriendListener L e = (case e of
     FriendAdded f \<Rightarrow> notify (Lfriend_on_friend_added L) (Lfriend_userdata L) [AFriend (friendToC f zero_Friend)]
   | FriendDeleted user_id \<Rightarrow> notify (Lfriend_on_friend_deleted L) (Lfriend_userdata L) [AText (c_str user_id)]
   | FriendInfoChanged f \<Rightarrow> notify (Lfriend_on_friend_info_changed L) (Lfriend_userdata L) [AFriend (friendToC f zero_Friend)]
   | BlacklistAdded item \<Rightarrow> notify (Lfriend_on_blacklist_added L) (Lfriend_userdata L)
       [ABlacklistItem (blacklistItemToC item zero_BlacklistItem)]
   | BlacklistRemoved user_id \<Rightarrow> notify (Lfriend_on_blacklist_removed L) (Lfriend_userdata L) [AText (c_str user_id)]
   | FriendRequestReceived req \<Rightarrow> notify (Lfriend_on_friend_request_received L) (Lfriend_userdata L)
       [AFriendRequest (friendRequestToC req zero_FriendRequest)]
   | FriendRequestDeleted req \<Rightarrow> notify (Lfriend_on_friend_request_deleted L) (Lfriend_userdata L)
       [AFriendRequest (friendRequestToC req zero_FriendRequest)]
   | FriendRequestAccepted req \<Rightarrow> notify (Lfriend_on_friend_request_accepted L) (Lfriend_userdata L)
       [AFriendRequest (friendRequestToC req zero_FriendRequest)]
   | FriendRequestRejected req \<Rightarrow> notify (Lfriend_on_friend_request_rejected L) (Lfriend_userdata L)
       [AFriendRequest (friendRequestToC req zero_FriendRequest)]
   | _ \<Rightarrow> skip)"

definition CGroupListener :: "AnyChatGroupListener_C \<Rightarrow> event \<Rightarrow> client_act" where
  "CGroupListener L e = (case e of
     GroupInvited gi inviter_id \<Rightarrow> notify (Lgroup_on_group_invited L) (Lgroup_userdata L)
       [AGroup (groupToC gi zero_Group), AText (c_str inviter_id)]
   | GroupUpdated gi \<Rightarrow> notify (Lgroup_on_group_updated L) (Lgroup_userdata L) [AGroup (groupToC gi zero_Group)]
   | _ \<Rightarrow> skip)"

definition CUserListener :: "AnyChatUserListener_C \<Rightarrow> event \<Rightarrow> client_act" where
  "CUserListener L e = (case e of
     ProfileUpdated info \<Rightarrow> notify (Luser_on_profile_updated L) (Luser_userdata L) [AUser (userInfoToC info zero_UserInfo)]
   | FriendProfileChanged info \<Rightarrow> notify (Luser_on_friend_profile_changed L) (Luser_userdata L)
       [AUser (userInfoToC info zero_UserInfo)]
   | UserStatusChanged ev \<Rightarrow> notify (Luser_on_status_changed L) (Luser_userdata L) [AStatus (statusEventToC ev zero_UserStatusEvent)]
   | _ \<Rightarrow> skip)"

definition CCallListener :: "AnyChatCallListener_C \<Rightarrow> event \<Rightarrow> client_act" where
  "CCallListener L e = (case e of
     IncomingCall session \<Rightarrow> notify (Lcall_on_incoming_call L) (Lcall_userdata L) [ACall (callSessionToC session zero_CallSession)]
   | CallStatusChanged call_id st \<Rightarrow> notify (Lcall_on_call_status_changed L) (Lcall_userdata L)
       [AText (c_str call_id), AInt (call_status_code st)]
   | _ \<Rightarrow> skip)"

text \<open>The closure of \<open>anychat_client_set_connection_callback\<close>.\<close>

definition c_state_closure :: "addr \<times> addr \<Rightarrow> event \<Rightarrow> client_act" where
  "c_state_closure c e = (case e of
     ConnectionStateChanged st \<Rightarrow> notify (fst c) (snd c) [AInt (connectionStateToC st)]
   | _ \<Rightarrow> skip)"

text \<open>What the client reports to a listener goes to the installed objects; everything else is
  not theirs.\<close>

definition heard_by :: "'l option \<Rightarrow> ('l \<Rightarrow> event \<Rightarrow> client_act) \<Rightarrow> event \<Rightarrow> client_act" where
  "heard_by l handler e = (case l of None \<Rightarrow> skip | Some L \<Rightarrow> handler L e)"

definition c_notify :: "event \<Rightarrow> client_act" where
  "c_notify e = reading (\<lambda>s. let ls = c_listening s in perform [
     heard_by (ls_auth ls) CAuthListener e, heard_by (ls_message ls) CMessageListener e,
     heard_by (ls_conv ls) CConversationListener e, heard_by (ls_friend ls) CFriendListener e,
     heard_by (ls_group ls) CGroupListener e, heard_by (ls_user ls) CUserListener e,
     heard_by (ls_call ls) CCallListener e, heard_by (ls_state ls) c_state_closure e])"

section \<open>Calls of the interface\<close>

text \<open>What a function returns at once, and what it makes the client do.\<close>

type_synonym c_result = "int \<times> client_act"

definition rejected :: "int \<Rightarrow> c_result" where
  "rejected code = (code, skip)"

definition dispatched :: "int \<Rightarrow> client_act \<Rightarrow> c_result" where
  "dispatched code a = (code, a)"

definition or_empty :: "string option \<Rightarrow> string" where
  "or_empty s = (case s of None \<Rightarrow> [] | Some t \<Rightarrow> t)"

text \<open>The strings of an array of n pointers that are not null, and those that are not empty either.\<close>

definition non_null_ids :: "string option list option \<Rightarrow> int \<Rightarrow> string list" where
  "non_null_ids ids n = (case ids of None \<Rightarrow> [] | Some ps \<Rightarrow> List.map_filter id (take (nat n) ps))"

definition given_ids :: "string option list option \<Rightarrow> int \<Rightarrow> string list" where
  "given_ids ids n = filter (\<lambda>t. t \<noteq> []) (non_null_ids ids n)"

text \<open>A message keeps its callback in the outbound queue: the two closures over the struct.\<close>

definition makeMessageCallback :: "nat \<Rightarrow> c_callback \<Rightarrow> user_cb" where
  "makeMessageCallback i callback = \<lparr>cb_id = i, has_success = True, has_error = True, cb_struct = Some callback\<rparr>"

text \<open>The progress closure of an upload: the application's function, if there is one, with the
  \<open>userdata\<close> of the copied callback struct.\<close>

definition c_progress :: "addr \<Rightarrow> addr \<Rightarrow> progress_callback" where
  "c_progress on_progress userdata = Some (\<lambda>sent tot. c_invoke CNotified on_progress userdata [AInt sent, AInt tot])"

definition c_listen :: "(c_listeners \<Rightarrow> c_listeners) \<Rightarrow> client_act" where
  "c_listen f = modify (\<lambda>s. s\<lparr>c_listening := f (c_listening s)\<rparr>)"

section \<open>Closures leave nothing behind\<close>

text \<open>In every state: this list of events, which depends on the heap only through the addresses
  in it, no change, no request.\<close>

definition c_exactly :: "(heap \<Rightarrow> event list) \<Rightarrow> client_act \<Rightarrow> bool" where
  "c_exactly es a \<longleftrightarrow> (\<forall>s. a s = (s, es (c_heap s), []))"

named_theorems c_exactly_intro

lemma c_exactly_skip [c_exactly_intro]: "c_exactly (\<lambda>h. []) skip"
  by (simp add: c_exactly_def skip_def)

lemma c_exactly_invoke [c_exactly_intro]:
  "c_exactly (\<lambda>h. if f = nullptr then [] else [ev \<lparr>iv_function = f, iv_userdata = u, iv_args = args, iv_memory = h\<rparr>])
     (c_invoke ev f u args)"
  by (simp add: c_exactly_def c_invoke_def skip_def reading_def emit_def)

lemma c_exactly_act_if: "c_exactly es a \<Longrightarrow> c_exactly (\<lambda>h. if b then es h else []) (act_if b a)"
  by (simp add: c_exactly_def act_if_def skip_def)

lemma c_exactly_allocation:
  assumes "\<And>h. \<exists>c'. rel (Some (fst (build h))) (snd (build h)) = Some (c', h)"
    and "\<And>c. c_exactly (es c) (k c)"
  shows "c_exactly (\<lambda>h. es (fst (build h)) (snd (build h))) (with_allocation build rel k)"
  unfolding c_exactly_def
proof
  fix s :: client
  obtain c h where b: "build (c_heap s) = (c, h)" by (cases "build (c_heap s)")
  obtain c' where r: "rel (Some c) h = Some (c', c_heap s)" using assms(1) [of "c_heap s"] b by auto
  have k: "k c (s\<lparr>c_heap := h\<rparr>) = (s\<lparr>c_heap := h\<rparr>, es c h, [])" using assms(2) [of c] by (simp add: c_exactly_def)
  show "with_allocation build rel k s = (s, es (fst (build (c_heap s))) (snd (build (c_heap s))), [])"
    by (simp add: with_allocation_def reading_def b seq_def set_heap_def modify_def k release_act_def r)
qed

lemma keeps_exactly: "c_exactly es a \<Longrightarrow> keeps I a"
  by (rule keepsI) (simp add: c_exactly_def)

lemma answers_exactly: "c_exactly es a \<Longrightarrow> (\<And>h. times P (es h) = n) \<Longrightarrow> answers P n a"
  unfolding answers_in_def settles_def c_exactly_def by simp

text \<open>The function f of the application, registered for call i, is called once when it is set.\<close>

definition one_call :: "nat \<Rightarrow> addr \<Rightarrow> client_act \<Rightarrow> bool" where
  "one_call i f a \<longleftrightarrow> (\<exists>es. c_exactly es a \<and>
     (\<forall>h. if f = nullptr then es h = [] else \<exists>iv. es h = [CCompleted i iv] \<and> iv_function iv = f))"

lemma one_call_invoke [c_exactly_intro]: "one_call i f (c_invoke (CCompleted i) f u args)"
  unfolding one_call_def by (rule exI, rule conjI, rule c_exactly_invoke) auto

lemma one_call_allocation:
  assumes "released build rel"
  shows "one_call i f (act_if (f \<noteq> nullptr) (with_allocation (build v) rel (\<lambda>c. c_invoke (CCompleted i) f u [wrap c])))"
  unfolding one_call_def
proof (rule exI, rule conjI)
  have rel: "\<exists>c'. rel (Some (fst (build v h))) (snd (build v h)) = Some (c', h)" for h
    using assms unfolding released_def by blast
  show "c_exactly (\<lambda>h. if f \<noteq> nullptr then (\<lambda>c h. if f = nullptr then [] else [CCompleted i \<lparr>iv_function = f,
      iv_userdata = u, iv_args = [wrap c], iv_memory = h\<rparr>]) (fst (build v h)) (snd (build v h)) else [])
      (act_if (f \<noteq> nullptr) (with_allocation (build v) rel (\<lambda>c. c_invoke (CCompleted i) f u [wrap c])))"
    by (rule c_exactly_act_if, rule c_exactly_allocation, rule rel, rule c_exactly_invoke)
qed auto

lemma one_call_keeps: "one_call i f a \<Longrightarrow> keeps I a"
  unfolding one_call_def by (auto intro: keeps_exactly)

lemma one_call_times:
  assumes "one_call i f a"
  obtains es where "c_exactly es a" and "\<And>h j. times (about j) (es h) = (if f \<noteq> nullptr \<and> j = i then 1 else 0)"
proof -
  from assms obtain es where es: "c_exactly es a"
    and h: "\<And>h. if f = nullptr then es h = [] else \<exists>iv. es h = [CCompleted i iv] \<and> iv_function iv = f"
    unfolding one_call_def by blast
  have "times (about j) (es h) = (if f \<noteq> nullptr \<and> j = i then 1 else 0)" for h j
    using h [of h] by (auto split: if_splits)
  with es that show thesis by blast
qed

lemma one_call_answers: "one_call i f a \<Longrightarrow> f \<noteq> nullptr \<Longrightarrow> answers (about i) 1 a"
  by (erule one_call_times, erule answers_exactly) simp

lemma one_call_other: "one_call i f a \<Longrightarrow> f = nullptr \<or> j \<noteq> i \<Longrightarrow> answers (about j) 0 a"
  by (erule one_call_times, erule answers_exactly) auto

text \<open>A callback that does so with the functions of a callback struct.\<close>

definition c_calls :: "nat \<Rightarrow> c_callback \<Rightarrow> 'v callback \<Rightarrow> bool" where
  "c_calls i callback cb \<longleftrightarrow> (\<forall>v. one_call i (cc_on_success callback) (succeed cb v))
     \<and> (\<forall>code msg. one_call i (cc_on_error callback) (fail cb code msg))"

named_theorems c_calls_intro

lemma c_callsI:
  assumes "\<And>v. one_call i (cc_on_success callback) (f v)"
  shows "c_calls i callback \<lparr>on_success = Some f, on_error = Some (invokeClientError i callback)\<rparr>"
  using assms by (simp add: c_calls_def succeed_def fail_def invokeClientError_def one_call_invoke)

lemma c_calls_plain [c_calls_intro]: "c_calls i callback (makeResultCallback i callback)"
  unfolding makeResultCallback_def by (rule c_callsI) (rule one_call_invoke)

lemma c_calls_value [c_calls_intro]: "c_calls i callback (value_callback i callback convert)"
  unfolding value_callback_def by (rule c_callsI) (rule one_call_invoke)

lemma c_calls_alloc [c_calls_intro]: "released build rel \<Longrightarrow> c_calls i callback (alloc_callback i callback build rel wrap)"
  unfolding alloc_callback_def by (rule c_callsI) (rule one_call_allocation)

lemma c_calls_lists [c_calls_intro]:
  "c_calls i callback (list_callback i callback cell conv z)"
  "c_calls i callback (total_callback i callback cell conv z items tot)"
  "c_calls i callback (paged_callback i callback cell conv z items tot page page_size)"
  unfolding list_callback_def total_callback_def paged_callback_def free_list_items_def free_total_items_def
    free_paged_items_def
  by (intro c_calls_alloc releasedI list_struct_filled total_struct_filled paged_struct_filled; assumption)+

lemmas c_calls_released = released_messages [THEN c_calls_alloc] released_read_state [THEN c_calls_alloc]
  released_mark_read [THEN c_calls_alloc]

lemma cb_keeps_c_calls: "c_calls i callback cb \<Longrightarrow> cb_keeps I cb"
  by (auto simp: c_calls_def cb_keeps_def intro: one_call_keeps)

lemma cb_answers_c_calls:
  "c_calls i callback cb \<Longrightarrow> cc_on_success callback \<noteq> nullptr \<Longrightarrow> cc_on_error callback \<noteq> nullptr \<Longrightarrow> cb_answers i 1 cb"
  unfolding c_calls_def cb_answers_def by (blast intro: one_call_answers)

lemma cb_answers_no_callback: "c_calls i no_callback cb \<Longrightarrow> cb_answers j 0 cb"
  unfolding c_calls_def cb_answers_def by (auto simp: no_callback_def intro: one_call_other)

section \<open>What all functions of the interface share\<close>

definition refused :: "c_result \<Rightarrow> bool" where
  "refused r \<longleftrightarrow> fst r \<noteq> ANYCHAT_OK \<and> snd r = skip"

lemma refused_rejected: "refused (rejected ANYCHAT_ERROR_INVALID_PARAM)" "refused (rejected (- 1))"
  by (simp_all add: refused_def rejected_def ANYCHAT_OK_def ANYCHAT_ERROR_INVALID_PARAM_def)

lemma validate_some: "\<not> validateCallbackStruct (Some c)"
  by (simp add: validateCallbackStruct_def)

lemma copy_none [simp]: "copyCallbackStruct None = no_callback"
  by (simp add: copyCallbackStruct_def)

lemmas c_result_simps = rejected_def dispatched_def answers_skip Let_def

lemmas c_calls_all = c_calls_intro c_calls_released

lemmas c_cb_keeps = c_calls_all [THEN cb_keeps_c_calls]

lemmas c_cb_unheard = c_calls_all [where callback = no_callback, THEN cb_answers_no_callback]

lemma mute_message_callback: "mute (makeMessageCallback i no_callback)"
  by (simp add: mute_def makeMessageCallback_def)

lemma only_reports_c_progress [simp]: "only_reports (c_progress f u)"
  unfolding only_reports_def progress_def c_progress_def
  by (auto simp: c_invoke_def intro!: answers_intro keeps_reading)

end
