(* ===== verification/CApiAccount.thy ===== *)
theory CApiAccount
  imports CCallbacks
begin

text \<open>
  The C interface to the client, the account and the user (core/src/c_api/client_c.cpp,
  auth_c.cpp, user_c.cpp). \<open>handle\<close> says whether the handle is not null; a string is None when its
  pointer is null; \<open>i\<close> is the number of the call.
\<close>

section \<open>client_c.cpp\<close>

text \<open>The configuration; pointers as options.\<close>

record AnyChatClientConfig_C =
  Ccfg_gateway_url :: "string option"
  Ccfg_api_base_url :: "string option"
  Ccfg_device_id :: "string option"
  Ccfg_db_path :: "string option"
  Ccfg_connect_timeout_ms :: int
  Ccfg_max_reconnect_attempts :: int
  Ccfg_auto_reconnect :: int

definition clientConfigFromC :: "AnyChatClientConfig_C \<Rightarrow> client_config" where
  "clientConfigFromC config = \<lparr>cfg_gateway_url = or_empty (Ccfg_gateway_url config),
     cfg_api_base_url = or_empty (Ccfg_api_base_url config), cfg_device_id = or_empty (Ccfg_device_id config),
     cfg_db_path = or_empty (Ccfg_db_path config), cfg_network_monitor = None,
     cfg_connect_timeout_ms = (if Ccfg_connect_timeout_ms config > 0 then Ccfg_connect_timeout_ms config else 10000),
     cfg_max_reconnect_attempts = (if Ccfg_max_reconnect_attempts config > 0 then Ccfg_max_reconnect_attempts config else 5),
     cfg_auto_reconnect = (Ccfg_auto_reconnect config \<noteq> 0)\<rparr>"

text \<open>A null handle, a call that never returns, or a client.\<close>

datatype created = NullHandle | NeverReturns | Created client

definition anychat_client_create :: "AnyChatClientConfig_C option \<Rightarrow> db_world \<Rightarrow> (message list \<Rightarrow> message list) \<Rightarrow> int \<Rightarrow> created" where
  "anychat_client_create config W srt now = (case config of
     None \<Rightarrow> NullHandle
   | Some c \<Rightarrow>
       if or_empty (Ccfg_gateway_url c) = [] then NullHandle
       else if or_empty (Ccfg_api_base_url c) = [] then NullHandle
       else if or_empty (Ccfg_device_id c) = [] then NullHandle
       else (case construct (clientConfigFromC c) W srt now of
           Throws e \<Rightarrow> NullHandle | Blocks \<Rightarrow> NeverReturns | Built client \<Rightarrow> Created client))"

definition anychat_client_destroy :: "client_env \<Rightarrow> bool \<Rightarrow> client_act" where
  "anychat_client_destroy E handle = act_if handle (perform [setOnConnectionStateChanged False,
     c_listen (\<lambda>ls. ls\<lparr>ls_state := None\<rparr>), client_destroy E])"

definition anychat_client_is_logged_in :: "bool \<Rightarrow> client \<Rightarrow> int" where
  "anychat_client_is_logged_in handle s = (if \<not> handle then 0 else if isLoggedIn s then 1 else 0)"

text \<open>The code and what is behind \<open>out_token\<close> (None is null) afterwards.\<close>

definition anychat_client_get_current_token ::
  "bool \<Rightarrow> AnyChatAuthToken_C option \<Rightarrow> client \<Rightarrow> int \<times> AnyChatAuthToken_C option" where
  "anychat_client_get_current_token handle out_token s =
     (if \<not> handle \<or> out_token = None then (- 1, out_token)
      else (0, Some (tokenToC (currentToken s) (the out_token))))"

definition anychat_client_get_connection_state :: "bool \<Rightarrow> client \<Rightarrow> int" where
  "anychat_client_get_connection_state handle s =
     (if \<not> handle then connectionStateToC Disconnected else connectionStateToC (connectionState s))"

definition anychat_client_set_connection_callback :: "bool \<Rightarrow> addr \<Rightarrow> addr \<Rightarrow> client_act" where
  "anychat_client_set_connection_callback handle userdata callback = act_if handle
     (if callback \<noteq> nullptr
      then perform [setOnConnectionStateChanged True, c_listen (\<lambda>ls. ls\<lparr>ls_state := Some (callback, userdata)\<rparr>)]
      else perform [setOnConnectionStateChanged False, c_listen (\<lambda>ls. ls\<lparr>ls_state := None\<rparr>)])"

text \<open>The handles of the managers are not null when the client's is not.\<close>

definition anychat_client_get_auth :: "bool \<Rightarrow> bool" where "anychat_client_get_auth handle = handle"
definition anychat_client_get_message :: "bool \<Rightarrow> bool" where "anychat_client_get_message handle = handle"
definition anychat_client_get_conversation :: "bool \<Rightarrow> bool" where "anychat_client_get_conversation handle = handle"
definition anychat_client_get_friend :: "bool \<Rightarrow> bool" where "anychat_client_get_friend handle = handle"
definition anychat_client_get_group :: "bool \<Rightarrow> bool" where "anychat_client_get_group handle = handle"
definition anychat_client_get_file :: "bool \<Rightarrow> bool" where "anychat_client_get_file handle = handle"
definition anychat_client_get_user :: "bool \<Rightarrow> bool" where "anychat_client_get_user handle = handle"
definition anychat_client_get_call :: "bool \<Rightarrow> bool" where "anychat_client_get_call handle = handle"
definition anychat_client_get_version :: "bool \<Rightarrow> bool" where "anychat_client_get_version handle = handle"

definition anychat_client_login ::
  "client_env \<Rightarrow> bool \<Rightarrow> string option \<Rightarrow> string option \<Rightarrow> int \<Rightarrow> string option \<Rightarrow> nat \<Rightarrow> AnyChatAuthTokenCallback_C option \<Rightarrow> c_result" where
  "anychat_client_login E handle account password device_type client_version i callback =
     (if \<not> handle \<or> account = None \<or> password = None then rejected (- 1)
      else if \<not> validateCallbackStruct callback then rejected (- 1)
      else dispatched 0 (client_login E (the account) (the password) device_type (or_empty client_version)
        (value_callback i (copyCallbackStruct callback) (\<lambda>v. AToken (tokenToC v zero_AuthToken)))))"

definition anychat_client_logout ::
  "client_env \<Rightarrow> bool \<Rightarrow> nat \<Rightarrow> AnyChatAuthResultCallback_C option \<Rightarrow> c_result" where
  "anychat_client_logout E handle i callback =
     (if \<not> handle then rejected (- 1)
      else if \<not> validateCallbackStruct callback then rejected (- 1)
      else dispatched 0 (client_logout E (makeResultCallback i (copyCallbackStruct callback))))"

text \<open>The functions of the file, and what is the same for all of them.\<close>

inductive client_c :: "client_env \<Rightarrow> nat \<Rightarrow> c_callback option \<Rightarrow> c_result \<Rightarrow> bool" for E i cb where
  "client_c E i cb (anychat_client_login E handle p q r t i cb)"
| "client_c E i cb (anychat_client_logout E handle i cb)"

lemmas client_c_defs = anychat_client_login_def anychat_client_logout_def

lemma client_c_refused: "client_c E i (Some c) res \<Longrightarrow> refused res"
  by (erule client_c.cases) (simp_all add: client_c_defs refused_rejected validate_some)

lemma client_c_unheard: "client_c E i None res \<Longrightarrow> answers (about j) 0 (snd res)"
  by (erule client_c.cases)
    (simp_all add: client_c_defs c_result_simps answers_client_ops c_cb_unheard)

lemma client_c_keeps: "conn_safe (snd X) \<Longrightarrow> client_c E i cb res \<Longrightarrow> keeps (client_inv X) (snd res)"
  by (erule client_c.cases)
    (simp_all add: client_c_defs c_result_simps keeps_client_ops c_cb_keeps)

section \<open>auth_c.cpp\<close>

definition anychat_auth_is_logged_in :: "bool \<Rightarrow> client \<Rightarrow> int" where
  "anychat_auth_is_logged_in handle s = (if \<not> handle then 0 else if isLoggedIn s then 1 else 0)"

definition anychat_auth_get_current_token ::
  "bool \<Rightarrow> AnyChatAuthToken_C option \<Rightarrow> client \<Rightarrow> int \<times> AnyChatAuthToken_C option" where
  "anychat_auth_get_current_token handle out_token s =
     (if \<not> handle \<or> out_token = None then (ANYCHAT_ERROR_INVALID_PARAM, out_token)
      else if \<not> isLoggedIn s then (ANYCHAT_ERROR_NOT_LOGGED_IN, out_token)
      else (ANYCHAT_OK, Some (tokenToCStruct (currentToken s) (the out_token))))"

definition anychat_auth_set_listener :: "bool \<Rightarrow> AnyChatAuthListener_C option \<Rightarrow> c_result" where
  "anychat_auth_set_listener handle listener =
     (if \<not> handle then rejected ANYCHAT_ERROR_INVALID_PARAM
      else case listener of
          None \<Rightarrow> dispatched ANYCHAT_OK (perform [auth_setListener False, c_listen (\<lambda>ls. ls\<lparr>ls_auth := None\<rparr>)])
        | Some L \<Rightarrow> dispatched ANYCHAT_OK (perform [auth_setListener True, c_listen (\<lambda>ls. ls\<lparr>ls_auth := Some L\<rparr>)]))"

definition anychat_auth_login ::
  "client_env \<Rightarrow> bool \<Rightarrow> string option \<Rightarrow> string option \<Rightarrow> int \<Rightarrow> string option \<Rightarrow> nat \<Rightarrow> AnyChatAuthTokenCallback_C option \<Rightarrow> c_result" where
  "anychat_auth_login E handle account password device_type client_version i callback =
     (if \<not> handle then rejected ANYCHAT_ERROR_INVALID_PARAM
      else if account = None \<or> password = None then rejected ANYCHAT_ERROR_INVALID_PARAM
      else if \<not> validateCallbackStruct callback then rejected ANYCHAT_ERROR_INVALID_PARAM
      else dispatched ANYCHAT_OK (auth_login (j_auth E) (the account) (the password) device_type (or_empty client_version)
        (value_callback i (copyCallbackStruct callback) (\<lambda>v. AToken (tokenToCStruct v zero_AuthToken)))))"

definition anychat_auth_register ::
  "client_env \<Rightarrow> bool \<Rightarrow> string option \<Rightarrow> string option \<Rightarrow> string option \<Rightarrow> int \<Rightarrow> string option \<Rightarrow> string option \<Rightarrow> nat \<Rightarrow> AnyChatAuthTokenCallback_C option \<Rightarrow> c_result" where
  "anychat_auth_register E handle phone_or_email password verify_code device_type nickname client_version i callback =
     (if \<not> handle then rejected ANYCHAT_ERROR_INVALID_PARAM
      else if phone_or_email = None \<or> password = None \<or> verify_code = None then rejected ANYCHAT_ERROR_INVALID_PARAM
      else if \<not> validateCallbackStruct callback then rejected ANYCHAT_ERROR_INVALID_PARAM
      else dispatched ANYCHAT_OK (registerUser (j_auth E) (the phone_or_email) (the password) (the verify_code) device_type (or_empty nickname) (or_empty client_version)
        (value_callback i (copyCallbackStruct callback) (\<lambda>v. AToken (tokenToCStruct v zero_AuthToken)))))"

definition anychat_auth_logout ::
  "client_env \<Rightarrow> bool \<Rightarrow> nat \<Rightarrow> AnyChatAuthResultCallback_C option \<Rightarrow> c_result" where
  "anychat_auth_logout E handle i callback =
     (if \<not> handle then rejected ANYCHAT_ERROR_INVALID_PARAM
      else if \<not> validateCallbackStruct callback then rejected ANYCHAT_ERROR_INVALID_PARAM
      else dispatched ANYCHAT_OK (auth_logout (j_auth E) (makeResultCallback i (copyCallbackStruct callback))))"

definition anychat_auth_send_code ::
  "client_env \<Rightarrow> bool \<Rightarrow> string option \<Rightarrow> int \<Rightarrow> int \<Rightarrow> nat \<Rightarrow> AnyChatVerificationCodeCallback_C option \<Rightarrow> c_result" where
  "anychat_auth_send_code E handle target target_type purpose i callback =
     (if \<not> handle then rejected ANYCHAT_ERROR_INVALID_PARAM
      else if target = None then rejected ANYCHAT_ERROR_INVALID_PARAM
      else if \<not> validateCallbackStruct callback then rejected ANYCHAT_ERROR_INVALID_PARAM
      else dispatched ANYCHAT_OK (sendVerificationCode (j_auth E) (the target) target_type purpose
        (value_callback i (copyCallbackStruct callback) (\<lambda>v. AVerificationCode (verificationCodeToCStruct v zero_VerificationCodeResult)))))"

definition anychat_auth_refresh_token ::
  "client_env \<Rightarrow> bool \<Rightarrow> string option \<Rightarrow> nat \<Rightarrow> AnyChatAuthTokenCallback_C option \<Rightarrow> c_result" where
  "anychat_auth_refresh_token E handle refresh_tok i callback =
     (if \<not> handle then rejected ANYCHAT_ERROR_INVALID_PARAM
      else if refresh_tok = None then rejected ANYCHAT_ERROR_INVALID_PARAM
      else if \<not> validateCallbackStruct callback then rejected ANYCHAT_ERROR_INVALID_PARAM
      else dispatched ANYCHAT_OK (auth_refreshToken (j_auth E) (the refresh_tok)
        (value_callback i (copyCallbackStruct callback) (\<lambda>v. AToken (tokenToCStruct v zero_AuthToken)))))"

definition anychat_auth_change_password ::
  "client_env \<Rightarrow> bool \<Rightarrow> string option \<Rightarrow> string option \<Rightarrow> nat \<Rightarrow> AnyChatAuthResultCallback_C option \<Rightarrow> c_result" where
  "anychat_auth_change_password E handle old_password new_password i callback =
     (if \<not> handle then rejected ANYCHAT_ERROR_INVALID_PARAM
      else if old_password = None \<or> new_password = None then rejected ANYCHAT_ERROR_INVALID_PARAM
      else if \<not> validateCallbackStruct callback then rejected ANYCHAT_ERROR_INVALID_PARAM
      else dispatched ANYCHAT_OK (changePassword (j_auth E) (the old_password) (the new_password)
        (makeResultCallback i (copyCallbackStruct callback))))"

definition anychat_auth_reset_password ::
  "client_env \<Rightarrow> bool \<Rightarrow> string option \<Rightarrow> string option \<Rightarrow> string option \<Rightarrow> nat \<Rightarrow> AnyChatAuthResultCallback_C option \<Rightarrow> c_result" where
  "anychat_auth_reset_password E handle account verify_code new_password i callback =
     (if \<not> handle then rejected ANYCHAT_ERROR_INVALID_PARAM
      else if account = None \<or> verify_code = None \<or> new_password = None then rejected ANYCHAT_ERROR_INVALID_PARAM
      else if \<not> validateCallbackStruct callback then rejected ANYCHAT_ERROR_INVALID_PARAM
      else dispatched ANYCHAT_OK (resetPassword (j_auth E) (the account) (the verify_code) (the new_password)
        (makeResultCallback i (copyCallbackStruct callback))))"

definition anychat_auth_get_device_list ::
  "client_env \<Rightarrow> bool \<Rightarrow> nat \<Rightarrow> AnyChatAuthDeviceListCallback_C option \<Rightarrow> c_result" where
  "anychat_auth_get_device_list E handle i callback =
     (if \<not> handle then rejected ANYCHAT_ERROR_INVALID_PARAM
      else if \<not> validateCallbackStruct callback then rejected ANYCHAT_ERROR_INVALID_PARAM
      else dispatched ANYCHAT_OK (getDeviceList (j_auth E)
        (list_callback i (copyCallbackStruct callback) Devices authDeviceToCStruct zero_AuthDevice)))"

definition anychat_auth_logout_device ::
  "client_env \<Rightarrow> bool \<Rightarrow> string option \<Rightarrow> nat \<Rightarrow> AnyChatAuthResultCallback_C option \<Rightarrow> c_result" where
  "anychat_auth_logout_device E handle device i callback =
     (if \<not> handle then rejected ANYCHAT_ERROR_INVALID_PARAM
      else if device = None then rejected ANYCHAT_ERROR_INVALID_PARAM
      else if \<not> validateCallbackStruct callback then rejected ANYCHAT_ERROR_INVALID_PARAM
      else dispatched ANYCHAT_OK (logoutDevice (j_auth E) (the device)
        (makeResultCallback i (copyCallbackStruct callback))))"

text \<open>The functions of the file, and what is the same for all of them.\<close>

inductive auth_c :: "client_env \<Rightarrow> nat \<Rightarrow> c_callback option \<Rightarrow> c_result \<Rightarrow> bool" for E i cb where
  "auth_c E i cb (anychat_auth_login E handle p q r t i cb)"
| "auth_c E i cb (anychat_auth_register E handle p q r t u v i cb)"
| "auth_c E i cb (anychat_auth_logout E handle i cb)"
| "auth_c E i cb (anychat_auth_send_code E handle p q r i cb)"
| "auth_c E i cb (anychat_auth_refresh_token E handle p i cb)"
| "auth_c E i cb (anychat_auth_change_password E handle p q i cb)"
| "auth_c E i cb (anychat_auth_reset_password E handle p q r i cb)"
| "auth_c E i cb (anychat_auth_get_device_list E handle i cb)"
| "auth_c E i cb (anychat_auth_logout_device E handle p i cb)"

lemmas auth_c_defs = anychat_auth_login_def anychat_auth_register_def anychat_auth_logout_def anychat_auth_send_code_def
  anychat_auth_refresh_token_def anychat_auth_change_password_def anychat_auth_reset_password_def anychat_auth_get_device_list_def
  anychat_auth_logout_device_def

lemma auth_c_refused: "auth_c E i (Some c) res \<Longrightarrow> refused res"
  by (erule auth_c.cases) (simp_all add: auth_c_defs refused_rejected validate_some)

lemma auth_c_unheard: "auth_c E i None res \<Longrightarrow> answers (about j) 0 (snd res)"
  by (erule auth_c.cases)
    (simp_all add: auth_c_defs c_result_simps answers_auth_ops c_cb_unheard)

lemma auth_c_keeps: "auth_c E i cb res \<Longrightarrow> keeps (client_inv X) (snd res)"
  by (erule auth_c.cases)
    (simp_all add: auth_c_defs c_result_simps keeps_auth_ops c_cb_keeps)

section \<open>user_c.cpp\<close>

definition anychat_user_set_listener :: "bool \<Rightarrow> AnyChatUserListener_C option \<Rightarrow> c_result" where
  "anychat_user_set_listener handle listener =
     (if \<not> handle then rejected ANYCHAT_ERROR_INVALID_PARAM
      else case listener of
          None \<Rightarrow> dispatched ANYCHAT_OK (perform [user_setListener False, c_listen (\<lambda>ls. ls\<lparr>ls_user := None\<rparr>)])
        | Some L \<Rightarrow> dispatched ANYCHAT_OK (perform [user_setListener True, c_listen (\<lambda>ls. ls\<lparr>ls_user := Some L\<rparr>)]))"

definition anychat_user_get_profile ::
  "client_env \<Rightarrow> bool \<Rightarrow> nat \<Rightarrow> AnyChatUserProfileCallback_C option \<Rightarrow> c_result" where
  "anychat_user_get_profile E handle i callback =
     (if \<not> handle then rejected ANYCHAT_ERROR_INVALID_PARAM
      else if \<not> validateCallbackStruct callback then rejected ANYCHAT_ERROR_INVALID_PARAM
      else dispatched ANYCHAT_OK (getProfile (j_user E)
        (value_callback i (copyCallbackStruct callback) (\<lambda>v. AProfile (profileToC v zero_UserProfile)))))"

definition anychat_user_update_profile ::
  "client_env \<Rightarrow> bool \<Rightarrow> AnyChatUserProfile_C option \<Rightarrow> nat \<Rightarrow> AnyChatUserProfileCallback_C option \<Rightarrow> c_result" where
  "anychat_user_update_profile E handle profile i callback =
     (if \<not> handle \<or> profile = None then rejected ANYCHAT_ERROR_INVALID_PARAM
      else if \<not> validateCallbackStruct callback then rejected ANYCHAT_ERROR_INVALID_PARAM
      else dispatched ANYCHAT_OK (updateProfile (j_user E) (profileFromC (the profile))
        (value_callback i (copyCallbackStruct callback) (\<lambda>v. AProfile (profileToC v zero_UserProfile)))))"

definition anychat_user_get_settings ::
  "client_env \<Rightarrow> bool \<Rightarrow> nat \<Rightarrow> AnyChatUserSettingsCallback_C option \<Rightarrow> c_result" where
  "anychat_user_get_settings E handle i callback =
     (if \<not> handle then rejected ANYCHAT_ERROR_INVALID_PARAM
      else if \<not> validateCallbackStruct callback then rejected ANYCHAT_ERROR_INVALID_PARAM
      else dispatched ANYCHAT_OK (getSettings (j_user E)
        (value_callback i (copyCallbackStruct callback) (\<lambda>v. ASettings (settingsToC v zero_UserSettings)))))"

definition anychat_user_update_settings ::
  "client_env \<Rightarrow> bool \<Rightarrow> AnyChatUserSettings_C option \<Rightarrow> nat \<Rightarrow> AnyChatUserSettingsCallback_C option \<Rightarrow> c_result" where
  "anychat_user_update_settings E handle settings i callback =
     (if \<not> handle \<or> settings = None then rejected ANYCHAT_ERROR_INVALID_PARAM
      else if \<not> validateCallbackStruct callback then rejected ANYCHAT_ERROR_INVALID_PARAM
      else dispatched ANYCHAT_OK (updateSettings (j_user E) (settingsFromC (the settings))
        (value_callback i (copyCallbackStruct callback) (\<lambda>v. ASettings (settingsToC v zero_UserSettings)))))"

definition anychat_user_update_push_token ::
  "client_env \<Rightarrow> bool \<Rightarrow> string option \<Rightarrow> int \<Rightarrow> nat \<Rightarrow> AnyChatUserCallback_C option \<Rightarrow> c_result" where
  "anychat_user_update_push_token E handle push_token platform i callback =
     (if \<not> handle \<or> push_token = None then rejected ANYCHAT_ERROR_INVALID_PARAM
      else if \<not> validateCallbackStruct callback then rejected ANYCHAT_ERROR_INVALID_PARAM
      else if platform \<noteq> 1 \<and> platform \<noteq> 2 then rejected ANYCHAT_ERROR_INVALID_PARAM
      else dispatched ANYCHAT_OK (updatePushToken (j_user E) (the push_token) platform
        (makeResultCallback i (copyCallbackStruct callback))))"

definition anychat_user_update_push_token_with_device ::
  "client_env \<Rightarrow> bool \<Rightarrow> string option \<Rightarrow> int \<Rightarrow> string option \<Rightarrow> nat \<Rightarrow> AnyChatUserCallback_C option \<Rightarrow> c_result" where
  "anychat_user_update_push_token_with_device E handle push_token platform device i callback =
     (if \<not> handle \<or> push_token = None \<or> device = None then rejected ANYCHAT_ERROR_INVALID_PARAM
      else if \<not> validateCallbackStruct callback then rejected ANYCHAT_ERROR_INVALID_PARAM
      else if platform \<noteq> 1 \<and> platform \<noteq> 2 then rejected ANYCHAT_ERROR_INVALID_PARAM
      else dispatched ANYCHAT_OK (updatePushToken_for (j_user E) (the push_token) platform (the device)
        (makeResultCallback i (copyCallbackStruct callback))))"

definition anychat_user_search ::
  "client_env \<Rightarrow> bool \<Rightarrow> string option \<Rightarrow> int \<Rightarrow> int \<Rightarrow> nat \<Rightarrow> AnyChatUserListCallback_C option \<Rightarrow> c_result" where
  "anychat_user_search E handle keyword page page_size i callback =
     (if \<not> handle \<or> keyword = None then rejected ANYCHAT_ERROR_INVALID_PARAM
      else if \<not> validateCallbackStruct callback then rejected ANYCHAT_ERROR_INVALID_PARAM
      else dispatched ANYCHAT_OK (searchUsers (j_user E) (the keyword) page page_size
        (total_callback i (copyCallbackStruct callback) UserArray userInfoToC zero_UserInfo usr_users usr_total)))"

definition anychat_user_get_info ::
  "client_env \<Rightarrow> bool \<Rightarrow> string option \<Rightarrow> nat \<Rightarrow> AnyChatUserInfoCallback_C option \<Rightarrow> c_result" where
  "anychat_user_get_info E handle user_id i callback =
     (if \<not> handle \<or> user_id = None then rejected ANYCHAT_ERROR_INVALID_PARAM
      else if \<not> validateCallbackStruct callback then rejected ANYCHAT_ERROR_INVALID_PARAM
      else dispatched ANYCHAT_OK (getUserInfo (j_user E) (the user_id)
        (value_callback i (copyCallbackStruct callback) (\<lambda>v. AUser (userInfoToC v zero_UserInfo)))))"

definition anychat_user_bind_phone ::
  "client_env \<Rightarrow> bool \<Rightarrow> string option \<Rightarrow> string option \<Rightarrow> nat \<Rightarrow> AnyChatBindPhoneCallback_C option \<Rightarrow> c_result" where
  "anychat_user_bind_phone E handle phone_number verify_code i callback =
     (if \<not> handle \<or> phone_number = None \<or> verify_code = None then rejected ANYCHAT_ERROR_INVALID_PARAM
      else if \<not> validateCallbackStruct callback then rejected ANYCHAT_ERROR_INVALID_PARAM
      else dispatched ANYCHAT_OK (bindPhone (j_user E) (the phone_number) (the verify_code)
        (value_callback i (copyCallbackStruct callback) (\<lambda>v. ABindPhone (bindPhoneToC v zero_BindPhoneResult)))))"

definition anychat_user_change_phone ::
  "client_env \<Rightarrow> bool \<Rightarrow> string option \<Rightarrow> string option \<Rightarrow> string option \<Rightarrow> string option \<Rightarrow> nat \<Rightarrow> AnyChatChangePhoneCallback_C option \<Rightarrow> c_result" where
  "anychat_user_change_phone E handle old_phone_number new_phone_number new_verify_code old_verify_code i callback =
     (if \<not> handle \<or> old_phone_number = None \<or> new_phone_number = None \<or> new_verify_code = None then rejected ANYCHAT_ERROR_INVALID_PARAM
      else if \<not> validateCallbackStruct callback then rejected ANYCHAT_ERROR_INVALID_PARAM
      else dispatched ANYCHAT_OK (changePhone (j_user E) (the old_phone_number) (the new_phone_number) (the new_verify_code) (or_empty old_verify_code)
        (value_callback i (copyCallbackStruct callback) (\<lambda>v. AChangePhone (changePhoneToC v zero_ChangePhoneResult)))))"

definition anychat_user_bind_email ::
  "client_env \<Rightarrow> bool \<Rightarrow> string option \<Rightarrow> string option \<Rightarrow> nat \<Rightarrow> AnyChatBindEmailCallback_C option \<Rightarrow> c_result" where
  "anychat_user_bind_email E handle email verify_code i callback =
     (if \<not> handle \<or> email = None \<or> verify_code = None then rejected ANYCHAT_ERROR_INVALID_PARAM
      else if \<not> validateCallbackStruct callback then rejected ANYCHAT_ERROR_INVALID_PARAM
      else dispatched ANYCHAT_OK (bindEmail (j_user E) (the email) (the verify_code)
        (value_callback i (copyCallbackStruct callback) (\<lambda>v. ABindEmail (bindEmailToC v zero_BindEmailResult)))))"

definition anychat_user_change_email ::
  "client_env \<Rightarrow> bool \<Rightarrow> string option \<Rightarrow> string option \<Rightarrow> string option \<Rightarrow> string option \<Rightarrow> nat \<Rightarrow> AnyChatChangeEmailCallback_C option \<Rightarrow> c_result" where
  "anychat_user_change_email E handle old_email new_email new_verify_code old_verify_code i callback =
     (if \<not> handle \<or> old_email = None \<or> new_email = None \<or> new_verify_code = None then rejected ANYCHAT_ERROR_INVALID_PARAM
      else if \<not> validateCallbackStruct callback then rejected ANYCHAT_ERROR_INVALID_PARAM
      else dispatched ANYCHAT_OK (changeEmail (j_user E) (the old_email) (the new_email) (the new_verify_code) (or_empty old_verify_code)
        (value_callback i (copyCallbackStruct callback) (\<lambda>v. AChangeEmail (changeEmailToC v zero_ChangeEmailResult)))))"

definition anychat_user_refresh_qrcode ::
  "client_env \<Rightarrow> bool \<Rightarrow> nat \<Rightarrow> AnyChatUserQRCodeCallback_C option \<Rightarrow> c_result" where
  "anychat_user_refresh_qrcode E handle i callback =
     (if \<not> handle then rejected ANYCHAT_ERROR_INVALID_PARAM
      else if \<not> validateCallbackStruct callback then rejected ANYCHAT_ERROR_INVALID_PARAM
      else dispatched ANYCHAT_OK (refreshUserQRCode (j_user E)
        (value_callback i (copyCallbackStruct callback) (\<lambda>v. AUserQRCode (userQrcodeToC v zero_UserQRCode)))))"

definition anychat_user_get_by_qrcode ::
  "client_env \<Rightarrow> bool \<Rightarrow> string option \<Rightarrow> nat \<Rightarrow> AnyChatUserInfoCallback_C option \<Rightarrow> c_result" where
  "anychat_user_get_by_qrcode E handle qrcode i callback =
     (if \<not> handle \<or> qrcode = None then rejected ANYCHAT_ERROR_INVALID_PARAM
      else if \<not> validateCallbackStruct callback then rejected ANYCHAT_ERROR_INVALID_PARAM
      else dispatched ANYCHAT_OK (getUserByQRCode (j_user E) (the qrcode)
        (value_callback i (copyCallbackStruct callback) (\<lambda>v. AUser (userInfoToC v zero_UserInfo)))))"

text \<open>The functions of the file, and what is the same for all of them.\<close>

inductive user_c :: "client_env \<Rightarrow> nat \<Rightarrow> c_callback option \<Rightarrow> c_result \<Rightarrow> bool" for E i cb where
  "user_c E i cb (anychat_user_get_profile E handle i cb)"
| "user_c E i cb (anychat_user_update_profile E handle p i cb)"
| "user_c E i cb (anychat_user_get_settings E handle i cb)"
| "user_c E i cb (anychat_user_update_settings E handle p i cb)"
| "user_c E i cb (anychat_user_update_push_token E handle p q i cb)"
| "user_c E i cb (anychat_user_update_push_token_with_device E handle p q r i cb)"
| "user_c E i cb (anychat_user_search E handle p q r i cb)"
| "user_c E i cb (anychat_user_get_info E handle p i cb)"
| "user_c E i cb (anychat_user_bind_phone E handle p q i cb)"
| "user_c E i cb (anychat_user_change_phone E handle p q r t i cb)"
| "user_c E i cb (anychat_user_bind_email E handle p q i cb)"
| "user_c E i cb (anychat_user_change_email E handle p q r t i cb)"
| "user_c E i cb (anychat_user_refresh_qrcode E handle i cb)"
| "user_c E i cb (anychat_user_get_by_qrcode E handle p i cb)"

lemmas user_c_defs = anychat_user_get_profile_def anychat_user_update_profile_def anychat_user_get_settings_def anychat_user_update_settings_def
  anychat_user_update_push_token_def anychat_user_update_push_token_with_device_def anychat_user_search_def anychat_user_get_info_def
  anychat_user_bind_phone_def anychat_user_change_phone_def anychat_user_bind_email_def anychat_user_change_email_def
  anychat_user_refresh_qrcode_def anychat_user_get_by_qrcode_def

lemma user_c_refused: "user_c E i (Some c) res \<Longrightarrow> refused res"
  by (erule user_c.cases) (simp_all add: user_c_defs refused_rejected validate_some)

lemma user_c_unheard: "user_c E i None res \<Longrightarrow> answers (about j) 0 (snd res)"
  by (erule user_c.cases)
    (simp_all add: user_c_defs c_result_simps answers_user_ops answers_updatePushToken_for c_cb_unheard)

lemma user_c_keeps: "user_c E i cb res \<Longrightarrow> keeps (client_inv X) (snd res)"
  by (erule user_c.cases)
    (simp_all add: user_c_defs c_result_simps keeps_user_ops keeps_updatePushToken_for c_cb_keeps)

end
