(* ===== verification/CApiChat.thy ===== *)
theory CApiChat
  imports CApiAccount
begin

text \<open>
  The C interface to messages and conversations (core/src/c_api/message_c.cpp,
  conversation_c.cpp).
\<close>

section \<open>message_c.cpp\<close>

definition anychat_message_set_listener :: "bool \<Rightarrow> AnyChatMessageListener_C option \<Rightarrow> c_result" where
  "anychat_message_set_listener handle listener =
     (if \<not> handle then rejected ANYCHAT_ERROR_INVALID_PARAM
      else case listener of
          None \<Rightarrow> dispatched ANYCHAT_OK (perform [msg_setListener False, c_listen (\<lambda>ls. ls\<lparr>ls_message := None\<rparr>)])
        | Some L \<Rightarrow> dispatched ANYCHAT_OK (perform [msg_setListener True, c_listen (\<lambda>ls. ls\<lparr>ls_message := Some L\<rparr>)]))"

definition anychat_message_send_text ::
  "client_env \<Rightarrow> bool \<Rightarrow> string option \<Rightarrow> string option \<Rightarrow> nat \<Rightarrow> AnyChatMessageCallback_C option \<Rightarrow> c_result" where
  "anychat_message_send_text E handle conv_id content i callback =
     (if \<not> handle then rejected ANYCHAT_ERROR_INVALID_PARAM
      else if conv_id = None \<or> content = None then rejected ANYCHAT_ERROR_INVALID_PARAM
      else if \<not> validateCallbackStruct callback then rejected ANYCHAT_ERROR_INVALID_PARAM
      else dispatched ANYCHAT_OK (sendTextMessage (j_msg E) (the conv_id) (the content)
        (makeMessageCallback i (copyCallbackStruct callback))))"

definition anychat_message_get_history ::
  "client_env \<Rightarrow> bool \<Rightarrow> string option \<Rightarrow> int \<Rightarrow> int \<Rightarrow> nat \<Rightarrow> AnyChatMessageListCallback_C option \<Rightarrow> c_result" where
  "anychat_message_get_history E handle conv_id before_timestamp_ms limit i callback =
     (if \<not> handle then rejected ANYCHAT_ERROR_INVALID_PARAM
      else if conv_id = None then rejected ANYCHAT_ERROR_INVALID_PARAM
      else if \<not> validateCallbackStruct callback then rejected ANYCHAT_ERROR_INVALID_PARAM
      else dispatched ANYCHAT_OK (getHistory (j_msg E) (the conv_id) before_timestamp_ms limit
        (alloc_callback i (copyCallbackStruct callback) messageListToC anychat_free_message_list AList)))"

definition anychat_message_mark_read ::
  "client_env \<Rightarrow> bool \<Rightarrow> string option \<Rightarrow> string option \<Rightarrow> nat \<Rightarrow> AnyChatMessageCallback_C option \<Rightarrow> c_result" where
  "anychat_message_mark_read E handle conv_id message_id i callback =
     (if \<not> handle then rejected ANYCHAT_ERROR_INVALID_PARAM
      else if conv_id = None \<or> message_id = None then rejected ANYCHAT_ERROR_INVALID_PARAM
      else if \<not> validateCallbackStruct callback then rejected ANYCHAT_ERROR_INVALID_PARAM
      else dispatched ANYCHAT_OK (markAsRead (j_msg E) (the conv_id) (the message_id)
        (makeResultCallback i (copyCallbackStruct callback))))"

definition anychat_message_get_offline ::
  "client_env \<Rightarrow> bool \<Rightarrow> int \<Rightarrow> int \<Rightarrow> nat \<Rightarrow> AnyChatOfflineMessageCallback_C option \<Rightarrow> c_result" where
  "anychat_message_get_offline E handle last_seq limit i callback =
     (if \<not> handle then rejected ANYCHAT_ERROR_INVALID_PARAM
      else if \<not> validateCallbackStruct callback then rejected ANYCHAT_ERROR_INVALID_PARAM
      else dispatched ANYCHAT_OK (getOfflineMessages (j_msg E) last_seq limit
        (alloc_callback i (copyCallbackStruct callback) offlineResultToC anychat_free_offline_message_result AOffline)))"

definition anychat_message_ack ::
  "client_env \<Rightarrow> bool \<Rightarrow> string option \<Rightarrow> string option list option \<Rightarrow> int \<Rightarrow> nat \<Rightarrow> AnyChatMessageCallback_C option \<Rightarrow> c_result" where
  "anychat_message_ack E handle conv_id message_ids message_count i callback =
     (if \<not> handle then rejected ANYCHAT_ERROR_INVALID_PARAM
      else if conv_id = None then rejected ANYCHAT_ERROR_INVALID_PARAM
      else if message_count < 0 then rejected ANYCHAT_ERROR_INVALID_PARAM
      else if \<not> validateCallbackStruct callback then rejected ANYCHAT_ERROR_INVALID_PARAM
      else dispatched ANYCHAT_OK (ackMessages (j_msg E) (the conv_id) (given_ids message_ids message_count)
        (makeResultCallback i (copyCallbackStruct callback))))"

definition anychat_message_get_group_read_state ::
  "client_env \<Rightarrow> bool \<Rightarrow> string option \<Rightarrow> string option \<Rightarrow> nat \<Rightarrow> AnyChatGroupMessageReadStateCallback_C option \<Rightarrow> c_result" where
  "anychat_message_get_group_read_state E handle group_id message_id i callback =
     (if \<not> handle then rejected ANYCHAT_ERROR_INVALID_PARAM
      else if group_id = None \<or> message_id = None then rejected ANYCHAT_ERROR_INVALID_PARAM
      else if \<not> validateCallbackStruct callback then rejected ANYCHAT_ERROR_INVALID_PARAM
      else dispatched ANYCHAT_OK (getGroupMessageReadState (j_msg E) (the group_id) (the message_id)
        (alloc_callback i (copyCallbackStruct callback) groupReadStateToCStruct anychat_free_group_message_read_state AGroupRead)))"

definition anychat_message_search ::
  "client_env \<Rightarrow> bool \<Rightarrow> string option \<Rightarrow> string option \<Rightarrow> int \<Rightarrow> int \<Rightarrow> int \<Rightarrow> nat \<Rightarrow> AnyChatMessageSearchCallback_C option \<Rightarrow> c_result" where
  "anychat_message_search E handle keyword conversation_id content_type limit offset i callback =
     (if \<not> handle then rejected ANYCHAT_ERROR_INVALID_PARAM
      else if keyword = None then rejected ANYCHAT_ERROR_INVALID_PARAM
      else if \<not> validateCallbackStruct callback then rejected ANYCHAT_ERROR_INVALID_PARAM
      else if content_type < 0 \<or> content_type > 7 then rejected ANYCHAT_ERROR_INVALID_PARAM
      else dispatched ANYCHAT_OK (searchMessages (j_msg E) (the keyword) (or_empty conversation_id) content_type limit offset
        (alloc_callback i (copyCallbackStruct callback) searchResultToC anychat_free_message_search_result ASearch)))"

definition anychat_message_recall ::
  "client_env \<Rightarrow> bool \<Rightarrow> string option \<Rightarrow> nat \<Rightarrow> AnyChatMessageCallback_C option \<Rightarrow> c_result" where
  "anychat_message_recall E handle message_id i callback =
     (if \<not> handle then rejected ANYCHAT_ERROR_INVALID_PARAM
      else if message_id = None then rejected ANYCHAT_ERROR_INVALID_PARAM
      else if \<not> validateCallbackStruct callback then rejected ANYCHAT_ERROR_INVALID_PARAM
      else dispatched ANYCHAT_OK (recallMessage (j_msg E) (the message_id)
        (makeResultCallback i (copyCallbackStruct callback))))"

definition anychat_message_delete ::
  "client_env \<Rightarrow> bool \<Rightarrow> string option \<Rightarrow> nat \<Rightarrow> AnyChatMessageCallback_C option \<Rightarrow> c_result" where
  "anychat_message_delete E handle message_id i callback =
     (if \<not> handle then rejected ANYCHAT_ERROR_INVALID_PARAM
      else if message_id = None then rejected ANYCHAT_ERROR_INVALID_PARAM
      else if \<not> validateCallbackStruct callback then rejected ANYCHAT_ERROR_INVALID_PARAM
      else dispatched ANYCHAT_OK (deleteMessage (j_msg E) (the message_id)
        (makeResultCallback i (copyCallbackStruct callback))))"

definition anychat_message_edit ::
  "client_env \<Rightarrow> bool \<Rightarrow> string option \<Rightarrow> string option \<Rightarrow> nat \<Rightarrow> AnyChatMessageCallback_C option \<Rightarrow> c_result" where
  "anychat_message_edit E handle message_id content i callback =
     (if \<not> handle then rejected ANYCHAT_ERROR_INVALID_PARAM
      else if message_id = None \<or> content = None then rejected ANYCHAT_ERROR_INVALID_PARAM
      else if \<not> validateCallbackStruct callback then rejected ANYCHAT_ERROR_INVALID_PARAM
      else dispatched ANYCHAT_OK (editMessage (j_msg E) (the message_id) (the content)
        (makeResultCallback i (copyCallbackStruct callback))))"

definition anychat_message_send_typing ::
  "client_env \<Rightarrow> bool \<Rightarrow> string option \<Rightarrow> int \<Rightarrow> int \<Rightarrow> nat \<Rightarrow> AnyChatMessageCallback_C option \<Rightarrow> c_result" where
  "anychat_message_send_typing E handle conversation_id typing ttl_seconds i callback =
     (if \<not> handle then rejected ANYCHAT_ERROR_INVALID_PARAM
      else if conversation_id = None then rejected ANYCHAT_ERROR_INVALID_PARAM
      else if \<not> validateCallbackStruct callback then rejected ANYCHAT_ERROR_INVALID_PARAM
      else dispatched ANYCHAT_OK (sendTyping (j_msg E) (the conversation_id) (typing \<noteq> 0) ttl_seconds
        (makeResultCallback i (copyCallbackStruct callback))))"

text \<open>The functions of the file, and what is the same for all of them.\<close>

inductive message_c :: "client_env \<Rightarrow> nat \<Rightarrow> c_callback option \<Rightarrow> c_result \<Rightarrow> bool" for E i cb where
  "message_c E i cb (anychat_message_send_text E handle p q i cb)"
| "message_c E i cb (anychat_message_get_history E handle p q r i cb)"
| "message_c E i cb (anychat_message_mark_read E handle p q i cb)"
| "message_c E i cb (anychat_message_get_offline E handle p q i cb)"
| "message_c E i cb (anychat_message_ack E handle p q r i cb)"
| "message_c E i cb (anychat_message_get_group_read_state E handle p q i cb)"
| "message_c E i cb (anychat_message_search E handle p q r t u i cb)"
| "message_c E i cb (anychat_message_recall E handle p i cb)"
| "message_c E i cb (anychat_message_delete E handle p i cb)"
| "message_c E i cb (anychat_message_edit E handle p q i cb)"
| "message_c E i cb (anychat_message_send_typing E handle p q r i cb)"

lemmas message_c_defs = anychat_message_send_text_def anychat_message_get_history_def anychat_message_mark_read_def anychat_message_get_offline_def
  anychat_message_ack_def anychat_message_get_group_read_state_def anychat_message_search_def anychat_message_recall_def
  anychat_message_delete_def anychat_message_edit_def anychat_message_send_typing_def

lemma message_c_refused: "message_c E i (Some c) res \<Longrightarrow> refused res"
  by (erule message_c.cases) (simp_all add: message_c_defs refused_rejected validate_some)

lemma message_c_unheard: "message_c E i None res \<Longrightarrow> answers (about j) 0 (snd res)"
  by (erule message_c.cases)
    (simp_all add: message_c_defs c_result_simps answers_msg_ops answers_ackMessages c_cb_unheard answers_sendTextMessage)

lemma message_c_keeps: "message_c E i None res \<Longrightarrow> keeps (client_inv X) (snd res)"
  by (erule message_c.cases)
    (simp_all add: message_c_defs c_result_simps keeps_msg_ops keeps_ackMessages c_cb_keeps keeps_sendTextMessage mute_message_callback)

section \<open>conversation_c.cpp\<close>

definition anychat_conv_set_listener :: "bool \<Rightarrow> AnyChatConvListener_C option \<Rightarrow> c_result" where
  "anychat_conv_set_listener handle listener =
     (if \<not> handle then rejected ANYCHAT_ERROR_INVALID_PARAM
      else case listener of
          None \<Rightarrow> dispatched ANYCHAT_OK (perform [conv_setListener False, c_listen (\<lambda>ls. ls\<lparr>ls_conv := None\<rparr>)])
        | Some L \<Rightarrow> dispatched ANYCHAT_OK (perform [conv_setListener True, c_listen (\<lambda>ls. ls\<lparr>ls_conv := Some L\<rparr>)]))"

definition anychat_conv_get_list ::
  "client_env \<Rightarrow> bool \<Rightarrow> nat \<Rightarrow> AnyChatConvListCallback_C option \<Rightarrow> c_result" where
  "anychat_conv_get_list E handle i callback =
     (if \<not> handle then rejected ANYCHAT_ERROR_INVALID_PARAM
      else if \<not> validateCallbackStruct callback then rejected ANYCHAT_ERROR_INVALID_PARAM
      else dispatched ANYCHAT_OK (getConversationList (j_conv E)
        (list_callback i (copyCallbackStruct callback) Conversations convToCStruct zero_Conversation)))"

definition anychat_conv_get_total_unread ::
  "client_env \<Rightarrow> bool \<Rightarrow> nat \<Rightarrow> AnyChatConvTotalUnreadCallback_C option \<Rightarrow> c_result" where
  "anychat_conv_get_total_unread E handle i callback =
     (if \<not> handle then rejected ANYCHAT_ERROR_INVALID_PARAM
      else if \<not> validateCallbackStruct callback then rejected ANYCHAT_ERROR_INVALID_PARAM
      else dispatched ANYCHAT_OK (getTotalUnread (j_conv E)
        (value_callback i (copyCallbackStruct callback) (\<lambda>v. AInt v))))"

definition anychat_conv_get ::
  "client_env \<Rightarrow> bool \<Rightarrow> string option \<Rightarrow> nat \<Rightarrow> AnyChatConvInfoCallback_C option \<Rightarrow> c_result" where
  "anychat_conv_get E handle conv_id i callback =
     (if \<not> handle \<or> conv_id = None then rejected ANYCHAT_ERROR_INVALID_PARAM
      else if \<not> validateCallbackStruct callback then rejected ANYCHAT_ERROR_INVALID_PARAM
      else dispatched ANYCHAT_OK (getConversation (j_conv E) (the conv_id)
        (value_callback i (copyCallbackStruct callback) (\<lambda>v. AConversation (convToCStruct v zero_Conversation)))))"

definition anychat_conv_mark_all_read ::
  "client_env \<Rightarrow> bool \<Rightarrow> string option \<Rightarrow> nat \<Rightarrow> AnyChatConvCallback_C option \<Rightarrow> c_result" where
  "anychat_conv_mark_all_read E handle conv_id i callback =
     (if \<not> handle \<or> conv_id = None then rejected ANYCHAT_ERROR_INVALID_PARAM
      else if \<not> validateCallbackStruct callback then rejected ANYCHAT_ERROR_INVALID_PARAM
      else dispatched ANYCHAT_OK (markAllRead (j_conv E) (the conv_id)
        (makeResultCallback i (copyCallbackStruct callback))))"

definition anychat_conv_mark_messages_read ::
  "client_env \<Rightarrow> bool \<Rightarrow> string option \<Rightarrow> string option list option \<Rightarrow> int \<Rightarrow> nat \<Rightarrow> AnyChatConvMarkReadResultCallback_C option \<Rightarrow> c_result" where
  "anychat_conv_mark_messages_read E handle conv_id message_ids message_id_count i callback =
     (if \<not> handle \<or> conv_id = None \<or> message_ids = None \<or> message_id_count \<le> 0 then rejected ANYCHAT_ERROR_INVALID_PARAM
      else if \<not> validateCallbackStruct callback then rejected ANYCHAT_ERROR_INVALID_PARAM
      else if given_ids message_ids message_id_count = [] then rejected ANYCHAT_ERROR_INVALID_PARAM
      else dispatched ANYCHAT_OK (markMessagesRead (j_conv E) (the conv_id) (given_ids message_ids message_id_count)
        (alloc_callback i (copyCallbackStruct callback) markReadResultToCStruct anychat_free_conversation_mark_read_result AMarkRead)))"

definition anychat_conv_set_pinned ::
  "client_env \<Rightarrow> bool \<Rightarrow> string option \<Rightarrow> int \<Rightarrow> nat \<Rightarrow> AnyChatConvCallback_C option \<Rightarrow> c_result" where
  "anychat_conv_set_pinned E handle conv_id pinned i callback =
     (if \<not> handle \<or> conv_id = None then rejected ANYCHAT_ERROR_INVALID_PARAM
      else if \<not> validateCallbackStruct callback then rejected ANYCHAT_ERROR_INVALID_PARAM
      else dispatched ANYCHAT_OK (setPinned (j_conv E) (the conv_id) (pinned \<noteq> 0)
        (makeResultCallback i (copyCallbackStruct callback))))"

definition anychat_conv_set_muted ::
  "client_env \<Rightarrow> bool \<Rightarrow> string option \<Rightarrow> int \<Rightarrow> nat \<Rightarrow> AnyChatConvCallback_C option \<Rightarrow> c_result" where
  "anychat_conv_set_muted E handle conv_id muted i callback =
     (if \<not> handle \<or> conv_id = None then rejected ANYCHAT_ERROR_INVALID_PARAM
      else if \<not> validateCallbackStruct callback then rejected ANYCHAT_ERROR_INVALID_PARAM
      else dispatched ANYCHAT_OK (setMuted (j_conv E) (the conv_id) (muted \<noteq> 0)
        (makeResultCallback i (copyCallbackStruct callback))))"

definition anychat_conv_set_burn_after_reading ::
  "client_env \<Rightarrow> bool \<Rightarrow> string option \<Rightarrow> int \<Rightarrow> nat \<Rightarrow> AnyChatConvCallback_C option \<Rightarrow> c_result" where
  "anychat_conv_set_burn_after_reading E handle conv_id duration i callback =
     (if \<not> handle \<or> conv_id = None then rejected ANYCHAT_ERROR_INVALID_PARAM
      else if \<not> validateCallbackStruct callback then rejected ANYCHAT_ERROR_INVALID_PARAM
      else dispatched ANYCHAT_OK (setBurnAfterReading (j_conv E) (the conv_id) duration
        (makeResultCallback i (copyCallbackStruct callback))))"

definition anychat_conv_set_auto_delete ::
  "client_env \<Rightarrow> bool \<Rightarrow> string option \<Rightarrow> int \<Rightarrow> nat \<Rightarrow> AnyChatConvCallback_C option \<Rightarrow> c_result" where
  "anychat_conv_set_auto_delete E handle conv_id duration i callback =
     (if \<not> handle \<or> conv_id = None then rejected ANYCHAT_ERROR_INVALID_PARAM
      else if \<not> validateCallbackStruct callback then rejected ANYCHAT_ERROR_INVALID_PARAM
      else dispatched ANYCHAT_OK (setAutoDelete (j_conv E) (the conv_id) duration
        (makeResultCallback i (copyCallbackStruct callback))))"

definition anychat_conv_delete ::
  "client_env \<Rightarrow> bool \<Rightarrow> string option \<Rightarrow> nat \<Rightarrow> AnyChatConvCallback_C option \<Rightarrow> c_result" where
  "anychat_conv_delete E handle conv_id i callback =
     (if \<not> handle \<or> conv_id = None then rejected ANYCHAT_ERROR_INVALID_PARAM
      else if \<not> validateCallbackStruct callback then rejected ANYCHAT_ERROR_INVALID_PARAM
      else dispatched ANYCHAT_OK (deleteConversation (j_conv E) (the conv_id)
        (makeResultCallback i (copyCallbackStruct callback))))"

definition anychat_conv_get_message_unread_count ::
  "client_env \<Rightarrow> bool \<Rightarrow> string option \<Rightarrow> int \<Rightarrow> nat \<Rightarrow> AnyChatConvUnreadStateCallback_C option \<Rightarrow> c_result" where
  "anychat_conv_get_message_unread_count E handle conv_id last_read_seq i callback =
     (if \<not> handle \<or> conv_id = None then rejected ANYCHAT_ERROR_INVALID_PARAM
      else if \<not> validateCallbackStruct callback then rejected ANYCHAT_ERROR_INVALID_PARAM
      else dispatched ANYCHAT_OK (getMessageUnreadCount (j_conv E) (the conv_id) last_read_seq
        (value_callback i (copyCallbackStruct callback) (\<lambda>v. AUnreadState (unreadStateToC v zero_ConversationUnreadState)))))"

definition anychat_conv_get_message_read_receipts ::
  "client_env \<Rightarrow> bool \<Rightarrow> string option \<Rightarrow> nat \<Rightarrow> AnyChatConvReadReceiptListCallback_C option \<Rightarrow> c_result" where
  "anychat_conv_get_message_read_receipts E handle conv_id i callback =
     (if \<not> handle \<or> conv_id = None then rejected ANYCHAT_ERROR_INVALID_PARAM
      else if \<not> validateCallbackStruct callback then rejected ANYCHAT_ERROR_INVALID_PARAM
      else dispatched ANYCHAT_OK (getMessageReadReceipts (j_conv E) (the conv_id)
        (list_callback i (copyCallbackStruct callback) Receipts readReceiptToCStruct zero_ConversationReadReceipt)))"

definition anychat_conv_get_message_sequence ::
  "client_env \<Rightarrow> bool \<Rightarrow> string option \<Rightarrow> nat \<Rightarrow> AnyChatConvSequenceCallback_C option \<Rightarrow> c_result" where
  "anychat_conv_get_message_sequence E handle conv_id i callback =
     (if \<not> handle \<or> conv_id = None then rejected ANYCHAT_ERROR_INVALID_PARAM
      else if \<not> validateCallbackStruct callback then rejected ANYCHAT_ERROR_INVALID_PARAM
      else dispatched ANYCHAT_OK (getMessageSequence (j_conv E) (the conv_id)
        (value_callback i (copyCallbackStruct callback) (\<lambda>v. AInt v))))"

text \<open>The functions of the file, and what is the same for all of them.\<close>

inductive conversation_c :: "client_env \<Rightarrow> nat \<Rightarrow> c_callback option \<Rightarrow> c_result \<Rightarrow> bool" for E i cb where
  "conversation_c E i cb (anychat_conv_get_list E handle i cb)"
| "conversation_c E i cb (anychat_conv_get_total_unread E handle i cb)"
| "conversation_c E i cb (anychat_conv_get E handle p i cb)"
| "conversation_c E i cb (anychat_conv_mark_all_read E handle p i cb)"
| "conversation_c E i cb (anychat_conv_mark_messages_read E handle p q r i cb)"
| "conversation_c E i cb (anychat_conv_set_pinned E handle p q i cb)"
| "conversation_c E i cb (anychat_conv_set_muted E handle p q i cb)"
| "conversation_c E i cb (anychat_conv_set_burn_after_reading E handle p q i cb)"
| "conversation_c E i cb (anychat_conv_set_auto_delete E handle p q i cb)"
| "conversation_c E i cb (anychat_conv_delete E handle p i cb)"
| "conversation_c E i cb (anychat_conv_get_message_unread_count E handle p q i cb)"
| "conversation_c E i cb (anychat_conv_get_message_read_receipts E handle p i cb)"
| "conversation_c E i cb (anychat_conv_get_message_sequence E handle p i cb)"

lemmas conversation_c_defs = anychat_conv_get_list_def anychat_conv_get_total_unread_def anychat_conv_get_def anychat_conv_mark_all_read_def
  anychat_conv_mark_messages_read_def anychat_conv_set_pinned_def anychat_conv_set_muted_def anychat_conv_set_burn_after_reading_def
  anychat_conv_set_auto_delete_def anychat_conv_delete_def anychat_conv_get_message_unread_count_def anychat_conv_get_message_read_receipts_def
  anychat_conv_get_message_sequence_def

lemma conversation_c_refused: "conversation_c E i (Some c) res \<Longrightarrow> refused res"
  by (erule conversation_c.cases) (simp_all add: conversation_c_defs refused_rejected validate_some)

lemma conversation_c_unheard: "conversation_c E i None res \<Longrightarrow> answers (about j) 0 (snd res)"
  by (erule conversation_c.cases)
    (simp_all add: conversation_c_defs c_result_simps answers_conv_ops c_cb_unheard)

lemma conversation_c_keeps: "conversation_c E i cb res \<Longrightarrow> keeps (client_inv X) (snd res)"
  by (erule conversation_c.cases)
    (simp_all add: conversation_c_defs c_result_simps keeps_conv_ops c_cb_keeps)

end
