(* ===== verification/CApiPeople.thy ===== *)
theory CApiPeople
  imports CApiAccount
begin

text \<open>
  The C interface to friends and groups (core/src/c_api/friend_c.cpp, group_c.cpp).
\<close>

section \<open>friend_c.cpp\<close>

definition anychat_friend_set_listener :: "bool \<Rightarrow> AnyChatFriendListener_C option \<Rightarrow> c_result" where
  "anychat_friend_set_listener handle listener =
     (if \<not> handle then rejected ANYCHAT_ERROR_INVALID_PARAM
      else case listener of
          None \<Rightarrow> dispatched ANYCHAT_OK (perform [friend_setListener False, c_listen (\<lambda>ls. ls\<lparr>ls_friend := None\<rparr>)])
        | Some L \<Rightarrow> dispatched ANYCHAT_OK (perform [friend_setListener True, c_listen (\<lambda>ls. ls\<lparr>ls_friend := Some L\<rparr>)]))"

definition anychat_friend_get_list ::
  "client_env \<Rightarrow> bool \<Rightarrow> nat \<Rightarrow> AnyChatFriendListCallback_C option \<Rightarrow> c_result" where
  "anychat_friend_get_list E handle i callback =
     (if \<not> handle then rejected ANYCHAT_ERROR_INVALID_PARAM
      else if callback \<noteq> None then rejected ANYCHAT_ERROR_INVALID_PARAM
      else dispatched ANYCHAT_OK (getFriendList (j_friend E)
        (list_callback i (copyCallbackStruct callback) FriendArray friendToC zero_Friend)))"

definition anychat_friend_add ::
  "client_env \<Rightarrow> bool \<Rightarrow> string option \<Rightarrow> string option \<Rightarrow> int \<Rightarrow> nat \<Rightarrow> AnyChatFriendCallback_C option \<Rightarrow> c_result" where
  "anychat_friend_add E handle to_user_id txt source i callback =
     (if \<not> handle \<or> to_user_id = None then rejected ANYCHAT_ERROR_INVALID_PARAM
      else if callback \<noteq> None then rejected ANYCHAT_ERROR_INVALID_PARAM
      else dispatched ANYCHAT_OK (addFriend (j_friend E) (the to_user_id) (or_empty txt) source
        (makeResultCallback i (copyCallbackStruct callback))))"

definition anychat_friend_delete ::
  "client_env \<Rightarrow> bool \<Rightarrow> string option \<Rightarrow> nat \<Rightarrow> AnyChatFriendCallback_C option \<Rightarrow> c_result" where
  "anychat_friend_delete E handle friend_id i callback =
     (if \<not> handle \<or> friend_id = None then rejected ANYCHAT_ERROR_INVALID_PARAM
      else if callback \<noteq> None then rejected ANYCHAT_ERROR_INVALID_PARAM
      else dispatched ANYCHAT_OK (deleteFriend (j_friend E) (the friend_id)
        (makeResultCallback i (copyCallbackStruct callback))))"

definition anychat_friend_update_remark ::
  "client_env \<Rightarrow> bool \<Rightarrow> string option \<Rightarrow> string option \<Rightarrow> nat \<Rightarrow> AnyChatFriendCallback_C option \<Rightarrow> c_result" where
  "anychat_friend_update_remark E handle friend_id remark i callback =
     (if \<not> handle \<or> friend_id = None then rejected ANYCHAT_ERROR_INVALID_PARAM
      else if callback \<noteq> None then rejected ANYCHAT_ERROR_INVALID_PARAM
      else dispatched ANYCHAT_OK (updateRemark (j_friend E) (the friend_id) (or_empty remark)
        (makeResultCallback i (copyCallbackStruct callback))))"

definition anychat_friend_get_requests ::
  "client_env \<Rightarrow> bool \<Rightarrow> int \<Rightarrow> nat \<Rightarrow> AnyChatFriendRequestListCallback_C option \<Rightarrow> c_result" where
  "anychat_friend_get_requests E handle request_type i callback =
     (if \<not> handle then rejected ANYCHAT_ERROR_INVALID_PARAM
      else if callback \<noteq> None then rejected ANYCHAT_ERROR_INVALID_PARAM
      else dispatched ANYCHAT_OK (getFriendRequests (j_friend E) request_type
        (list_callback i (copyCallbackStruct callback) FriendRequestArray friendRequestToC zero_FriendRequest)))"

definition anychat_friend_handle_request ::
  "client_env \<Rightarrow> bool \<Rightarrow> int \<Rightarrow> int \<Rightarrow> nat \<Rightarrow> AnyChatFriendCallback_C option \<Rightarrow> c_result" where
  "anychat_friend_handle_request E handle request_id action i callback =
     (if \<not> handle then rejected ANYCHAT_ERROR_INVALID_PARAM
      else if callback \<noteq> None then rejected ANYCHAT_ERROR_INVALID_PARAM
      else dispatched ANYCHAT_OK (handleFriendRequest (j_friend E) request_id action
        (makeResultCallback i (copyCallbackStruct callback))))"

definition anychat_friend_add_to_blacklist ::
  "client_env \<Rightarrow> bool \<Rightarrow> string option \<Rightarrow> nat \<Rightarrow> AnyChatFriendCallback_C option \<Rightarrow> c_result" where
  "anychat_friend_add_to_blacklist E handle user_id i callback =
     (if \<not> handle \<or> user_id = None then rejected ANYCHAT_ERROR_INVALID_PARAM
      else if callback \<noteq> None then rejected ANYCHAT_ERROR_INVALID_PARAM
      else dispatched ANYCHAT_OK (addToBlacklist (j_friend E) (the user_id)
        (makeResultCallback i (copyCallbackStruct callback))))"

definition anychat_friend_remove_from_blacklist ::
  "client_env \<Rightarrow> bool \<Rightarrow> string option \<Rightarrow> nat \<Rightarrow> AnyChatFriendCallback_C option \<Rightarrow> c_result" where
  "anychat_friend_remove_from_blacklist E handle user_id i callback =
     (if \<not> handle \<or> user_id = None then rejected ANYCHAT_ERROR_INVALID_PARAM
      else if callback \<noteq> None then rejected ANYCHAT_ERROR_INVALID_PARAM
      else dispatched ANYCHAT_OK (removeFromBlacklist (j_friend E) (the user_id)
        (makeResultCallback i (copyCallbackStruct callback))))"

definition anychat_friend_get_blacklist ::
  "client_env \<Rightarrow> bool \<Rightarrow> nat \<Rightarrow> AnyChatBlacklistListCallback_C option \<Rightarrow> c_result" where
  "anychat_friend_get_blacklist E handle i callback =
     (if \<not> handle then rejected ANYCHAT_ERROR_INVALID_PARAM
      else if callback \<noteq> None then rejected ANYCHAT_ERROR_INVALID_PARAM
      else dispatched ANYCHAT_OK (getBlacklist (j_friend E)
        (list_callback i (copyCallbackStruct callback) BlacklistArray blacklistItemToC zero_BlacklistItem)))"

text \<open>The functions of the file, and what is the same for all of them.\<close>

inductive friend_c :: "client_env \<Rightarrow> nat \<Rightarrow> c_callback option \<Rightarrow> c_result \<Rightarrow> bool" for E i cb where
  "friend_c E i cb (anychat_friend_get_list E handle i cb)"
| "friend_c E i cb (anychat_friend_add E handle p q r i cb)"
| "friend_c E i cb (anychat_friend_delete E handle p i cb)"
| "friend_c E i cb (anychat_friend_update_remark E handle p q i cb)"
| "friend_c E i cb (anychat_friend_get_requests E handle p i cb)"
| "friend_c E i cb (anychat_friend_handle_request E handle p q i cb)"
| "friend_c E i cb (anychat_friend_add_to_blacklist E handle p i cb)"
| "friend_c E i cb (anychat_friend_remove_from_blacklist E handle p i cb)"
| "friend_c E i cb (anychat_friend_get_blacklist E handle i cb)"

lemmas friend_c_defs = anychat_friend_get_list_def anychat_friend_add_def anychat_friend_delete_def anychat_friend_update_remark_def
  anychat_friend_get_requests_def anychat_friend_handle_request_def anychat_friend_add_to_blacklist_def anychat_friend_remove_from_blacklist_def
  anychat_friend_get_blacklist_def

lemma friend_c_refused: "friend_c E i (Some c) res \<Longrightarrow> refused res"
  by (erule friend_c.cases) (simp_all add: friend_c_defs refused_rejected validate_some)

lemma friend_c_unheard: "friend_c E i None res \<Longrightarrow> answers (about j) 0 (snd res)"
  by (erule friend_c.cases)
    (simp_all add: friend_c_defs c_result_simps answers_friend_ops c_cb_unheard)

lemma friend_c_keeps: "friend_c E i cb res \<Longrightarrow> keeps (client_inv X) (snd res)"
  by (erule friend_c.cases)
    (simp_all add: friend_c_defs c_result_simps keeps_friend_ops c_cb_keeps)

section \<open>group_c.cpp\<close>

definition isValidGroupRoleCode_C :: "int \<Rightarrow> bool" where
  "isValidGroupRoleCode_C role \<longleftrightarrow> role = 1 \<or> role = 2 \<or> role = 3"

definition isValidJoinRequestStatusCode_C :: "int \<Rightarrow> bool" where
  "isValidJoinRequestStatusCode_C st \<longleftrightarrow> st = 0 \<or> st = 1 \<or> st = 2 \<or> st = 3"

definition anychat_group_set_listener :: "bool \<Rightarrow> AnyChatGroupListener_C option \<Rightarrow> c_result" where
  "anychat_group_set_listener handle listener =
     (if \<not> handle then rejected ANYCHAT_ERROR_INVALID_PARAM
      else case listener of
          None \<Rightarrow> dispatched ANYCHAT_OK (perform [group_setListener False, c_listen (\<lambda>ls. ls\<lparr>ls_group := None\<rparr>)])
        | Some L \<Rightarrow> dispatched ANYCHAT_OK (perform [group_setListener True, c_listen (\<lambda>ls. ls\<lparr>ls_group := Some L\<rparr>)]))"

definition anychat_group_get_list ::
  "client_env \<Rightarrow> bool \<Rightarrow> nat \<Rightarrow> AnyChatGroupListCallback_C option \<Rightarrow> c_result" where
  "anychat_group_get_list E handle i callback =
     (if \<not> handle then rejected ANYCHAT_ERROR_INVALID_PARAM
      else if \<not> validateCallbackStruct callback then rejected ANYCHAT_ERROR_INVALID_PARAM
      else dispatched ANYCHAT_OK (getGroupList (j_group E)
        (list_callback i (copyCallbackStruct callback) GroupArray groupToC zero_Group)))"

definition anychat_group_get_info ::
  "client_env \<Rightarrow> bool \<Rightarrow> string option \<Rightarrow> nat \<Rightarrow> AnyChatGroupInfoCallback_C option \<Rightarrow> c_result" where
  "anychat_group_get_info E handle group_id i callback =
     (if \<not> handle \<or> group_id = None then rejected ANYCHAT_ERROR_INVALID_PARAM
      else if \<not> validateCallbackStruct callback then rejected ANYCHAT_ERROR_INVALID_PARAM
      else dispatched ANYCHAT_OK (getInfo (j_group E) (the group_id)
        (value_callback i (copyCallbackStruct callback) (\<lambda>v. AGroup (groupToC v zero_Group)))))"

definition anychat_group_create ::
  "client_env \<Rightarrow> bool \<Rightarrow> string option \<Rightarrow> string option list option \<Rightarrow> int \<Rightarrow> nat \<Rightarrow> AnyChatGroupInfoCallback_C option \<Rightarrow> c_result" where
  "anychat_group_create E handle name member_ids member_count i callback =
     (if \<not> handle \<or> name = None then rejected ANYCHAT_ERROR_INVALID_PARAM
      else if \<not> validateCallbackStruct callback then rejected ANYCHAT_ERROR_INVALID_PARAM
      else dispatched ANYCHAT_OK (create_group (j_group E) (the name) (non_null_ids member_ids member_count)
        (value_callback i (copyCallbackStruct callback) (\<lambda>v. AGroup (groupToC v zero_Group)))))"

definition anychat_group_join ::
  "client_env \<Rightarrow> bool \<Rightarrow> string option \<Rightarrow> string option \<Rightarrow> nat \<Rightarrow> AnyChatGroupCallback_C option \<Rightarrow> c_result" where
  "anychat_group_join E handle group_id txt i callback =
     (if \<not> handle \<or> group_id = None then rejected ANYCHAT_ERROR_INVALID_PARAM
      else if \<not> validateCallbackStruct callback then rejected ANYCHAT_ERROR_INVALID_PARAM
      else dispatched ANYCHAT_OK (join_group (j_group E) (the group_id) (or_empty txt)
        (makeResultCallback i (copyCallbackStruct callback))))"

definition anychat_group_invite ::
  "client_env \<Rightarrow> bool \<Rightarrow> string option \<Rightarrow> string option list option \<Rightarrow> int \<Rightarrow> nat \<Rightarrow> AnyChatGroupCallback_C option \<Rightarrow> c_result" where
  "anychat_group_invite E handle group_id user_ids user_count i callback =
     (if \<not> handle \<or> group_id = None then rejected ANYCHAT_ERROR_INVALID_PARAM
      else if \<not> validateCallbackStruct callback then rejected ANYCHAT_ERROR_INVALID_PARAM
      else dispatched ANYCHAT_OK (invite (j_group E) (the group_id) (non_null_ids user_ids user_count)
        (makeResultCallback i (copyCallbackStruct callback))))"

definition anychat_group_quit ::
  "client_env \<Rightarrow> bool \<Rightarrow> string option \<Rightarrow> nat \<Rightarrow> AnyChatGroupCallback_C option \<Rightarrow> c_result" where
  "anychat_group_quit E handle group_id i callback =
     (if \<not> handle \<or> group_id = None then rejected ANYCHAT_ERROR_INVALID_PARAM
      else if \<not> validateCallbackStruct callback then rejected ANYCHAT_ERROR_INVALID_PARAM
      else dispatched ANYCHAT_OK (quit_group (j_group E) (the group_id)
        (makeResultCallback i (copyCallbackStruct callback))))"

definition anychat_group_disband ::
  "client_env \<Rightarrow> bool \<Rightarrow> string option \<Rightarrow> nat \<Rightarrow> AnyChatGroupCallback_C option \<Rightarrow> c_result" where
  "anychat_group_disband E handle group_id i callback =
     (if \<not> handle \<or> group_id = None then rejected ANYCHAT_ERROR_INVALID_PARAM
      else if \<not> validateCallbackStruct callback then rejected ANYCHAT_ERROR_INVALID_PARAM
      else dispatched ANYCHAT_OK (disband (j_group E) (the group_id)
        (makeResultCallback i (copyCallbackStruct callback))))"

definition anychat_group_update ::
  "client_env \<Rightarrow> bool \<Rightarrow> string option \<Rightarrow> string option \<Rightarrow> string option \<Rightarrow> nat \<Rightarrow> AnyChatGroupCallback_C option \<Rightarrow> c_result" where
  "anychat_group_update E handle group_id name avatar_url i callback =
     (if \<not> handle \<or> group_id = None then rejected ANYCHAT_ERROR_INVALID_PARAM
      else if \<not> validateCallbackStruct callback then rejected ANYCHAT_ERROR_INVALID_PARAM
      else dispatched ANYCHAT_OK (update_group (j_group E) (the group_id) (or_empty name) (or_empty avatar_url)
        (makeResultCallback i (copyCallbackStruct callback))))"

definition anychat_group_get_members ::
  "client_env \<Rightarrow> bool \<Rightarrow> string option \<Rightarrow> int \<Rightarrow> int \<Rightarrow> nat \<Rightarrow> AnyChatGroupMemberListCallback_C option \<Rightarrow> c_result" where
  "anychat_group_get_members E handle group_id page page_size i callback =
     (if \<not> handle \<or> group_id = None then rejected ANYCHAT_ERROR_INVALID_PARAM
      else if \<not> validateCallbackStruct callback then rejected ANYCHAT_ERROR_INVALID_PARAM
      else dispatched ANYCHAT_OK (getMembers (j_group E) (the group_id) page page_size
        (list_callback i (copyCallbackStruct callback) GroupMemberArray memberToC zero_GroupMember)))"

definition anychat_group_remove_member ::
  "client_env \<Rightarrow> bool \<Rightarrow> string option \<Rightarrow> string option \<Rightarrow> nat \<Rightarrow> AnyChatGroupCallback_C option \<Rightarrow> c_result" where
  "anychat_group_remove_member E handle group_id user_id i callback =
     (if \<not> handle \<or> group_id = None \<or> user_id = None then rejected ANYCHAT_ERROR_INVALID_PARAM
      else if \<not> validateCallbackStruct callback then rejected ANYCHAT_ERROR_INVALID_PARAM
      else dispatched ANYCHAT_OK (removeMember (j_group E) (the group_id) (the user_id)
        (makeResultCallback i (copyCallbackStruct callback))))"

definition anychat_group_update_member_role ::
  "client_env \<Rightarrow> bool \<Rightarrow> string option \<Rightarrow> string option \<Rightarrow> int \<Rightarrow> nat \<Rightarrow> AnyChatGroupCallback_C option \<Rightarrow> c_result" where
  "anychat_group_update_member_role E handle group_id user_id role i callback =
     (if \<not> handle \<or> group_id = None \<or> user_id = None then rejected ANYCHAT_ERROR_INVALID_PARAM
      else if \<not> validateCallbackStruct callback then rejected ANYCHAT_ERROR_INVALID_PARAM
      else if \<not> isValidGroupRoleCode_C role then rejected ANYCHAT_ERROR_INVALID_PARAM
      else dispatched ANYCHAT_OK (updateMemberRole (j_group E) (the group_id) (the user_id) role
        (makeResultCallback i (copyCallbackStruct callback))))"

definition anychat_group_update_nickname ::
  "client_env \<Rightarrow> bool \<Rightarrow> string option \<Rightarrow> string option \<Rightarrow> nat \<Rightarrow> AnyChatGroupCallback_C option \<Rightarrow> c_result" where
  "anychat_group_update_nickname E handle group_id nickname i callback =
     (if \<not> handle \<or> group_id = None \<or> nickname = None then rejected ANYCHAT_ERROR_INVALID_PARAM
      else if \<not> validateCallbackStruct callback then rejected ANYCHAT_ERROR_INVALID_PARAM
      else dispatched ANYCHAT_OK (updateNickname (j_group E) (the group_id) (the nickname)
        (makeResultCallback i (copyCallbackStruct callback))))"

definition anychat_group_transfer_ownership ::
  "client_env \<Rightarrow> bool \<Rightarrow> string option \<Rightarrow> string option \<Rightarrow> nat \<Rightarrow> AnyChatGroupCallback_C option \<Rightarrow> c_result" where
  "anychat_group_transfer_ownership E handle group_id new_owner_id i callback =
     (if \<not> handle \<or> group_id = None \<or> new_owner_id = None then rejected ANYCHAT_ERROR_INVALID_PARAM
      else if \<not> validateCallbackStruct callback then rejected ANYCHAT_ERROR_INVALID_PARAM
      else dispatched ANYCHAT_OK (transferOwnership (j_group E) (the group_id) (the new_owner_id)
        (makeResultCallback i (copyCallbackStruct callback))))"

definition anychat_group_get_join_requests ::
  "client_env \<Rightarrow> bool \<Rightarrow> string option \<Rightarrow> int \<Rightarrow> nat \<Rightarrow> AnyChatGroupJoinRequestListCallback_C option \<Rightarrow> c_result" where
  "anychat_group_get_join_requests E handle group_id st i callback =
     (if \<not> handle \<or> group_id = None then rejected ANYCHAT_ERROR_INVALID_PARAM
      else if \<not> validateCallbackStruct callback then rejected ANYCHAT_ERROR_INVALID_PARAM
      else if \<not> isValidJoinRequestStatusCode_C st then rejected ANYCHAT_ERROR_INVALID_PARAM
      else dispatched ANYCHAT_OK (getJoinRequests (j_group E) (the group_id) st
        (list_callback i (copyCallbackStruct callback) JoinRequestArray joinRequestToC zero_GroupJoinRequest)))"

definition anychat_group_handle_join_request ::
  "client_env \<Rightarrow> bool \<Rightarrow> string option \<Rightarrow> int \<Rightarrow> int \<Rightarrow> nat \<Rightarrow> AnyChatGroupCallback_C option \<Rightarrow> c_result" where
  "anychat_group_handle_join_request E handle group_id request_id accept i callback =
     (if \<not> handle \<or> group_id = None then rejected ANYCHAT_ERROR_INVALID_PARAM
      else if \<not> validateCallbackStruct callback then rejected ANYCHAT_ERROR_INVALID_PARAM
      else dispatched ANYCHAT_OK (handleJoinRequest (j_group E) (the group_id) request_id (accept \<noteq> 0)
        (makeResultCallback i (copyCallbackStruct callback))))"

definition anychat_group_get_qrcode ::
  "client_env \<Rightarrow> bool \<Rightarrow> string option \<Rightarrow> nat \<Rightarrow> AnyChatGroupQRCodeCallback_C option \<Rightarrow> c_result" where
  "anychat_group_get_qrcode E handle group_id i callback =
     (if \<not> handle \<or> group_id = None then rejected ANYCHAT_ERROR_INVALID_PARAM
      else if \<not> validateCallbackStruct callback then rejected ANYCHAT_ERROR_INVALID_PARAM
      else dispatched ANYCHAT_OK (getQRCode (j_group E) (the group_id)
        (value_callback i (copyCallbackStruct callback) (\<lambda>v. AGroupQRCode (qrcodeToC v zero_GroupQRCode)))))"

definition anychat_group_refresh_qrcode ::
  "client_env \<Rightarrow> bool \<Rightarrow> string option \<Rightarrow> nat \<Rightarrow> AnyChatGroupQRCodeCallback_C option \<Rightarrow> c_result" where
  "anychat_group_refresh_qrcode E handle group_id i callback =
     (if \<not> handle \<or> group_id = None then rejected ANYCHAT_ERROR_INVALID_PARAM
      else if \<not> validateCallbackStruct callback then rejected ANYCHAT_ERROR_INVALID_PARAM
      else dispatched ANYCHAT_OK (refreshGroupQRCode (j_group E) (the group_id)
        (value_callback i (copyCallbackStruct callback) (\<lambda>v. AGroupQRCode (qrcodeToC v zero_GroupQRCode)))))"

text \<open>The functions of the file, and what is the same for all of them.\<close>

inductive group_c :: "client_env \<Rightarrow> nat \<Rightarrow> c_callback option \<Rightarrow> c_result \<Rightarrow> bool" for E i cb where
  "group_c E i cb (anychat_group_get_list E handle i cb)"
| "group_c E i cb (anychat_group_get_info E handle p i cb)"
| "group_c E i cb (anychat_group_create E handle p q r i cb)"
| "group_c E i cb (anychat_group_join E handle p q i cb)"
| "group_c E i cb (anychat_group_invite E handle p q r i cb)"
| "group_c E i cb (anychat_group_quit E handle p i cb)"
| "group_c E i cb (anychat_group_disband E handle p i cb)"
| "group_c E i cb (anychat_group_update E handle p q r i cb)"
| "group_c E i cb (anychat_group_get_members E handle p q r i cb)"
| "group_c E i cb (anychat_group_remove_member E handle p q i cb)"
| "group_c E i cb (anychat_group_update_member_role E handle p q r i cb)"
| "group_c E i cb (anychat_group_update_nickname E handle p q i cb)"
| "group_c E i cb (anychat_group_transfer_ownership E handle p q i cb)"
| "group_c E i cb (anychat_group_get_join_requests E handle p q i cb)"
| "group_c E i cb (anychat_group_handle_join_request E handle p q r i cb)"
| "group_c E i cb (anychat_group_get_qrcode E handle p i cb)"
| "group_c E i cb (anychat_group_refresh_qrcode E handle p i cb)"

lemmas group_c_defs = anychat_group_get_list_def anychat_group_get_info_def anychat_group_create_def anychat_group_join_def
  anychat_group_invite_def anychat_group_quit_def anychat_group_disband_def anychat_group_update_def
  anychat_group_get_members_def anychat_group_remove_member_def anychat_group_update_member_role_def anychat_group_update_nickname_def
  anychat_group_transfer_ownership_def anychat_group_get_join_requests_def anychat_group_handle_join_request_def anychat_group_get_qrcode_def
  anychat_group_refresh_qrcode_def

lemma group_c_refused: "group_c E i (Some c) res \<Longrightarrow> refused res"
  by (erule group_c.cases) (simp_all add: group_c_defs refused_rejected validate_some)

lemma group_c_unheard: "group_c E i None res \<Longrightarrow> answers (about j) 0 (snd res)"
  by (erule group_c.cases)
    (simp_all add: group_c_defs c_result_simps answers_group_ops c_cb_unheard)

lemma group_c_keeps: "group_c E i cb res \<Longrightarrow> keeps (client_inv X) (snd res)"
  by (erule group_c.cases)
    (simp_all add: group_c_defs c_result_simps keeps_group_ops c_cb_keeps)

end
