(* ===== verification/CApiMedia.thy ===== *)
theory CApiMedia
  imports CApiAccount
begin

text \<open>
  The C interface to calls, meetings, files and versions (core/src/c_api/call_c.cpp, file_c.cpp,
  version_c.cpp).
\<close>

section \<open>call_c.cpp\<close>

definition anychat_call_set_listener :: "bool \<Rightarrow> AnyChatCallListener_C option \<Rightarrow> c_result" where
  "anychat_call_set_listener handle listener =
     (if \<not> handle then rejected ANYCHAT_ERROR_INVALID_PARAM
      else case listener of
          None \<Rightarrow> dispatched ANYCHAT_OK (perform [call_setListener False, c_listen (\<lambda>ls. ls\<lparr>ls_call := None\<rparr>)])
        | Some L \<Rightarrow> dispatched ANYCHAT_OK (perform [call_setListener True, c_listen (\<lambda>ls. ls\<lparr>ls_call := Some L\<rparr>)]))"

definition anychat_call_initiate_call ::
  "client_env \<Rightarrow> bool \<Rightarrow> string option \<Rightarrow> int \<Rightarrow> nat \<Rightarrow> AnyChatCallSessionCallback_C option \<Rightarrow> c_result" where
  "anychat_call_initiate_call E handle callee_id call_kind i callback =
     (if \<not> handle \<or> callee_id = None then rejected ANYCHAT_ERROR_INVALID_PARAM
      else if \<not> validateCallbackStruct callback then rejected ANYCHAT_ERROR_INVALID_PARAM
      else dispatched ANYCHAT_OK (initiateCall (j_call E) (the callee_id) (callTypeFromC call_kind)
        (value_callback i (copyCallbackStruct callback) (\<lambda>v. ACall (callSessionToC v zero_CallSession)))))"

definition anychat_call_join_call ::
  "client_env \<Rightarrow> bool \<Rightarrow> string option \<Rightarrow> nat \<Rightarrow> AnyChatCallSessionCallback_C option \<Rightarrow> c_result" where
  "anychat_call_join_call E handle call_id i callback =
     (if \<not> handle \<or> call_id = None then rejected ANYCHAT_ERROR_INVALID_PARAM
      else if \<not> validateCallbackStruct callback then rejected ANYCHAT_ERROR_INVALID_PARAM
      else dispatched ANYCHAT_OK (joinCall (j_call E) (the call_id)
        (value_callback i (copyCallbackStruct callback) (\<lambda>v. ACall (callSessionToC v zero_CallSession)))))"

definition anychat_call_reject_call ::
  "client_env \<Rightarrow> bool \<Rightarrow> string option \<Rightarrow> nat \<Rightarrow> AnyChatCallCallback_C option \<Rightarrow> c_result" where
  "anychat_call_reject_call E handle call_id i callback =
     (if \<not> handle \<or> call_id = None then rejected ANYCHAT_ERROR_INVALID_PARAM
      else if \<not> validateCallbackStruct callback then rejected ANYCHAT_ERROR_INVALID_PARAM
      else dispatched ANYCHAT_OK (rejectCall (j_call E) (the call_id)
        (makeResultCallback i (copyCallbackStruct callback))))"

definition anychat_call_end_call ::
  "client_env \<Rightarrow> bool \<Rightarrow> string option \<Rightarrow> nat \<Rightarrow> AnyChatCallCallback_C option \<Rightarrow> c_result" where
  "anychat_call_end_call E handle call_id i callback =
     (if \<not> handle \<or> call_id = None then rejected ANYCHAT_ERROR_INVALID_PARAM
      else if \<not> validateCallbackStruct callback then rejected ANYCHAT_ERROR_INVALID_PARAM
      else dispatched ANYCHAT_OK (endCall (j_call E) (the call_id)
        (makeResultCallback i (copyCallbackStruct callback))))"

definition anychat_call_get_call_session ::
  "client_env \<Rightarrow> bool \<Rightarrow> string option \<Rightarrow> nat \<Rightarrow> AnyChatCallSessionCallback_C option \<Rightarrow> c_result" where
  "anychat_call_get_call_session E handle call_id i callback =
     (if \<not> handle \<or> call_id = None then rejected ANYCHAT_ERROR_INVALID_PARAM
      else if \<not> validateCallbackStruct callback then rejected ANYCHAT_ERROR_INVALID_PARAM
      else dispatched ANYCHAT_OK (getCallSession (j_call E) (the call_id)
        (value_callback i (copyCallbackStruct callback) (\<lambda>v. ACall (callSessionToC v zero_CallSession)))))"

definition anychat_call_get_call_logs ::
  "client_env \<Rightarrow> bool \<Rightarrow> int \<Rightarrow> int \<Rightarrow> nat \<Rightarrow> AnyChatCallListCallback_C option \<Rightarrow> c_result" where
  "anychat_call_get_call_logs E handle page page_size i callback =
     (if \<not> handle then rejected ANYCHAT_ERROR_INVALID_PARAM
      else if \<not> validateCallbackStruct callback then rejected ANYCHAT_ERROR_INVALID_PARAM
      else dispatched ANYCHAT_OK (getCallLogs (j_call E) page page_size
        (total_callback i (copyCallbackStruct callback) CallArray callSessionToC zero_CallSession cl_calls cl_total)))"

definition anychat_call_create_meeting ::
  "client_env \<Rightarrow> bool \<Rightarrow> string option \<Rightarrow> string option \<Rightarrow> int \<Rightarrow> nat \<Rightarrow> AnyChatMeetingCallback_C option \<Rightarrow> c_result" where
  "anychat_call_create_meeting E handle title password max_participants i callback =
     (if \<not> handle \<or> title = None then rejected ANYCHAT_ERROR_INVALID_PARAM
      else if \<not> validateCallbackStruct callback then rejected ANYCHAT_ERROR_INVALID_PARAM
      else dispatched ANYCHAT_OK (createMeeting (j_call E) (the title) (or_empty password) max_participants
        (value_callback i (copyCallbackStruct callback) (\<lambda>v. AMeeting (meetingRoomToC v zero_MeetingRoom)))))"

definition anychat_call_join_meeting ::
  "client_env \<Rightarrow> bool \<Rightarrow> string option \<Rightarrow> string option \<Rightarrow> nat \<Rightarrow> AnyChatMeetingCallback_C option \<Rightarrow> c_result" where
  "anychat_call_join_meeting E handle room_id password i callback =
     (if \<not> handle \<or> room_id = None then rejected ANYCHAT_ERROR_INVALID_PARAM
      else if \<not> validateCallbackStruct callback then rejected ANYCHAT_ERROR_INVALID_PARAM
      else dispatched ANYCHAT_OK (joinMeeting (j_call E) (the room_id) (or_empty password)
        (value_callback i (copyCallbackStruct callback) (\<lambda>v. AMeeting (meetingRoomToC v zero_MeetingRoom)))))"

definition anychat_call_end_meeting ::
  "client_env \<Rightarrow> bool \<Rightarrow> string option \<Rightarrow> nat \<Rightarrow> AnyChatCallCallback_C option \<Rightarrow> c_result" where
  "anychat_call_end_meeting E handle room_id i callback =
     (if \<not> handle \<or> room_id = None then rejected ANYCHAT_ERROR_INVALID_PARAM
      else if \<not> validateCallbackStruct callback then rejected ANYCHAT_ERROR_INVALID_PARAM
      else dispatched ANYCHAT_OK (endMeeting (j_call E) (the room_id)
        (makeResultCallback i (copyCallbackStruct callback))))"

definition anychat_call_get_meeting ::
  "client_env \<Rightarrow> bool \<Rightarrow> string option \<Rightarrow> nat \<Rightarrow> AnyChatMeetingCallback_C option \<Rightarrow> c_result" where
  "anychat_call_get_meeting E handle room_id i callback =
     (if \<not> handle \<or> room_id = None then rejected ANYCHAT_ERROR_INVALID_PARAM
      else if \<not> validateCallbackStruct callback then rejected ANYCHAT_ERROR_INVALID_PARAM
      else dispatched ANYCHAT_OK (getMeeting (j_call E) (the room_id)
        (value_callback i (copyCallbackStruct callback) (\<lambda>v. AMeeting (meetingRoomToC v zero_MeetingRoom)))))"

definition anychat_call_list_meetings ::
  "client_env \<Rightarrow> bool \<Rightarrow> int \<Rightarrow> int \<Rightarrow> nat \<Rightarrow> AnyChatMeetingListCallback_C option \<Rightarrow> c_result" where
  "anychat_call_list_meetings E handle page page_size i callback =
     (if \<not> handle then rejected ANYCHAT_ERROR_INVALID_PARAM
      else if \<not> validateCallbackStruct callback then rejected ANYCHAT_ERROR_INVALID_PARAM
      else dispatched ANYCHAT_OK (listMeetings (j_call E) page page_size
        (total_callback i (copyCallbackStruct callback) MeetingArray meetingRoomToC zero_MeetingRoom ml_rooms ml_total)))"

text \<open>The functions of the file, and what is the same for all of them.\<close>

inductive call_c :: "client_env \<Rightarrow> nat \<Rightarrow> c_callback option \<Rightarrow> c_result \<Rightarrow> bool" for E i cb where
  "call_c E i cb (anychat_call_initiate_call E handle p q i cb)"
| "call_c E i cb (anychat_call_join_call E handle p i cb)"
| "call_c E i cb (anychat_call_reject_call E handle p i cb)"
| "call_c E i cb (anychat_call_end_call E handle p i cb)"
| "call_c E i cb (anychat_call_get_call_session E handle p i cb)"
| "call_c E i cb (anychat_call_get_call_logs E handle p q i cb)"
| "call_c E i cb (anychat_call_create_meeting E handle p q r i cb)"
| "call_c E i cb (anychat_call_join_meeting E handle p q i cb)"
| "call_c E i cb (anychat_call_end_meeting E handle p i cb)"
| "call_c E i cb (anychat_call_get_meeting E handle p i cb)"
| "call_c E i cb (anychat_call_list_meetings E handle p q i cb)"

lemmas call_c_defs = anychat_call_initiate_call_def anychat_call_join_call_def anychat_call_reject_call_def anychat_call_end_call_def
  anychat_call_get_call_session_def anychat_call_get_call_logs_def anychat_call_create_meeting_def anychat_call_join_meeting_def
  anychat_call_end_meeting_def anychat_call_get_meeting_def anychat_call_list_meetings_def

lemma call_c_refused: "call_c E i (Some c) res \<Longrightarrow> refused res"
  by (erule call_c.cases) (simp_all add: call_c_defs refused_rejected validate_some)

lemma call_c_unheard: "call_c E i None res \<Longrightarrow> answers (about j) 0 (snd res)"
  by (erule call_c.cases)
    (simp_all add: call_c_defs c_result_simps answers_call_ops c_cb_unheard)

lemma call_c_keeps: "call_c E i cb res \<Longrightarrow> keeps (client_inv X) (snd res)"
  by (erule call_c.cases)
    (simp_all add: call_c_defs c_result_simps keeps_call_ops c_cb_keeps)

section \<open>file_c.cpp\<close>

definition anychat_file_upload ::
  "client_env \<Rightarrow> bool \<Rightarrow> string option \<Rightarrow> int \<Rightarrow> addr \<Rightarrow> nat \<Rightarrow> AnyChatFileInfoCallback_C option \<Rightarrow> c_result" where
  "anychat_file_upload E handle local_path file_type on_progress i callback =
     (if \<not> handle \<or> local_path = None then rejected ANYCHAT_ERROR_INVALID_PARAM
      else if \<not> validateCallbackStruct callback then rejected ANYCHAT_ERROR_INVALID_PARAM
      else dispatched ANYCHAT_OK (upload (j_file E) (files E) (the local_path) file_type (c_progress on_progress (cc_userdata (copyCallbackStruct callback)))
        (value_callback i (copyCallbackStruct callback) (\<lambda>v. AFile (fileInfoToC v zero_FileInfo)))))"

definition anychat_file_get_download_url ::
  "client_env \<Rightarrow> bool \<Rightarrow> string option \<Rightarrow> nat \<Rightarrow> AnyChatDownloadUrlCallback_C option \<Rightarrow> c_result" where
  "anychat_file_get_download_url E handle file_id i callback =
     (if \<not> handle \<or> file_id = None then rejected ANYCHAT_ERROR_INVALID_PARAM
      else if \<not> validateCallbackStruct callback then rejected ANYCHAT_ERROR_INVALID_PARAM
      else dispatched ANYCHAT_OK (getDownloadUrl (j_file E) (the file_id)
        (value_callback i (copyCallbackStruct callback) (\<lambda>v. AText (c_str v)))))"

definition anychat_file_get_info ::
  "client_env \<Rightarrow> bool \<Rightarrow> string option \<Rightarrow> nat \<Rightarrow> AnyChatFileInfoCallback_C option \<Rightarrow> c_result" where
  "anychat_file_get_info E handle file_id i callback =
     (if \<not> handle \<or> file_id = None then rejected ANYCHAT_ERROR_INVALID_PARAM
      else if \<not> validateCallbackStruct callback then rejected ANYCHAT_ERROR_INVALID_PARAM
      else dispatched ANYCHAT_OK (getFileInfo (j_file E) (the file_id)
        (value_callback i (copyCallbackStruct callback) (\<lambda>v. AFile (fileInfoToC v zero_FileInfo)))))"

definition anychat_file_list ::
  "client_env \<Rightarrow> bool \<Rightarrow> int \<Rightarrow> int \<Rightarrow> int \<Rightarrow> nat \<Rightarrow> AnyChatFileListCallback_C option \<Rightarrow> c_result" where
  "anychat_file_list E handle file_type page page_size i callback =
     (if \<not> handle then rejected ANYCHAT_ERROR_INVALID_PARAM
      else if \<not> validateCallbackStruct callback then rejected ANYCHAT_ERROR_INVALID_PARAM
      else (let safe_page = (if page > 0 then page else 1); safe_page_size = (if page_size > 0 then page_size else 20)
            in dispatched ANYCHAT_OK (listFiles (j_file E) file_type safe_page safe_page_size (paged_callback i (copyCallbackStruct callback) FileArray fileInfoToC zero_FileInfo flr_files flr_total (\<lambda>r. if flr_page r > 0 then flr_page r else safe_page) (\<lambda>r. if flr_page_size r > 0 then flr_page_size r else safe_page_size)))))"

definition anychat_file_upload_log ::
  "client_env \<Rightarrow> bool \<Rightarrow> string option \<Rightarrow> int \<Rightarrow> addr \<Rightarrow> nat \<Rightarrow> AnyChatFileInfoCallback_C option \<Rightarrow> c_result" where
  "anychat_file_upload_log E handle local_path expires_hours on_progress i callback =
     (if \<not> handle \<or> local_path = None then rejected ANYCHAT_ERROR_INVALID_PARAM
      else if \<not> validateCallbackStruct callback then rejected ANYCHAT_ERROR_INVALID_PARAM
      else dispatched ANYCHAT_OK (uploadClientLog (j_file E) (files E) (the local_path) (c_progress on_progress (cc_userdata (copyCallbackStruct callback)))
        (value_callback i (copyCallbackStruct callback) (\<lambda>v. AFile (fileInfoToC v zero_FileInfo))) expires_hours))"

definition anychat_file_delete ::
  "client_env \<Rightarrow> bool \<Rightarrow> string option \<Rightarrow> nat \<Rightarrow> AnyChatFileCallback_C option \<Rightarrow> c_result" where
  "anychat_file_delete E handle file_id i callback =
     (if \<not> handle \<or> file_id = None then rejected ANYCHAT_ERROR_INVALID_PARAM
      else if \<not> validateCallbackStruct callback then rejected ANYCHAT_ERROR_INVALID_PARAM
      else dispatched ANYCHAT_OK (deleteFile (j_file E) (the file_id)
        (makeResultCallback i (copyCallbackStruct callback))))"

text \<open>The functions of the file, and what is the same for all of them.\<close>

inductive file_c :: "client_env \<Rightarrow> nat \<Rightarrow> c_callback option \<Rightarrow> c_result \<Rightarrow> bool" for E i cb where
  "file_c E i cb (anychat_file_upload E handle p q r i cb)"
| "file_c E i cb (anychat_file_get_download_url E handle p i cb)"
| "file_c E i cb (anychat_file_get_info E handle p i cb)"
| "file_c E i cb (anychat_file_list E handle p q r i cb)"
| "file_c E i cb (anychat_file_upload_log E handle p q r i cb)"
| "file_c E i cb (anychat_file_delete E handle p i cb)"

lemmas file_c_defs = anychat_file_upload_def anychat_file_get_download_url_def anychat_file_get_info_def anychat_file_list_def
  anychat_file_upload_log_def anychat_file_delete_def

lemma file_c_refused: "file_c E i (Some c) res \<Longrightarrow> refused res"
  by (erule file_c.cases) (simp_all add: file_c_defs refused_rejected validate_some)

lemma file_c_unheard: "file_c E i None res \<Longrightarrow> answers (about j) 0 (snd res)"
  by (erule file_c.cases)
    (simp_all add: file_c_defs c_result_simps answers_file_ops c_cb_unheard)

lemma file_c_keeps: "file_c E i cb res \<Longrightarrow> keeps (client_inv X) (snd res)"
  by (erule file_c.cases)
    (simp_all add: file_c_defs c_result_simps keeps_file_ops c_cb_keeps)

section \<open>version_c.cpp\<close>

definition anychat_version_check ::
  "client_env \<Rightarrow> bool \<Rightarrow> int \<Rightarrow> string option \<Rightarrow> int \<Rightarrow> nat \<Rightarrow> AnyChatVersionCheckCallback_C option \<Rightarrow> c_result" where
  "anychat_version_check E handle platform version build_number i callback =
     (if \<not> handle \<or> version = None then rejected ANYCHAT_ERROR_INVALID_PARAM
      else if platform < 1 \<or> platform > 5 then rejected ANYCHAT_ERROR_INVALID_PARAM
      else if callback \<noteq> None then rejected ANYCHAT_ERROR_INVALID_PARAM
      else dispatched ANYCHAT_OK (checkVersion (j_version E) platform (the version) build_number
        (value_callback i (copyCallbackStruct callback) (\<lambda>v. AVersionCheck (checkResultToC v zero_VersionCheckResult)))))"

definition anychat_version_get_latest ::
  "client_env \<Rightarrow> bool \<Rightarrow> int \<Rightarrow> int \<Rightarrow> nat \<Rightarrow> AnyChatVersionInfoCallback_C option \<Rightarrow> c_result" where
  "anychat_version_get_latest E handle platform release_type i callback =
     (if \<not> handle then rejected ANYCHAT_ERROR_INVALID_PARAM
      else if platform < 1 \<or> platform > 5 then rejected ANYCHAT_ERROR_INVALID_PARAM
      else if release_type < 1 \<or> release_type > 3 then rejected ANYCHAT_ERROR_INVALID_PARAM
      else if callback \<noteq> None then rejected ANYCHAT_ERROR_INVALID_PARAM
      else dispatched ANYCHAT_OK (getLatestVersion (j_version E) platform release_type
        (value_callback i (copyCallbackStruct callback) (\<lambda>v. AVersion (versionInfoToC v zero_VersionInfo)))))"

definition anychat_version_list ::
  "client_env \<Rightarrow> bool \<Rightarrow> int \<Rightarrow> int \<Rightarrow> int \<Rightarrow> int \<Rightarrow> nat \<Rightarrow> AnyChatVersionListCallback_C option \<Rightarrow> c_result" where
  "anychat_version_list E handle platform release_type page page_size i callback =
     (if \<not> handle then rejected ANYCHAT_ERROR_INVALID_PARAM
      else if platform < 1 \<or> platform > 5 then rejected ANYCHAT_ERROR_INVALID_PARAM
      else if release_type < 0 \<or> release_type > 3 then rejected ANYCHAT_ERROR_INVALID_PARAM
      else if callback \<noteq> None then rejected ANYCHAT_ERROR_INVALID_PARAM
      else dispatched ANYCHAT_OK (listVersions (j_version E) platform release_type page page_size
        (paged_callback i (copyCallbackStruct callback) VersionArray versionInfoToC zero_VersionInfo vlr_versions vlr_total vlr_page vlr_page_size)))"

definition anychat_version_report ::
  "client_env \<Rightarrow> bool \<Rightarrow> int \<Rightarrow> string option \<Rightarrow> int \<Rightarrow> string option \<Rightarrow> string option \<Rightarrow> string option \<Rightarrow> nat \<Rightarrow> AnyChatVersionCallback_C option \<Rightarrow> c_result" where
  "anychat_version_report E handle platform version build_number device os_version sdk_version i callback =
     (if \<not> handle \<or> version = None then rejected ANYCHAT_ERROR_INVALID_PARAM
      else if platform < 1 \<or> platform > 5 then rejected ANYCHAT_ERROR_INVALID_PARAM
      else if callback \<noteq> None then rejected ANYCHAT_ERROR_INVALID_PARAM
      else dispatched ANYCHAT_OK (reportVersion (j_version E) platform (the version) build_number (or_empty device) (or_empty os_version) (or_empty sdk_version)
        (makeResultCallback i (copyCallbackStruct callback))))"

text \<open>The functions of the file, and what is the same for all of them.\<close>

inductive version_c :: "client_env \<Rightarrow> nat \<Rightarrow> c_callback option \<Rightarrow> c_result \<Rightarrow> bool" for E i cb where
  "version_c E i cb (anychat_version_check E handle p q r i cb)"
| "version_c E i cb (anychat_version_get_latest E handle p q i cb)"
| "version_c E i cb (anychat_version_list E handle p q r t i cb)"
| "version_c E i cb (anychat_version_report E handle p q r t u v i cb)"

lemmas version_c_defs = anychat_version_check_def anychat_version_get_latest_def anychat_version_list_def anychat_version_report_def

lemma version_c_refused: "version_c E i (Some c) res \<Longrightarrow> refused res"
  by (erule version_c.cases) (simp_all add: version_c_defs refused_rejected validate_some)

lemma version_c_unheard: "version_c E i None res \<Longrightarrow> answers (about j) 0 (snd res)"
  by (erule version_c.cases)
    (simp_all add: version_c_defs c_result_simps answers_version_ops c_cb_unheard)

lemma version_c_keeps: "version_c E i cb res \<Longrightarrow> keeps (client_inv X) (snd res)"
  by (erule version_c.cases)
    (simp_all add: version_c_defs c_result_simps keeps_version_ops c_cb_keeps)

end
