(* ===== verification/CApi.thy ===== *)
theory CApi
  imports System CApiChat CApiPeople CApiMedia
begin

text \<open>
  The C interface as a whole: every function that takes a callback struct, a client whose
  listeners are those of a C application, and what follows for the application: which calls
  are answered, what its functions are called with, and that the interface holds no memory
  between calls.
\<close>

section \<open>All functions\<close>

definition c_function :: "client_env \<Rightarrow> nat \<Rightarrow> c_callback option \<Rightarrow> c_result \<Rightarrow> bool" where
  "c_function E i cb res \<longleftrightarrow> client_c E i cb res \<or> auth_c E i cb res \<or> user_c E i cb res \<or> message_c E i cb res
     \<or> conversation_c E i cb res \<or> friend_c E i cb res \<or> group_c E i cb res \<or> call_c E i cb res \<or> file_c E i cb res
     \<or> version_c E i cb res"

lemma c_function_refused: "c_function E i (Some c) res \<Longrightarrow> refused res"
  unfolding c_function_def
  by (auto dest: client_c_refused auth_c_refused user_c_refused message_c_refused conversation_c_refused
      friend_c_refused group_c_refused call_c_refused file_c_refused version_c_refused)

lemma c_function_unheard: "c_function E i None res \<Longrightarrow> answers (about j) 0 (snd res)"
  unfolding c_function_def
  by (elim disjE) (erule client_c_unheard auth_c_unheard user_c_unheard message_c_unheard conversation_c_unheard
      friend_c_unheard group_c_unheard call_c_unheard file_c_unheard version_c_unheard)+

lemma c_function_keeps:
  assumes "c_function E i cb res" and "conn_safe (snd X)"
  shows "keeps (client_inv X) (snd res)"
proof (cases cb)
  case None
  with assms show ?thesis
    unfolding c_function_def
    by (auto intro: client_c_keeps auth_c_keeps user_c_keeps message_c_keeps conversation_c_keeps friend_c_keeps
        group_c_keeps call_c_keeps file_c_keeps version_c_keeps)
next
  case (Some c)
  then have "refused res" using assms(1) c_function_refused by blast
  then show ?thesis by (simp add: refused_def keeps_skip)
qed

lemma c_function_silent: "c_function E i cb res \<Longrightarrow> answers (about j) 0 (snd res)"
  using c_function_unheard c_function_refused by (cases cb) (auto simp: refused_def answers_skip)

section \<open>No call is answered\<close>

text \<open>
  C33: A function of the C interface that is given a callback struct returns an error and does
  nothing: no request, no change of the client, no call of the application.
\<close>

theorem c_api_refuses_callbacks:
  assumes "c_function E i (Some callback) res"
  shows "fst res \<noteq> ANYCHAT_OK \<and> (\<forall>s. snd res s = (s, [], []))"
  using c_function_refused [OF assms] by (simp add: refused_def skip_def)

theorem c_api_refuses_callbacks_witness:
  "\<forall>E s. fst (anychat_user_get_profile E True 7 (Some \<lparr>cc_userdata = 1, cc_on_success = 2, cc_on_error = 3\<rparr>)) \<noteq> ANYCHAT_OK
     \<and> snd (anychat_user_get_profile E True 7 (Some \<lparr>cc_userdata = 1, cc_on_success = 2, cc_on_error = 3\<rparr>)) s = (s, [], [])"
proof (intro allI)
  fix E s
  have "c_function E 7 (Some \<lparr>cc_userdata = 1, cc_on_success = 2, cc_on_error = 3\<rparr>)
      (anychat_user_get_profile E True 7 (Some \<lparr>cc_userdata = 1, cc_on_success = 2, cc_on_error = 3\<rparr>))"
    unfolding c_function_def by (auto intro: user_c.intros)
  from c_api_refuses_callbacks [OF this]
  show "fst (anychat_user_get_profile E True 7 (Some \<lparr>cc_userdata = 1, cc_on_success = 2, cc_on_error = 3\<rparr>)) \<noteq> ANYCHAT_OK
     \<and> snd (anychat_user_get_profile E True 7 (Some \<lparr>cc_userdata = 1, cc_on_success = 2, cc_on_error = 3\<rparr>)) s = (s, [], [])"
    by blast
qed

text \<open>What may happen to the client of a C application besides call i.\<close>

definition c_others :: "client_env \<Rightarrow> nat \<Rightarrow> client_act set" where
  "c_others E i = {happening_act E h | h. call_of h \<noteq> Some i} \<union> {snd res | res j cb. c_function E j cb res}"

lemma c_others_answer: "b \<in> c_others E i \<Longrightarrow> answers_in (client_inv (calls_only i)) (about i) 0 b"
proof -
  assume "b \<in> c_others E i"
  then consider h where "b = happening_act E h" "call_of h \<noteq> Some i" | res j cb where "b = snd res" "c_function E j cb res"
    unfolding c_others_def by blast
  then show ?thesis
  proof cases
    case 1
    then show ?thesis using answers_happening by simp
  next
    case 2
    have "keeps (client_inv (calls_only i)) (snd res)" by (rule c_function_keeps [OF 2(2)]) (simp add: conn_safe_True)
    then show ?thesis unfolding 2(1) by (rule answers_keeps [OF c_function_silent [OF 2(2)]])
  qed
qed

text \<open>
  Whatever function of the C interface is called, with whatever arguments and with or
  without a callback struct, and however other calls, frames and responses interleave with it,
  no function of a callback struct is ever called for it.
\<close>

theorem c_api_never_answers:
  assumes "c_function E i cb res" and "client_inv (calls_only i) s"
    and "reaches (c_others E i) (start (snd res) \<lparr>sys_state = s, sys_pending = [], sys_trace = []\<rparr>) \<sigma>"
  shows "times (about i) (sys_trace \<sigma>) = 0"
proof (rule answered_never [OF _ assms(2,3) c_others_answer])
  show "answers_in (client_inv (calls_only i)) (about i) 0 (snd res)"
    by (rule answers_keeps [OF c_function_silent [OF assms(1)] c_function_keeps [OF assms(1)]]) (simp add: conn_safe_True)
qed

text \<open>A profile is asked for without a callback; the server answers.\<close>

theorem c_api_never_answers_witness:
  "\<forall>E r. times (about 7) (sys_trace (deliver 0 r (start (snd (anychat_user_get_profile E True 7 None))
       \<lparr>sys_state = demo_client, sys_pending = [], sys_trace = []\<rparr>))) = 0"
proof (intro allI)
  fix E r
  have f: "c_function E 7 None (anychat_user_get_profile E True 7 None)"
    unfolding c_function_def by (auto intro: user_c.intros)
  show "times (about 7) (sys_trace (deliver 0 r (start (snd (anychat_user_get_profile E True 7 None))
       \<lparr>sys_state = demo_client, sys_pending = [], sys_trace = []\<rparr>))) = 0"
    by (rule c_api_never_answers [OF f client_inv_demo]) (rule reaches.response, rule reaches.here)
qed

section \<open>A client with C listeners\<close>

text \<open>What goes to a listener; the rest of the events are not calls of a listener's method.\<close>

definition to_listener :: "event \<Rightarrow> bool" where
  "to_listener e = (case e of
     Succeeded i v \<Rightarrow> False | Failed i code msg \<Rightarrow> False | UploadProgress i a b \<Rightarrow> False | FrameSent f \<Rightarrow> False
   | Terminated \<Rightarrow> False | CCompleted i iv \<Rightarrow> False | CNotified iv \<Rightarrow> False | _ \<Rightarrow> True)"

definition c_relayed :: "event \<Rightarrow> client_act" where
  "c_relayed e = (if to_listener e then c_notify e else emit e)"

definition relay_result :: "client \<times> event list \<times> 'p list \<Rightarrow> client \<times> event list \<times> 'p list" where
  "relay_result res = (case res of (s, es, ps) \<Rightarrow> case for_each c_relayed es s of (s', es', _) \<Rightarrow> (s', es', ps))"

primrec relay_pending :: "(client, event) pending \<Rightarrow> (client, event) pending" where
  "relay_pending (Pending q k) =
     Pending q (\<lambda>r s. relay_result (map_prod id (map_prod id (map relay_pending)) (k r s)))"

text \<open>An act of the client, and after it the methods of the listeners for what it reported.\<close>

definition relay :: "client_act \<Rightarrow> client_act" where
  "relay a s = relay_result (map_prod id (map_prod id (map relay_pending)) (a s))"

text \<open>Listener methods only call the application.\<close>

definition only_emits :: "client_act \<Rightarrow> bool" where
  "only_emits a \<longleftrightarrow> (\<forall>s. \<exists>es. a s = (s, es, []))"

named_theorems only_emits_intro

lemma only_emits_basic [only_emits_intro]: "only_emits skip" "only_emits (emit e)"
  by (simp_all add: only_emits_def skip_def emit_def)

lemma only_emits_reading [only_emits_intro]: "(\<And>s. only_emits (f s)) \<Longrightarrow> only_emits (reading f)"
  unfolding only_emits_def reading_def by blast

lemma only_emits_seq [only_emits_intro]:
  assumes "only_emits a" and "only_emits b"
  shows "only_emits (seq a b)"
  unfolding only_emits_def
proof
  fix s
  obtain e1 where "a s = (s, e1, [])" using assms(1) unfolding only_emits_def by blast
  moreover obtain e2 where "b s = (s, e2, [])" using assms(2) unfolding only_emits_def by blast
  ultimately show "\<exists>es. seq a b s = (s, es, [])" by (simp add: seq_def)
qed

lemma only_emits_perform [only_emits_intro]: "(\<And>a. a \<in> set as \<Longrightarrow> only_emits a) \<Longrightarrow> only_emits (perform as)"
  by (induction "as" rule: perform.induct) (auto intro: only_emits_intro)

lemma only_emits_for_each [only_emits_intro]: "(\<And>x. only_emits (f x)) \<Longrightarrow> only_emits (for_each f xs)"
  unfolding for_each_def by (rule only_emits_perform) auto

lemma only_emits_exactly: "c_exactly es a \<Longrightarrow> only_emits a"
  by (auto simp: only_emits_def c_exactly_def)

lemma only_emits_notify [only_emits_intro]: "only_emits (notify f u args)"
  unfolding notify_def by (rule only_emits_exactly, rule c_exactly_invoke)

lemma c_exactly_message:
  assumes "f \<noteq> nullptr"
  shows "c_exactly (\<lambda>h. [CNotified \<lparr>iv_function = f, iv_userdata = u,
      iv_args = [AMessage (fst (messageToCStruct msg zero_Message h))], iv_memory = snd (messageToCStruct msg zero_Message h)\<rparr>])
    (notify_message f u msg)"
proof -
  have rel: "\<exists>c'. free_content (Some (fst (messageToCStruct msg zero_Message h))) (snd (messageToCStruct msg zero_Message h)) = Some (c', h)" for h
  proof -
    obtain c h' where m: "messageToCStruct msg zero_Message h = (c, h')" by (cases "messageToCStruct msg zero_Message h")
    have "mfree_all [Cm_content c] h' = Some h" by (rule mfree_added [OF messageToC_added(1) [OF m]]) simp_all
    then have "mfree (Cm_content c) h' = Some h" unfolding mfree_all_single .
    then show ?thesis using m by (simp add: free_content_def releasing_def)
  qed
  have "c_exactly (\<lambda>h. (\<lambda>c h. [CNotified \<lparr>iv_function = f, iv_userdata = u, iv_args = [AMessage c], iv_memory = h\<rparr>])
      (fst (messageToCStruct msg zero_Message h)) (snd (messageToCStruct msg zero_Message h)))
    (with_allocation (messageToCStruct msg zero_Message) free_content (\<lambda>c. notify f u [AMessage c]))"
  proof (rule c_exactly_allocation [OF rel])
    fix c
    show "c_exactly (\<lambda>h. [CNotified \<lparr>iv_function = f, iv_userdata = u, iv_args = [AMessage c], iv_memory = h\<rparr>]) (notify f u [AMessage c])"
      using c_exactly_invoke [of f CNotified u "[AMessage c]"] assms by (simp add: notify_def)
  qed
  then show ?thesis using assms by (simp add: notify_message_def act_if_def)
qed

lemma only_emits_message [only_emits_intro]: "only_emits (notify_message f u msg)"
proof (cases "f = nullptr")
  case True
  then show ?thesis by (simp add: notify_message_def act_if_def only_emits_basic)
next
  case False
  then show ?thesis by (rule only_emits_exactly [OF c_exactly_message])
qed

lemma only_emits_heard [only_emits_intro]: "(\<And>L. only_emits (f L e)) \<Longrightarrow> only_emits (heard_by l f e)"
  by (auto simp: heard_by_def only_emits_basic split: option.split)

lemma only_emits_listeners [only_emits_intro]:
  "only_emits (CAuthListener La e)" "only_emits (CMessageListener Lm e)" "only_emits (CConversationListener Lc e)"
  "only_emits (CFriendListener Lf e)" "only_emits (CGroupListener Lg e)" "only_emits (CUserListener Lu e)"
  "only_emits (CCallListener Lk e)" "only_emits (c_state_closure c e)"
  by (simp_all add: CAuthListener_def CMessageListener_def CConversationListener_def CFriendListener_def
      CGroupListener_def CUserListener_def CCallListener_def c_state_closure_def only_emits_basic only_emits_notify
      only_emits_message split: event.split)

lemma only_emits_c_notify [only_emits_intro]: "only_emits (c_notify e)"
  unfolding c_notify_def Let_def by (rule only_emits_reading, rule only_emits_perform) (auto intro: only_emits_intro)

lemma relay_result_state: "\<exists>es'. relay_result (s, es, ps) = (s, es', ps)"
proof -
  have "only_emits (for_each c_relayed es)"
    by (rule only_emits_for_each) (auto simp: c_relayed_def intro: only_emits_intro)
  then obtain es' where "for_each c_relayed es s = (s, es', [])" unfolding only_emits_def by blast
  then show ?thesis by (simp add: relay_result_def)
qed

lemma relay_step: "\<exists>es'. relay_result (map_prod id (map_prod id (map f)) (s, es, ps)) = (s, es', map f ps)"
  using relay_result_state by simp

lemma safe_relay: "safe I p \<Longrightarrow> safe I (relay_pending p)"
proof (induction rule: safe.induct)
  case (safeI k q)
  show ?case unfolding relay_pending.simps
  proof (rule safe.safeI)
    fix r s s' es ps
    assume inv: "I s" and eq: "relay_result (map_prod id (map_prod id (map relay_pending)) (k r s)) = (s', es, ps)"
    obtain s1 e1 p1 where k: "k r s = (s1, e1, p1)" by (cases "k r s")
    obtain es' where "relay_result (map_prod id (map_prod id (map relay_pending)) (s1, e1, p1)) = (s1, es', map relay_pending p1)"
      using relay_step by blast
    then have "s' = s1" and "ps = map relay_pending p1" using eq k by auto
    then show "I s' \<and> (\<forall>p \<in> set ps. safe I p)" using safeI [OF inv k] by auto
  qed
qed

lemma keeps_relay: "keeps I a \<Longrightarrow> keeps I (relay a)"
proof (rule keepsI)
  fix s s' es ps
  assume k: "keeps I a" and inv: "I s" and eq: "relay a s = (s', es, ps)"
  obtain s1 e1 p1 where a: "a s = (s1, e1, p1)" by (cases "a s")
  obtain es' where "relay_result (map_prod id (map_prod id (map relay_pending)) (s1, e1, p1)) = (s1, es', map relay_pending p1)"
    using relay_step by blast
  then have "s' = s1" and "ps = map relay_pending p1" using eq a by (auto simp: relay_def)
  then show "I s' \<and> (\<forall>p \<in> set ps. safe I p)" using k inv a safe_relay by (auto simp: keeps_def)
qed

text \<open>The functions that install listeners.\<close>

inductive c_set_listener :: "c_result \<Rightarrow> bool" where
  "c_set_listener (anychat_auth_set_listener handle la)"
| "c_set_listener (anychat_message_set_listener handle lm)"
| "c_set_listener (anychat_conv_set_listener handle lc)"
| "c_set_listener (anychat_friend_set_listener handle lf)"
| "c_set_listener (anychat_group_set_listener handle lg)"
| "c_set_listener (anychat_user_set_listener handle lu)"
| "c_set_listener (anychat_call_set_listener handle lk)"
| "c_set_listener (0, anychat_client_set_connection_callback handle u f)"

lemma keeps_c_listen [keeps_intro]: "keeps (client_inv X) (c_listen f)"
  unfolding c_listen_def by (rule keeps_modify) (simp add: client_inv_def)

lemma c_set_listener_keeps: "c_set_listener res \<Longrightarrow> keeps (client_inv X) (snd res)"
  using keeps_listener_act [of X AuthListener] keeps_listener_act [of X MsgListener] keeps_listener_act [of X ConvListener]
    keeps_listener_act [of X FriendListener] keeps_listener_act [of X GroupListener] keeps_listener_act [of X UserListener]
    keeps_listener_act [of X CallListener] keeps_listener_act [of X StateListener]
  by (erule_tac c_set_listener.cases)
    (auto simp: anychat_auth_set_listener_def anychat_message_set_listener_def anychat_conv_set_listener_def
      anychat_friend_set_listener_def anychat_group_set_listener_def anychat_user_set_listener_def
      anychat_call_set_listener_def anychat_client_set_connection_callback_def rejected_def dispatched_def
      intro!: keeps_seq keeps_c_listen keeps_act_if split: option.split)

section \<open>The client of a C application\<close>

definition c_world :: "client_env \<Rightarrow> client_act set" where
  "c_world E = range (happening_act E) \<union> {snd res | res i cb. c_function E i cb res} \<union> {snd res | res. c_set_listener res}"

lemma keeps_c_world: "a \<in> c_world E \<Longrightarrow> keeps (client_inv ({}, \<lambda>_. True)) (relay a)"
proof (rule keeps_relay)
  assume "a \<in> c_world E"
  then consider h where "a = happening_act E h" | res i cb where "a = snd res" "c_function E i cb res"
    | res where "a = snd res" "c_set_listener res"
    unfolding c_world_def by blast
  then show "keeps (client_inv ({}, \<lambda>_. True)) a"
  proof cases
    case 1
    show ?thesis unfolding 1 by (rule keeps_happening) (simp_all add: conn_safe_True)
  next
    case 2
    show ?thesis unfolding 2(1) by (rule c_function_keeps [OF 2(2)]) (simp add: conn_safe_True)
  next
    case 3
    show ?thesis unfolding 3(1) by (rule c_set_listener_keeps [OF 3(2)])
  qed
qed

text \<open>A listener with one function, for concrete runs.\<close>

definition demo_listener :: AnyChatMessageListener_C where
  "demo_listener = \<lparr>Lmsg_userdata = 11, Lmsg_on_message_received = 12, Lmsg_on_message_read_receipt = 0,
     Lmsg_on_message_recalled = 0, Lmsg_on_message_deleted = 0, Lmsg_on_message_edited = 0, Lmsg_on_message_typing = 0,
     Lmsg_on_message_mentioned = 0\<rparr>"

text \<open>
  C34: However an application uses the C interface, with any listeners installed and in every
  order of calls, frames and responses: between two steps the interface holds no memory
  (every content and every array it allocated to call the application has been released once),
  and the invariant of the client holds.
\<close>

theorem c_client_invariant:
  assumes "client_inv ({}, \<lambda>_. True) s"
    and "reaches (relay ` c_world E) \<lparr>sys_state = s, sys_pending = [], sys_trace = []\<rparr> \<sigma>"
  shows "c_heap (sys_state \<sigma>) = [] \<and> cc_ordered (conv_cache (sys_state \<sigma>)) \<and> mc_inv (msg_cache (sys_state \<sigma>))
    \<and> db_inv (db (sys_state \<sigma>))"
proof -
  have "sys_inv (client_inv ({}, \<lambda>_. True)) \<sigma>"
    by (rule reaches_inv [OF assms(2)]) (use assms(1) in \<open>auto simp: sys_inv_def intro: keeps_c_world\<close>)
  then show ?thesis by (simp add: sys_inv_def client_inv_def)
qed

theorem c_client_invariant_witness:
  "\<forall>E. c_heap (sys_state (start (relay (snd (anychat_message_set_listener True (Some demo_listener))))
     \<lparr>sys_state = demo_client, sys_pending = [], sys_trace = []\<rparr>)) = []"
proof
  fix E :: client_env
  have "snd (anychat_message_set_listener True (Some demo_listener)) \<in> c_world E"
    unfolding c_world_def by (blast intro: c_set_listener.intros)
  then have "reaches (relay ` c_world E) \<lparr>sys_state = demo_client, sys_pending = [], sys_trace = []\<rparr>
      (start (relay (snd (anychat_message_set_listener True (Some demo_listener))))
        \<lparr>sys_state = demo_client, sys_pending = [], sys_trace = []\<rparr>)"
    by (intro reaches.call reaches.here imageI)
  from c_client_invariant [OF client_inv_demo this]
  show "c_heap (sys_state (start (relay (snd (anychat_message_set_listener True (Some demo_listener))))
     \<lparr>sys_state = demo_client, sys_pending = [], sys_trace = []\<rparr>)) = []" by blast
qed

section \<open>What a listener of the application is called with\<close>

text \<open>Everything but the content is cut to the array it is copied into.\<close>

definition seen_as :: "heap \<Rightarrow> message \<Rightarrow> AnyChatMessage_C \<Rightarrow> bool" where
  "seen_as mem m c \<longleftrightarrow> c_str (Cm_message_id c) = take 63 (c_str (m_message_id m))
     \<and> c_str (Cm_local_id c) = take 63 (c_str (m_local_id m)) \<and> c_str (Cm_conv_id c) = take 63 (c_str (m_conv_id m))
     \<and> c_str (Cm_sender_id c) = take 63 (c_str (m_sender_id m)) \<and> c_str (Cm_reply_to c) = take 63 (c_str (m_reply_to m))
     \<and> load mem (Cm_content c) = Some (Chars (c_str (m_content m) @ [nul]))
     \<and> Cm_content_type c = m_content_type m \<and> Cm_type c = message_type_code (m_type m) \<and> Cm_seq c = m_seq m
     \<and> Cm_timestamp_ms c = m_timestamp_ms m \<and> Cm_status c = m_status m \<and> Cm_send_state c = m_send_state m
     \<and> (Cm_is_read c \<noteq> 0 \<longleftrightarrow> m_is_read m)"

lemma seen_as_converted:
  assumes "messageToCStruct m zero_Message h = (c, h')"
  shows "seen_as h' m c"
proof -
  have "load h' (Cm_content c) = Some (Chars (c_str (m_content m) @ [nul]))" by (rule messageToC_added(2) [OF assms])
  moreover have "c = (fst (messageToCStruct m zero_Message h))" using assms by simp
  ultimately show ?thesis
    by (simp add: seen_as_def messageToCStruct_def Let_def split_beta zero_Message_def c_bool_def)
qed

lemma relay_message:
  assumes "c_listening s = no_listeners\<lparr>ls_message := Some L\<rparr>" and "Lmsg_on_message_received L \<noteq> nullptr"
  shows "relay (emit (MessageReceived msg)) s = (s, [CNotified \<lparr>iv_function = Lmsg_on_message_received L,
      iv_userdata = Lmsg_userdata L, iv_args = [AMessage (fst (messageToCStruct msg zero_Message (c_heap s)))],
      iv_memory = snd (messageToCStruct msg zero_Message (c_heap s))\<rparr>], [])"
proof -
  have "notify_message (Lmsg_on_message_received L) (Lmsg_userdata L) msg s =
      (s, [CNotified \<lparr>iv_function = Lmsg_on_message_received L, iv_userdata = Lmsg_userdata L,
             iv_args = [AMessage (fst (messageToCStruct msg zero_Message (c_heap s)))],
             iv_memory = snd (messageToCStruct msg zero_Message (c_heap s))\<rparr>], [])"
    using c_exactly_message [OF assms(2), of "Lmsg_userdata L" msg] by (simp add: c_exactly_def)
  then show ?thesis
    by (simp add: relay_def emit_def relay_result_def for_each_Cons c_relayed_def to_listener_def c_notify_def reading_def
        heard_by_def assms(1) no_listeners_def seq_def skip_def Let_def CMessageListener_def)
qed

text \<open>
  C35: A message that reaches the client while a C listener is installed: its function is called
  once, with its \<open>userdata\<close> and a struct through which the application reads the whole content,
  the ids up to 63 characters and every number as it is; afterwards the client is what it was.
\<close>

theorem c_listener_hears_message:
  assumes "c_listening s = no_listeners\<lparr>ls_message := Some L\<rparr>" and "Lmsg_on_message_received L \<noteq> nullptr"
  shows "\<exists>c mem. relay (emit (MessageReceived msg)) s = (s, [CNotified \<lparr>iv_function = Lmsg_on_message_received L,
      iv_userdata = Lmsg_userdata L, iv_args = [AMessage c], iv_memory = mem\<rparr>], []) \<and> seen_as mem msg c"
proof -
  obtain c mem where m: "messageToCStruct msg zero_Message (c_heap s) = (c, mem)"
    by (cases "messageToCStruct msg zero_Message (c_heap s)")
  have "relay (emit (MessageReceived msg)) s = (s, [CNotified \<lparr>iv_function = Lmsg_on_message_received L,
      iv_userdata = Lmsg_userdata L, iv_args = [AMessage c], iv_memory = mem\<rparr>], [])"
    using relay_message [OF assms, of msg] m by simp
  then show ?thesis using seen_as_converted [OF m] by blast
qed

theorem c_listener_hears_message_witness:
  "\<exists>c mem. relay (emit (MessageReceived (new_message\<lparr>m_content := ''hi''\<rparr>)))
       (demo_client\<lparr>c_listening := no_listeners\<lparr>ls_message := Some demo_listener\<rparr>\<rparr>)
     = (demo_client\<lparr>c_listening := no_listeners\<lparr>ls_message := Some demo_listener\<rparr>\<rparr>,
        [CNotified \<lparr>iv_function = 12, iv_userdata = 11, iv_args = [AMessage c], iv_memory = mem\<rparr>], [])
     \<and> seen_as mem (new_message\<lparr>m_content := ''hi''\<rparr>) c"
  using c_listener_hears_message [of "demo_client\<lparr>c_listening := no_listeners\<lparr>ls_message := Some demo_listener\<rparr>\<rparr>"
      demo_listener "new_message\<lparr>m_content := ''hi''\<rparr>"]
  by (simp add: demo_listener_def nullptr_def)

end
