(* ===== verification/Bindings.thy ===== *)
theory Bindings
  imports CApi
begin

text \<open>
  What the bindings for JavaScript and Java share (packages/): how they read the C structs they
  are called with (texts behind pointers, arrays behind a list), and that they read what the C
  layer has put there.
\<close>

section \<open>Reading C values\<close>

text \<open>\<open>std::string(p)\<close> and \<open>NewStringUTF(p)\<close> of a pointer that is not null.\<close>

definition text_at :: "heap \<Rightarrow> addr \<Rightarrow> string" where
  "text_at mem p = (case load mem p of Some (Chars cs) \<Rightarrow> c_str cs | _ \<Rightarrow> [])"

text \<open>\<open>list->items[i]\<close> for all i below \<open>list->count\<close>.\<close>

definition read_items :: "(c_cell \<Rightarrow> 'c list) \<Rightarrow> heap \<Rightarrow> c_list \<Rightarrow> 'c list" where
  "read_items cells mem l = take (nat (Li_count l)) (case load mem (Li_items l) of None \<Rightarrow> [] | Some c \<Rightarrow> cells c)"

definition messages_in :: "c_cell \<Rightarrow> AnyChatMessage_C list" where
  "messages_in c = (case c of Messages xs \<Rightarrow> xs | _ \<Rightarrow> [])"

definition conversations_in :: "c_cell \<Rightarrow> AnyChatConversation_C list" where
  "conversations_in c = (case c of Conversations xs \<Rightarrow> xs | _ \<Rightarrow> [])"

definition friends_in :: "c_cell \<Rightarrow> AnyChatFriend_C list" where
  "friends_in c = (case c of FriendArray xs \<Rightarrow> xs | _ \<Rightarrow> [])"

definition friend_requests_in :: "c_cell \<Rightarrow> AnyChatFriendRequest_C list" where
  "friend_requests_in c = (case c of FriendRequestArray xs \<Rightarrow> xs | _ \<Rightarrow> [])"

definition groups_in :: "c_cell \<Rightarrow> AnyChatGroup_C list" where
  "groups_in c = (case c of GroupArray xs \<Rightarrow> xs | _ \<Rightarrow> [])"

definition group_members_in :: "c_cell \<Rightarrow> AnyChatGroupMember_C list" where
  "group_members_in c = (case c of GroupMemberArray xs \<Rightarrow> xs | _ \<Rightarrow> [])"

definition devices_in :: "c_cell \<Rightarrow> AnyChatAuthDevice_C list" where
  "devices_in c = (case c of Devices xs \<Rightarrow> xs | _ \<Rightarrow> [])"

lemmas cells_in_defs = messages_in_def conversations_in_def friends_in_def friend_requests_in_def groups_in_def
  group_members_in_def devices_in_def

text \<open>A list that the C layer built is read back element by element.\<close>

lemma read_items_list_struct:
  assumes "list_struct (fill_array cell convert zero) xs h = (l, h')" and "\<And>ys. cells (cell ys) = ys"
  shows "read_items cells h' l = map (\<lambda>x. convert x zero) xs"
proof (cases "xs = []")
  case True
  then show ?thesis using assms(1) by (auto simp: read_items_def list_struct_def fill_array_def)
next
  case False
  then show ?thesis
    using assms by (auto simp: read_items_def list_struct_def fill_array_def Let_def malloc_def load_def store_def)
qed

lemma text_at_message:
  assumes "messageToCStruct m zero_Message h = (c, h')"
  shows "Cm_content c \<noteq> nullptr" and "text_at h' (Cm_content c) = c_str (m_content m)"
proof -
  have "Cm_content c = fresh_addr h" using assms by (auto simp: messageToCStruct_def anychat_strdup_def malloc_def)
  then show "Cm_content c \<noteq> nullptr" by (simp add: fresh_addr_def nullptr_def)
  have "load h' (Cm_content c) = Some (Chars (c_str (m_content m) @ [nul]))" by (rule messageToC_added(2) [OF assms])
  then show "text_at h' (Cm_content c) = c_str (m_content m)" by (simp add: text_at_def c_str_def takeWhile_append)
qed

lemmas c_function_intros = client_c.intros auth_c.intros message_c.intros conversation_c.intros friend_c.intros group_c.intros

section \<open>Code that the C layer calls\<close>

text \<open>The parameters of a static function, from what it is called with; None is a null pointer.\<close>

definition arg_token :: "c_arg list \<Rightarrow> AnyChatAuthToken_C option" where
  "arg_token args = (case args of AToken t # _ \<Rightarrow> Some t | _ \<Rightarrow> None)"

definition arg_verification_code :: "c_arg list \<Rightarrow> AnyChatVerificationCodeResult_C option" where
  "arg_verification_code args = (case args of AVerificationCode r # _ \<Rightarrow> Some r | _ \<Rightarrow> None)"

definition arg_list :: "c_arg list \<Rightarrow> c_list option" where
  "arg_list args = (case args of AList l # _ \<Rightarrow> Some l | _ \<Rightarrow> None)"

definition arg_message :: "c_arg list \<Rightarrow> AnyChatMessage_C option" where
  "arg_message args = (case args of AMessage m # _ \<Rightarrow> Some m | _ \<Rightarrow> None)"

definition arg_conversation :: "c_arg list \<Rightarrow> AnyChatConversation_C option" where
  "arg_conversation args = (case args of AConversation c # _ \<Rightarrow> Some c | _ \<Rightarrow> None)"

definition arg_friend_request :: "c_arg list \<Rightarrow> AnyChatFriendRequest_C option" where
  "arg_friend_request args = (case args of AFriendRequest r # _ \<Rightarrow> Some r | _ \<Rightarrow> None)"

definition arg_group :: "c_arg list \<Rightarrow> AnyChatGroup_C option" where
  "arg_group args = (case args of AGroup g # _ \<Rightarrow> Some g | _ \<Rightarrow> None)"

definition arg_inviter :: "c_arg list \<Rightarrow> string option" where
  "arg_inviter args = (case args of [_, AText i] \<Rightarrow> Some i | _ \<Rightarrow> None)"

definition arg_error :: "c_arg list \<Rightarrow> string option" where
  "arg_error args = (case args of [_, AText e] \<Rightarrow> Some e | _ \<Rightarrow> None)"

definition arg_code :: "c_arg list \<Rightarrow> int" where
  "arg_code args = (case args of AInt c # _ \<Rightarrow> c | _ \<Rightarrow> 0)"

text \<open>A client whose application is one of the bindings: its events go to the listeners that are
  installed, and what they call is what the binding is called with.\<close>

definition invocations :: "event list \<Rightarrow> c_invocation list" where
  "invocations es = List.map_filter (\<lambda>e. case e of CCompleted i iv \<Rightarrow> Some iv | CNotified iv \<Rightarrow> Some iv | _ \<Rightarrow> None) es"

lemma invocations_simps [simp]:
  "invocations [] = []" "invocations (CCompleted i iv # es) = iv # invocations es"
  "invocations (CNotified iv # es) = iv # invocations es"
  by (simp_all add: invocations_def List.map_filter_simps)

end
