(* ===== verification/WebBinding.thy ===== *)
theory WebBinding
  imports Bindings
begin

text \<open>
  The JavaScript binding (packages/web/src/embind_wrapper.cpp). Every operation of
  \<open>AnyChatClientWrapper\<close> stores the JavaScript function it is given under a number, passes the
  number to the C interface as \<open>userdata\<close>, and a static wrapper finds the function again when
  the C layer calls back. The store is global. The wrappers are known to the C layer by their
  addresses.
\<close>

section \<open>JavaScript values\<close>

text \<open>\<open>JSDouble n\<close> is the double nearest to the 64-bit integer n; \<open>JSBigInt\<close> is what \<open>set\<close> makes of
  an \<open>int64_t\<close> without a cast.\<close>

datatype js =
    JSNull
  | JSUndefined
  | JSBool bool
  | JSNumber int
  | JSDouble int
  | JSBigInt int
  | JSString string
  | JSObject "(string \<times> js) list"
  | JSArray "js list"
  | JSFunction nat

definition dispatchErrorMessage :: "int \<Rightarrow> string" where
  "dispatchErrorMessage code = ''Request dispatch failed (code='' @ to_string code @ '')''"

definition authTokenToJS :: "AnyChatAuthToken_C \<Rightarrow> js" where
  "authTokenToJS tok = JSObject [
     (''accessToken'', JSString (c_str (Ctok_access_token tok))),
     (''refreshToken'', JSString (c_str (Ctok_refresh_token tok))),
     (''expiresAt'', JSBigInt (Ctok_expires_at_ms tok))]"

definition userInfoToJS :: "AnyChatUserInfo_C \<Rightarrow> js" where
  "userInfoToJS usr = JSObject [
     (''userId'', JSString (c_str (Cui_user_id usr))),
     (''username'', JSString (c_str (Cui_username usr))),
     (''avatarUrl'', JSString (c_str (Cui_avatar_url usr)))]"

definition messageToJS :: "heap \<Rightarrow> AnyChatMessage_C \<Rightarrow> js" where
  "messageToJS mem msg = JSObject [
     (''messageId'', JSString (c_str (Cm_message_id msg))),
     (''localId'', JSString (c_str (Cm_local_id msg))),
     (''convId'', JSString (c_str (Cm_conv_id msg))),
     (''senderId'', JSString (c_str (Cm_sender_id msg))),
     (''contentType'', JSNumber (Cm_content_type msg)),
     (''type'', JSNumber (Cm_type msg)),
     (''content'', JSString (if Cm_content msg \<noteq> nullptr then text_at mem (Cm_content msg) else [])),
     (''seq'', JSDouble (Cm_seq msg)),
     (''replyTo'', JSString (c_str (Cm_reply_to msg))),
     (''timestamp'', JSDouble (Cm_timestamp_ms msg)),
     (''status'', JSNumber (Cm_status msg)),
     (''sendState'', JSNumber (Cm_send_state msg)),
     (''isRead'', JSBool (Cm_is_read msg \<noteq> 0))]"

definition conversationToJS :: "AnyChatConversation_C \<Rightarrow> js" where
  "conversationToJS cv = JSObject [
     (''convId'', JSString (c_str (Cc_conv_id cv))),
     (''convType'', JSNumber (Cc_conv_type cv)),
     (''targetId'', JSString (c_str (Cc_target_id cv))),
     (''lastMsgId'', JSString (c_str (Cc_last_msg_id cv))),
     (''lastMsgText'', JSString (c_str (Cc_last_msg_text cv))),
     (''lastMsgTime'', JSDouble (Cc_last_msg_time_ms cv)),
     (''unreadCount'', JSNumber (Cc_unread_count cv)),
     (''isPinned'', JSBool (Cc_is_pinned cv \<noteq> 0)),
     (''isMuted'', JSBool (Cc_is_muted cv \<noteq> 0)),
     (''updatedAt'', JSDouble (Cc_updated_at_ms cv))]"

definition friendToJS :: "AnyChatFriend_C \<Rightarrow> js" where
  "friendToJS f = JSObject [
     (''userId'', JSString (c_str (Cf_user_id f))),
     (''remark'', JSString (c_str (Cf_remark f))),
     (''updatedAt'', JSDouble (Cf_updated_at_ms f)),
     (''isDeleted'', JSBool (Cf_is_deleted f \<noteq> 0)),
     (''userInfo'', userInfoToJS (Cf_user_info f))]"

definition friendRequestToJS :: "AnyChatFriendRequest_C \<Rightarrow> js" where
  "friendRequestToJS req = JSObject [
     (''requestId'', JSDouble (Cfr_request_id req)),
     (''fromUserId'', JSString (c_str (Cfr_from_user_id req))),
     (''toUserId'', JSString (c_str (Cfr_to_user_id req))),
     (''message'', JSString (c_str (Cfr_message req))),
     (''source'', JSNumber (Cfr_source req)),
     (''status'', JSNumber (Cfr_status req)),
     (''createdAt'', JSDouble (Cfr_created_at_ms req)),
     (''fromUserInfo'', userInfoToJS (Cfr_from_user_info req))]"

definition groupToJS :: "AnyChatGroup_C \<Rightarrow> js" where
  "groupToJS g = JSObject [
     (''groupId'', JSString (c_str (Cg_group_id g))),
     (''name'', JSString (c_str (Cg_name g))),
     (''avatarUrl'', JSString (c_str (Cg_avatar_url g))),
     (''ownerId'', JSString (c_str (Cg_owner_id g))),
     (''memberCount'', JSNumber (Cg_member_count g)),
     (''myRole'', JSNumber (Cg_my_role g)),
     (''joinVerify'', JSBool (Cg_join_verify g \<noteq> 0)),
     (''updatedAt'', JSDouble (Cg_updated_at_ms g))]"

definition groupMemberToJS :: "AnyChatGroupMember_C \<Rightarrow> js" where
  "groupMemberToJS m = JSObject [
     (''userId'', JSString (c_str (Cgmb_user_id m))),
     (''groupNickname'', JSString (c_str (Cgmb_group_nickname m))),
     (''role'', JSNumber (Cgmb_role m)),
     (''isMuted'', JSBool (Cgmb_is_muted m \<noteq> 0)),
     (''joinedAt'', JSDouble (Cgmb_joined_at_ms m)),
     (''userInfo'', userInfoToJS (Cgmb_user_info m))]"

section \<open>The callback store\<close>

text \<open>The twelve maps of \<open>CallbackStore\<close> by their names, and its single functions.\<close>

datatype js_table = AuthCallbacks | ResultCallbacks | MessageCallbacks | MessageListCallbacks | ConvCallbacks
  | ConvListCallbacks | FriendCallbacks | FriendListCallbacks | FriendRequestListCallbacks | GroupCallbacks
  | GroupListCallbacks | GroupMemberCallbacks

record callback_store =
  tables :: "js_table \<Rightarrow> int \<Rightarrow> js option"
  connectionStateCallback :: js
  authExpiredCallback :: js
  messageReceivedCallback :: js
  convUpdatedCallback :: js
  friendRequestCallback :: js
  friendListChangedCallback :: js
  groupInvitedCallback :: js
  groupUpdatedCallback :: js
  nextCallbackId :: int

definition g_callbacks :: callback_store where
  "g_callbacks = \<lparr>tables = \<lambda>_ _. None, connectionStateCallback = JSNull, authExpiredCallback = JSNull,
     messageReceivedCallback = JSNull, convUpdatedCallback = JSNull, friendRequestCallback = JSNull,
     friendListChangedCallback = JSNull, groupInvitedCallback = JSNull, groupUpdatedCallback = JSNull,
     nextCallbackId = 1\<rparr>"

definition set_entry :: "js_table \<Rightarrow> int \<Rightarrow> js option \<Rightarrow> callback_store \<Rightarrow> callback_store" where
  "set_entry t k v st = st\<lparr>tables := (tables st)(t := (tables st t)(k := v))\<rparr>"

text \<open>A call of a JavaScript function. The number says which operation it answers; it is not passed.\<close>

datatype js_call = JSCall "int option" js "js list"

text \<open>What the binding does: the store, the calls into JavaScript in order, what the client does.\<close>

type_synonym web_op = "callback_store \<Rightarrow> callback_store \<times> js_call list \<times> client_act"
type_synonym web_fn = "callback_store \<Rightarrow> callback_store \<times> js_call list"

text \<open>\<open>reinterpret_cast\<close> between the number and \<open>userdata\<close>; pointers have 32 bits.\<close>

definition userdata_of :: "int \<Rightarrow> addr" where
  "userdata_of k = nat (k mod 2 ^ 32)"

definition callback_id :: "addr \<Rightarrow> int" where
  "callback_id p = wrap32 (int p)"

lemma callback_id_userdata: "is_i32 k \<Longrightarrow> callback_id (userdata_of k) = k"
proof -
  have "wrap32 (k mod 2 ^ 32) = wrap32 k"
    by (simp add: wrap32_def signed_take_bit_eq_iff_take_bit_eq take_bit_eq_mod)
  then show "is_i32 k \<Longrightarrow> callback_id (userdata_of k) = k" by (simp add: callback_id_def userdata_of_def)
qed

section \<open>Wrappers\<close>

text \<open>What the wrappers of operations have in common: the function is looked up, called and erased.\<close>

definition answer_js :: "js_table \<Rightarrow> addr \<Rightarrow> js list \<Rightarrow> web_fn" where
  "answer_js t userdata args st = (let k = callback_id userdata in case tables st t k of
       None \<Rightarrow> (st, [])
     | Some callback \<Rightarrow> (set_entry t k None st, [JSCall (Some k) callback args]))"

definition tell_js :: "js \<Rightarrow> js list \<Rightarrow> web_fn" where
  "tell_js callback args st = (st, if callback = JSNull then [] else [JSCall None callback args])"

definition unknown_error :: "string option \<Rightarrow> js" where
  "unknown_error error = JSString (case error of None \<Rightarrow> ''Unknown error'' | Some e \<Rightarrow> e)"

definition js_list :: "('c \<Rightarrow> js) \<Rightarrow> (c_cell \<Rightarrow> 'c list) \<Rightarrow> heap \<Rightarrow> c_list option \<Rightarrow> js" where
  "js_list convert cells mem l = (case l of None \<Rightarrow> JSArray [] | Some l \<Rightarrow> JSArray (map convert (read_items cells mem l)))"

definition connectionStateCallbackWrapper :: "int \<Rightarrow> web_fn" where
  "connectionStateCallbackWrapper state st = tell_js (connectionStateCallback st) [JSNumber state] st"

definition authSuccessCallbackWrapper :: "addr \<Rightarrow> AnyChatAuthToken_C option \<Rightarrow> web_fn" where
  "authSuccessCallbackWrapper userdata tok = answer_js AuthCallbacks userdata (case tok of
     Some t \<Rightarrow> [JSNull, authTokenToJS t] | None \<Rightarrow> [JSString ''Unknown error'', JSNull])"

definition authErrorCallbackWrapper :: "addr \<Rightarrow> int \<Rightarrow> string option \<Rightarrow> web_fn" where
  "authErrorCallbackWrapper userdata code error = answer_js AuthCallbacks userdata [unknown_error error, JSNull]"

definition resultSuccessCallbackWrapper :: "addr \<Rightarrow> web_fn" where
  "resultSuccessCallbackWrapper userdata = answer_js ResultCallbacks userdata [JSNull]"

definition resultErrorCallbackWrapper :: "addr \<Rightarrow> int \<Rightarrow> string option \<Rightarrow> web_fn" where
  "resultErrorCallbackWrapper userdata code error = answer_js ResultCallbacks userdata [unknown_error error]"

definition authExpiredCallbackWrapper :: "web_fn" where
  "authExpiredCallbackWrapper st = tell_js (authExpiredCallback st) [] st"

definition messageSuccessCallbackWrapper :: "addr \<Rightarrow> web_fn" where
  "messageSuccessCallbackWrapper userdata = answer_js MessageCallbacks userdata [JSNull]"

definition messageErrorCallbackWrapper :: "addr \<Rightarrow> int \<Rightarrow> string option \<Rightarrow> web_fn" where
  "messageErrorCallbackWrapper userdata code error = answer_js MessageCallbacks userdata [unknown_error error]"

definition messageListSuccessCallbackWrapper :: "heap \<Rightarrow> addr \<Rightarrow> c_list option \<Rightarrow> web_fn" where
  "messageListSuccessCallbackWrapper mem userdata l = answer_js MessageListCallbacks userdata [JSNull, js_list (messageToJS mem) messages_in mem l]"

definition messageListErrorCallbackWrapper :: "addr \<Rightarrow> int \<Rightarrow> string option \<Rightarrow> web_fn" where
  "messageListErrorCallbackWrapper userdata code error = answer_js MessageListCallbacks userdata [unknown_error error, JSNull]"

definition messageReceivedCallbackWrapper :: "heap \<Rightarrow> AnyChatMessage_C option \<Rightarrow> web_fn" where
  "messageReceivedCallbackWrapper mem msg st = (case msg of
     Some c \<Rightarrow> tell_js (messageReceivedCallback st) [messageToJS mem c] st | None \<Rightarrow> (st, []))"

definition convListSuccessCallbackWrapper :: "heap \<Rightarrow> addr \<Rightarrow> c_list option \<Rightarrow> web_fn" where
  "convListSuccessCallbackWrapper mem userdata l = answer_js ConvListCallbacks userdata [JSNull, js_list conversationToJS conversations_in mem l]"

definition convListErrorCallbackWrapper :: "addr \<Rightarrow> int \<Rightarrow> string option \<Rightarrow> web_fn" where
  "convListErrorCallbackWrapper userdata code error = answer_js ConvListCallbacks userdata [unknown_error error, JSNull]"

definition convSuccessCallbackWrapper :: "addr \<Rightarrow> web_fn" where
  "convSuccessCallbackWrapper userdata = answer_js ConvCallbacks userdata [JSNull]"

definition convErrorCallbackWrapper :: "addr \<Rightarrow> int \<Rightarrow> string option \<Rightarrow> web_fn" where
  "convErrorCallbackWrapper userdata code error = answer_js ConvCallbacks userdata [unknown_error error]"

definition convUpdatedCallbackWrapper :: "AnyChatConversation_C option \<Rightarrow> web_fn" where
  "convUpdatedCallbackWrapper cv st = (case cv of
     Some c \<Rightarrow> tell_js (convUpdatedCallback st) [conversationToJS c] st | None \<Rightarrow> (st, []))"

definition friendListSuccessCallbackWrapper :: "heap \<Rightarrow> addr \<Rightarrow> c_list option \<Rightarrow> web_fn" where
  "friendListSuccessCallbackWrapper mem userdata l = answer_js FriendListCallbacks userdata [JSNull, js_list friendToJS friends_in mem l]"

definition friendListErrorCallbackWrapper :: "addr \<Rightarrow> int \<Rightarrow> string option \<Rightarrow> web_fn" where
  "friendListErrorCallbackWrapper userdata code error = answer_js FriendListCallbacks userdata [unknown_error error, JSNull]"

definition friendRequestListSuccessCallbackWrapper :: "heap \<Rightarrow> addr \<Rightarrow> c_list option \<Rightarrow> web_fn" where
  "friendRequestListSuccessCallbackWrapper mem userdata l = answer_js FriendRequestListCallbacks userdata [JSNull, js_list friendRequestToJS friend_requests_in mem l]"

definition friendRequestListErrorCallbackWrapper :: "addr \<Rightarrow> int \<Rightarrow> string option \<Rightarrow> web_fn" where
  "friendRequestListErrorCallbackWrapper userdata code error = answer_js FriendRequestListCallbacks userdata [unknown_error error, JSNull]"

definition friendSuccessCallbackWrapper :: "addr \<Rightarrow> web_fn" where
  "friendSuccessCallbackWrapper userdata = answer_js FriendCallbacks userdata [JSNull]"

definition friendErrorCallbackWrapper :: "addr \<Rightarrow> int \<Rightarrow> string option \<Rightarrow> web_fn" where
  "friendErrorCallbackWrapper userdata code error = answer_js FriendCallbacks userdata [unknown_error error]"

definition friendRequestCallbackWrapper :: "AnyChatFriendRequest_C option \<Rightarrow> web_fn" where
  "friendRequestCallbackWrapper request st = (case request of
     Some r \<Rightarrow> tell_js (friendRequestCallback st) [friendRequestToJS r] st | None \<Rightarrow> (st, []))"

definition friendListChangedFromFriendWrapper :: "web_fn" where
  "friendListChangedFromFriendWrapper st = tell_js (friendListChangedCallback st) [] st"

definition friendListChangedFromDeletedWrapper :: "web_fn" where
  "friendListChangedFromDeletedWrapper st = tell_js (friendListChangedCallback st) [] st"

definition friendListChangedFromRequestWrapper :: "web_fn" where
  "friendListChangedFromRequestWrapper st = tell_js (friendListChangedCallback st) [] st"

definition groupListSuccessCallbackWrapper :: "heap \<Rightarrow> addr \<Rightarrow> c_list option \<Rightarrow> web_fn" where
  "groupListSuccessCallbackWrapper mem userdata l = answer_js GroupListCallbacks userdata [JSNull, js_list groupToJS groups_in mem l]"

definition groupListErrorCallbackWrapper :: "addr \<Rightarrow> int \<Rightarrow> string option \<Rightarrow> web_fn" where
  "groupListErrorCallbackWrapper userdata code error = answer_js GroupListCallbacks userdata [unknown_error error, JSNull]"

definition groupSuccessCallbackWrapper :: "addr \<Rightarrow> web_fn" where
  "groupSuccessCallbackWrapper userdata = answer_js GroupCallbacks userdata [JSNull]"

definition groupErrorCallbackWrapper :: "addr \<Rightarrow> int \<Rightarrow> string option \<Rightarrow> web_fn" where
  "groupErrorCallbackWrapper userdata code error = answer_js GroupCallbacks userdata [unknown_error error]"

definition groupInfoSuccessCallbackWrapper :: "addr \<Rightarrow> web_fn" where
  "groupInfoSuccessCallbackWrapper userdata = groupSuccessCallbackWrapper userdata"

definition groupMemberListSuccessCallbackWrapper :: "heap \<Rightarrow> addr \<Rightarrow> c_list option \<Rightarrow> web_fn" where
  "groupMemberListSuccessCallbackWrapper mem userdata l = answer_js GroupMemberCallbacks userdata [JSNull, js_list groupMemberToJS group_members_in mem l]"

definition groupMemberListErrorCallbackWrapper :: "addr \<Rightarrow> int \<Rightarrow> string option \<Rightarrow> web_fn" where
  "groupMemberListErrorCallbackWrapper userdata code error = answer_js GroupMemberCallbacks userdata [unknown_error error, JSNull]"

definition groupInvitedCallbackWrapper :: "AnyChatGroup_C option \<Rightarrow> string option \<Rightarrow> web_fn" where
  "groupInvitedCallbackWrapper gi inviter_id st = (case gi of
     Some g \<Rightarrow> tell_js (groupInvitedCallback st) [groupToJS g, JSString (or_empty inviter_id)] st | None \<Rightarrow> (st, []))"

definition groupUpdatedCallbackWrapper :: "AnyChatGroup_C option \<Rightarrow> web_fn" where
  "groupUpdatedCallbackWrapper gi st = (case gi of
     Some g \<Rightarrow> tell_js (groupUpdatedCallback st) [groupToJS g] st | None \<Rightarrow> (st, []))"

section \<open>Calls by address\<close>

text \<open>The static functions and the addresses they are linked at.\<close>

datatype web_function =
    W_connectionState
  | W_authSuccess
  | W_authError
  | W_resultSuccess
  | W_resultError
  | W_authExpired
  | W_messageSuccess
  | W_messageError
  | W_messageListSuccess
  | W_messageListError
  | W_messageReceived
  | W_convListSuccess
  | W_convListError
  | W_convSuccess
  | W_convError
  | W_convUpdated
  | W_friendListSuccess
  | W_friendListError
  | W_friendRequestListSuccess
  | W_friendRequestListError
  | W_friendSuccess
  | W_friendError
  | W_friendRequest
  | W_friendListChangedFromFriend
  | W_friendListChangedFromDeleted
  | W_friendListChangedFromRequest
  | W_groupListSuccess
  | W_groupListError
  | W_groupSuccess
  | W_groupError
  | W_groupInfoSuccess
  | W_groupMemberListSuccess
  | W_groupMemberListError
  | W_groupInvited
  | W_groupUpdated

primrec web_addr :: "web_function \<Rightarrow> addr" where
  "web_addr W_connectionState = 1"
| "web_addr W_authSuccess = 2"
| "web_addr W_authError = 3"
| "web_addr W_resultSuccess = 4"
| "web_addr W_resultError = 5"
| "web_addr W_authExpired = 6"
| "web_addr W_messageSuccess = 7"
| "web_addr W_messageError = 8"
| "web_addr W_messageListSuccess = 9"
| "web_addr W_messageListError = 10"
| "web_addr W_messageReceived = 11"
| "web_addr W_convListSuccess = 12"
| "web_addr W_convListError = 13"
| "web_addr W_convSuccess = 14"
| "web_addr W_convError = 15"
| "web_addr W_convUpdated = 16"
| "web_addr W_friendListSuccess = 17"
| "web_addr W_friendListError = 18"
| "web_addr W_friendRequestListSuccess = 19"
| "web_addr W_friendRequestListError = 20"
| "web_addr W_friendSuccess = 21"
| "web_addr W_friendError = 22"
| "web_addr W_friendRequest = 23"
| "web_addr W_friendListChangedFromFriend = 24"
| "web_addr W_friendListChangedFromDeleted = 25"
| "web_addr W_friendListChangedFromRequest = 26"
| "web_addr W_groupListSuccess = 27"
| "web_addr W_groupListError = 28"
| "web_addr W_groupSuccess = 29"
| "web_addr W_groupError = 30"
| "web_addr W_groupInfoSuccess = 31"
| "web_addr W_groupMemberListSuccess = 32"
| "web_addr W_groupMemberListError = 33"
| "web_addr W_groupInvited = 34"
| "web_addr W_groupUpdated = 35"

definition web_functions :: "web_function list" where
  "web_functions = [W_connectionState, W_authSuccess, W_authError, W_resultSuccess, W_resultError,
     W_authExpired, W_messageSuccess, W_messageError, W_messageListSuccess, W_messageListError,
     W_messageReceived, W_convListSuccess, W_convListError, W_convSuccess, W_convError,
     W_convUpdated, W_friendListSuccess, W_friendListError, W_friendRequestListSuccess, W_friendRequestListError,
     W_friendSuccess, W_friendError, W_friendRequest, W_friendListChangedFromFriend, W_friendListChangedFromDeleted,
     W_friendListChangedFromRequest, W_groupListSuccess, W_groupListError, W_groupSuccess, W_groupError,
     W_groupInfoSuccess, W_groupMemberListSuccess, W_groupMemberListError, W_groupInvited, W_groupUpdated]"

definition web_at :: "addr \<Rightarrow> web_function option" where
  "web_at p = find (\<lambda>f. web_addr f = p) web_functions"

lemma web_at_addr [simp]: "web_at (web_addr f) = Some f"
  by (cases f) (simp_all add: web_at_def web_functions_def)

lemma web_addr_not_null [simp]: "web_addr f \<noteq> nullptr"
  by (cases f) (simp_all add: nullptr_def)

primrec web_run :: "web_function \<Rightarrow> addr \<Rightarrow> heap \<Rightarrow> c_arg list \<Rightarrow> web_fn" where
  "web_run W_connectionState u mem args = connectionStateCallbackWrapper (arg_code args)"
| "web_run W_authSuccess u mem args = authSuccessCallbackWrapper u (arg_token args)"
| "web_run W_authError u mem args = authErrorCallbackWrapper u (arg_code args) (arg_error args)"
| "web_run W_resultSuccess u mem args = resultSuccessCallbackWrapper u"
| "web_run W_resultError u mem args = resultErrorCallbackWrapper u (arg_code args) (arg_error args)"
| "web_run W_authExpired u mem args = authExpiredCallbackWrapper"
| "web_run W_messageSuccess u mem args = messageSuccessCallbackWrapper u"
| "web_run W_messageError u mem args = messageErrorCallbackWrapper u (arg_code args) (arg_error args)"
| "web_run W_messageListSuccess u mem args = messageListSuccessCallbackWrapper mem u (arg_list args)"
| "web_run W_messageListError u mem args = messageListErrorCallbackWrapper u (arg_code args) (arg_error args)"
| "web_run W_messageReceived u mem args = messageReceivedCallbackWrapper mem (arg_message args)"
| "web_run W_convListSuccess u mem args = convListSuccessCallbackWrapper mem u (arg_list args)"
| "web_run W_convListError u mem args = convListErrorCallbackWrapper u (arg_code args) (arg_error args)"
| "web_run W_convSuccess u mem args = convSuccessCallbackWrapper u"
| "web_run W_convError u mem args = convErrorCallbackWrapper u (arg_code args) (arg_error args)"
| "web_run W_convUpdated u mem args = convUpdatedCallbackWrapper (arg_conversation args)"
| "web_run W_friendListSuccess u mem args = friendListSuccessCallbackWrapper mem u (arg_list args)"
| "web_run W_friendListError u mem args = friendListErrorCallbackWrapper u (arg_code args) (arg_error args)"
| "web_run W_friendRequestListSuccess u mem args = friendRequestListSuccessCallbackWrapper mem u (arg_list args)"
| "web_run W_friendRequestListError u mem args = friendRequestListErrorCallbackWrapper u (arg_code args) (arg_error args)"
| "web_run W_friendSuccess u mem args = friendSuccessCallbackWrapper u"
| "web_run W_friendError u mem args = friendErrorCallbackWrapper u (arg_code args) (arg_error args)"
| "web_run W_friendRequest u mem args = friendRequestCallbackWrapper (arg_friend_request args)"
| "web_run W_friendListChangedFromFriend u mem args = friendListChangedFromFriendWrapper"
| "web_run W_friendListChangedFromDeleted u mem args = friendListChangedFromDeletedWrapper"
| "web_run W_friendListChangedFromRequest u mem args = friendListChangedFromRequestWrapper"
| "web_run W_groupListSuccess u mem args = groupListSuccessCallbackWrapper mem u (arg_list args)"
| "web_run W_groupListError u mem args = groupListErrorCallbackWrapper u (arg_code args) (arg_error args)"
| "web_run W_groupSuccess u mem args = groupSuccessCallbackWrapper u"
| "web_run W_groupError u mem args = groupErrorCallbackWrapper u (arg_code args) (arg_error args)"
| "web_run W_groupInfoSuccess u mem args = groupInfoSuccessCallbackWrapper u"
| "web_run W_groupMemberListSuccess u mem args = groupMemberListSuccessCallbackWrapper mem u (arg_list args)"
| "web_run W_groupMemberListError u mem args = groupMemberListErrorCallbackWrapper u (arg_code args) (arg_error args)"
| "web_run W_groupInvited u mem args = groupInvitedCallbackWrapper (arg_group args) (arg_inviter args)"
| "web_run W_groupUpdated u mem args = groupUpdatedCallbackWrapper (arg_group args)"

text \<open>The C layer calls one of the wrappers.\<close>

definition web_invoked :: "c_invocation \<Rightarrow> web_fn" where
  "web_invoked iv st = (case web_at (iv_function iv) of
     None \<Rightarrow> (st, []) | Some f \<Rightarrow> web_run f (iv_userdata iv) (iv_memory iv) (iv_args iv) st)"

section \<open>Listeners\<close>

text \<open>The handles of a constructed wrapper are not null.\<close>

definition refreshAuthListener :: "callback_store \<Rightarrow> c_result" where
  "refreshAuthListener st = (if authExpiredCallback st = JSNull then anychat_auth_set_listener True None
     else anychat_auth_set_listener True (Some \<lparr>Lauth_userdata = nullptr, Lauth_on_auth_expired = web_addr W_authExpired\<rparr>))"

definition refreshMessageListener :: "callback_store \<Rightarrow> c_result" where
  "refreshMessageListener st = (if messageReceivedCallback st = JSNull then anychat_message_set_listener True None
     else anychat_message_set_listener True (Some \<lparr>Lmsg_userdata = nullptr,
       Lmsg_on_message_received = web_addr W_messageReceived, Lmsg_on_message_read_receipt = nullptr,
       Lmsg_on_message_recalled = nullptr, Lmsg_on_message_deleted = nullptr, Lmsg_on_message_edited = nullptr,
       Lmsg_on_message_typing = nullptr, Lmsg_on_message_mentioned = nullptr\<rparr>))"

definition refreshConversationListener :: "callback_store \<Rightarrow> c_result" where
  "refreshConversationListener st = (if convUpdatedCallback st = JSNull then anychat_conv_set_listener True None
     else anychat_conv_set_listener True (Some \<lparr>Lconv_userdata = nullptr,
       Lconv_on_conversation_updated = web_addr W_convUpdated\<rparr>))"

definition refreshFriendListener :: "callback_store \<Rightarrow> c_result" where
  "refreshFriendListener st =
     (if friendRequestCallback st = JSNull \<and> friendListChangedCallback st = JSNull then anychat_friend_set_listener True None
      else let changed = (\<lambda>f. if friendListChangedCallback st \<noteq> JSNull then web_addr f else nullptr)
      in anychat_friend_set_listener True (Some \<lparr>Lfriend_userdata = nullptr,
           Lfriend_on_friend_added = changed W_friendListChangedFromFriend,
           Lfriend_on_friend_deleted = changed W_friendListChangedFromDeleted,
           Lfriend_on_friend_info_changed = changed W_friendListChangedFromFriend,
           Lfriend_on_blacklist_added = nullptr, Lfriend_on_blacklist_removed = nullptr,
           Lfriend_on_friend_request_received =
             (if friendRequestCallback st \<noteq> JSNull then web_addr W_friendRequest else nullptr),
           Lfriend_on_friend_request_deleted = changed W_friendListChangedFromRequest,
           Lfriend_on_friend_request_accepted = changed W_friendListChangedFromRequest,
           Lfriend_on_friend_request_rejected = changed W_friendListChangedFromRequest\<rparr>))"

definition refreshGroupListener :: "callback_store \<Rightarrow> c_result" where
  "refreshGroupListener st =
     (if groupInvitedCallback st = JSNull \<and> groupUpdatedCallback st = JSNull then anychat_group_set_listener True None
      else anychat_group_set_listener True (Some \<lparr>Lgroup_userdata = nullptr,
        Lgroup_on_group_invited = (if groupInvitedCallback st \<noteq> JSNull then web_addr W_groupInvited else nullptr),
        Lgroup_on_group_updated = (if groupUpdatedCallback st \<noteq> JSNull then web_addr W_groupUpdated else nullptr)\<rparr>))"

text \<open>A setter stores the function and refreshes the listener.\<close>

definition store_and_refresh :: "(callback_store \<Rightarrow> callback_store) \<Rightarrow> (callback_store \<Rightarrow> c_result) \<Rightarrow> web_op" where
  "store_and_refresh f refresh st = (f st, [], snd (refresh (f st)))"

section \<open>The wrapper class\<close>

record js_config =
  js_gatewayUrl :: string
  js_apiBaseUrl :: string
  js_deviceId :: string
  js_dbPath :: "string option"
  js_connectTimeoutMs :: "int option"
  js_maxReconnectAttempts :: "int option"
  js_autoReconnect :: "bool option"

definition web_client_config :: "js_config \<Rightarrow> AnyChatClientConfig_C" where
  "web_client_config config = \<lparr>Ccfg_gateway_url = Some (c_str (js_gatewayUrl config)),
     Ccfg_api_base_url = Some (c_str (js_apiBaseUrl config)), Ccfg_device_id = Some (c_str (js_deviceId config)),
     Ccfg_db_path = Some (c_str (case js_dbPath config of Some p \<Rightarrow> p | None \<Rightarrow> '':memory:'')),
     Ccfg_connect_timeout_ms = (case js_connectTimeoutMs config of Some n \<Rightarrow> n | None \<Rightarrow> 10000),
     Ccfg_max_reconnect_attempts = (case js_maxReconnectAttempts config of Some n \<Rightarrow> n | None \<Rightarrow> 5),
     Ccfg_auto_reconnect = (case js_autoReconnect config of Some b \<Rightarrow> if b then 1 else 0 | None \<Rightarrow> 1)\<rparr>"

text \<open>The constructor throws when there is no handle.\<close>

definition web_construct :: "js_config \<Rightarrow> db_world \<Rightarrow> (message list \<Rightarrow> message list) \<Rightarrow> int \<Rightarrow> created + string" where
  "web_construct config W srt now = (case anychat_client_create (Some (web_client_config config)) W srt now of
     NullHandle \<Rightarrow> Inr ''Failed to create client'' | c \<Rightarrow> Inl c)"

definition web_destroy :: "client_env \<Rightarrow> client_act" where
  "web_destroy E = anychat_client_destroy E True"

definition web_getConnectionState :: "client \<Rightarrow> int" where
  "web_getConnectionState s = anychat_client_get_connection_state True s"

definition web_isLoggedIn :: "client \<Rightarrow> bool" where
  "web_isLoggedIn s \<longleftrightarrow> anychat_client_is_logged_in True s \<noteq> 0"

definition web_setConnectionCallback :: "js \<Rightarrow> web_op" where
  "web_setConnectionCallback callback st = (st\<lparr>connectionStateCallback := callback\<rparr>, [],
     if callback = JSNull \<or> callback = JSUndefined
     then anychat_client_set_connection_callback True nullptr nullptr
     else anychat_client_set_connection_callback True nullptr (web_addr W_connectionState))"

definition web_setAuthExpiredCallback :: "js \<Rightarrow> web_op" where
  "web_setAuthExpiredCallback callback = store_and_refresh (\<lambda>st. st\<lparr>authExpiredCallback := callback\<rparr>) refreshAuthListener"

definition web_setMessageReceivedCallback :: "js \<Rightarrow> web_op" where
  "web_setMessageReceivedCallback callback = store_and_refresh (\<lambda>st. st\<lparr>messageReceivedCallback := callback\<rparr>) refreshMessageListener"

definition web_setConversationUpdatedCallback :: "js \<Rightarrow> web_op" where
  "web_setConversationUpdatedCallback callback = store_and_refresh (\<lambda>st. st\<lparr>convUpdatedCallback := callback\<rparr>) refreshConversationListener"

definition web_setFriendRequestCallback :: "js \<Rightarrow> web_op" where
  "web_setFriendRequestCallback callback = store_and_refresh (\<lambda>st. st\<lparr>friendRequestCallback := callback\<rparr>) refreshFriendListener"

definition web_setFriendListChangedCallback :: "js \<Rightarrow> web_op" where
  "web_setFriendListChangedCallback callback = store_and_refresh (\<lambda>st. st\<lparr>friendListChangedCallback := callback\<rparr>) refreshFriendListener"

definition web_setGroupInvitedCallback :: "js \<Rightarrow> web_op" where
  "web_setGroupInvitedCallback callback = store_and_refresh (\<lambda>st. st\<lparr>groupInvitedCallback := callback\<rparr>) refreshGroupListener"

definition web_setGroupUpdatedCallback :: "js \<Rightarrow> web_op" where
  "web_setGroupUpdatedCallback callback = store_and_refresh (\<lambda>st. st\<lparr>groupUpdatedCallback := callback\<rparr>) refreshGroupListener"

section \<open>Operations\<close>

text \<open>The body that all operations share: a new number, the function under it, the C function with
  the number as \<open>userdata\<close>; when it refuses, the function is taken out again and called with the
  error.\<close>

definition web_call ::
  "js_table \<Rightarrow> web_function \<Rightarrow> web_function \<Rightarrow> js list \<Rightarrow> (nat \<Rightarrow> c_callback option \<Rightarrow> c_result) \<Rightarrow> js \<Rightarrow> web_op" where
  "web_call t success error nulls f callback st =
     (let callbackId = nextCallbackId st;
          st1 = set_entry t callbackId (Some callback) (st\<lparr>nextCallbackId := wrap32 (callbackId + 1)\<rparr>);
          c = \<lparr>cc_userdata = userdata_of callbackId, cc_on_success = web_addr success, cc_on_error = web_addr error\<rparr>;
          result = f (nat callbackId) (Some c)
      in if fst result \<noteq> ANYCHAT_OK
         then (set_entry t callbackId None st1,
               [JSCall (Some callbackId) callback (JSString (dispatchErrorMessage (fst result)) # nulls)], snd result)
         else (st1, [], snd result))"

text \<open>\<open>static_cast<int64_t>\<close> of a double.\<close>

definition to_int64 :: "rat \<Rightarrow> int" where
  "to_int64 q = wrap64 (if q < 0 then \<lceil>q\<rceil> else \<lfloor>q\<rfloor>)"

definition non_empty :: "string \<Rightarrow> string option" where
  "non_empty s = (if s = [] then None else Some (c_str s))"

text \<open>An array of JavaScript strings becomes a vector of strings that grows while pointers into it
  are collected: a pointer taken before the vector moved may dangle. \<open>reads\<close> says what is read
  through the pointers afterwards.\<close>

definition js_pointers :: "(string list \<Rightarrow> string list) \<Rightarrow> string list \<Rightarrow> string option list" where
  "js_pointers reads ss = map Some (reads ss) @ [None]"

definition web_login :: "client_env \<Rightarrow> string \<Rightarrow> string \<Rightarrow> int \<Rightarrow> string \<Rightarrow> js \<Rightarrow> web_op" where
  "web_login E account password deviceType clientVersion callback = web_call AuthCallbacks W_authSuccess W_authError [JSNull]
     (anychat_client_login E True (Some (c_str account)) (Some (c_str password)) deviceType (non_empty clientVersion)) callback"

definition web_register :: "client_env \<Rightarrow> string \<Rightarrow> string \<Rightarrow> string \<Rightarrow> int \<Rightarrow> string \<Rightarrow> string \<Rightarrow> js \<Rightarrow> web_op" where
  "web_register E phoneOrEmail password verifyCode deviceType nickname clientVersion callback = web_call AuthCallbacks W_authSuccess W_authError [JSNull]
     (anychat_auth_register E True (Some (c_str phoneOrEmail)) (Some (c_str password)) (Some (c_str verifyCode)) deviceType
        (non_empty nickname) (non_empty clientVersion)) callback"

definition web_logout :: "client_env \<Rightarrow> js \<Rightarrow> web_op" where
  "web_logout E callback = web_call ResultCallbacks W_resultSuccess W_resultError []
     (anychat_client_logout E True) callback"

definition web_refreshToken :: "client_env \<Rightarrow> string \<Rightarrow> js \<Rightarrow> web_op" where
  "web_refreshToken E refreshTok callback = web_call AuthCallbacks W_authSuccess W_authError [JSNull]
     (anychat_auth_refresh_token E True (Some (c_str refreshTok))) callback"

definition web_sendTextMessage :: "client_env \<Rightarrow> string \<Rightarrow> string \<Rightarrow> js \<Rightarrow> web_op" where
  "web_sendTextMessage E sessionId content callback = web_call MessageCallbacks W_messageSuccess W_messageError []
     (anychat_message_send_text E True (Some (c_str sessionId)) (Some (c_str content))) callback"

definition web_getMessageHistory :: "client_env \<Rightarrow> string \<Rightarrow> rat \<Rightarrow> int \<Rightarrow> js \<Rightarrow> web_op" where
  "web_getMessageHistory E sessionId beforeTimestamp limit callback = web_call MessageListCallbacks W_messageListSuccess W_messageListError [JSNull]
     (anychat_message_get_history E True (Some (c_str sessionId)) (to_int64 beforeTimestamp) limit) callback"

definition web_markMessageRead :: "client_env \<Rightarrow> string \<Rightarrow> string \<Rightarrow> js \<Rightarrow> web_op" where
  "web_markMessageRead E sessionId messageId callback = web_call MessageCallbacks W_messageSuccess W_messageError []
     (anychat_message_mark_read E True (Some (c_str sessionId)) (Some (c_str messageId))) callback"

definition web_getConversationList :: "client_env \<Rightarrow> js \<Rightarrow> web_op" where
  "web_getConversationList E callback = web_call ConvListCallbacks W_convListSuccess W_convListError [JSNull]
     (anychat_conv_get_list E True) callback"

definition web_markConversationRead :: "client_env \<Rightarrow> string \<Rightarrow> js \<Rightarrow> web_op" where
  "web_markConversationRead E convId callback = web_call ConvCallbacks W_convSuccess W_convError []
     (anychat_conv_mark_all_read E True (Some (c_str convId))) callback"

definition web_setConversationPinned :: "client_env \<Rightarrow> string \<Rightarrow> bool \<Rightarrow> js \<Rightarrow> web_op" where
  "web_setConversationPinned E convId pinned callback = web_call ConvCallbacks W_convSuccess W_convError []
     (anychat_conv_set_pinned E True (Some (c_str convId)) (if pinned then 1 else 0)) callback"

definition web_setConversationMuted :: "client_env \<Rightarrow> string \<Rightarrow> bool \<Rightarrow> js \<Rightarrow> web_op" where
  "web_setConversationMuted E convId muted callback = web_call ConvCallbacks W_convSuccess W_convError []
     (anychat_conv_set_muted E True (Some (c_str convId)) (if muted then 1 else 0)) callback"

definition web_deleteConversation :: "client_env \<Rightarrow> string \<Rightarrow> js \<Rightarrow> web_op" where
  "web_deleteConversation E convId callback = web_call ConvCallbacks W_convSuccess W_convError []
     (anychat_conv_delete E True (Some (c_str convId))) callback"

definition web_getFriendList :: "client_env \<Rightarrow> js \<Rightarrow> web_op" where
  "web_getFriendList E callback = web_call FriendListCallbacks W_friendListSuccess W_friendListError [JSNull]
     (anychat_friend_get_list E True) callback"

definition web_sendFriendRequest :: "client_env \<Rightarrow> string \<Rightarrow> string \<Rightarrow> int \<Rightarrow> js \<Rightarrow> web_op" where
  "web_sendFriendRequest E toUserId txt source callback = web_call FriendCallbacks W_friendSuccess W_friendError []
     (anychat_friend_add E True (Some (c_str toUserId)) (Some (c_str txt)) source) callback"

definition web_handleFriendRequest :: "client_env \<Rightarrow> rat \<Rightarrow> int \<Rightarrow> js \<Rightarrow> web_op" where
  "web_handleFriendRequest E requestId action callback = web_call FriendCallbacks W_friendSuccess W_friendError []
     (anychat_friend_handle_request E True (to_int64 requestId) action) callback"

definition web_getPendingFriendRequests :: "client_env \<Rightarrow> int \<Rightarrow> js \<Rightarrow> web_op" where
  "web_getPendingFriendRequests E requestType callback = web_call FriendRequestListCallbacks W_friendRequestListSuccess W_friendRequestListError [JSNull]
     (anychat_friend_get_requests E True requestType) callback"

definition web_deleteFriend :: "client_env \<Rightarrow> string \<Rightarrow> js \<Rightarrow> web_op" where
  "web_deleteFriend E friendId callback = web_call FriendCallbacks W_friendSuccess W_friendError []
     (anychat_friend_delete E True (Some (c_str friendId))) callback"

definition web_getGroupList :: "client_env \<Rightarrow> js \<Rightarrow> web_op" where
  "web_getGroupList E callback = web_call GroupListCallbacks W_groupListSuccess W_groupListError [JSNull]
     (anychat_group_get_list E True) callback"

definition web_createGroup :: "client_env \<Rightarrow> (string list \<Rightarrow> string list) \<Rightarrow> string \<Rightarrow> string list \<Rightarrow> js \<Rightarrow> web_op" where
  "web_createGroup E reads name memberIds callback = web_call GroupCallbacks W_groupInfoSuccess W_groupError []
     (anychat_group_create E True (Some (c_str name)) (Some (js_pointers reads memberIds)) (int (length memberIds))) callback"

definition web_joinGroup :: "client_env \<Rightarrow> string \<Rightarrow> string \<Rightarrow> js \<Rightarrow> web_op" where
  "web_joinGroup E groupId txt callback = web_call GroupCallbacks W_groupSuccess W_groupError []
     (anychat_group_join E True (Some (c_str groupId)) (Some (c_str txt))) callback"

definition web_inviteToGroup :: "client_env \<Rightarrow> (string list \<Rightarrow> string list) \<Rightarrow> string \<Rightarrow> string list \<Rightarrow> js \<Rightarrow> web_op" where
  "web_inviteToGroup E reads groupId userIds callback = web_call GroupCallbacks W_groupSuccess W_groupError []
     (anychat_group_invite E True (Some (c_str groupId)) (Some (js_pointers reads userIds)) (int (length userIds))) callback"

definition web_quitGroup :: "client_env \<Rightarrow> string \<Rightarrow> js \<Rightarrow> web_op" where
  "web_quitGroup E groupId callback = web_call GroupCallbacks W_groupSuccess W_groupError []
     (anychat_group_quit E True (Some (c_str groupId))) callback"

definition web_getGroupMembers :: "client_env \<Rightarrow> string \<Rightarrow> int \<Rightarrow> int \<Rightarrow> js \<Rightarrow> web_op" where
  "web_getGroupMembers E groupId page pageSize callback = web_call GroupMemberCallbacks W_groupMemberListSuccess W_groupMemberListError [JSNull]
     (anychat_group_get_members E True (Some (c_str groupId)) page pageSize) callback"

inductive web_operation :: "client_env \<Rightarrow> js \<Rightarrow> web_op \<Rightarrow> bool" for E callback where
  "web_operation E callback (web_login E p q r t callback)"
| "web_operation E callback (web_register E p q r t u v callback)"
| "web_operation E callback (web_logout E callback)"
| "web_operation E callback (web_refreshToken E p callback)"
| "web_operation E callback (web_sendTextMessage E p q callback)"
| "web_operation E callback (web_getMessageHistory E p q r callback)"
| "web_operation E callback (web_markMessageRead E p q callback)"
| "web_operation E callback (web_getConversationList E callback)"
| "web_operation E callback (web_markConversationRead E p callback)"
| "web_operation E callback (web_setConversationPinned E p q callback)"
| "web_operation E callback (web_setConversationMuted E p q callback)"
| "web_operation E callback (web_deleteConversation E p callback)"
| "web_operation E callback (web_getFriendList E callback)"
| "web_operation E callback (web_sendFriendRequest E p q r callback)"
| "web_operation E callback (web_handleFriendRequest E p q callback)"
| "web_operation E callback (web_getPendingFriendRequests E p callback)"
| "web_operation E callback (web_deleteFriend E p callback)"
| "web_operation E callback (web_getGroupList E callback)"
| "web_operation E callback (web_createGroup E p q r callback)"
| "web_operation E callback (web_joinGroup E p q callback)"
| "web_operation E callback (web_inviteToGroup E p q r callback)"
| "web_operation E callback (web_quitGroup E p callback)"
| "web_operation E callback (web_getGroupMembers E p q r callback)"

lemmas web_operation_defs = web_login_def web_register_def web_logout_def web_refreshToken_def
  web_sendTextMessage_def web_getMessageHistory_def web_markMessageRead_def web_getConversationList_def
  web_markConversationRead_def web_setConversationPinned_def web_setConversationMuted_def web_deleteConversation_def
  web_getFriendList_def web_sendFriendRequest_def web_handleFriendRequest_def web_getPendingFriendRequests_def
  web_deleteFriend_def web_getGroupList_def web_createGroup_def web_joinGroup_def
  web_inviteToGroup_def web_quitGroup_def web_getGroupMembers_def

lemmas wrapper_defs = connectionStateCallbackWrapper_def authSuccessCallbackWrapper_def authErrorCallbackWrapper_def
  resultSuccessCallbackWrapper_def resultErrorCallbackWrapper_def authExpiredCallbackWrapper_def
  messageSuccessCallbackWrapper_def messageErrorCallbackWrapper_def messageListSuccessCallbackWrapper_def
  messageListErrorCallbackWrapper_def messageReceivedCallbackWrapper_def convListSuccessCallbackWrapper_def
  convListErrorCallbackWrapper_def convSuccessCallbackWrapper_def convErrorCallbackWrapper_def
  convUpdatedCallbackWrapper_def friendListSuccessCallbackWrapper_def friendListErrorCallbackWrapper_def
  friendRequestListSuccessCallbackWrapper_def friendRequestListErrorCallbackWrapper_def friendSuccessCallbackWrapper_def
  friendErrorCallbackWrapper_def friendRequestCallbackWrapper_def friendListChangedFromFriendWrapper_def
  friendListChangedFromDeletedWrapper_def friendListChangedFromRequestWrapper_def groupListSuccessCallbackWrapper_def
  groupListErrorCallbackWrapper_def groupSuccessCallbackWrapper_def groupErrorCallbackWrapper_def
  groupInfoSuccessCallbackWrapper_def groupMemberListSuccessCallbackWrapper_def groupMemberListErrorCallbackWrapper_def
  groupInvitedCallbackWrapper_def groupUpdatedCallbackWrapper_def

section \<open>Every JavaScript function is called once\<close>

text \<open>The setters do not touch the maps.\<close>

inductive web_setter :: "web_op \<Rightarrow> bool" where
  "web_setter (web_setConnectionCallback callback)"
| "web_setter (web_setAuthExpiredCallback callback)"
| "web_setter (web_setMessageReceivedCallback callback)"
| "web_setter (web_setConversationUpdatedCallback callback)"
| "web_setter (web_setFriendRequestCallback callback)"
| "web_setter (web_setFriendListChangedCallback callback)"
| "web_setter (web_setGroupInvitedCallback callback)"
| "web_setter (web_setGroupUpdatedCallback callback)"

lemmas web_setter_defs = web_setConnectionCallback_def web_setAuthExpiredCallback_def web_setMessageReceivedCallback_def
  web_setConversationUpdatedCallback_def web_setFriendRequestCallback_def web_setFriendListChangedCallback_def
  web_setGroupInvitedCallback_def web_setGroupUpdatedCallback_def store_and_refresh_def

lemma web_setter_keeps:
  assumes "web_setter op" and "op st = (st', calls, a)"
  shows "tables st' = tables st \<and> nextCallbackId st' = nextCallbackId st \<and> calls = []"
  using assms by (cases rule: web_setter.cases) (auto simp: web_setter_defs)

text \<open>The operations with the functions they were given, in order; what JavaScript was called with;
  the store. The C function of an operation may be any, and the C layer may call any wrapper with
  any \<open>userdata\<close> at any time.\<close>

inductive web_runs :: "js list \<Rightarrow> js_call list \<Rightarrow> callback_store \<Rightarrow> bool" where
  web_start: "web_runs [] [] g_callbacks"
| web_operated: "web_runs cbs tr st \<Longrightarrow> web_call t s e nulls f callback st = (st', calls, a) \<Longrightarrow>
    web_runs (cbs @ [callback]) (tr @ calls) st'"
| web_called: "web_runs cbs tr st \<Longrightarrow> web_invoked iv st = (st', calls) \<Longrightarrow> web_runs cbs (tr @ calls) st'"
| web_set: "web_runs cbs tr st \<Longrightarrow> web_setter op \<Longrightarrow> op st = (st', calls, a) \<Longrightarrow> web_runs cbs (tr @ calls) st'"

fun answers_call :: "int \<Rightarrow> js_call \<Rightarrow> bool" where
  "answers_call k (JSCall n callback args) \<longleftrightarrow> n = Some k"

definition waiting :: "int \<Rightarrow> callback_store \<Rightarrow> bool" where
  "waiting k st \<longleftrightarrow> (\<exists>t. tables st t k \<noteq> None)"

definition web_inv :: "js list \<Rightarrow> js_call list \<Rightarrow> callback_store \<Rightarrow> bool" where
  "web_inv cbs tr st \<longleftrightarrow> nextCallbackId st = int (length cbs) + 1
     \<and> (\<forall>t k. tables st t k \<noteq> None \<longrightarrow> 1 \<le> k \<and> k \<le> int (length cbs) \<and> tables st t k = Some (cbs ! nat (k - 1)))
     \<and> (\<forall>t t' k. tables st t k \<noteq> None \<longrightarrow> tables st t' k \<noteq> None \<longrightarrow> t = t')
     \<and> (\<forall>k. times (answers_call k) tr = (if 1 \<le> k \<and> k \<le> int (length cbs) \<and> \<not> waiting k st then 1 else 0))
     \<and> (\<forall>k callback args. JSCall (Some k) callback args \<in> set tr \<longrightarrow> 1 \<le> k \<and> k \<le> int (length cbs) \<and> callback = cbs ! nat (k - 1))"

lemma tables_set_entry [simp]:
  "tables (set_entry t k v st) t' k' = (if t' = t \<and> k' = k then v else tables st t' k')"
  "nextCallbackId (set_entry t k v st) = nextCallbackId st"
  by (simp_all add: set_entry_def)

lemma web_invD:
  assumes "web_inv cbs tr st"
  shows "tables st t k = Some c \<Longrightarrow> 1 \<le> k \<and> k \<le> int (length cbs) \<and> c = cbs ! nat (k - 1)"
    and "tables st t k \<noteq> None \<Longrightarrow> tables st t' k \<noteq> None \<Longrightarrow> t = t'"
    and "JSCall (Some k) callback args \<in> set tr \<Longrightarrow> 1 \<le> k \<and> k \<le> int (length cbs) \<and> callback = cbs ! nat (k - 1)"
    and "times (answers_call k) tr = (if 1 \<le> k \<and> k \<le> int (length cbs) \<and> \<not> waiting k st then 1 else 0)"
  using assms unfolding web_inv_def by (metis option.distinct(1) option.inject, blast, blast, blast)

lemma nth_old: "1 \<le> k \<Longrightarrow> k \<le> int (length cbs) \<Longrightarrow> (cbs @ [c]) ! nat (k - 1) = cbs ! nat (k - 1)"
  by (subst nth_append) auto

lemma web_inv_answer:
  assumes inv: "web_inv cbs tr st" and eq: "answer_js t u args st = (st', calls)"
  shows "web_inv cbs (tr @ calls) st'"
proof (cases "tables st t (callback_id u)")
  case None
  with assms show ?thesis by (simp add: answer_js_def Let_def)
next
  case (Some cb)
  let ?k = "callback_id u"
  have st': "st' = set_entry t ?k None st" and calls: "calls = [JSCall (Some ?k) cb args]"
    using eq Some by (simp_all add: answer_js_def Let_def)
  have k: "1 \<le> ?k" "?k \<le> int (length cbs)" "cb = cbs ! nat (?k - 1)" and was: "waiting ?k st"
    using inv Some by (force simp: web_inv_def waiting_def)+
  have one: "t' = t" if "tables st t' ?k \<noteq> None" for t'
    using inv that Some unfolding web_inv_def by blast
  have now: "waiting k st' \<longleftrightarrow> waiting k st \<and> k \<noteq> ?k" for k
    using one by (auto simp: st' waiting_def)
  have times: "times (answers_call k) (tr @ calls) = (if 1 \<le> k \<and> k \<le> int (length cbs) \<and> \<not> waiting k st' then 1 else 0)" for k
    using inv was k unfolding now by (auto simp: web_inv_def calls)
  show ?thesis
    using inv k times unfolding web_inv_def by (auto simp: st' calls)
qed

lemma web_run_shape:
  "(\<exists>t u' args'. web_run f u mem args st = answer_js t u' args' st) \<or> (\<exists>c args'. web_run f u mem args st = tell_js c args' st)
   \<or> web_run f u mem args st = (st, [])"
  by (cases f; simp add: wrapper_defs split: option.split; blast)

lemma web_inv_tell: "web_inv cbs tr st \<Longrightarrow> tell_js c args st = (st', calls) \<Longrightarrow> web_inv cbs (tr @ calls) st'"
  by (cases "c = JSNull"; auto simp: tell_js_def web_inv_def; blast)

lemma web_inv_invoked:
  assumes "web_inv cbs tr st" and "web_invoked iv st = (st', calls)"
  shows "web_inv cbs (tr @ calls) st'"
proof (cases "web_at (iv_function iv)")
  case None
  with assms show ?thesis by (simp add: web_invoked_def)
next
  case (Some f)
  then have "web_run f (iv_userdata iv) (iv_memory iv) (iv_args iv) st = (st', calls)"
    using assms(2) by (simp add: web_invoked_def)
  with web_run_shape [of f "iv_userdata iv" "iv_memory iv" "iv_args iv" st] show ?thesis
    using web_inv_answer [OF assms(1)] web_inv_tell [OF assms(1)] assms(1) by (elim disjE exE) auto
qed

text \<open>One more operation: what its maps and its calls have to be.\<close>

lemma web_inv_grow:
  assumes inv: "web_inv cbs tr st" and k: "k = int (length cbs) + 1"
    and "nextCallbackId st' = k + 1" and calls: "calls = (if done_at_once then [JSCall (Some k) callback args] else [])"
    and tabs: "\<And>t' k'. tables st' t' k' = (if t' = t \<and> k' = k \<and> \<not> done_at_once then Some callback else tables st t' k')"
  shows "web_inv (cbs @ [callback]) (tr @ calls) st'"
proof -
  have old: "tables st t' k' = Some ((cbs @ [callback]) ! nat (k' - 1)) \<and> 1 \<le> k' \<and> k' < k"
    if "tables st t' k' \<noteq> None" for t' k'
    using that web_invD(1) [OF inv, of t' k'] nth_old [of k' cbs callback] by (auto simp: k)
  have heard: "callback' = (cbs @ [callback]) ! nat (k' - 1) \<and> 1 \<le> k' \<and> k' < k"
    if "JSCall (Some k') callback' args' \<in> set tr" for k' callback' args'
    using web_invD(3) [OF inv that] nth_old [of k' cbs callback] by (auto simp: k)
  have last: "(cbs @ [callback]) ! nat (k - 1) = callback" by (simp add: k nth_append)
  have waits: "waiting k' st' \<longleftrightarrow> waiting k' st \<or> k' = k \<and> \<not> done_at_once" for k'
    by (auto simp: waiting_def tabs)
  have new: "\<not> waiting k st" using old unfolding waiting_def by blast
  have one: "t' = t''" if "tables st t' k' \<noteq> None" "tables st t'' k' \<noteq> None" for t' t'' k'
    using web_invD(2) [OF inv that] .
  have times: "times (answers_call k') tr = (if 1 \<le> k' \<and> k' < k \<and> \<not> waiting k' st then 1 else 0)" for k'
    using web_invD(4) [OF inv, of k'] waits [of k'] new by (auto simp: k)
  show ?thesis
    unfolding web_inv_def
  proof (intro conjI allI impI)
    show "nextCallbackId st' = int (length (cbs @ [callback])) + 1" using assms(3) k by simp
  next
    fix t' k' assume "tables st' t' k' \<noteq> None"
    then consider "tables st t' k' \<noteq> None" "k' \<noteq> k" | "k' = k" "tables st' t' k' = Some callback"
      using old [of t' k'] by (auto simp: tabs split: if_splits)
    then have "1 \<le> k' \<and> k' \<le> k \<and> tables st' t' k' = Some ((cbs @ [callback]) ! nat (k' - 1))"
    proof cases
      case 1
      with old show ?thesis by (simp add: tabs) fastforce
    next
      case 2
      then show ?thesis using last by (simp add: k)
    qed
    then show "1 \<le> k'" "k' \<le> int (length (cbs @ [callback]))" "tables st' t' k' = Some ((cbs @ [callback]) ! nat (k' - 1))"
      by (simp_all add: k)
  next
    fix t' t'' k' assume "tables st' t' k' \<noteq> None" "tables st' t'' k' \<noteq> None"
    then show "t' = t''" using one [of t' k' t''] old [of t' k'] old [of t'' k'] by (auto simp: tabs split: if_splits)
  next
    fix k'
    show "times (answers_call k') (tr @ calls) = (if 1 \<le> k' \<and> k' \<le> int (length (cbs @ [callback])) \<and> \<not> waiting k' st' then 1 else 0)"
      using new by (auto simp: times waits calls k)
  next
    fix k' callback' args' assume "JSCall (Some k') callback' args' \<in> set (tr @ calls)"
    then consider "JSCall (Some k') callback' args' \<in> set tr" | "k' = k" "callback' = callback"
      by (auto simp: calls split: if_splits)
    then have "1 \<le> k' \<and> k' \<le> k \<and> callback' = (cbs @ [callback]) ! nat (k' - 1)"
      by cases (use heard last in \<open>fastforce simp: k\<close>)+
    then show "1 \<le> k'" "k' \<le> int (length (cbs @ [callback]))" "callback' = (cbs @ [callback]) ! nat (k' - 1)"
      by (simp_all add: k)
  qed
qed

lemma web_inv_call:
  assumes inv: "web_inv cbs tr st" and short: "int (length cbs) < 2 ^ 31 - 2"
    and eq: "web_call t s e nulls f callback st = (st', calls, a)"
  shows "web_inv (cbs @ [callback]) (tr @ calls) st'"
proof -
  let ?k = "int (length cbs) + 1"
  have k: "nextCallbackId st = ?k" using inv by (simp add: web_inv_def)
  have next': "wrap32 (?k + 1) = ?k + 1" using short by (intro wrap32_id) (simp add: is_i32_def)
  have fresh: "tables st t' ?k = None" for t' using inv unfolding web_inv_def by force
  define res where "res = f (nat ?k) (Some \<lparr>cc_userdata = userdata_of ?k, cc_on_success = web_addr s, cc_on_error = web_addr e\<rparr>)"
  have parts: "nextCallbackId st' = ?k + 1"
    "calls = (if fst res \<noteq> ANYCHAT_OK then [JSCall (Some ?k) callback (JSString (dispatchErrorMessage (fst res)) # nulls)] else [])"
    "tables st' t' k' = (if t' = t \<and> k' = ?k \<and> \<not> fst res \<noteq> ANYCHAT_OK then Some callback else tables st t' k')" for t' k'
    using eq next' fresh unfolding web_call_def Let_def k res_def [symmetric] by (auto split: if_splits)
  show ?thesis by (rule web_inv_grow [OF inv refl parts])
qed

lemma web_runs_inv: "web_runs cbs tr st \<Longrightarrow> int (length cbs) < 2 ^ 31 - 1 \<Longrightarrow> web_inv cbs tr st"
proof (induction rule: web_runs.induct)
  case web_start
  show ?case by (simp add: web_inv_def g_callbacks_def waiting_def)
next
  case (web_operated cbs tr st t s e nulls f callback st' calls a)
  then show ?case by (auto intro: web_inv_call)
next
  case (web_called cbs tr st iv st' calls)
  then show ?case by (auto intro: web_inv_invoked)
next
  case (web_set cbs tr st op st' calls a)
  then show ?case using web_setter_keeps [OF web_set.hyps(2,3)] by (auto simp: web_inv_def waiting_def)
qed

text \<open>
  C39: The JavaScript function given to an operation is called at most once, whatever the C layer
  does (refuse, answer, answer twice, answer with a foreign number): it has been called once
  exactly when it is no longer in the store, and what is called for the k-th operation is the
  function that operation was given. The bound is that of the counter.
\<close>

theorem web_function_called_once:
  assumes "web_runs cbs tr st" and "int (length cbs) < 2 ^ 31 - 1" and "1 \<le> k" and "k \<le> int (length cbs)"
  shows "times (answers_call k) tr = (if waiting k st then 0 else 1)
    \<and> (\<forall>callback args. JSCall (Some k) callback args \<in> set tr \<longrightarrow> callback = cbs ! nat (k - 1))"
  using web_runs_inv [OF assms(1,2)] assms(3,4) unfolding web_inv_def by simp

text \<open>A logout over the C interface as it is.\<close>

theorem web_function_called_once_witness:
  "\<forall>E. times (answers_call 1) (fst (snd (web_logout E (JSFunction 5) g_callbacks))) = 1"
proof
  fix E
  obtain st' calls a where eq: "web_logout E (JSFunction 5) g_callbacks = (st', calls, a)"
    by (cases "web_logout E (JSFunction 5) g_callbacks")
  have run: "web_runs ([] @ [JSFunction 5]) ([] @ calls) st'"
    by (rule web_operated [OF web_start]) (use eq in \<open>simp add: web_logout_def\<close>)
  have "\<not> waiting 1 st'"
    using eq by (auto simp: web_logout_def web_call_def Let_def anychat_client_logout_def validateCallbackStruct_def
        rejected_def ANYCHAT_OK_def waiting_def g_callbacks_def)
  with web_function_called_once [OF run, of 1] have "times (answers_call 1) calls = 1" by simp
  then show "times (answers_call 1) (fst (snd (web_logout E (JSFunction 5) g_callbacks))) = 1" by (simp add: eq)
qed

section \<open>Over the C interface as it is\<close>

lemma web_operation_shape:
  "web_operation E callback op \<Longrightarrow>
   \<exists>t s e nulls f. op = web_call t s e nulls f callback \<and> (\<forall>i c. c_function E i (Some c) (f i (Some c)))"
  by (induction rule: web_operation.induct)
    (simp only: web_operation_defs, (rule exI)+, rule conjI, rule refl, intro allI, simp only: c_function_def,
      blast intro: c_function_intros)+

text \<open>Every operation fails at once: the function is called with the error, nothing is stored, the
  client does nothing.\<close>

lemma web_operation_fails:
  assumes "web_operation E callback op" and "tables st = tables g_callbacks"
  obtains code nulls where "code \<noteq> ANYCHAT_OK"
    and "op st = (st\<lparr>nextCallbackId := wrap32 (nextCallbackId st + 1)\<rparr>,
      [JSCall (Some (nextCallbackId st)) callback (JSString (dispatchErrorMessage code) # nulls)], skip)"
proof -
  from web_operation_shape [OF assms(1)] obtain t s e nulls f
    where op: "op = web_call t s e nulls f callback" and c: "\<And>i c. c_function E i (Some c) (f i (Some c))" by blast
  let ?c = "\<lparr>cc_userdata = userdata_of (nextCallbackId st), cc_on_success = web_addr s, cc_on_error = web_addr e\<rparr>"
  have r: "refused (f (nat (nextCallbackId st)) (Some ?c))" by (rule c_function_refused [OF c])
  have "tables st = tables (set_entry t (nextCallbackId st) None (set_entry t (nextCallbackId st) (Some callback) st))"
    using assms(2) by (auto simp: set_entry_def g_callbacks_def)
  then have "set_entry t (nextCallbackId st) None (set_entry t (nextCallbackId st) (Some callback)
      (st\<lparr>nextCallbackId := wrap32 (nextCallbackId st + 1)\<rparr>)) = st\<lparr>nextCallbackId := wrap32 (nextCallbackId st + 1)\<rparr>"
    by (simp add: set_entry_def)
  then show thesis
    using r by (intro that [of "fst (f (nat (nextCallbackId st)) (Some ?c))" nulls])
      (simp_all add: refused_def op web_call_def Let_def)
qed

text \<open>A message that reaches a client whose binding has a function for messages: the function is
  called once, with an object that has the whole content and the ids up to 63 characters.\<close>

definition web_message_listener :: AnyChatMessageListener_C where
  "web_message_listener = \<lparr>Lmsg_userdata = nullptr, Lmsg_on_message_received = web_addr W_messageReceived,
     Lmsg_on_message_read_receipt = nullptr, Lmsg_on_message_recalled = nullptr, Lmsg_on_message_deleted = nullptr,
     Lmsg_on_message_edited = nullptr, Lmsg_on_message_typing = nullptr, Lmsg_on_message_mentioned = nullptr\<rparr>"

lemma refreshMessageListener_installs:
  "messageReceivedCallback st \<noteq> JSNull \<Longrightarrow>
   refreshMessageListener st = anychat_message_set_listener True (Some web_message_listener)"
  by (simp add: refreshMessageListener_def web_message_listener_def)

lemma web_hears_message:
  assumes "c_listening s = no_listeners\<lparr>ls_message := Some web_message_listener\<rparr>"
    and "messageReceivedCallback st \<noteq> JSNull"
  obtains iv fields where "relay (emit (MessageReceived m)) s = (s, [CNotified iv], [])"
    and "web_invoked iv st = (st, [JSCall None (messageReceivedCallback st) [JSObject fields]])"
    and "map_of fields ''content'' = Some (JSString (c_str (m_content m)))"
    and "map_of fields ''messageId'' = Some (JSString (take 63 (c_str (m_message_id m))))"
    and "map_of fields ''convId'' = Some (JSString (take 63 (c_str (m_conv_id m))))"
proof -
  obtain c mem where conv: "messageToCStruct m zero_Message (c_heap s) = (c, mem)"
    by (cases "messageToCStruct m zero_Message (c_heap s)")
  let ?iv = "\<lparr>iv_function = web_addr W_messageReceived, iv_userdata = nullptr, iv_args = [AMessage c], iv_memory = mem\<rparr>"
  have r: "relay (emit (MessageReceived m)) s = (s, [CNotified ?iv], [])"
    using relay_message [OF assms(1), of m] conv by (simp add: web_message_listener_def nullptr_def)
  obtain fields where f: "messageToJS mem c = JSObject fields" by (simp add: messageToJS_def)
  have "web_invoked ?iv st = (st, [JSCall None (messageReceivedCallback st) [JSObject fields]])"
    using f assms(2) by (simp add: web_invoked_def messageReceivedCallbackWrapper_def tell_js_def arg_message_def del: web_addr.simps)
  moreover have "seen_as mem m c" by (rule seen_as_converted [OF conv])
  ultimately show thesis
    using text_at_message [OF conv] f by (intro that [OF r]) (auto simp: messageToJS_def seen_as_def)
qed

end
