(* ===== verification/JniBinding.thy ===== *)
theory JniBinding
  imports Bindings
begin

text \<open>
  The Java binding for Android (packages/android/src/main/cpp). Every native operation makes a
  \<open>CallbackContext\<close> on the heap with a global reference to the Java callback, passes its address to
  the C interface as \<open>userdata\<close>, and deletes it when the C function refuses; otherwise the static
  function that the C layer calls back deletes it. The contexts of listeners are kept in static
  maps. The Java virtual machine is a parameter: which classes and methods it finds and whether a
  native thread can be attached.
\<close>

section \<open>Java\<close>

datatype jvalue =
    JNull
  | JString string
  | JInt int
  | JLong int
  | JBoolean bool
  | JObject string "jvalue list"
  | JArrayList "jvalue list"

type_synonym jobject = nat

text \<open>\<open>callback_method\<close> answers \<open>GetMethodID\<close> for the class of a callback object.\<close>

record jvm =
  find_class :: "string \<Rightarrow> bool"
  find_constructor :: "string \<Rightarrow> string \<Rightarrow> bool"
  callback_method :: "jobject \<Rightarrow> string \<Rightarrow> string \<Rightarrow> bool"
  attaches :: bool

definition new_object :: "jvm \<Rightarrow> string \<Rightarrow> string \<Rightarrow> jvalue list \<Rightarrow> jvalue" where
  "new_object V cls sig args = (if find_class V cls \<and> find_constructor V cls sig then JObject cls args else JNull)"

text \<open>\<open>(jboolean)\<close> of an \<open>int32_t\<close> keeps eight bits.\<close>

definition jboolean :: "int \<Rightarrow> jvalue" where
  "jboolean n = JBoolean (n mod 256 \<noteq> 0)"

definition toJString :: "string option \<Rightarrow> jvalue" where
  "toJString s = (case s of None \<Rightarrow> JNull | Some t \<Rightarrow> JString (c_str t))"

text \<open>\<open>JStringWrapper::c_str\<close>: a null Java string is the empty one.\<close>

definition jstr :: "string option \<Rightarrow> string" where
  "jstr s = (case s of None \<Rightarrow> [] | Some t \<Rightarrow> c_str t)"

section \<open>From C structs to Java objects\<close>

definition convertAuthToken :: "jvm \<Rightarrow> AnyChatAuthToken_C \<Rightarrow> jvalue" where
  "convertAuthToken V tok = new_object V ''com/anychat/sdk/models/AuthToken'' ''(Ljava/lang/String;Ljava/lang/String;J)V''
     [JString (c_str (Ctok_access_token tok)), JString (c_str (Ctok_refresh_token tok)),
      JLong (Ctok_expires_at_ms tok)]"

definition convertVerificationCodeResult :: "jvm \<Rightarrow> AnyChatVerificationCodeResult_C \<Rightarrow> jvalue" where
  "convertVerificationCodeResult V res = new_object V ''com/anychat/sdk/models/VerificationCodeResult'' ''(Ljava/lang/String;J)V''
     [JString (c_str (Cvc_code_id res)), JLong (Cvc_expires_in res)]"

definition convertAuthDevice :: "jvm \<Rightarrow> AnyChatAuthDevice_C \<Rightarrow> jvalue" where
  "convertAuthDevice V device = new_object V ''com/anychat/sdk/models/AuthDevice'' ''(Ljava/lang/String;ILjava/lang/String;Ljava/lang/String;JZ)V''
     [JString (c_str (Cad_device_id device)), JInt (Cad_device_type device),
      JString (c_str (Cad_client_version device)), JString (c_str (Cad_last_login_ip device)),
      JLong (Cad_last_login_at_ms device), jboolean (Cad_is_current device)]"

definition convertUserInfo :: "jvm \<Rightarrow> AnyChatUserInfo_C \<Rightarrow> jvalue" where
  "convertUserInfo V info = new_object V ''com/anychat/sdk/models/UserInfo'' ''(Ljava/lang/String;Ljava/lang/String;Ljava/lang/String;)V''
     [JString (c_str (Cui_user_id info)), JString (c_str (Cui_username info)),
      JString (c_str (Cui_avatar_url info))]"

definition convertMessage :: "jvm \<Rightarrow> heap \<Rightarrow> AnyChatMessage_C \<Rightarrow> jvalue" where
  "convertMessage V mem msg = new_object V ''com/anychat/sdk/models/Message'' ''(Ljava/lang/String;Ljava/lang/String;Ljava/lang/String;Ljava/lang/String;IILjava/lang/String;JLjava/lang/String;JIIZ)V''
     [JString (c_str (Cm_message_id msg)), JString (c_str (Cm_local_id msg)),
      JString (c_str (Cm_conv_id msg)), JString (c_str (Cm_sender_id msg)),
      JInt (Cm_content_type msg), JInt (Cm_type msg),
      toJString (if Cm_content msg = nullptr then None else Some (text_at mem (Cm_content msg))),
      JLong (Cm_seq msg), JString (c_str (Cm_reply_to msg)), JLong (Cm_timestamp_ms msg),
      JInt (Cm_status msg), JInt (Cm_send_state msg), jboolean (Cm_is_read msg)]"

definition convertConversation :: "jvm \<Rightarrow> AnyChatConversation_C \<Rightarrow> jvalue" where
  "convertConversation V cv = new_object V ''com/anychat/sdk/models/Conversation'' ''(Ljava/lang/String;ILjava/lang/String;Ljava/lang/String;Ljava/lang/String;JIZZJ)V''
     [JString (c_str (Cc_conv_id cv)), JInt (Cc_conv_type cv), JString (c_str (Cc_target_id cv)),
      JString (c_str (Cc_last_msg_id cv)), JString (c_str (Cc_last_msg_text cv)),
      JLong (Cc_last_msg_time_ms cv), JInt (Cc_unread_count cv), jboolean (Cc_is_pinned cv),
      jboolean (Cc_is_muted cv), JLong (Cc_updated_at_ms cv)]"

definition convertFriend :: "jvm \<Rightarrow> AnyChatFriend_C \<Rightarrow> jvalue" where
  "convertFriend V f = new_object V ''com/anychat/sdk/models/Friend'' ''(Ljava/lang/String;Ljava/lang/String;JZLcom/anychat/sdk/models/UserInfo;)V''
     [JString (c_str (Cf_user_id f)), JString (c_str (Cf_remark f)), JLong (Cf_updated_at_ms f),
      jboolean (Cf_is_deleted f), convertUserInfo V (Cf_user_info f)]"

definition convertFriendRequest :: "jvm \<Rightarrow> AnyChatFriendRequest_C \<Rightarrow> jvalue" where
  "convertFriendRequest V req = new_object V ''com/anychat/sdk/models/FriendRequest'' ''(JLjava/lang/String;Ljava/lang/String;Ljava/lang/String;IIJLcom/anychat/sdk/models/UserInfo;)V''
     [JLong (Cfr_request_id req), JString (c_str (Cfr_from_user_id req)),
      JString (c_str (Cfr_to_user_id req)), JString (c_str (Cfr_message req)), JInt (Cfr_source req),
      JInt (Cfr_status req), JLong (Cfr_created_at_ms req),
      convertUserInfo V (Cfr_from_user_info req)]"

definition convertGroup :: "jvm \<Rightarrow> AnyChatGroup_C \<Rightarrow> jvalue" where
  "convertGroup V g = new_object V ''com/anychat/sdk/models/Group'' ''(Ljava/lang/String;Ljava/lang/String;Ljava/lang/String;Ljava/lang/String;IIZJ)V''
     [JString (c_str (Cg_group_id g)), JString (c_str (Cg_name g)), JString (c_str (Cg_avatar_url g)),
      JString (c_str (Cg_owner_id g)), JInt (Cg_member_count g), JInt (Cg_my_role g),
      jboolean (Cg_join_verify g), JLong (Cg_updated_at_ms g)]"

definition convertGroupMember :: "jvm \<Rightarrow> AnyChatGroupMember_C \<Rightarrow> jvalue" where
  "convertGroupMember V m = new_object V ''com/anychat/sdk/models/GroupMember'' ''(Ljava/lang/String;Ljava/lang/String;IZJLcom/anychat/sdk/models/UserInfo;)V''
     [JString (c_str (Cgmb_user_id m)), JString (c_str (Cgmb_group_nickname m)), JInt (Cgmb_role m),
      jboolean (Cgmb_is_muted m), JLong (Cgmb_joined_at_ms m), convertUserInfo V (Cgmb_user_info m)]"

text \<open>A Java list of the elements that could be converted.\<close>

definition java_list :: "('c \<Rightarrow> jvalue) \<Rightarrow> 'c list \<Rightarrow> jvalue" where
  "java_list convert xs = JArrayList (filter (\<lambda>v. v \<noteq> JNull) (map convert xs))"

definition convertMessageList :: "jvm \<Rightarrow> heap \<Rightarrow> c_list option \<Rightarrow> jvalue" where
  "convertMessageList V mem l = (case l of None \<Rightarrow> JNull | Some l \<Rightarrow> java_list (convertMessage V mem) (read_items messages_in mem l))"

definition convertConversationList :: "jvm \<Rightarrow> heap \<Rightarrow> c_list option \<Rightarrow> jvalue" where
  "convertConversationList V mem l = (case l of None \<Rightarrow> JNull | Some l \<Rightarrow> java_list (convertConversation V) (read_items conversations_in mem l))"

definition convertFriendList :: "jvm \<Rightarrow> heap \<Rightarrow> c_list option \<Rightarrow> jvalue" where
  "convertFriendList V mem l = (case l of None \<Rightarrow> JNull | Some l \<Rightarrow> java_list (convertFriend V) (read_items friends_in mem l))"

definition convertGroupList :: "jvm \<Rightarrow> heap \<Rightarrow> c_list option \<Rightarrow> jvalue" where
  "convertGroupList V mem l = (case l of None \<Rightarrow> JNull | Some l \<Rightarrow> java_list (convertGroup V) (read_items groups_in mem l))"

definition convertAuthDeviceList :: "jvm \<Rightarrow> heap \<Rightarrow> c_list option \<Rightarrow> jvalue" where
  "convertAuthDeviceList V mem l = (case l of None \<Rightarrow> JNull | Some l \<Rightarrow> java_list (convertAuthDevice V) (read_items devices_in mem l))"

section \<open>Contexts\<close>

text \<open>The three static maps from handles to the contexts of listeners.\<close>

datatype jni_table = ConnectionCallbacks | MessageListenerCallbacks | ConvListenerCallbacks

text \<open>\<open>contexts\<close>: the contexts that are alive, each with its callback (None for null).\<close>

record jni_state =
  contexts :: "addr \<Rightarrow> jobject option option"
  next_context :: addr
  g_clientHandles :: "int set"
  owners :: "jni_table \<Rightarrow> int \<Rightarrow> addr option"

definition JNI_OnLoad :: jni_state where
  "JNI_OnLoad = \<lparr>contexts = \<lambda>_. None, next_context = 1, g_clientHandles = {}, owners = \<lambda>_ _. None\<rparr>"

definition new_context :: "jobject option \<Rightarrow> jni_state \<Rightarrow> addr \<times> jni_state" where
  "new_context callback j = (next_context j,
     j\<lparr>contexts := (contexts j)(next_context j \<mapsto> callback), next_context := Suc (next_context j)\<rparr>)"

text \<open>The destructor deletes the global reference too. Deleting what is not alive is undefined
  behaviour, None.\<close>

definition delete_context :: "addr \<Rightarrow> jni_state \<Rightarrow> jni_state option" where
  "delete_context p j = (case contexts j p of None \<Rightarrow> None | Some cb \<Rightarrow> Some (j\<lparr>contexts := (contexts j)(p := None)\<rparr>))"

definition delete_owned :: "addr option \<Rightarrow> jni_state \<Rightarrow> jni_state option" where
  "delete_owned p j = (case p of None \<Rightarrow> Some j | Some q \<Rightarrow> delete_context q j)"

datatype java_call = JavaCall jobject string string "jvalue list"

type_synonym jni_fn = "jni_state \<Rightarrow> (jni_state \<times> java_call list) option"

section \<open>What the C layer calls\<close>

definition call_method :: "jvm \<Rightarrow> jobject \<Rightarrow> string \<Rightarrow> string \<Rightarrow> jvalue list \<Rightarrow> java_call list" where
  "call_method V cb method sig args = (if callback_method V cb method sig then [JavaCall cb method sig args] else [])"

text \<open>The functions of operations: the method is called and the context deleted, unless there is no
  callback or the thread cannot be attached.\<close>

definition complete_java :: "jvm \<Rightarrow> addr \<Rightarrow> string \<Rightarrow> string \<Rightarrow> jvalue list \<Rightarrow> jni_fn" where
  "complete_java V ctx method sig args j =
     (if ctx = nullptr then Some (j, [])
      else case contexts j ctx of
          None \<Rightarrow> None
        | Some None \<Rightarrow> Some (j, [])
        | Some (Some cb) \<Rightarrow>
            if \<not> attaches V then Some (j, [])
            else map_option (\<lambda>j'. (j', call_method V cb method sig args)) (delete_context ctx j))"

text \<open>The functions of listeners keep the context; \<open>args\<close> is None when there is nothing to pass.\<close>

definition notify_java :: "jvm \<Rightarrow> addr \<Rightarrow> string \<Rightarrow> string \<Rightarrow> jvalue list option \<Rightarrow> jni_fn" where
  "notify_java V ctx method sig args j =
     (if ctx = nullptr then Some (j, [])
      else case contexts j ctx of
          None \<Rightarrow> None
        | Some None \<Rightarrow> Some (j, [])
        | Some (Some cb) \<Rightarrow>
            (case args of
               None \<Rightarrow> Some (j, [])
             | Some vs \<Rightarrow> if \<not> attaches V then Some (j, []) else Some (j, call_method V cb method sig vs)))"

text \<open>An object that could not be made is not passed.\<close>

definition when_made :: "jvalue \<Rightarrow> jvalue list option" where
  "when_made v = (if v = JNull then None else Some [v])"

definition connectionStateCallback :: "jvm \<Rightarrow> addr \<Rightarrow> int \<Rightarrow> jni_fn" where
  "connectionStateCallback V userdata state = notify_java V userdata ''onConnectionStateChanged'' ''(I)V'' (Some [JInt state])"

definition authTokenSuccess :: "jvm \<Rightarrow> addr \<Rightarrow> AnyChatAuthToken_C option \<Rightarrow> jni_fn" where
  "authTokenSuccess V userdata tok = complete_java V userdata ''onAuthResult'' ''(ZLcom/anychat/sdk/models/AuthToken;Ljava/lang/String;)V''
     [JBoolean True, case tok of None \<Rightarrow> JNull | Some t \<Rightarrow> convertAuthToken V t, JNull]"

definition authTokenError :: "jvm \<Rightarrow> addr \<Rightarrow> int \<Rightarrow> string option \<Rightarrow> jni_fn" where
  "authTokenError V userdata code error = complete_java V userdata ''onAuthResult'' ''(ZLcom/anychat/sdk/models/AuthToken;Ljava/lang/String;)V'' [JBoolean False, JNull, toJString error]"

definition verificationCodeSuccess :: "jvm \<Rightarrow> addr \<Rightarrow> AnyChatVerificationCodeResult_C option \<Rightarrow> jni_fn" where
  "verificationCodeSuccess V userdata res = complete_java V userdata ''onVerificationCodeResult'' ''(ZLcom/anychat/sdk/models/VerificationCodeResult;Ljava/lang/String;)V''
     [JBoolean True, case res of None \<Rightarrow> JNull | Some r \<Rightarrow> convertVerificationCodeResult V r, JNull]"

definition verificationCodeError :: "jvm \<Rightarrow> addr \<Rightarrow> int \<Rightarrow> string option \<Rightarrow> jni_fn" where
  "verificationCodeError V userdata code error = complete_java V userdata ''onVerificationCodeResult'' ''(ZLcom/anychat/sdk/models/VerificationCodeResult;Ljava/lang/String;)V'' [JBoolean False, JNull, toJString error]"

definition resultSuccess :: "jvm \<Rightarrow> addr \<Rightarrow> jni_fn" where
  "resultSuccess V userdata = complete_java V userdata ''onResult'' ''(ZLjava/lang/String;)V'' [JBoolean True, JNull]"

definition resultError :: "jvm \<Rightarrow> addr \<Rightarrow> int \<Rightarrow> string option \<Rightarrow> jni_fn" where
  "resultError V userdata code error = complete_java V userdata ''onResult'' ''(ZLjava/lang/String;)V'' [JBoolean False, toJString error]"

definition authDeviceListSuccess :: "jvm \<Rightarrow> heap \<Rightarrow> addr \<Rightarrow> c_list option \<Rightarrow> jni_fn" where
  "authDeviceListSuccess V mem userdata l = complete_java V userdata ''onAuthDeviceList'' ''(Ljava/util/List;Ljava/lang/String;)V''
     [convertAuthDeviceList V mem l, JNull]"

definition authDeviceListError :: "jvm \<Rightarrow> addr \<Rightarrow> int \<Rightarrow> string option \<Rightarrow> jni_fn" where
  "authDeviceListError V userdata code error = complete_java V userdata ''onAuthDeviceList'' ''(Ljava/util/List;Ljava/lang/String;)V'' [JNull, toJString error]"

definition messageSuccess :: "jvm \<Rightarrow> addr \<Rightarrow> jni_fn" where
  "messageSuccess V userdata = complete_java V userdata ''onResult'' ''(ZLjava/lang/String;)V'' [JBoolean True, JNull]"

definition messageError :: "jvm \<Rightarrow> addr \<Rightarrow> int \<Rightarrow> string option \<Rightarrow> jni_fn" where
  "messageError V userdata code error = complete_java V userdata ''onResult'' ''(ZLjava/lang/String;)V'' [JBoolean False, toJString error]"

definition messageListSuccess :: "jvm \<Rightarrow> heap \<Rightarrow> addr \<Rightarrow> c_list option \<Rightarrow> jni_fn" where
  "messageListSuccess V mem userdata l = complete_java V userdata ''onMessageList'' ''(Ljava/util/List;Ljava/lang/String;)V''
     [convertMessageList V mem l, JNull]"

definition messageListError :: "jvm \<Rightarrow> addr \<Rightarrow> int \<Rightarrow> string option \<Rightarrow> jni_fn" where
  "messageListError V userdata code error = complete_java V userdata ''onMessageList'' ''(Ljava/util/List;Ljava/lang/String;)V'' [JNull, toJString error]"

definition messageReceivedCallback :: "jvm \<Rightarrow> heap \<Rightarrow> addr \<Rightarrow> AnyChatMessage_C option \<Rightarrow> jni_fn" where
  "messageReceivedCallback V mem userdata msg = notify_java V userdata ''onMessageReceived'' ''(Lcom/anychat/sdk/models/Message;)V''
     (case msg of None \<Rightarrow> None | Some m \<Rightarrow> when_made (convertMessage V mem m))"

definition convListSuccess :: "jvm \<Rightarrow> heap \<Rightarrow> addr \<Rightarrow> c_list option \<Rightarrow> jni_fn" where
  "convListSuccess V mem userdata l = complete_java V userdata ''onConversationList'' ''(Ljava/util/List;Ljava/lang/String;)V''
     [convertConversationList V mem l, JNull]"

definition convListError :: "jvm \<Rightarrow> addr \<Rightarrow> int \<Rightarrow> string option \<Rightarrow> jni_fn" where
  "convListError V userdata code error = complete_java V userdata ''onConversationList'' ''(Ljava/util/List;Ljava/lang/String;)V'' [JNull, toJString error]"

definition convSuccess :: "jvm \<Rightarrow> addr \<Rightarrow> jni_fn" where
  "convSuccess V userdata = complete_java V userdata ''onResult'' ''(ZLjava/lang/String;)V'' [JBoolean True, JNull]"

definition convError :: "jvm \<Rightarrow> addr \<Rightarrow> int \<Rightarrow> string option \<Rightarrow> jni_fn" where
  "convError V userdata code error = complete_java V userdata ''onResult'' ''(ZLjava/lang/String;)V'' [JBoolean False, toJString error]"

definition convUpdatedCallback :: "jvm \<Rightarrow> addr \<Rightarrow> AnyChatConversation_C option \<Rightarrow> jni_fn" where
  "convUpdatedCallback V userdata cv = notify_java V userdata ''onConversationUpdated'' ''(Lcom/anychat/sdk/models/Conversation;)V''
     (case cv of None \<Rightarrow> None | Some c \<Rightarrow> when_made (convertConversation V c))"

definition friendListSuccess :: "jvm \<Rightarrow> heap \<Rightarrow> addr \<Rightarrow> c_list option \<Rightarrow> jni_fn" where
  "friendListSuccess V mem userdata l = complete_java V userdata ''onFriendList'' ''(Ljava/util/List;Ljava/lang/String;)V''
     [convertFriendList V mem l, JNull]"

definition friendListError :: "jvm \<Rightarrow> addr \<Rightarrow> int \<Rightarrow> string option \<Rightarrow> jni_fn" where
  "friendListError V userdata code error = complete_java V userdata ''onFriendList'' ''(Ljava/util/List;Ljava/lang/String;)V'' [JNull, toJString error]"

definition friendRequestListSuccess :: "jvm \<Rightarrow> heap \<Rightarrow> addr \<Rightarrow> c_list option \<Rightarrow> jni_fn" where
  "friendRequestListSuccess V mem userdata l = complete_java V userdata ''onFriendRequestList'' ''(Ljava/util/List;Ljava/lang/String;)V''
     [case l of None \<Rightarrow> JNull | Some l \<Rightarrow> if Li_count l > 0 then java_list (convertFriendRequest V) (read_items friend_requests_in mem l) else JNull, JNull]"

definition friendRequestListError :: "jvm \<Rightarrow> addr \<Rightarrow> int \<Rightarrow> string option \<Rightarrow> jni_fn" where
  "friendRequestListError V userdata code error = complete_java V userdata ''onFriendRequestList'' ''(Ljava/util/List;Ljava/lang/String;)V'' [JNull, toJString error]"

definition friendSuccess :: "jvm \<Rightarrow> addr \<Rightarrow> jni_fn" where
  "friendSuccess V userdata = complete_java V userdata ''onResult'' ''(ZLjava/lang/String;)V'' [JBoolean True, JNull]"

definition friendError :: "jvm \<Rightarrow> addr \<Rightarrow> int \<Rightarrow> string option \<Rightarrow> jni_fn" where
  "friendError V userdata code error = complete_java V userdata ''onResult'' ''(ZLjava/lang/String;)V'' [JBoolean False, toJString error]"

definition groupListSuccess :: "jvm \<Rightarrow> heap \<Rightarrow> addr \<Rightarrow> c_list option \<Rightarrow> jni_fn" where
  "groupListSuccess V mem userdata l = complete_java V userdata ''onGroupList'' ''(Ljava/util/List;Ljava/lang/String;)V''
     [convertGroupList V mem l, JNull]"

definition groupListError :: "jvm \<Rightarrow> addr \<Rightarrow> int \<Rightarrow> string option \<Rightarrow> jni_fn" where
  "groupListError V userdata code error = complete_java V userdata ''onGroupList'' ''(Ljava/util/List;Ljava/lang/String;)V'' [JNull, toJString error]"

definition groupSuccess :: "jvm \<Rightarrow> addr \<Rightarrow> jni_fn" where
  "groupSuccess V userdata = complete_java V userdata ''onResult'' ''(ZLjava/lang/String;)V'' [JBoolean True, JNull]"

definition groupError :: "jvm \<Rightarrow> addr \<Rightarrow> int \<Rightarrow> string option \<Rightarrow> jni_fn" where
  "groupError V userdata code error = complete_java V userdata ''onResult'' ''(ZLjava/lang/String;)V'' [JBoolean False, toJString error]"

definition groupMemberListSuccess :: "jvm \<Rightarrow> heap \<Rightarrow> addr \<Rightarrow> c_list option \<Rightarrow> jni_fn" where
  "groupMemberListSuccess V mem userdata l = complete_java V userdata ''onGroupMemberList'' ''(Ljava/util/List;Ljava/lang/String;)V''
     [case l of None \<Rightarrow> JNull | Some l \<Rightarrow> if Li_count l > 0 then java_list (convertGroupMember V) (read_items group_members_in mem l) else JNull, JNull]"

definition groupMemberListError :: "jvm \<Rightarrow> addr \<Rightarrow> int \<Rightarrow> string option \<Rightarrow> jni_fn" where
  "groupMemberListError V userdata code error = complete_java V userdata ''onGroupMemberList'' ''(Ljava/util/List;Ljava/lang/String;)V'' [JNull, toJString error]"

definition groupInfoSuccess :: "jvm \<Rightarrow> addr \<Rightarrow> AnyChatGroup_C option \<Rightarrow> jni_fn" where
  "groupInfoSuccess V userdata gi = groupSuccess V userdata"

section \<open>Calls by address\<close>

datatype jni_function =
    J_connectionStateCallback
  | J_authTokenSuccess
  | J_authTokenError
  | J_verificationCodeSuccess
  | J_verificationCodeError
  | J_resultSuccess
  | J_resultError
  | J_authDeviceListSuccess
  | J_authDeviceListError
  | J_messageSuccess
  | J_messageError
  | J_messageListSuccess
  | J_messageListError
  | J_messageReceivedCallback
  | J_convListSuccess
  | J_convListError
  | J_convSuccess
  | J_convError
  | J_convUpdatedCallback
  | J_friendListSuccess
  | J_friendListError
  | J_friendRequestListSuccess
  | J_friendRequestListError
  | J_friendSuccess
  | J_friendError
  | J_groupListSuccess
  | J_groupListError
  | J_groupSuccess
  | J_groupError
  | J_groupMemberListSuccess
  | J_groupMemberListError
  | J_groupInfoSuccess

primrec jni_addr :: "jni_function \<Rightarrow> addr" where
  "jni_addr J_connectionStateCallback = 1"
| "jni_addr J_authTokenSuccess = 2"
| "jni_addr J_authTokenError = 3"
| "jni_addr J_verificationCodeSuccess = 4"
| "jni_addr J_verificationCodeError = 5"
| "jni_addr J_resultSuccess = 6"
| "jni_addr J_resultError = 7"
| "jni_addr J_authDeviceListSuccess = 8"
| "jni_addr J_authDeviceListError = 9"
| "jni_addr J_messageSuccess = 10"
| "jni_addr J_messageError = 11"
| "jni_addr J_messageListSuccess = 12"
| "jni_addr J_messageListError = 13"
| "jni_addr J_messageReceivedCallback = 14"
| "jni_addr J_convListSuccess = 15"
| "jni_addr J_convListError = 16"
| "jni_addr J_convSuccess = 17"
| "jni_addr J_convError = 18"
| "jni_addr J_convUpdatedCallback = 19"
| "jni_addr J_friendListSuccess = 20"
| "jni_addr J_friendListError = 21"
| "jni_addr J_friendRequestListSuccess = 22"
| "jni_addr J_friendRequestListError = 23"
| "jni_addr J_friendSuccess = 24"
| "jni_addr J_friendError = 25"
| "jni_addr J_groupListSuccess = 26"
| "jni_addr J_groupListError = 27"
| "jni_addr J_groupSuccess = 28"
| "jni_addr J_groupError = 29"
| "jni_addr J_groupMemberListSuccess = 30"
| "jni_addr J_groupMemberListError = 31"
| "jni_addr J_groupInfoSuccess = 32"

definition jni_functions :: "jni_function list" where
  "jni_functions = [J_connectionStateCallback, J_authTokenSuccess, J_authTokenError, J_verificationCodeSuccess,
     J_verificationCodeError, J_resultSuccess, J_resultError, J_authDeviceListSuccess,
     J_authDeviceListError, J_messageSuccess, J_messageError, J_messageListSuccess,
     J_messageListError, J_messageReceivedCallback, J_convListSuccess, J_convListError,
     J_convSuccess, J_convError, J_convUpdatedCallback, J_friendListSuccess,
     J_friendListError, J_friendRequestListSuccess, J_friendRequestListError, J_friendSuccess,
     J_friendError, J_groupListSuccess, J_groupListError, J_groupSuccess,
     J_groupError, J_groupMemberListSuccess, J_groupMemberListError, J_groupInfoSuccess]"

definition jni_at :: "addr \<Rightarrow> jni_function option" where
  "jni_at p = find (\<lambda>f. jni_addr f = p) jni_functions"

lemma jni_at_addr [simp]: "jni_at (jni_addr f) = Some f"
  by (cases f) (simp_all add: jni_at_def jni_functions_def)

lemma jni_addr_not_null [simp]: "jni_addr f \<noteq> nullptr"
  by (cases f) (simp_all add: nullptr_def)

primrec jni_run :: "jvm \<Rightarrow> jni_function \<Rightarrow> addr \<Rightarrow> heap \<Rightarrow> c_arg list \<Rightarrow> jni_fn" where
  "jni_run V J_connectionStateCallback u mem args = connectionStateCallback V u (arg_code args)"
| "jni_run V J_authTokenSuccess u mem args = authTokenSuccess V u (arg_token args)"
| "jni_run V J_authTokenError u mem args = authTokenError V u (arg_code args) (arg_error args)"
| "jni_run V J_verificationCodeSuccess u mem args = verificationCodeSuccess V u (arg_verification_code args)"
| "jni_run V J_verificationCodeError u mem args = verificationCodeError V u (arg_code args) (arg_error args)"
| "jni_run V J_resultSuccess u mem args = resultSuccess V u"
| "jni_run V J_resultError u mem args = resultError V u (arg_code args) (arg_error args)"
| "jni_run V J_authDeviceListSuccess u mem args = authDeviceListSuccess V mem u (arg_list args)"
| "jni_run V J_authDeviceListError u mem args = authDeviceListError V u (arg_code args) (arg_error args)"
| "jni_run V J_messageSuccess u mem args = messageSuccess V u"
| "jni_run V J_messageError u mem args = messageError V u (arg_code args) (arg_error args)"
| "jni_run V J_messageListSuccess u mem args = messageListSuccess V mem u (arg_list args)"
| "jni_run V J_messageListError u mem args = messageListError V u (arg_code args) (arg_error args)"
| "jni_run V J_messageReceivedCallback u mem args = messageReceivedCallback V mem u (arg_message args)"
| "jni_run V J_convListSuccess u mem args = convListSuccess V mem u (arg_list args)"
| "jni_run V J_convListError u mem args = convListError V u (arg_code args) (arg_error args)"
| "jni_run V J_convSuccess u mem args = convSuccess V u"
| "jni_run V J_convError u mem args = convError V u (arg_code args) (arg_error args)"
| "jni_run V J_convUpdatedCallback u mem args = convUpdatedCallback V u (arg_conversation args)"
| "jni_run V J_friendListSuccess u mem args = friendListSuccess V mem u (arg_list args)"
| "jni_run V J_friendListError u mem args = friendListError V u (arg_code args) (arg_error args)"
| "jni_run V J_friendRequestListSuccess u mem args = friendRequestListSuccess V mem u (arg_list args)"
| "jni_run V J_friendRequestListError u mem args = friendRequestListError V u (arg_code args) (arg_error args)"
| "jni_run V J_friendSuccess u mem args = friendSuccess V u"
| "jni_run V J_friendError u mem args = friendError V u (arg_code args) (arg_error args)"
| "jni_run V J_groupListSuccess u mem args = groupListSuccess V mem u (arg_list args)"
| "jni_run V J_groupListError u mem args = groupListError V u (arg_code args) (arg_error args)"
| "jni_run V J_groupSuccess u mem args = groupSuccess V u"
| "jni_run V J_groupError u mem args = groupError V u (arg_code args) (arg_error args)"
| "jni_run V J_groupMemberListSuccess u mem args = groupMemberListSuccess V mem u (arg_list args)"
| "jni_run V J_groupMemberListError u mem args = groupMemberListError V u (arg_code args) (arg_error args)"
| "jni_run V J_groupInfoSuccess u mem args = groupInfoSuccess V u (arg_group args)"

definition jni_invoked :: "jvm \<Rightarrow> c_invocation \<Rightarrow> jni_fn" where
  "jni_invoked V iv j = (case jni_at (iv_function iv) of
     None \<Rightarrow> Some (j, []) | Some f \<Rightarrow> jni_run V f (iv_userdata iv) (iv_memory iv) (iv_args iv) j)"

fun jni_dispatch :: "jvm \<Rightarrow> c_invocation list \<Rightarrow> jni_fn" where
  "jni_dispatch V [] j = Some (j, [])"
| "jni_dispatch V (iv # ivs) j = (case jni_invoked V iv j of
     None \<Rightarrow> None
   | Some (j1, calls) \<Rightarrow> map_option (\<lambda>(j2, more). (j2, calls @ more)) (jni_dispatch V ivs j1))"

section \<open>Callback structs\<close>

definition makeAuthTokenCallback :: "addr \<Rightarrow> c_callback" where
  "makeAuthTokenCallback ctx = \<lparr>cc_userdata = ctx, cc_on_success = jni_addr J_authTokenSuccess, cc_on_error = jni_addr J_authTokenError\<rparr>"

definition makeVerificationCodeCallback :: "addr \<Rightarrow> c_callback" where
  "makeVerificationCodeCallback ctx = \<lparr>cc_userdata = ctx, cc_on_success = jni_addr J_verificationCodeSuccess, cc_on_error = jni_addr J_verificationCodeError\<rparr>"

definition jni_makeResultCallback :: "addr \<Rightarrow> c_callback" where
  "jni_makeResultCallback ctx = \<lparr>cc_userdata = ctx, cc_on_success = jni_addr J_resultSuccess, cc_on_error = jni_addr J_resultError\<rparr>"

definition makeAuthDeviceListCallback :: "addr \<Rightarrow> c_callback" where
  "makeAuthDeviceListCallback ctx = \<lparr>cc_userdata = ctx, cc_on_success = jni_addr J_authDeviceListSuccess, cc_on_error = jni_addr J_authDeviceListError\<rparr>"

definition jni_makeMessageCallback :: "addr \<Rightarrow> c_callback" where
  "jni_makeMessageCallback ctx = \<lparr>cc_userdata = ctx, cc_on_success = jni_addr J_messageSuccess, cc_on_error = jni_addr J_messageError\<rparr>"

definition makeMessageListCallback :: "addr \<Rightarrow> c_callback" where
  "makeMessageListCallback ctx = \<lparr>cc_userdata = ctx, cc_on_success = jni_addr J_messageListSuccess, cc_on_error = jni_addr J_messageListError\<rparr>"

definition makeConvListCallback :: "addr \<Rightarrow> c_callback" where
  "makeConvListCallback ctx = \<lparr>cc_userdata = ctx, cc_on_success = jni_addr J_convListSuccess, cc_on_error = jni_addr J_convListError\<rparr>"

definition makeConvCallback :: "addr \<Rightarrow> c_callback" where
  "makeConvCallback ctx = \<lparr>cc_userdata = ctx, cc_on_success = jni_addr J_convSuccess, cc_on_error = jni_addr J_convError\<rparr>"

definition makeFriendListCallback :: "addr \<Rightarrow> c_callback" where
  "makeFriendListCallback ctx = \<lparr>cc_userdata = ctx, cc_on_success = jni_addr J_friendListSuccess, cc_on_error = jni_addr J_friendListError\<rparr>"

definition makeFriendRequestListCallback :: "addr \<Rightarrow> c_callback" where
  "makeFriendRequestListCallback ctx = \<lparr>cc_userdata = ctx, cc_on_success = jni_addr J_friendRequestListSuccess, cc_on_error = jni_addr J_friendRequestListError\<rparr>"

definition makeFriendCallback :: "addr \<Rightarrow> c_callback" where
  "makeFriendCallback ctx = \<lparr>cc_userdata = ctx, cc_on_success = jni_addr J_friendSuccess, cc_on_error = jni_addr J_friendError\<rparr>"

definition makeGroupListCallback :: "addr \<Rightarrow> c_callback" where
  "makeGroupListCallback ctx = \<lparr>cc_userdata = ctx, cc_on_success = jni_addr J_groupListSuccess, cc_on_error = jni_addr J_groupListError\<rparr>"

definition makeGroupCallback :: "addr \<Rightarrow> c_callback" where
  "makeGroupCallback ctx = \<lparr>cc_userdata = ctx, cc_on_success = jni_addr J_groupSuccess, cc_on_error = jni_addr J_groupError\<rparr>"

definition makeGroupInfoCallback :: "addr \<Rightarrow> c_callback" where
  "makeGroupInfoCallback ctx = \<lparr>cc_userdata = ctx, cc_on_success = jni_addr J_groupInfoSuccess, cc_on_error = jni_addr J_groupError\<rparr>"

definition makeGroupMemberListCallback :: "addr \<Rightarrow> c_callback" where
  "makeGroupMemberListCallback ctx = \<lparr>cc_userdata = ctx, cc_on_success = jni_addr J_groupMemberListSuccess, cc_on_error = jni_addr J_groupMemberListError\<rparr>"

section \<open>Native methods\<close>

text \<open>A native method: the state when it calls the C interface, what the client does, and what is
  left to do when that is over.\<close>

type_synonym native = "jni_state \<Rightarrow> jni_state \<times> client_act \<times> (jni_state \<Rightarrow> jni_state option)"

text \<open>The body that all operations share.\<close>

definition jni_call :: "(addr \<Rightarrow> c_callback) \<Rightarrow> (nat \<Rightarrow> c_callback option \<Rightarrow> c_result) \<Rightarrow> jobject option \<Rightarrow> native" where
  "jni_call mk f callback j =
     (let (ctx, j1) = new_context callback j;
          result = f ctx (Some (mk ctx))
      in (j1, snd result, if fst result \<noteq> ANYCHAT_OK then delete_context ctx else Some))"

definition Auth_nativeLogin :: "client_env \<Rightarrow> int \<Rightarrow> string option \<Rightarrow> string option \<Rightarrow> int \<Rightarrow> string option \<Rightarrow> jobject option \<Rightarrow> native" where
  "Auth_nativeLogin E handle account password deviceType clientVersion callback = jni_call makeAuthTokenCallback
     (anychat_auth_login E (handle \<noteq> 0) (Some (jstr account)) (Some (jstr password)) deviceType (Some (jstr clientVersion))) callback"

definition Auth_nativeRegister :: "client_env \<Rightarrow> int \<Rightarrow> string option \<Rightarrow> string option \<Rightarrow> string option \<Rightarrow> int \<Rightarrow> string option \<Rightarrow> string option \<Rightarrow> jobject option \<Rightarrow> native" where
  "Auth_nativeRegister E handle phoneOrEmail password verifyCode deviceType nickname clientVersion callback = jni_call makeAuthTokenCallback
     (anychat_auth_register E (handle \<noteq> 0) (Some (jstr phoneOrEmail)) (Some (jstr password)) (Some (jstr verifyCode)) deviceType
        (Some (jstr nickname)) (Some (jstr clientVersion))) callback"

definition Auth_nativeSendCode :: "client_env \<Rightarrow> int \<Rightarrow> string option \<Rightarrow> int \<Rightarrow> int \<Rightarrow> jobject option \<Rightarrow> native" where
  "Auth_nativeSendCode E handle target targetType purpose callback = jni_call makeVerificationCodeCallback
     (anychat_auth_send_code E (handle \<noteq> 0) (Some (jstr target)) targetType purpose) callback"

definition Auth_nativeLogout :: "client_env \<Rightarrow> int \<Rightarrow> jobject option \<Rightarrow> native" where
  "Auth_nativeLogout E handle callback = jni_call jni_makeResultCallback
     (anychat_auth_logout E (handle \<noteq> 0)) callback"

definition Auth_nativeRefreshToken :: "client_env \<Rightarrow> int \<Rightarrow> string option \<Rightarrow> jobject option \<Rightarrow> native" where
  "Auth_nativeRefreshToken E handle refreshTok callback = jni_call makeAuthTokenCallback
     (anychat_auth_refresh_token E (handle \<noteq> 0) (Some (jstr refreshTok))) callback"

definition Auth_nativeChangePassword :: "client_env \<Rightarrow> int \<Rightarrow> string option \<Rightarrow> string option \<Rightarrow> jobject option \<Rightarrow> native" where
  "Auth_nativeChangePassword E handle oldPassword newPassword callback = jni_call jni_makeResultCallback
     (anychat_auth_change_password E (handle \<noteq> 0) (Some (jstr oldPassword)) (Some (jstr newPassword))) callback"

definition Auth_nativeResetPassword :: "client_env \<Rightarrow> int \<Rightarrow> string option \<Rightarrow> string option \<Rightarrow> string option \<Rightarrow> jobject option \<Rightarrow> native" where
  "Auth_nativeResetPassword E handle account verifyCode newPassword callback = jni_call jni_makeResultCallback
     (anychat_auth_reset_password E (handle \<noteq> 0) (Some (jstr account)) (Some (jstr verifyCode)) (Some (jstr newPassword))) callback"

definition Auth_nativeGetDeviceList :: "client_env \<Rightarrow> int \<Rightarrow> jobject option \<Rightarrow> native" where
  "Auth_nativeGetDeviceList E handle callback = jni_call makeAuthDeviceListCallback
     (anychat_auth_get_device_list E (handle \<noteq> 0)) callback"

definition Auth_nativeLogoutDevice :: "client_env \<Rightarrow> int \<Rightarrow> string option \<Rightarrow> jobject option \<Rightarrow> native" where
  "Auth_nativeLogoutDevice E handle deviceId callback = jni_call jni_makeResultCallback
     (anychat_auth_logout_device E (handle \<noteq> 0) (Some (jstr deviceId))) callback"

definition Message_nativeSendText :: "client_env \<Rightarrow> int \<Rightarrow> string option \<Rightarrow> string option \<Rightarrow> jobject option \<Rightarrow> native" where
  "Message_nativeSendText E handle sessionId content callback = jni_call jni_makeMessageCallback
     (anychat_message_send_text E (handle \<noteq> 0) (Some (jstr sessionId)) (Some (jstr content))) callback"

definition Message_nativeGetHistory :: "client_env \<Rightarrow> int \<Rightarrow> string option \<Rightarrow> int \<Rightarrow> int \<Rightarrow> jobject option \<Rightarrow> native" where
  "Message_nativeGetHistory E handle sessionId beforeTimestampMs limit callback = jni_call makeMessageListCallback
     (anychat_message_get_history E (handle \<noteq> 0) (Some (jstr sessionId)) beforeTimestampMs limit) callback"

definition Message_nativeMarkRead :: "client_env \<Rightarrow> int \<Rightarrow> string option \<Rightarrow> string option \<Rightarrow> jobject option \<Rightarrow> native" where
  "Message_nativeMarkRead E handle sessionId messageId callback = jni_call jni_makeMessageCallback
     (anychat_message_mark_read E (handle \<noteq> 0) (Some (jstr sessionId)) (Some (jstr messageId))) callback"

definition Conversation_nativeGetList :: "client_env \<Rightarrow> int \<Rightarrow> jobject option \<Rightarrow> native" where
  "Conversation_nativeGetList E handle callback = jni_call makeConvListCallback
     (anychat_conv_get_list E (handle \<noteq> 0)) callback"

definition Conversation_nativeMarkRead :: "client_env \<Rightarrow> int \<Rightarrow> string option \<Rightarrow> jobject option \<Rightarrow> native" where
  "Conversation_nativeMarkRead E handle convId callback = jni_call makeConvCallback
     (anychat_conv_mark_all_read E (handle \<noteq> 0) (Some (jstr convId))) callback"

definition Conversation_nativeSetPinned :: "client_env \<Rightarrow> int \<Rightarrow> string option \<Rightarrow> bool \<Rightarrow> jobject option \<Rightarrow> native" where
  "Conversation_nativeSetPinned E handle convId pinned callback = jni_call makeConvCallback
     (anychat_conv_set_pinned E (handle \<noteq> 0) (Some (jstr convId)) (if pinned then 1 else 0)) callback"

definition Conversation_nativeSetMuted :: "client_env \<Rightarrow> int \<Rightarrow> string option \<Rightarrow> bool \<Rightarrow> jobject option \<Rightarrow> native" where
  "Conversation_nativeSetMuted E handle convId muted callback = jni_call makeConvCallback
     (anychat_conv_set_muted E (handle \<noteq> 0) (Some (jstr convId)) (if muted then 1 else 0)) callback"

definition Conversation_nativeDelete :: "client_env \<Rightarrow> int \<Rightarrow> string option \<Rightarrow> jobject option \<Rightarrow> native" where
  "Conversation_nativeDelete E handle convId callback = jni_call makeConvCallback
     (anychat_conv_delete E (handle \<noteq> 0) (Some (jstr convId))) callback"

definition Friend_nativeGetList :: "client_env \<Rightarrow> int \<Rightarrow> jobject option \<Rightarrow> native" where
  "Friend_nativeGetList E handle callback = jni_call makeFriendListCallback
     (anychat_friend_get_list E (handle \<noteq> 0)) callback"

definition Friend_nativeSendRequest :: "client_env \<Rightarrow> int \<Rightarrow> string option \<Rightarrow> string option \<Rightarrow> int \<Rightarrow> jobject option \<Rightarrow> native" where
  "Friend_nativeSendRequest E handle toUserId txt source callback = jni_call makeFriendCallback
     (anychat_friend_add E (handle \<noteq> 0) (Some (jstr toUserId)) (Some (jstr txt)) source) callback"

definition Friend_nativeHandleRequest :: "client_env \<Rightarrow> int \<Rightarrow> int \<Rightarrow> int \<Rightarrow> jobject option \<Rightarrow> native" where
  "Friend_nativeHandleRequest E handle requestId action callback = jni_call makeFriendCallback
     (anychat_friend_handle_request E (handle \<noteq> 0) requestId action) callback"

definition Friend_nativeGetPendingRequests :: "client_env \<Rightarrow> int \<Rightarrow> int \<Rightarrow> jobject option \<Rightarrow> native" where
  "Friend_nativeGetPendingRequests E handle requestType callback = jni_call makeFriendRequestListCallback
     (anychat_friend_get_requests E (handle \<noteq> 0) requestType) callback"

definition Friend_nativeDelete :: "client_env \<Rightarrow> int \<Rightarrow> string option \<Rightarrow> jobject option \<Rightarrow> native" where
  "Friend_nativeDelete E handle friendId callback = jni_call makeFriendCallback
     (anychat_friend_delete E (handle \<noteq> 0) (Some (jstr friendId))) callback"

definition Friend_nativeUpdateRemark :: "client_env \<Rightarrow> int \<Rightarrow> string option \<Rightarrow> string option \<Rightarrow> jobject option \<Rightarrow> native" where
  "Friend_nativeUpdateRemark E handle friendId remark callback = jni_call makeFriendCallback
     (anychat_friend_update_remark E (handle \<noteq> 0) (Some (jstr friendId)) (Some (jstr remark))) callback"

definition Group_nativeGetList :: "client_env \<Rightarrow> int \<Rightarrow> jobject option \<Rightarrow> native" where
  "Group_nativeGetList E handle callback = jni_call makeGroupListCallback
     (anychat_group_get_list E (handle \<noteq> 0)) callback"

text \<open>The array of the wrapped strings and a null at its end.\<close>

definition jni_pointers :: "string option list \<Rightarrow> string option list" where
  "jni_pointers ids = map (\<lambda>s. Some (jstr s)) ids @ [None]"

definition Group_nativeCreate :: "client_env \<Rightarrow> int \<Rightarrow> string option \<Rightarrow> string option list \<Rightarrow> jobject option \<Rightarrow> native" where
  "Group_nativeCreate E handle name memberIds callback = jni_call makeGroupInfoCallback
     (anychat_group_create E (handle \<noteq> 0) (Some (jstr name)) (Some (jni_pointers memberIds)) (int (length memberIds))) callback"

definition Group_nativeJoin :: "client_env \<Rightarrow> int \<Rightarrow> string option \<Rightarrow> string option \<Rightarrow> jobject option \<Rightarrow> native" where
  "Group_nativeJoin E handle groupId txt callback = jni_call makeGroupCallback
     (anychat_group_join E (handle \<noteq> 0) (Some (jstr groupId)) (Some (jstr txt))) callback"

definition Group_nativeInvite :: "client_env \<Rightarrow> int \<Rightarrow> string option \<Rightarrow> string option list \<Rightarrow> jobject option \<Rightarrow> native" where
  "Group_nativeInvite E handle groupId userIds callback = jni_call makeGroupCallback
     (anychat_group_invite E (handle \<noteq> 0) (Some (jstr groupId)) (Some (jni_pointers userIds)) (int (length userIds))) callback"

definition Group_nativeQuit :: "client_env \<Rightarrow> int \<Rightarrow> string option \<Rightarrow> jobject option \<Rightarrow> native" where
  "Group_nativeQuit E handle groupId callback = jni_call makeGroupCallback
     (anychat_group_quit E (handle \<noteq> 0) (Some (jstr groupId))) callback"

definition Group_nativeUpdate :: "client_env \<Rightarrow> int \<Rightarrow> string option \<Rightarrow> string option \<Rightarrow> string option \<Rightarrow> jobject option \<Rightarrow> native" where
  "Group_nativeUpdate E handle groupId name avatarUrl callback = jni_call makeGroupCallback
     (anychat_group_update E (handle \<noteq> 0) (Some (jstr groupId)) (Some (jstr name)) (Some (jstr avatarUrl))) callback"

definition Group_nativeGetMembers :: "client_env \<Rightarrow> int \<Rightarrow> string option \<Rightarrow> int \<Rightarrow> int \<Rightarrow> jobject option \<Rightarrow> native" where
  "Group_nativeGetMembers E handle groupId page pageSize callback = jni_call makeGroupMemberListCallback
     (anychat_group_get_members E (handle \<noteq> 0) (Some (jstr groupId)) page pageSize) callback"

inductive jni_operation :: "client_env \<Rightarrow> jobject option \<Rightarrow> native \<Rightarrow> bool" for E callback where
  "jni_operation E callback (Auth_nativeLogin E handle p q r t callback)"
| "jni_operation E callback (Auth_nativeRegister E handle p q r t u v callback)"
| "jni_operation E callback (Auth_nativeSendCode E handle p q r callback)"
| "jni_operation E callback (Auth_nativeLogout E handle callback)"
| "jni_operation E callback (Auth_nativeRefreshToken E handle p callback)"
| "jni_operation E callback (Auth_nativeChangePassword E handle p q callback)"
| "jni_operation E callback (Auth_nativeResetPassword E handle p q r callback)"
| "jni_operation E callback (Auth_nativeGetDeviceList E handle callback)"
| "jni_operation E callback (Auth_nativeLogoutDevice E handle p callback)"
| "jni_operation E callback (Message_nativeSendText E handle p q callback)"
| "jni_operation E callback (Message_nativeGetHistory E handle p q r callback)"
| "jni_operation E callback (Message_nativeMarkRead E handle p q callback)"
| "jni_operation E callback (Conversation_nativeGetList E handle callback)"
| "jni_operation E callback (Conversation_nativeMarkRead E handle p callback)"
| "jni_operation E callback (Conversation_nativeSetPinned E handle p q callback)"
| "jni_operation E callback (Conversation_nativeSetMuted E handle p q callback)"
| "jni_operation E callback (Conversation_nativeDelete E handle p callback)"
| "jni_operation E callback (Friend_nativeGetList E handle callback)"
| "jni_operation E callback (Friend_nativeSendRequest E handle p q r callback)"
| "jni_operation E callback (Friend_nativeHandleRequest E handle p q callback)"
| "jni_operation E callback (Friend_nativeGetPendingRequests E handle p callback)"
| "jni_operation E callback (Friend_nativeDelete E handle p callback)"
| "jni_operation E callback (Friend_nativeUpdateRemark E handle p q callback)"
| "jni_operation E callback (Group_nativeGetList E handle callback)"
| "jni_operation E callback (Group_nativeCreate E handle p q callback)"
| "jni_operation E callback (Group_nativeJoin E handle p q callback)"
| "jni_operation E callback (Group_nativeInvite E handle p q callback)"
| "jni_operation E callback (Group_nativeQuit E handle p callback)"
| "jni_operation E callback (Group_nativeUpdate E handle p q r callback)"
| "jni_operation E callback (Group_nativeGetMembers E handle p q r callback)"

lemmas jni_operation_defs = Auth_nativeLogin_def Auth_nativeRegister_def Auth_nativeSendCode_def Auth_nativeLogout_def
  Auth_nativeRefreshToken_def Auth_nativeChangePassword_def Auth_nativeResetPassword_def Auth_nativeGetDeviceList_def
  Auth_nativeLogoutDevice_def Message_nativeSendText_def Message_nativeGetHistory_def Message_nativeMarkRead_def
  Conversation_nativeGetList_def Conversation_nativeMarkRead_def Conversation_nativeSetPinned_def Conversation_nativeSetMuted_def
  Conversation_nativeDelete_def Friend_nativeGetList_def Friend_nativeSendRequest_def Friend_nativeHandleRequest_def
  Friend_nativeGetPendingRequests_def Friend_nativeDelete_def Friend_nativeUpdateRemark_def Group_nativeGetList_def
  Group_nativeCreate_def Group_nativeJoin_def Group_nativeInvite_def Group_nativeQuit_def
  Group_nativeUpdate_def Group_nativeGetMembers_def

text \<open>Installing and removing a listener: the old context leaves the map and is deleted at the very
  end; the new one is put into the map when the C function has taken it.\<close>

definition replace_context ::
  "jni_table \<Rightarrow> int \<Rightarrow> jobject option \<Rightarrow> (addr \<Rightarrow> c_result) \<Rightarrow> c_result \<Rightarrow> native" where
  "replace_context t handle callback install clear j =
     (let old = owners j t handle;
          j0 = j\<lparr>owners := (owners j)(t := (owners j t)(handle := None))\<rparr>
      in case callback of
          None \<Rightarrow> (j0, snd clear, delete_owned old)
        | Some cb \<Rightarrow>
            let (ctx, j1) = new_context (Some cb) j0
            in if fst (install ctx) \<noteq> ANYCHAT_OK
               then (j1, snd (install ctx), \<lambda>j. Option.bind (delete_context ctx j) (delete_owned old))
               else (j1\<lparr>owners := (owners j1)(t := (owners j1 t)(handle \<mapsto> ctx))\<rparr>, snd (install ctx), delete_owned old))"

definition jni_message_listener :: "addr \<Rightarrow> AnyChatMessageListener_C" where
  "jni_message_listener ctx = \<lparr>Lmsg_userdata = ctx, Lmsg_on_message_received = jni_addr J_messageReceivedCallback,
     Lmsg_on_message_read_receipt = nullptr, Lmsg_on_message_recalled = nullptr, Lmsg_on_message_deleted = nullptr,
     Lmsg_on_message_edited = nullptr, Lmsg_on_message_typing = nullptr, Lmsg_on_message_mentioned = nullptr\<rparr>"

definition Message_nativeSetReceivedCallback :: "int \<Rightarrow> jobject option \<Rightarrow> native" where
  "Message_nativeSetReceivedCallback handle callback = replace_context MessageListenerCallbacks handle callback
     (\<lambda>ctx. anychat_message_set_listener (handle \<noteq> 0) (Some (jni_message_listener ctx)))
     (anychat_message_set_listener (handle \<noteq> 0) None)"

definition jni_conv_listener :: "addr \<Rightarrow> AnyChatConvListener_C" where
  "jni_conv_listener ctx = \<lparr>Lconv_userdata = ctx, Lconv_on_conversation_updated = jni_addr J_convUpdatedCallback\<rparr>"

definition Conversation_nativeSetUpdatedCallback :: "int \<Rightarrow> jobject option \<Rightarrow> native" where
  "Conversation_nativeSetUpdatedCallback handle callback = replace_context ConvListenerCallbacks handle callback
     (\<lambda>ctx. anychat_conv_set_listener (handle \<noteq> 0) (Some (jni_conv_listener ctx)))
     (anychat_conv_set_listener (handle \<noteq> 0) None)"

text \<open>The function for the connection's state returns nothing.\<close>

definition AnyChatClient_nativeSetConnectionCallback :: "int \<Rightarrow> jobject option \<Rightarrow> native" where
  "AnyChatClient_nativeSetConnectionCallback handle callback = replace_context ConnectionCallbacks handle callback
     (\<lambda>ctx. (ANYCHAT_OK, anychat_client_set_connection_callback (handle \<noteq> 0) ctx (jni_addr J_connectionStateCallback)))
     (ANYCHAT_OK, anychat_client_set_connection_callback (handle \<noteq> 0) nullptr nullptr)"

text \<open>The handle is the address of the new client; without one an exception is thrown.\<close>

definition AnyChatClient_nativeCreate ::
  "string option \<Rightarrow> string option \<Rightarrow> string option \<Rightarrow> string option \<Rightarrow> int \<Rightarrow> int \<Rightarrow> bool \<Rightarrow> db_world
   \<Rightarrow> (message list \<Rightarrow> message list) \<Rightarrow> int \<Rightarrow> int \<Rightarrow> jni_state \<Rightarrow> created \<times> jni_state" where
  "AnyChatClient_nativeCreate gatewayUrl apiBaseUrl deviceId dbPath connectTimeoutMs maxReconnectAttempts autoReconnect
      W srt now ptrValue j =
     (let config = \<lparr>Ccfg_gateway_url = Some (jstr gatewayUrl), Ccfg_api_base_url = Some (jstr apiBaseUrl),
            Ccfg_device_id = Some (jstr deviceId), Ccfg_db_path = Some (jstr dbPath),
            Ccfg_connect_timeout_ms = connectTimeoutMs, Ccfg_max_reconnect_attempts = maxReconnectAttempts,
            Ccfg_auto_reconnect = (if autoReconnect then 1 else 0)\<rparr>
      in case anychat_client_create (Some config) W srt now of
          Created c \<Rightarrow> (Created c, j\<lparr>g_clientHandles := insert ptrValue (g_clientHandles j)\<rparr>)
        | r \<Rightarrow> (r, j))"

definition AnyChatClient_nativeDestroy :: "client_env \<Rightarrow> int \<Rightarrow> native" where
  "AnyChatClient_nativeDestroy E handle j =
     (j\<lparr>g_clientHandles := g_clientHandles j - {handle},
        owners := (owners j)(ConnectionCallbacks := (owners j ConnectionCallbacks)(handle := None))\<rparr>,
      act_if (handle \<in> g_clientHandles j)
        (perform [anychat_client_set_connection_callback True nullptr nullptr, anychat_client_destroy E True]),
      delete_owned (owners j ConnectionCallbacks handle))"

definition AnyChatClient_nativeGetConnectionState :: "int \<Rightarrow> client \<Rightarrow> int" where
  "AnyChatClient_nativeGetConnectionState handle s = anychat_client_get_connection_state (handle \<noteq> 0) s"

definition AnyChatClient_nativeGetAuth :: "int \<Rightarrow> bool" where
  "AnyChatClient_nativeGetAuth handle = anychat_client_get_auth (handle \<noteq> 0)"

definition AnyChatClient_nativeGetMessage :: "int \<Rightarrow> bool" where
  "AnyChatClient_nativeGetMessage handle = anychat_client_get_message (handle \<noteq> 0)"

definition AnyChatClient_nativeGetConversation :: "int \<Rightarrow> bool" where
  "AnyChatClient_nativeGetConversation handle = anychat_client_get_conversation (handle \<noteq> 0)"

definition AnyChatClient_nativeGetFriend :: "int \<Rightarrow> bool" where
  "AnyChatClient_nativeGetFriend handle = anychat_client_get_friend (handle \<noteq> 0)"

definition AnyChatClient_nativeGetGroup :: "int \<Rightarrow> bool" where
  "AnyChatClient_nativeGetGroup handle = anychat_client_get_group (handle \<noteq> 0)"

definition Auth_nativeIsLoggedIn :: "int \<Rightarrow> client \<Rightarrow> bool" where
  "Auth_nativeIsLoggedIn handle s \<longleftrightarrow> anychat_auth_is_logged_in (handle \<noteq> 0) s \<noteq> 0"

definition Auth_nativeGetCurrentToken :: "jvm \<Rightarrow> int \<Rightarrow> client \<Rightarrow> jvalue" where
  "Auth_nativeGetCurrentToken V handle s = (case anychat_auth_get_current_token (handle \<noteq> 0) (Some zero_AuthToken) s of
     (result, tok) \<Rightarrow> if result = ANYCHAT_OK then convertAuthToken V (the tok) else JNull)"
end
