(* ===== verification/JniOwnership.thy ===== *)
theory JniOwnership
  imports JniBinding
begin

text \<open>
  Who owns a callback context. The C layer holds the address of a context as \<open>userdata\<close> and gives
  it back whenever it calls a static function of the binding; a context that has been deleted
  then would be a use after free. The theory runs the native methods and the reports of a client
  against each other and shows that this does not happen, and that no context is left over.
\<close>

section \<open>Runs\<close>

text \<open>A native method over the client; what the C layer calls meanwhile comes before its end. None is
  undefined behaviour.\<close>

definition native_step :: "jvm \<Rightarrow> native \<Rightarrow> jni_state \<Rightarrow> client \<Rightarrow> (jni_state \<times> client \<times> java_call list) option" where
  "native_step V op j s = (case op j of (j1, a, finish) \<Rightarrow> (case relay a s of (s', es, ps) \<Rightarrow>
     (case jni_dispatch V (invocations es) j1 of
        None \<Rightarrow> None | Some (j2, calls) \<Rightarrow> map_option (\<lambda>j3. (j3, s', calls)) (finish j2))))"

text \<open>The client reports something to its listeners.\<close>

definition report_step :: "jvm \<Rightarrow> event \<Rightarrow> jni_state \<Rightarrow> client \<Rightarrow> (jni_state \<times> client \<times> java_call list) option" where
  "report_step V e j s = (case relay (emit e) s of (s', es, ps) \<Rightarrow>
     map_option (\<lambda>(j', calls). (j', s', calls)) (jni_dispatch V (invocations es) j))"

text \<open>What Java may call: handles are null or those it was given. H is the handle of the client.\<close>

inductive jni_native :: "client_env \<Rightarrow> int \<Rightarrow> jni_state \<Rightarrow> native \<Rightarrow> bool" for E H j where
  operation: "jni_operation E callback op \<Longrightarrow> jni_native E H j op"
| message: "jni_native E H j (Message_nativeSetReceivedCallback h callback)"
| conversation: "jni_native E H j (Conversation_nativeSetUpdatedCallback h callback)"
| connection: "jni_native E H j (AnyChatClient_nativeSetConnectionCallback h callback)"
    if "h = 0 \<or> h = H \<and> H \<in> g_clientHandles j"
| destroy: "jni_native E H j (AnyChatClient_nativeDestroy E h)" if "h = 0 \<or> h = H"

text \<open>One client at a time. Between the steps the client does what it likes, short of installing
  listeners. The list is what Java was called with.\<close>

inductive jni_reaches :: "jvm \<Rightarrow> client_env \<Rightarrow> int \<Rightarrow> java_call list \<Rightarrow> (jni_state \<times> client) option \<Rightarrow> bool" for V E H where
  loaded: "c_listening s = no_listeners \<Longrightarrow> jni_reaches V E H [] (Some (JNI_OnLoad, s))"
| created: "jni_reaches V E H tr (Some (j, s)) \<Longrightarrow> H \<notin> g_clientHandles j \<Longrightarrow>
    AnyChatClient_nativeCreate a b c d t n r W srt now H j = (Created s', j') \<Longrightarrow> jni_reaches V E H tr (Some (j', s'))"
| worked: "jni_reaches V E H tr (Some (j, s)) \<Longrightarrow> c_listening s' = c_listening s \<Longrightarrow> jni_reaches V E H tr (Some (j, s'))"
| operated: "jni_reaches V E H tr (Some (j, s)) \<Longrightarrow> jni_native E H j op \<Longrightarrow>
    native_step V op j s = Some (j', s', calls) \<Longrightarrow> jni_reaches V E H (tr @ calls) (Some (j', s'))"
| operation_undefined: "jni_reaches V E H tr (Some (j, s)) \<Longrightarrow> jni_native E H j op \<Longrightarrow>
    native_step V op j s = None \<Longrightarrow> jni_reaches V E H tr None"
| reported: "jni_reaches V E H tr (Some (j, s)) \<Longrightarrow> to_listener e \<Longrightarrow>
    report_step V e j s = Some (j', s', calls) \<Longrightarrow> jni_reaches V E H (tr @ calls) (Some (j', s'))"
| report_undefined: "jni_reaches V E H tr (Some (j, s)) \<Longrightarrow> to_listener e \<Longrightarrow>
    report_step V e j s = None \<Longrightarrow> jni_reaches V E H tr None"

section \<open>Ownership\<close>

text \<open>A context is alive exactly when one of the maps has it, and then one entry of one map.\<close>

definition owned_once :: "jni_state \<Rightarrow> bool" where
  "owned_once j \<longleftrightarrow> (\<forall>p. contexts j p \<noteq> None \<longleftrightarrow> (\<exists>t h. owners j t h = Some p))
     \<and> (\<forall>t h t' h' p. owners j t h = Some p \<longrightarrow> owners j t' h' = Some p \<longrightarrow> t = t' \<and> h = h')
     \<and> (\<forall>p. contexts j p \<noteq> None \<longrightarrow> p < next_context j)"

text \<open>What the maps look like when an entry has gone with its context, and when one has come.\<close>

definition drop_owner :: "jni_table \<Rightarrow> int \<Rightarrow> jni_state \<Rightarrow> jni_state" where
  "drop_owner t h j = j\<lparr>owners := (owners j)(t := (owners j t)(h := None)),
     contexts := (\<lambda>p. if owners j t h = Some p then None else contexts j p)\<rparr>"

definition add_owner :: "jni_table \<Rightarrow> int \<Rightarrow> jobject \<Rightarrow> jni_state \<Rightarrow> jni_state" where
  "add_owner t h cb j = j\<lparr>owners := (owners j)(t := (owners j t)(h \<mapsto> next_context j)),
     contexts := (contexts j)(next_context j \<mapsto> Some cb), next_context := Suc (next_context j)\<rparr>"

lemma owned_onceD:
  assumes "owned_once j"
  shows "owners j t h = Some p \<Longrightarrow> contexts j p \<noteq> None" and "contexts j (next_context j) = None"
    and "owners j t h = Some p \<Longrightarrow> owners j t' h' = Some p \<Longrightarrow> t = t' \<and> h = h'"
    and "owners j t h \<noteq> Some (next_context j)"
proof -
  show alive: "contexts j p \<noteq> None" if "owners j t h = Some p" for t h p
    using assms that unfolding owned_once_def by blast
  show fresh: "contexts j (next_context j) = None" using assms unfolding owned_once_def by blast
  show "owners j t h \<noteq> Some (next_context j)" using alive fresh by blast
  show "owners j t h = Some p \<Longrightarrow> owners j t' h' = Some p \<Longrightarrow> t = t' \<and> h = h'"
    using assms unfolding owned_once_def by blast
qed

lemma owner_simps [simp]:
  "owners (drop_owner t h j) t' h' = (if t' = t \<and> h' = h then None else owners j t' h')"
  "contexts (drop_owner t h j) p = (if owners j t h = Some p then None else contexts j p)"
  "next_context (drop_owner t h j) = next_context j" "g_clientHandles (drop_owner t h j) = g_clientHandles j"
  "owners (add_owner t h cb j) t' h' = (if t' = t \<and> h' = h then Some (next_context j) else owners j t' h')"
  "contexts (add_owner t h cb j) p = (if p = next_context j then Some (Some cb) else contexts j p)"
  "next_context (add_owner t h cb j) = Suc (next_context j)" "g_clientHandles (add_owner t h cb j) = g_clientHandles j"
  by (simp_all add: drop_owner_def add_owner_def)

lemma drop_owner_handles: "drop_owner t h (j\<lparr>g_clientHandles := hs\<rparr>) = (drop_owner t h j)\<lparr>g_clientHandles := hs\<rparr>"
  by (cases j) (simp add: drop_owner_def cong: if_cong)

lemma owned_onceI:
  assumes "\<And>t h p. owners j t h = Some p \<Longrightarrow> contexts j p \<noteq> None \<and> p < next_context j"
    and "\<And>p. contexts j p \<noteq> None \<Longrightarrow> \<exists>t h. owners j t h = Some p"
    and "\<And>t h t' h' p. owners j t h = Some p \<Longrightarrow> owners j t' h' = Some p \<Longrightarrow> t = t' \<and> h = h'"
  shows "owned_once j"
  unfolding owned_once_def using assms by metis

lemma owned_once_less: "owned_once j \<Longrightarrow> owners j t h = Some p \<Longrightarrow> p < next_context j"
  using owned_onceD(1) unfolding owned_once_def by blast

lemma owned_once_owner: "owned_once j \<Longrightarrow> contexts j p \<noteq> None \<Longrightarrow> \<exists>t h. owners j t h = Some p"
  unfolding owned_once_def by blast

lemma owned_once_drop:
  assumes "owned_once j"
  shows "owned_once (drop_owner t h j)"
proof (rule owned_onceI)
  fix t' h' p assume o: "owners (drop_owner t h j) t' h' = Some p"
  then have "owners j t' h' = Some p" "\<not> (t' = t \<and> h' = h)" by (auto split: if_splits)
  then have "owners j t h \<noteq> Some p" using owned_onceD(3) [OF assms] by blast
  then show "contexts (drop_owner t h j) p \<noteq> None \<and> p < next_context (drop_owner t h j)"
    using owned_onceD(1) [OF assms] owned_once_less [OF assms] \<open>owners j t' h' = Some p\<close> by auto
next
  fix p assume "contexts (drop_owner t h j) p \<noteq> None"
  then have "owners j t h \<noteq> Some p" "contexts j p \<noteq> None" by (auto split: if_splits)
  then obtain t' h' where "owners j t' h' = Some p" using owned_once_owner [OF assms] by blast
  with \<open>owners j t h \<noteq> Some p\<close> have "owners (drop_owner t h j) t' h' = Some p" by auto
  then show "\<exists>t' h'. owners (drop_owner t h j) t' h' = Some p" by blast
next
  fix t1 h1 t2 h2 p
  assume "owners (drop_owner t h j) t1 h1 = Some p" "owners (drop_owner t h j) t2 h2 = Some p"
  then show "t1 = t2 \<and> h1 = h2" using owned_onceD(3) [OF assms] by (auto split: if_splits)
qed

lemma owned_once_add:
  assumes "owned_once j" and "owners j t h = None"
  shows "owned_once (add_owner t h cb j)"
proof (rule owned_onceI)
  fix t' h' p assume "owners (add_owner t h cb j) t' h' = Some p"
  then show "contexts (add_owner t h cb j) p \<noteq> None \<and> p < next_context (add_owner t h cb j)"
    using owned_onceD(1) [OF assms(1), of t' h' p] owned_once_less [OF assms(1), of t' h' p] by (auto split: if_splits)
next
  fix p assume "contexts (add_owner t h cb j) p \<noteq> None"
  then consider "p = next_context j" | "contexts j p \<noteq> None" by (auto split: if_splits)
  then show "\<exists>t' h'. owners (add_owner t h cb j) t' h' = Some p"
  proof cases
    case 1
    then have "owners (add_owner t h cb j) t h = Some p" by simp
    then show ?thesis by blast
  next
    case 2
    then obtain t' h' where "owners j t' h' = Some p" using owned_once_owner [OF assms(1)] by blast
    then have "owners (add_owner t h cb j) t' h' = Some p" using assms(2) by auto
    then show ?thesis by blast
  qed
next
  fix t1 h1 t2 h2 p
  assume "owners (add_owner t h cb j) t1 h1 = Some p" "owners (add_owner t h cb j) t2 h2 = Some p"
  then show "t1 = t2 \<and> h1 = h2"
    using owned_onceD(3) [OF assms(1), of t1 h1 p t2 h2] owned_onceD(4) [OF assms(1)] by (auto split: if_splits)
qed

lemma owned_once_next: "owned_once j \<Longrightarrow> owned_once (j\<lparr>next_context := Suc (next_context j)\<rparr>)"
  unfolding owned_once_def by (simp add: less_Suc_eq)

lemma owned_once_handles: "owned_once j \<Longrightarrow> owned_once (j\<lparr>g_clientHandles := hs\<rparr>)"
  unfolding owned_once_def by simp

text \<open>What the C layer holds: only listeners of this binding, with contexts from the maps.\<close>

definition listeners_ours :: "int \<Rightarrow> jni_state \<Rightarrow> c_listeners \<Rightarrow> bool" where
  "listeners_ours H j ls \<longleftrightarrow> ls_auth ls = None \<and> ls_friend ls = None \<and> ls_group ls = None \<and> ls_user ls = None
     \<and> ls_call ls = None
     \<and> (\<forall>L. ls_message ls = Some L \<longrightarrow> (\<exists>h p. L = jni_message_listener p \<and> owners j MessageListenerCallbacks h = Some p))
     \<and> (\<forall>L. ls_conv ls = Some L \<longrightarrow> (\<exists>h p. L = jni_conv_listener p \<and> owners j ConvListenerCallbacks h = Some p))
     \<and> (\<forall>x. ls_state ls = Some x \<longrightarrow> H \<in> g_clientHandles j \<and>
          (\<exists>p. x = (jni_addr J_connectionStateCallback, p) \<and> owners j ConnectionCallbacks H = Some p))"

definition jni_inv :: "int \<Rightarrow> jni_state \<Rightarrow> client \<Rightarrow> bool" where
  "jni_inv H j s \<longleftrightarrow> owned_once j \<and> owners j MessageListenerCallbacks 0 = None \<and> owners j ConvListenerCallbacks 0 = None
     \<and> g_clientHandles j \<subseteq> {H} \<and> listeners_ours H j (c_listening s)"

section \<open>Native methods\<close>

lemma relay_silent: "a s = (s', [], []) \<Longrightarrow> relay a s = (s', [], [])"
  by (simp add: relay_def relay_result_def skip_def)

text \<open>A native method whose calls of the C interface make the client report nothing.\<close>

lemma native_step_silent:
  assumes "op j = (k, a, finish)" and "a s = (s', [], [])"
  shows "native_step V op j s = map_option (\<lambda>j'. (j', s', [])) (finish k)"
proof -
  have "relay a s = (s', [], [])" using assms(2) by (rule relay_silent)
  with assms(1) show ?thesis by (simp add: native_step_def)
qed

text \<open>An operation: the context is made and deleted again.\<close>

lemma native_step_call:
  assumes "owned_once j" and "\<And>i c. refused (f i (Some c))"
  shows "native_step V (jni_call mk f callback) j s = Some (j\<lparr>next_context := Suc (next_context j)\<rparr>, s, [])"
proof -
  have r: "fst (f i (Some c)) \<noteq> ANYCHAT_OK" "snd (f i (Some c)) = skip" for i c
    using assms(2) by (simp_all add: refused_def)
  have none: "(contexts j)(next_context j := None) = contexts j" using owned_onceD(2) [OF assms(1)] by auto
  obtain j1 finish where op: "jni_call mk f callback j = (j1, skip, finish)"
    and fin: "finish j1 = Some (j\<lparr>next_context := Suc (next_context j)\<rparr>)"
    using r none by (simp add: jni_call_def new_context_def delete_context_def Let_def)
  show ?thesis
    using native_step_silent [where op = "jni_call mk f callback" and j = j and k = j1 and a = skip and finish = finish and s = s
        and s' = s and V = V] op fin by (simp add: skip_def)
qed

lemma jni_operation_shape:
  "jni_operation E callback op \<Longrightarrow>
   \<exists>mk f. op = jni_call mk f callback \<and> (\<forall>i c. c_function E i (Some c) (f i (Some c)))"
  by (induction rule: jni_operation.induct)
    (simp only: jni_operation_defs, (rule exI)+, rule conjI, rule refl, intro allI, simp only: c_function_def,
      blast intro: c_function_intros)+

text \<open>A listener: the old context goes, the new one comes when the C function takes it.\<close>

lemma delete_owned_drop:
  assumes "owned_once j" and "owners j' = (owners j)(t := (owners j t)(h := None))" and "contexts j' = contexts j"
    and "next_context j' = next_context j" and "g_clientHandles j' = g_clientHandles j"
  shows "delete_owned (owners j t h) j' = Some (drop_owner t h j)"
proof (cases "owners j t h")
  case None
  have "contexts j = (\<lambda>p. if owners j t h = Some p then None else contexts j p)" using None by auto
  then have "j' = drop_owner t h j" using assms(2-5) by (simp add: drop_owner_def)
  then show ?thesis using None by (simp add: delete_owned_def)
next
  case (Some q)
  then have alive: "contexts j' q \<noteq> None" using owned_onceD(1) [OF assms(1)] assms(3) by auto
  have "(contexts j)(q := None) = (\<lambda>p. if owners j t h = Some p then None else contexts j p)" using Some by auto
  then have "j'\<lparr>contexts := (contexts j')(q := None)\<rparr> = drop_owner t h j" using assms(2-5) by (simp add: drop_owner_def)
  then show ?thesis using Some alive by (auto simp: delete_owned_def delete_context_def)
qed

lemma native_step_clear:
  assumes "owned_once j" and "snd clear s = (s', [], [])"
  shows "native_step V (replace_context t h None install clear) j s = Some (drop_owner t h j, s', [])"
proof -
  let ?j0 = "j\<lparr>owners := (owners j)(t := (owners j t)(h := None))\<rparr>"
  have "replace_context t h None install clear j = (?j0, snd clear, delete_owned (owners j t h))"
    by (simp add: replace_context_def Let_def)
  then have "native_step V (replace_context t h None install clear) j s =
      map_option (\<lambda>j'. (j', s', [])) (delete_owned (owners j t h) ?j0)"
    using assms(2) by (rule native_step_silent)
  then show ?thesis using delete_owned_drop [OF assms(1), of ?j0 t h] by simp
qed

lemma native_step_install:
  assumes "owned_once j" and "snd (install (next_context j)) s = (s', [], [])"
  shows "native_step V (replace_context t h (Some cb) install clear) j s =
    Some (if fst (install (next_context j)) = ANYCHAT_OK then add_owner t h cb (drop_owner t h j)
          else (drop_owner t h j)\<lparr>next_context := Suc (next_context j)\<rparr>, s', [])"
proof -
  let ?p = "next_context j"
  have new: "contexts j ?p = None" "owners j t h \<noteq> Some ?p" using owned_onceD [OF assms(1)] by auto
  have old: "contexts j q \<noteq> None \<and> q \<noteq> ?p" if "owners j t h = Some q" for q
    using that owned_onceD(1) [OF assms(1) that] new by auto
  show ?thesis
  proof (cases "fst (install ?p) = ANYCHAT_OK")
    case True
    let ?j1 = "j\<lparr>owners := (owners j)(t := (owners j t)(h \<mapsto> ?p)), contexts := (contexts j)(?p \<mapsto> Some cb), next_context := Suc ?p\<rparr>"
    have "replace_context t h (Some cb) install clear j = (?j1, snd (install ?p), delete_owned (owners j t h))"
      using True by (simp add: replace_context_def Let_def new_context_def fun_upd_def) (auto simp: fun_eq_iff)
    moreover have "delete_owned (owners j t h) ?j1 = Some (add_owner t h cb (drop_owner t h j))"
      using old new by (cases "owners j t h")
        (auto simp: delete_owned_def delete_context_def add_owner_def drop_owner_def fun_eq_iff)
    ultimately show ?thesis
      using native_step_silent [where op = "replace_context t h (Some cb) install clear" and j = j and k = ?j1
          and a = "snd (install ?p)" and finish = "delete_owned (owners j t h)" and s = s and s' = s' and V = V] assms(2) True by simp
  next
    case False
    let ?j1 = "j\<lparr>owners := (owners j)(t := (owners j t)(h := None)), contexts := (contexts j)(?p \<mapsto> Some cb), next_context := Suc ?p\<rparr>"
    have "replace_context t h (Some cb) install clear j =
        (?j1, snd (install ?p), \<lambda>j'. Option.bind (delete_context ?p j') (delete_owned (owners j t h)))"
      using False by (simp add: replace_context_def Let_def new_context_def)
    moreover have "Option.bind (delete_context ?p ?j1) (delete_owned (owners j t h)) =
        Some ((drop_owner t h j)\<lparr>next_context := Suc ?p\<rparr>)"
      using old new by (cases "owners j t h")
        (auto simp: delete_owned_def delete_context_def drop_owner_def fun_eq_iff)
    ultimately show ?thesis
      using native_step_silent [where op = "replace_context t h (Some cb) install clear" and j = j and k = ?j1
          and a = "snd (install ?p)" and finish = "\<lambda>j'. Option.bind (delete_context ?p j') (delete_owned (owners j t h))"
          and s = s and s' = s' and V = V] assms(2) False by simp
  qed
qed

section \<open>The destructor\<close>

text \<open>Without a function for the connection's state the client's end is heard by nobody.\<close>

definition unheard :: "client_act \<Rightarrow> bool" where
  "unheard a \<longleftrightarrow> (\<forall>s. \<not> state_cb s \<longrightarrow> (\<exists>s'. a s = (s', [], []) \<and> \<not> state_cb s' \<and> c_listening s' = c_listening s))"

lemma unheard_skip: "unheard skip"
  by (simp add: unheard_def skip_def)

lemma unheard_modify: "(\<And>s. state_cb (f s) = state_cb s) \<Longrightarrow> (\<And>s. c_listening (f s) = c_listening s) \<Longrightarrow> unheard (modify f)"
  by (simp add: unheard_def modify_def)

lemma unheard_seq:
  assumes "unheard a" and "unheard b"
  shows "unheard (seq a b)"
  unfolding unheard_def
proof (intro allI impI)
  fix s :: client assume "\<not> state_cb s"
  then obtain s1 where 1: "a s = (s1, [], [])" "\<not> state_cb s1" "c_listening s1 = c_listening s"
    using assms(1) unfolding unheard_def by blast
  then obtain s2 where "b s1 = (s2, [], [])" "\<not> state_cb s2" "c_listening s2 = c_listening s1"
    using assms(2) unfolding unheard_def by blast
  with 1 show "\<exists>s'. seq a b s = (s', [], []) \<and> \<not> state_cb s' \<and> c_listening s' = c_listening s" by (simp add: seq_def)
qed

lemma unheard_perform: "(\<And>a. a \<in> set as \<Longrightarrow> unheard a) \<Longrightarrow> unheard (perform as)"
  by (induction "as" rule: perform.induct) (auto intro: unheard_skip unheard_seq)

lemma unheard_out: "x \<noteq> Ready \<Longrightarrow> unheard (conn_out_act E x)"
proof -
  assume "x \<noteq> Ready"
  moreover have "unheard (onStateChanged st)" for st
    by (simp add: unheard_def onStateChanged_def reading_def act_if_def skip_def)
  moreover have "unheard (set_ws f)" for f unfolding set_ws_def by (rule unheard_modify) simp_all
  ultimately show ?thesis by (cases x) (simp_all add: conn_out_act_def unheard_skip)
qed

lemma disconnect_not_ready: "Ready \<notin> set (snd (disconnect c))"
  by (simp add: disconnect_def conn_ops)

lemma unheard_destroy: "unheard (client_destroy E)"
  unfolding unheard_def
proof (intro allI impI)
  fix s :: client assume quiet: "\<not> state_cb s"
  show "\<exists>s'. client_destroy E s = (s', [], []) \<and> \<not> state_cb s' \<and> c_listening s' = c_listening s"
  proof (cases "link s")
    case None
    then show ?thesis using quiet by (simp add: client_destroy_def conn_act_def reading_def skip_def)
  next
    case (Some l)
    obtain c out where d: "disconnect (lk_conn l) = (c, out)" by (cases "disconnect (lk_conn l)")
    have "Ready \<notin> set out" using disconnect_not_ready [of "lk_conn l"] d by simp
    then have "unheard (for_each (conn_out_act E) out)"
      unfolding for_each_def by (intro unheard_perform) (auto intro: unheard_out)
    then have "unheard (seq (modify (\<lambda>s. s\<lparr>link := Some (l\<lparr>lk_conn := c\<rparr>)\<rparr>)) (for_each (conn_out_act E) out))"
      by (intro unheard_seq unheard_modify) simp_all
    then show ?thesis using quiet Some d unfolding unheard_def
      by (simp add: client_destroy_def conn_act_def reading_def)
  qed
qed

lemma destroy_effect:
  "\<exists>s'. perform [anychat_client_set_connection_callback True nullptr nullptr, anychat_client_destroy E True] s = (s', [], [])
     \<and> c_listening s' = (c_listening s)\<lparr>ls_state := None\<rparr>"
proof -
  let ?s = "s\<lparr>state_cb := False, c_listening := (c_listening s)\<lparr>ls_state := None\<rparr>\<rparr>"
  obtain s' where "client_destroy E ?s = (s', [], [])" "c_listening s' = (c_listening s)\<lparr>ls_state := None\<rparr>"
    using spec [OF unheard_destroy [of E, unfolded unheard_def], of ?s] by auto
  then show ?thesis
    by (simp add: anychat_client_set_connection_callback_def anychat_client_destroy_def act_if_def seq_def
        setOnConnectionStateChanged_def c_listen_def modify_def)
qed

section \<open>Reports\<close>

text \<open>Acts that change nothing and only call the application, each time with P.\<close>

definition only_notifies :: "(c_invocation \<Rightarrow> bool) \<Rightarrow> client_act \<Rightarrow> bool" where
  "only_notifies P a \<longleftrightarrow> (\<forall>s. \<exists>ivs. a s = (s, map CNotified ivs, []) \<and> list_all P ivs)"

lemma only_notifies_skip: "only_notifies P skip"
  unfolding only_notifies_def skip_def by (intro allI exI [of _ "[]"]) simp

lemma only_notifies_seq:
  assumes "only_notifies P a" and "only_notifies P b"
  shows "only_notifies P (seq a b)"
  unfolding only_notifies_def
proof
  fix s
  obtain i1 where 1: "a s = (s, map CNotified i1, [])" "list_all P i1" using assms(1) unfolding only_notifies_def by blast
  obtain i2 where 2: "b s = (s, map CNotified i2, [])" "list_all P i2" using assms(2) unfolding only_notifies_def by blast
  show "\<exists>ivs. seq a b s = (s, map CNotified ivs, []) \<and> list_all P ivs"
    by (rule exI [of _ "i1 @ i2"]) (simp add: seq_def 1 2)
qed

lemma only_notifies_perform: "(\<And>a. a \<in> set as \<Longrightarrow> only_notifies P a) \<Longrightarrow> only_notifies P (perform as)"
  by (induction "as" rule: perform.induct) (auto intro: only_notifies_skip only_notifies_seq)

definition calls_with :: "(c_invocation \<Rightarrow> bool) \<Rightarrow> addr \<Rightarrow> addr \<Rightarrow> bool" where
  "calls_with P f u \<longleftrightarrow> f = nullptr \<or> (\<forall>args mem. P \<lparr>iv_function = f, iv_userdata = u, iv_args = args, iv_memory = mem\<rparr>)"

lemma calls_with_null [simp]: "calls_with P nullptr u"
  by (simp add: calls_with_def)

lemma only_notifies_notify: "calls_with P f u \<Longrightarrow> only_notifies P (notify f u args)"
  unfolding only_notifies_def
proof
  fix s :: client
  assume "calls_with P f u"
  then show "\<exists>ivs. notify f u args s = (s, map CNotified ivs, []) \<and> list_all P ivs"
    by (cases "f = nullptr")
      (auto simp: notify_def c_invoke_def skip_def reading_def emit_def calls_with_def
        intro: exI [of _ "[]"] exI [of _ "[\<lparr>iv_function = f, iv_userdata = u, iv_args = args, iv_memory = c_heap s\<rparr>]"])
qed

lemma only_notifies_message:
  assumes "calls_with P f u"
  shows "only_notifies P (notify_message f u msg)"
proof (cases "f = nullptr")
  case True
  then show ?thesis by (simp add: notify_message_def act_if_def only_notifies_skip)
next
  case False
  have "\<exists>ivs. notify_message f u msg s = (s, map CNotified ivs, []) \<and> list_all P ivs" for s
    using c_exactly_message [OF False, of u msg] assms False unfolding c_exactly_def calls_with_def
    by (intro exI [of _ "[\<lparr>iv_function = f, iv_userdata = u, iv_args = [AMessage (fst (messageToCStruct msg zero_Message (c_heap s)))],
          iv_memory = snd (messageToCStruct msg zero_Message (c_heap s))\<rparr>]"]) simp
  then show ?thesis by (simp add: only_notifies_def)
qed

lemma only_notifies_listeners:
  "calls_with P (jni_addr J_messageReceivedCallback) p \<Longrightarrow> only_notifies P (CMessageListener (jni_message_listener p) e)"
  "calls_with P (jni_addr J_convUpdatedCallback) p \<Longrightarrow> only_notifies P (CConversationListener (jni_conv_listener p) e)"
  "calls_with P f p \<Longrightarrow> only_notifies P (c_state_closure (f, p) e)"
  by (simp_all add: CMessageListener_def CConversationListener_def c_state_closure_def jni_message_listener_def
      jni_conv_listener_def only_notifies_skip only_notifies_notify only_notifies_message del: jni_addr.simps split: event.split)

text \<open>Java is called with a listener's method, or not at all.\<close>

fun listener_call :: "java_call \<Rightarrow> bool" where
  "listener_call (JavaCall cb method sig args) \<longleftrightarrow>
     method \<in> {''onMessageReceived'', ''onConversationUpdated'', ''onConnectionStateChanged''}"

definition heard_well :: "jvm \<Rightarrow> jni_state \<Rightarrow> c_invocation \<Rightarrow> bool" where
  "heard_well V j iv \<longleftrightarrow> (\<exists>calls. jni_invoked V iv j = Some (j, calls) \<and> list_all listener_call calls)"

lemma notify_java_alive:
  assumes "contexts j p \<noteq> None" and "method \<in> {''onMessageReceived'', ''onConversationUpdated'', ''onConnectionStateChanged''}"
  shows "\<exists>calls. notify_java V p method sig args j = Some (j, calls) \<and> list_all listener_call calls"
  using assms by (auto simp: notify_java_def call_method_def split: option.split)

lemma calls_with_alive:
  assumes "contexts j p \<noteq> None"
    and "f \<in> {J_messageReceivedCallback, J_convUpdatedCallback, J_connectionStateCallback}"
  shows "calls_with (heard_well V j) (jni_addr f) p"
  unfolding calls_with_def heard_well_def
  using assms(2) notify_java_alive [OF assms(1)]
  by (auto simp: jni_invoked_def messageReceivedCallback_def convUpdatedCallback_def connectionStateCallback_def
      simp del: jni_addr.simps)

lemma dispatch_well:
  "list_all (heard_well V j) ivs \<Longrightarrow> \<exists>calls. jni_dispatch V ivs j = Some (j, calls) \<and> list_all listener_call calls"
  by (induction ivs) (auto simp: heard_well_def)

lemma invocations_notified [simp]: "invocations (map CNotified ivs) = ivs"
  by (induction ivs) simp_all

lemma only_notifies_heard:
  "(\<And>L. l = Some L \<Longrightarrow> only_notifies P (f L e)) \<Longrightarrow> only_notifies P (heard_by l f e)"
  by (simp add: heard_by_def only_notifies_skip split: option.split)

text \<open>Whatever the client reports, what the C layer calls has a context that is alive.\<close>

lemma report_well:
  assumes inv: "jni_inv H j s" and "to_listener e"
  shows "\<exists>calls. report_step V e j s = Some (j, s, calls) \<and> list_all listener_call calls"
proof -
  let ?ls = "c_listening s"
  have own: "owned_once j" and ours: "listeners_ours H j ?ls" using inv by (simp_all add: jni_inv_def)
  note alive = owned_onceD(1) [OF own]
  have message: "only_notifies (heard_well V j) (CMessageListener L e)" if "ls_message ?ls = Some L" for L
    using ours that alive unfolding listeners_ours_def
    by (auto intro!: only_notifies_listeners(1) calls_with_alive)
  have conv: "only_notifies (heard_well V j) (CConversationListener L e)" if "ls_conv ?ls = Some L" for L
    using ours that alive unfolding listeners_ours_def
    by (auto intro!: only_notifies_listeners(2) calls_with_alive)
  have st: "only_notifies (heard_well V j) (c_state_closure x e)" if "ls_state ?ls = Some x" for x
    using ours that alive unfolding listeners_ours_def
    by (auto intro!: only_notifies_listeners(3) calls_with_alive simp del: jni_addr.simps)
  have "only_notifies (heard_well V j) (perform [
     heard_by (ls_auth ?ls) CAuthListener e, heard_by (ls_message ?ls) CMessageListener e,
     heard_by (ls_conv ?ls) CConversationListener e, heard_by (ls_friend ?ls) CFriendListener e,
     heard_by (ls_group ?ls) CGroupListener e, heard_by (ls_user ?ls) CUserListener e,
     heard_by (ls_call ?ls) CCallListener e, heard_by (ls_state ?ls) c_state_closure e])"
    using ours message conv st unfolding listeners_ours_def
    by (intro only_notifies_perform) (auto intro: only_notifies_heard)
  then obtain ivs where "c_notify e s = (s, map CNotified ivs, [])" and "list_all (heard_well V j) ivs"
    unfolding only_notifies_def c_notify_def reading_def Let_def by blast
  moreover have "relay (emit e) s = (case c_notify e s of (s', es, _) \<Rightarrow> (s', es, []))"
    using assms(2) by (simp add: relay_def emit_def relay_result_def for_each_def c_relayed_def)
  ultimately show ?thesis using dispatch_well by (fastforce simp: report_step_def)
qed

section \<open>Every step\<close>

lemma jni_inv_next: "jni_inv H j s \<Longrightarrow> jni_inv H (j\<lparr>next_context := Suc (next_context j)\<rparr>) s"
  by (simp add: jni_inv_def owned_once_next listeners_ours_def)

text \<open>Installing and removing keep the invariant when the C layer's listener follows the map.\<close>

lemma message_installed:
  "anychat_message_set_listener True l = (ANYCHAT_OK, perform [msg_setListener (l \<noteq> None), c_listen (\<lambda>ls. ls\<lparr>ls_message := l\<rparr>)])"
  by (simp add: anychat_message_set_listener_def dispatched_def split: option.split)

lemma conv_installed:
  "anychat_conv_set_listener True l = (ANYCHAT_OK, perform [conv_setListener (l \<noteq> None), c_listen (\<lambda>ls. ls\<lparr>ls_conv := l\<rparr>)])"
  by (simp add: anychat_conv_set_listener_def dispatched_def split: option.split)

lemma set_refused:
  "anychat_message_set_listener False l = (ANYCHAT_ERROR_INVALID_PARAM, skip)"
  "anychat_conv_set_listener False m = (ANYCHAT_ERROR_INVALID_PARAM, skip)"
  by (simp_all add: anychat_message_set_listener_def anychat_conv_set_listener_def rejected_def)

lemma listen_effect:
  "perform [modify f, c_listen g] s = ((f s)\<lparr>c_listening := g (c_listening (f s))\<rparr>, [], [])"
  by (simp add: seq_def modify_def c_listen_def)

text \<open>A listener is installed or removed: the listeners are those of before, but for one.\<close>

lemma silent_pair:
  "snd (anychat_message_set_listener True l) s = ((s\<lparr>msg_listener := l \<noteq> None\<rparr>)\<lparr>c_listening := (c_listening s)\<lparr>ls_message := l\<rparr>\<rparr>, [], [])"
  "snd (anychat_conv_set_listener True m) s = ((s\<lparr>conv_listener := m \<noteq> None\<rparr>)\<lparr>c_listening := (c_listening s)\<lparr>ls_conv := m\<rparr>\<rparr>, [], [])"
  by (simp_all add: message_installed conv_installed msg_setListener_def conv_setListener_def listen_effect
      del: perform.simps)

lemma jni_inv_message:
  assumes "jni_inv H j s" and "h \<noteq> 0"
  shows "c_listening s' = (c_listening s)\<lparr>ls_message := None\<rparr> \<Longrightarrow> jni_inv H (drop_owner MessageListenerCallbacks h j) s'"
    and "c_listening s' = (c_listening s)\<lparr>ls_message := Some (jni_message_listener (next_context j))\<rparr> \<Longrightarrow>
      jni_inv H (add_owner MessageListenerCallbacks h cb (drop_owner MessageListenerCallbacks h j)) s'"
  using assms by (auto simp: jni_inv_def listeners_ours_def owned_once_drop owned_once_add)

lemma jni_inv_conv:
  assumes "jni_inv H j s" and "h \<noteq> 0"
  shows "c_listening s' = (c_listening s)\<lparr>ls_conv := None\<rparr> \<Longrightarrow> jni_inv H (drop_owner ConvListenerCallbacks h j) s'"
    and "c_listening s' = (c_listening s)\<lparr>ls_conv := Some (jni_conv_listener (next_context j))\<rparr> \<Longrightarrow>
      jni_inv H (add_owner ConvListenerCallbacks h cb (drop_owner ConvListenerCallbacks h j)) s'"
  using assms by (auto simp: jni_inv_def listeners_ours_def owned_once_drop owned_once_add)

text \<open>An entry that nothing refers to.\<close>

lemma drop_nothing:
  assumes "owners j t h = None"
  shows "drop_owner t h j = j"
proof -
  have "(owners j)(t := (owners j t)(h := None)) = owners j" using assms by (auto simp: fun_eq_iff)
  moreover have "(\<lambda>p. if owners j t h = Some p then None else contexts j p) = contexts j" using assms by auto
  ultimately show ?thesis by (simp add: drop_owner_def)
qed

lemma jni_inv_state:
  assumes "jni_inv H j s"
  shows "h \<noteq> H \<Longrightarrow> jni_inv H (drop_owner ConnectionCallbacks h j) s"
    and "h \<noteq> H \<Longrightarrow> jni_inv H (add_owner ConnectionCallbacks h cb (drop_owner ConnectionCallbacks h j)) s"
    and "c_listening s' = (c_listening s)\<lparr>ls_state := None\<rparr> \<Longrightarrow> jni_inv H (drop_owner ConnectionCallbacks h j) s'"
    and "H \<in> g_clientHandles j \<Longrightarrow>
      c_listening s' = (c_listening s)\<lparr>ls_state := Some (jni_addr J_connectionStateCallback, next_context j)\<rparr> \<Longrightarrow>
      jni_inv H (add_owner ConnectionCallbacks H cb (drop_owner ConnectionCallbacks H j)) s'"
  using assms by (auto simp: jni_inv_def listeners_ours_def owned_once_drop owned_once_add simp del: jni_addr.simps)

definition good_step :: "int \<Rightarrow> (jni_state \<times> client \<times> java_call list) option \<Rightarrow> bool" where
  "good_step H r \<longleftrightarrow> (\<exists>j s calls. r = Some (j, s, calls) \<and> jni_inv H j s \<and> list_all listener_call calls)"

lemma good_stepI: "r = Some (j, s, []) \<Longrightarrow> jni_inv H j s \<Longrightarrow> good_step H r"
  by (simp add: good_step_def)

text \<open>The three natives for listeners share their body.\<close>

lemma step_replace:
  assumes "jni_inv H j s"
    and "\<exists>s'. snd clear s = (s', [], []) \<and> jni_inv H (drop_owner t h j) s'"
    and "\<And>cb. \<exists>s'. snd (install (next_context j)) s = (s', [], []) \<and>
      jni_inv H (if fst (install (next_context j)) = ANYCHAT_OK then add_owner t h cb (drop_owner t h j)
                 else (drop_owner t h j)\<lparr>next_context := Suc (next_context j)\<rparr>) s'"
  shows "good_step H (native_step V (replace_context t h callback install clear) j s)"
proof (cases callback)
  case None
  obtain s' where c: "snd clear s = (s', [], [])" and i: "jni_inv H (drop_owner t h j) s'" using assms(2) by blast
  have "owned_once j" using assms(1) by (simp add: jni_inv_def)
  then have "native_step V (replace_context t h None install clear) j s = Some (drop_owner t h j, s', [])"
    using c by (rule native_step_clear)
  then show ?thesis unfolding None using i by (rule good_stepI)
next
  case (Some cb)
  obtain s' where c: "snd (install (next_context j)) s = (s', [], [])" and
    i: "jni_inv H (if fst (install (next_context j)) = ANYCHAT_OK then add_owner t h cb (drop_owner t h j)
          else (drop_owner t h j)\<lparr>next_context := Suc (next_context j)\<rparr>) s'" using assms(3) by blast
  have "owned_once j" using assms(1) by (simp add: jni_inv_def)
  then have "native_step V (replace_context t h (Some cb) install clear) j s =
    Some (if fst (install (next_context j)) = ANYCHAT_OK then add_owner t h cb (drop_owner t h j)
          else (drop_owner t h j)\<lparr>next_context := Suc (next_context j)\<rparr>, s', [])"
    using c by (rule native_step_install)
  then show ?thesis unfolding Some using i by (rule good_stepI)
qed

lemma listener_codes:
  "fst (anychat_message_set_listener b l) = (if b then ANYCHAT_OK else ANYCHAT_ERROR_INVALID_PARAM)"
  "fst (anychat_conv_set_listener b m) = (if b then ANYCHAT_OK else ANYCHAT_ERROR_INVALID_PARAM)"
  by (simp_all add: anychat_message_set_listener_def anychat_conv_set_listener_def rejected_def dispatched_def split: option.split)

lemma refused_codes: "ANYCHAT_ERROR_INVALID_PARAM \<noteq> ANYCHAT_OK"
  by (simp add: ANYCHAT_OK_def ANYCHAT_ERROR_INVALID_PARAM_def)

lemma step_message:
  assumes "jni_inv H j s"
  shows "good_step H (native_step V (Message_nativeSetReceivedCallback h callback) j s)"
  unfolding Message_nativeSetReceivedCallback_def
proof (rule step_replace [OF assms])
  have none: "drop_owner MessageListenerCallbacks 0 j = j" using assms by (intro drop_nothing) (simp add: jni_inv_def)
  show "\<exists>s'. snd (anychat_message_set_listener (h \<noteq> 0) None) s = (s', [], []) \<and> jni_inv H (drop_owner MessageListenerCallbacks h j) s'"
    using assms none by (cases "h = 0") (simp_all add: silent_pair set_refused skip_def jni_inv_message(1))
  fix cb
  show "\<exists>s'. snd (anychat_message_set_listener (h \<noteq> 0) (Some (jni_message_listener (next_context j)))) s = (s', [], []) \<and>
      jni_inv H (if fst (anychat_message_set_listener (h \<noteq> 0) (Some (jni_message_listener (next_context j)))) = ANYCHAT_OK
                 then add_owner MessageListenerCallbacks h cb (drop_owner MessageListenerCallbacks h j)
                 else (drop_owner MessageListenerCallbacks h j)\<lparr>next_context := Suc (next_context j)\<rparr>) s'"
    using assms none
    by (cases "h = 0")
      (simp_all add: silent_pair set_refused listener_codes refused_codes skip_def jni_inv_message(2) jni_inv_next)
qed

lemma install_message:
  assumes "owned_once j"
  shows "\<exists>s'. native_step V (Message_nativeSetReceivedCallback 1 (Some cb)) j s =
    Some (add_owner MessageListenerCallbacks 1 cb (drop_owner MessageListenerCallbacks 1 j), s', [])"
proof -
  let ?s = "(s\<lparr>msg_listener := True\<rparr>)\<lparr>c_listening := (c_listening s)\<lparr>ls_message := Some (jni_message_listener (next_context j))\<rparr>\<rparr>"
  have silent: "snd (anychat_message_set_listener (1 \<noteq> (0::int)) (Some (jni_message_listener (next_context j)))) s = (?s, [], [])"
    by (simp add: silent_pair)
  show ?thesis
    unfolding Message_nativeSetReceivedCallback_def
    using native_step_install [where install = "\<lambda>ctx. anychat_message_set_listener (1 \<noteq> (0::int)) (Some (jni_message_listener ctx))"
        and t = MessageListenerCallbacks and h = 1 and cb = cb and V = V, OF assms silent]
    by (simp add: listener_codes)
qed

lemma step_conv:
  assumes "jni_inv H j s"
  shows "good_step H (native_step V (Conversation_nativeSetUpdatedCallback h callback) j s)"
  unfolding Conversation_nativeSetUpdatedCallback_def
proof (rule step_replace [OF assms])
  have none: "drop_owner ConvListenerCallbacks 0 j = j" using assms by (intro drop_nothing) (simp add: jni_inv_def)
  show "\<exists>s'. snd (anychat_conv_set_listener (h \<noteq> 0) None) s = (s', [], []) \<and> jni_inv H (drop_owner ConvListenerCallbacks h j) s'"
    using assms none by (cases "h = 0") (simp_all add: silent_pair set_refused skip_def jni_inv_conv(1))
  fix cb
  show "\<exists>s'. snd (anychat_conv_set_listener (h \<noteq> 0) (Some (jni_conv_listener (next_context j)))) s = (s', [], []) \<and>
      jni_inv H (if fst (anychat_conv_set_listener (h \<noteq> 0) (Some (jni_conv_listener (next_context j)))) = ANYCHAT_OK
                 then add_owner ConvListenerCallbacks h cb (drop_owner ConvListenerCallbacks h j)
                 else (drop_owner ConvListenerCallbacks h j)\<lparr>next_context := Suc (next_context j)\<rparr>) s'"
    using assms none
    by (cases "h = 0")
      (simp_all add: silent_pair set_refused listener_codes refused_codes skip_def jni_inv_conv(2) jni_inv_next)
qed

lemma connection_set:
  "f \<noteq> nullptr \<Longrightarrow> anychat_client_set_connection_callback True u f s =
     ((s\<lparr>state_cb := True\<rparr>)\<lparr>c_listening := (c_listening s)\<lparr>ls_state := Some (f, u)\<rparr>\<rparr>, [], [])"
  "anychat_client_set_connection_callback True u nullptr s =
     ((s\<lparr>state_cb := False\<rparr>)\<lparr>c_listening := (c_listening s)\<lparr>ls_state := None\<rparr>\<rparr>, [], [])"
  "anychat_client_set_connection_callback False u f = skip"
  by (simp_all add: anychat_client_set_connection_callback_def act_if_def setOnConnectionStateChanged_def listen_effect
      del: perform.simps)

lemma step_connection:
  assumes "jni_inv H j s" and "H \<noteq> 0" and "h = 0 \<or> h = H \<and> H \<in> g_clientHandles j"
  shows "good_step H (native_step V (AnyChatClient_nativeSetConnectionCallback h callback) j s)"
  unfolding AnyChatClient_nativeSetConnectionCallback_def
proof (rule step_replace [OF assms(1)])
  show "\<exists>s'. snd (ANYCHAT_OK, anychat_client_set_connection_callback (h \<noteq> 0) nullptr nullptr) s = (s', [], []) \<and>
      jni_inv H (drop_owner ConnectionCallbacks h j) s'"
    using assms(2,3) jni_inv_state(1,3) [OF assms(1)] by (cases "h = 0") (auto simp: connection_set skip_def)
  fix cb
  show "\<exists>s'. snd (ANYCHAT_OK, anychat_client_set_connection_callback (h \<noteq> 0) (next_context j) (jni_addr J_connectionStateCallback)) s = (s', [], []) \<and>
      jni_inv H (if fst (ANYCHAT_OK, anychat_client_set_connection_callback (h \<noteq> 0) (next_context j) (jni_addr J_connectionStateCallback)) = ANYCHAT_OK
                 then add_owner ConnectionCallbacks h cb (drop_owner ConnectionCallbacks h j)
                 else (drop_owner ConnectionCallbacks h j)\<lparr>next_context := Suc (next_context j)\<rparr>) s'"
    using assms(2,3) jni_inv_state(2,4) [OF assms(1)]
    by (cases "h = 0") (auto simp: connection_set skip_def simp del: jni_addr.simps)
qed

lemma step_operation:
  assumes "jni_inv H j s" and "jni_operation E callback op"
  shows "good_step H (native_step V op j s)"
proof -
  obtain mk f where op: "op = jni_call mk f callback" and c: "\<And>i c. c_function E i (Some c) (f i (Some c))"
    using jni_operation_shape [OF assms(2)] by blast
  have "owned_once j" using assms(1) by (simp add: jni_inv_def)
  moreover have "\<And>i c. refused (f i (Some c))" using c by (rule c_function_refused)
  ultimately have "native_step V (jni_call mk f callback) j s = Some (j\<lparr>next_context := Suc (next_context j)\<rparr>, s, [])"
    by (rule native_step_call)
  then show ?thesis unfolding op by (rule good_stepI) (rule jni_inv_next [OF assms(1)])
qed

lemma jni_inv_destroyed:
  assumes "jni_inv H j s" and "c_listening s' = (c_listening s)\<lparr>ls_state := None\<rparr>"
  shows "jni_inv H ((drop_owner ConnectionCallbacks h j)\<lparr>g_clientHandles := g_clientHandles j - {h}\<rparr>) s'"
proof -
  have "jni_inv H (drop_owner ConnectionCallbacks h j) s'" using jni_inv_state(3) [OF assms] by blast
  then show ?thesis
    using assms(2) by (auto simp: jni_inv_def listeners_ours_def owned_once_handles)
qed

lemma step_destroy:
  assumes "jni_inv H j s" and "H \<noteq> 0" and "h = 0 \<or> h = H"
  shows "good_step H (native_step V (AnyChatClient_nativeDestroy E h) j s)"
proof -
  let ?k = "j\<lparr>g_clientHandles := g_clientHandles j - {h}\<rparr>"
  let ?cut = "?k\<lparr>owners := (owners ?k)(ConnectionCallbacks := (owners ?k ConnectionCallbacks)(h := None))\<rparr>"
  let ?a = "act_if (h \<in> g_clientHandles j)
      (perform [anychat_client_set_connection_callback True nullptr nullptr, anychat_client_destroy E True])"
  let ?j' = "(drop_owner ConnectionCallbacks h j)\<lparr>g_clientHandles := g_clientHandles j - {h}\<rparr>"
  have own: "owned_once ?k" using assms(1) by (simp add: jni_inv_def owned_once_handles)
  have fin: "delete_owned (owners j ConnectionCallbacks h) ?cut = Some ?j'"
    using delete_owned_drop [OF own, of ?cut ConnectionCallbacks h] by (simp add: drop_owner_handles)
  have "\<exists>s'. ?a s = (s', [], []) \<and> jni_inv H ?j' s'"
  proof (cases "h \<in> g_clientHandles j")
    case True
    then show ?thesis using destroy_effect [of E s] jni_inv_destroyed [OF assms(1)] by (fastforce simp: act_if_def)
  next
    case False
    have "h \<noteq> H \<or> ls_state (c_listening s) = None"
      using assms(1) False by (cases "ls_state (c_listening s)") (auto simp: jni_inv_def listeners_ours_def)
    then have "jni_inv H ?j' s"
    proof
      assume "h \<noteq> H"
      then have "jni_inv H (drop_owner ConnectionCallbacks h j) s" by (rule jni_inv_state(1) [OF assms(1)])
      moreover have "g_clientHandles j - {h} = g_clientHandles j" using False by simp
      ultimately show ?thesis by (simp add: jni_inv_def listeners_ours_def owned_once_handles)
    next
      assume "ls_state (c_listening s) = None"
      then show ?thesis by (intro jni_inv_destroyed [OF assms(1)]) simp
    qed
    then show ?thesis using False by (simp add: act_if_def skip_def)
  qed
  then obtain s' where a: "?a s = (s', [], [])" and i: "jni_inv H ?j' s'" by blast
  have "AnyChatClient_nativeDestroy E h j = (?cut, ?a, delete_owned (owners j ConnectionCallbacks h))"
    by (simp add: AnyChatClient_nativeDestroy_def)
  then have "native_step V (AnyChatClient_nativeDestroy E h) j s =
      map_option (\<lambda>j'. (j', s', [])) (delete_owned (owners j ConnectionCallbacks h) ?cut)"
    using a by (rule native_step_silent)
  then show ?thesis using fin i by (auto intro: good_stepI)
qed

lemma step_native:
  assumes "jni_native E H j op" and "jni_inv H j s" and "H \<noteq> 0"
  shows "good_step H (native_step V op j s)"
  using assms(1)
proof cases
  case (operation callback)
  with assms(2) show ?thesis by (intro step_operation)
next
  case (message h callback)
  show ?thesis unfolding message(1) by (rule step_message [OF assms(2)])
next
  case (conversation h callback)
  show ?thesis unfolding conversation(1) by (rule step_conv [OF assms(2)])
next
  case (connection h callback)
  show ?thesis unfolding connection(1) by (rule step_connection [OF assms(2,3) connection(2)])
next
  case (destroy h)
  show ?thesis unfolding destroy(1) by (rule step_destroy [OF assms(2,3) destroy(2)])
qed

lemma created_listening:
  assumes "AnyChatClient_nativeCreate a b c d t n r W srt now v j = (Created s', j')"
  shows "j' = j\<lparr>g_clientHandles := insert v (g_clientHandles j)\<rparr>" and "c_listening s' = no_listeners"
proof -
  have built: "c_listening s = no_listeners" if "construct cfg W srt now = Built s" for cfg s
    using that by (auto simp: construct_def new_client_def auth_restore_def reading_def act_if_def skip_def seq_def modify_def
        set_http_token_def Let_def split: if_splits option.splits)
  have created: "c_listening s = no_listeners" if "anychat_client_create cfg W srt now = Created s" for cfg s
    using that built by (auto simp: anychat_client_create_def split: option.splits if_splits construction.splits)
  show "j' = j\<lparr>g_clientHandles := insert v (g_clientHandles j)\<rparr>" and "c_listening s' = no_listeners"
    using assms created by (auto simp: AnyChatClient_nativeCreate_def Let_def split: created.splits)
qed

lemma jni_inv_loaded: "c_listening s = no_listeners \<Longrightarrow> jni_inv H JNI_OnLoad s"
  by (simp add: jni_inv_def owned_once_def JNI_OnLoad_def listeners_ours_def no_listeners_def)

lemma jni_inv_created:
  assumes "jni_inv H j s" and "c_listening s' = no_listeners"
  shows "jni_inv H (j\<lparr>g_clientHandles := insert H (g_clientHandles j)\<rparr>) s'"
proof -
  have "owned_once (j\<lparr>g_clientHandles := insert H (g_clientHandles j)\<rparr>)"
    using assms(1) by (intro owned_once_handles) (simp add: jni_inv_def)
  then show ?thesis using assms by (auto simp: jni_inv_def listeners_ours_def no_listeners_def)
qed

lemma jni_reaches_inv:
  assumes "jni_reaches V E H tr r" and "H \<noteq> 0"
  shows "\<exists>j s. r = Some (j, s) \<and> jni_inv H j s \<and> list_all listener_call tr"
  using assms(1)
proof induction
  case (loaded s)
  then show ?case by (simp add: jni_inv_loaded)
next
  case (created tr j s a b c d t n r W srt now s' j')
  then show ?case using created_listening [OF created.hyps(3)] jni_inv_created by blast
next
  case (worked tr j s s')
  then show ?case by (simp add: jni_inv_def)
next
  case (operated tr j s op j' s' calls)
  then have inv: "jni_inv H j s" by simp
  have "good_step H (native_step V op j s)" by (rule step_native [OF operated.hyps(2) inv assms(2)])
  then show ?case using operated by (auto simp: good_step_def)
next
  case (operation_undefined tr j s op)
  then have inv: "jni_inv H j s" by simp
  have "good_step H (native_step V op j s)" by (rule step_native [OF operation_undefined.hyps(2) inv assms(2)])
  then show ?case using operation_undefined by (simp add: good_step_def)
next
  case (reported tr j s e j' s' calls)
  then have inv: "jni_inv H j s" by simp
  show ?case using report_well [OF inv reported.hyps(2), of V] reported by auto
next
  case (report_undefined tr j s e)
  then have inv: "jni_inv H j s" by simp
  show ?case using report_well [OF inv report_undefined.hyps(2), of V] report_undefined by auto
qed



end
