(* ===== verification/Spec2Isabelle.thy ===== *)
theory Spec2Isabelle
  imports System Timestamps LruCache UrlEncode HttpWorker CApi WebBinding JniOwnership
begin

text \<open>
  A verification of the AnyChat SDK: the C++ core (core/src), its C interface (core/include,
  core/src/c_api), the bindings of that interface for JavaScript and Java that are written in
  C++ (packages/web/src, packages/android/src/main/cpp) and the way they work together.

  The program. An \<open>AnyChatClient\<close> owns an HTTP client, a WebSocket client below a connection
  manager, a SQLite database with a worker thread, two caches, an outbound queue, a
  notification manager, a sync engine and one manager per subject (account, messages,
  conversations, friends, groups, users, calls, files, versions). An application calls an
  operation of a manager and passes two functions; the manager asks the server over HTTP and
  calls one of them when the response is there. Frames of the server come over the WebSocket
  and go through the notification manager to every manager; a manager changes caches and
  tables and tells the application's listener. The C interface wraps every operation for
  applications in other languages.

  How code becomes definitions. The fields of the client and its managers are the record
  \<open>client\<close> (ClientState). A piece of code that runs on one thread without waiting is an \<open>act\<close>
  (Async): a function from the state to the new state, what the application can see of it in
  order (\<open>event\<close>), and the requests it leaves with the HTTP client, each with the code to run
  when the response comes. Enums and structs are datatypes and records with the names of the
  source (a prefix where a name is taken), exceptions and refused calls are values, machine
  integers are integers with the wrap-around written out (\<open>wrap32\<close>, \<open>wrap64\<close>), C strings are
  texts up to their first NUL (\<open>c_str\<close>). A mutex held over a block makes the block one step.

  Theories, from the bottom up.

  Prelude: integers at their width, ASCII, decimal texts, orders, the collections of hints.
  JsonCommon (json_common.h): readers of numbers, flags and times, calendar arithmetic, the
  envelope of every response. Timestamps: the calendar and text round trips. SdkTypes
  (sdk_types.h). Stores: the interfaces \<open>keyed_store\<close> and \<open>erasable_store\<close> of tables and the
  statement shapes INSERT, UPDATE, DELETE.

  ConversationCache, MessageCache, LruCache (cache/): the two caches the client uses and the
  generic one, each against a reference: a finite map in order, the newest messages, a recency
  list (\<open>recency_map\<close>).

  Database (db/database.cpp, db/migrations.cpp): tables with the keys and foreign keys of the
  schema, transactions, migrations. DbWorker: the worker thread and its queue of tasks
  (\<open>serial_service\<close>), with the refinement that lets every other theory execute a statement at
  once.

  ConnectionManager, WebSocketClient (connection_manager.cpp, network/websocket_client.cpp):
  the two state machines with their timers and threads; Connectivity: one on top of the other.

  Async: acts, the two notions the managers are proved with (\<open>keeps\<close>: an invariant holds after
  the act and after every continuation; \<open>answers\<close>: events of a kind come exactly so often) and
  systems in which calls and responses interleave (\<open>reaches\<close>). HttpClient: requests and the
  token. HttpWorker (network/http_client.cpp): the worker thread over libcurl, a refinement of
  \<open>reaches\<close>.

  ClientState: the state all managers share, callbacks, events, access to the tables.
  NotificationManager, OutboundQueue, AuthManager, MessageManager, ConversationManager,
  SyncEngine, FriendManager, CallManager, GroupManager, UserManager, VersionManager,
  FileManager: the .cpp file of that name, every operation and every notification handler.
  UrlEncode: \<open>urlEncode\<close>. Client (client_impl.cpp): construction, wiring, login, logout. System:
  all operations as values and what else may happen to a client.

  CTypes (types.h, errors.h, c_api/utils_c.cpp): C structs with character arrays of their size,
  the part of the heap the C layer allocates. CConvert: the converters between SDK and C values
  and the functions that release them. CCallbacks: callback structs, the closures over them, the
  listener classes. CApiAccount, CApiChat, CApiPeople, CApiMedia (c_api/*_c.cpp): every C
  function. CApi: all of them together.

  Bindings: how code above the C layer reads the structs it is called with. WebBinding
  (embind_wrapper.cpp): the store of JavaScript functions, the wrappers the C layer calls, the
  conversions to JavaScript objects and every operation; what happens is the new store, the calls
  into JavaScript and the act of the client. JniBinding (jni_*.cpp): the native methods, the
  static functions the C layer calls and the heap of \<open>CallbackContext\<close>s, whose misuse is the value
  None. JniOwnership: natives and reports of a client in every order (\<open>jni_reaches\<close>).

  What is shown. Each manager has lemmas that every operation and handler keeps the invariant of
  the client (\<open>keeps_...\<close>) and answers its callback once (\<open>answers_...\<close>); System composes them
  over every interleaving. The caches, the queue, the state machines, the worker threads and the
  database have their own refinements and invariants. Round trips: times, URLs, decimal texts,
  tokens and conversations through the tables, settings through the C structs. The C layer:
  each function's refusal, that it releases all it allocates, that texts are cut to their
  array; and that as written it refuses every callback. The bindings: a JavaScript function is
  called at most once and for its own operation; a Java context is never used or deleted after
  it is gone, and none is left over.

  Abstractions. A run has no bound: the properties hold for runs of every length. Loops that
  could run on (the reconnection loops, the worker threads, the heartbeat) are step relations or
  take one step per turn, so no fuel is needed; every other loop is a structural recursion or
  has its measure. The clock is read once per act. \<open>exec\<close> takes effect at once (justified in
  DbWorker). An act is not interrupted by another thread, except where the code releases its lock
  in between and a race is possible: the reconnect timer, the enqueuing of a message against a new connection,
  the database worker and the HTTP worker have a step for each part. Parameters of the
  definitions stand for code that is not part of the repository: the JSON readers and writers of
  glaze (\<open>frame_writer\<close>, \<open>auth_json\<close> and the like, no law assumed unless a property names it), the
  file system, what \<open>std::sort\<close> makes of equal elements, what libwebsockets reports while it closes.
  SQLite is modelled by the documented meaning of the statements the source sends. \<open>malloc\<close>
  succeeds. Where C++ leaves an overflow undefined the value wraps.

  The JavaScript runtime and the Java virtual machine are parameters: which classes and methods
  there are and whether a thread can be attached (\<open>jvm\<close>), what is read through the pointers into a
  vector that has grown (\<open>js_pointers\<close>). What a function of the application calls back in turn comes
  after the code that called it.

  Not modelled: the sources in Kotlin, TypeScript, Swift and Dart (packages/), another language
  than the program; local references of Java, the conversion of C++ exceptions into Java ones and
  the race between a listener that is replaced and a thread that is calling it; the tests;
  logging; the Windows branch of the path handling; third-party libraries beyond the above.
\<close>

section \<open>Every call is answered once\<close>


text \<open>A client without a connection asks for the user's profile; a message is sent meanwhile; the
  request fails.\<close>

definition offline_run :: "client_env \<Rightarrow> client_system" where
  "offline_run E = deliver 0 \<lparr>status_code = 0, body = [], resp_error = ''timeout''\<rparr>
     (start (happening_act E (Send ''c1'' ''hi'' (full_cb 8)))
       (start (api_act E (Users GetProfile) (full_cb 7)) \<lparr>sys_state = demo_client, sys_pending = [], sys_trace = []\<rparr>))"


section \<open>The invariant of every reachable client\<close>

lemma db_inv_open_worker:
  assumes "open_worker cfg W = Some w" and "db_inv (file_tables (db_file W))"
  shows "db_inv (raw_db w)"
proof (cases "cfg_db_path cfg = []")
  case True
  then show ?thesis using assms(1) by (auto simp: open_worker_def new_worker_def)
next
  case False
  have mig: "db_inv (file_tables f')" if "runMigrations v ok (db_file W) = (r, f')" for v ok r f'
    using that assms(2)
    by (auto simp: runMigrations_def migrateToV1_def Let_def create_if_not_exists_def split: if_splits option.splits)
  show ?thesis
    using assms(1) False
    by (auto simp: open_worker_def db_open_def postSync_def db_start_def db_drain_def db_view_def new_worker_def Let_def
        intro: mig split: if_splits prod.splits bool.splits)
qed

lemma construct_inv:
  assumes "construct cfg W srt now = Built c" and "sorting srt seq_less" and "db_inv (file_tables (db_file W))"
  shows "client_inv X c"
proof -
  obtain w where w: "open_worker cfg W = Some w"
    and c: "c = fst (auth_restore (new_client (cfg_api_base_url cfg) (cfg_gateway_url cfg) (cfg_device_id cfg)
              (cfg_network_monitor cfg) srt (raw_db w) now))"
    using assms(1) by (auto simp: construct_def split: if_splits option.splits)
  show ?thesis
    unfolding c by (rule keeps_fst [OF keeps_auth_restore]) (rule client_inv_new [OF assms(2) db_inv_open_worker [OF w assms(3)]])
qed

lemma reachable_inv:
  assumes "client_inv X c" and "conn_safe (snd X)" and "fst X = {}"
    and "reaches (happening_act E ` H) \<lparr>sys_state = c, sys_pending = [], sys_trace = []\<rparr> \<sigma>"
    and "\<And>e. Link e \<in> H \<Longrightarrow> in_scope X e"
  shows "client_inv X (sys_state \<sigma>)"
proof -
  have "sys_inv (client_inv X) \<sigma>"
    by (rule reaches_inv [OF assms(4)]) (use assms(1-3,5) in \<open>auto simp: sys_inv_def intro!: keeps_happening\<close>)
  then show ?thesis by (simp add: sys_inv_def)
qed

text \<open>
  C13: From construction on, whatever is called, whatever the server sends, in every order of
  responses: the conversation cache is sorted the way the user sees it, every bucket of the
  message cache is sorted, free of duplicates and within its size, the database meets the
  constraints of its schema (keys, \<open>local_id\<close>, the reference of a message to its
  conversation), and the outbound queue holds at most one callback per message.
\<close>

theorem client_invariant:
  assumes "construct cfg W srt now = Built c" and "sorting srt seq_less" and "db_inv (file_tables (db_file W))"
    and "reaches (range (happening_act E)) \<lparr>sys_state = c, sys_pending = [], sys_trace = []\<rparr> \<sigma>"
  shows "cc_ordered (conv_cache (sys_state \<sigma>)) \<and> mc_inv (msg_cache (sys_state \<sigma>)) \<and> db_inv (db (sys_state \<sigma>))
    \<and> distinct (map fst (callbacks (sys_state \<sigma>)))"
proof -
  have "client_inv ({}, \<lambda>_. True) (sys_state \<sigma>)"
    by (rule reachable_inv [OF construct_inv [OF assms(1-3)] _ _ assms(4)]) (simp_all add: conn_safe_True)
  then show ?thesis by (simp add: client_inv_def)
qed

text \<open>A first start on a new file, a message sent, a frame that is no JSON.\<close>

definition demo_config :: client_config where
  "demo_config = \<lparr>cfg_gateway_url = ''wss://gw'', cfg_api_base_url = ''https://api'', cfg_device_id = ''dev'',
     cfg_db_path = ''anychat.db'', cfg_network_monitor = None, cfg_connect_timeout_ms = 10000,
     cfg_max_reconnect_attempts = 5, cfg_auto_reconnect = True\<rparr>"

definition demo_world :: "tables option \<Rightarrow> db_world" where
  "demo_world t = \<lparr>open_ok = True, version_ok = True, step_ok = (\<lambda>_. True),
     db_file = \<lparr>user_version = (if t = None then 0 else 1), file_tables = t\<rparr>\<rparr>"

lemmas construct_simps = construct_def open_worker_def db_open_def postSync_def db_start_def db_drain_def db_view_def
  new_worker_def runMigrations_def getUserVersion_def migrateToV1_def create_if_not_exists_def querySync_def
  demo_config_def demo_world_def

lemma construct_demo:
  "construct demo_config (demo_world None) srt now
     = Built (new_client ''https://api'' ''wss://gw'' ''dev'' None srt (Some kSchemav1) now)"
  by (simp add: construct_simps auth_restore_def reading_def new_client_def getMeta_row kSchemav1_def row_with_def
      act_if_def skip_def)

theorem client_invariant_witness:
  "\<forall>E. \<exists>c. construct demo_config (demo_world None) (stable_sort seq_less) 0 = Built c
     \<and> cc_ordered (conv_cache (sys_state (start (happening_act E (Send ''c1'' ''hi'' (full_cb 8)))
           \<lparr>sys_state = c, sys_pending = [], sys_trace = []\<rparr>)))"
proof
  fix E
  let ?c = "new_client ''https://api'' ''wss://gw'' ''dev'' None (stable_sort seq_less) (Some kSchemav1) 0"
  have "db_inv (file_tables (db_file (demo_world None)))" by (simp add: demo_world_def)
  from client_invariant [OF construct_demo seq_stable.sorting_axioms this reaches.call [OF reaches.here rangeI]]
  show "\<exists>c. construct demo_config (demo_world None) (stable_sort seq_less) 0 = Built c
     \<and> cc_ordered (conv_cache (sys_state (start (happening_act E (Send ''c1'' ''hi'' (full_cb 8)))
           \<lparr>sys_state = c, sys_pending = [], sys_trace = []\<rparr>)))"
    using construct_demo by blast
qed

section \<open>Construction\<close>

lemma open_worker_runs:
  "cfg_db_path cfg \<noteq> [] \<Longrightarrow> \<exists>w. open_worker cfg W = Some w \<and> db_running w"
  by (auto simp: open_worker_def db_open_def postSync_def db_start_def db_drain_def db_view_def new_worker_def Let_def
      split: prod.split bool.split)

lemma querySync_running: "querySync q w = None \<longleftrightarrow> \<not> db_running w"
  by (auto simp: querySync_def postSync_def Let_def)


section \<open>Tokens\<close>

lemma construct_stored:
  "construct demo_config (demo_world (Some t)) srt now
     = Built (fst (auth_restore (new_client ''https://api'' ''wss://gw'' ''dev'' None srt (Some t) now)))"
  by (simp add: construct_simps)

text \<open>
  C15: A token survives a restart: after a client stored a token (texts without NUL bytes,
  an expiry that fits 64 bits), a client made on the tables the first one leaves has the
  same token, sends it with its requests, and is logged in until the token expires.
\<close>

theorem token_survives_restart:
  assumes "db s = Some t" and "storeToken tok s = (s', es, ps)"
    and "access_token tok \<noteq> []" "nul \<notin> set (access_token tok)" "nul \<notin> set (refresh_token tok)" "is_i64 (expires_at_ms tok)"
  shows "\<exists>c. construct demo_config (demo_world (db s')) srt now = Built c \<and> token c = tok
    \<and> auth_token (http c) = access_token tok \<and> (isLoggedIn c \<longleftrightarrow> expires_at_ms tok > now)"
proof -
  have s': "db s' = setMeta ''auth.expires_at_ms'' (to_string (expires_at_ms tok))
      (setMeta ''auth.refresh_token'' (refresh_token tok) (setMeta ''auth.access_token'' (access_token tok) (db s)))"
    using assms(2) by (auto simp: storeToken_def seq_def modify_def on_db_def)
  then obtain t' where t': "db s' = Some t'" using assms(1) by (cases "db s'") (auto dest: sym)
  have "getMeta ''auth.access_token'' [] (db s') = access_token tok"
    "getMeta ''auth.refresh_token'' [] (db s') = refresh_token tok"
    "getMeta ''auth.expires_at_ms'' ''0'' (db s') = to_string (expires_at_ms tok)"
    using assms(1,4,5) by (simp_all add: s')
  then show ?thesis
    using assms(3,6) t'
    by (simp add: construct_stored auth_restore_def reading_def new_client_def act_if_def seq_def modify_def
        set_http_token_def new_http_def setAuthToken_def isLoggedIn_def Let_def)
qed

theorem token_survives_restart_witness:
  "\<exists>s' es ps c. storeToken \<lparr>access_token = ''a'', refresh_token = ''r'', expires_at_ms = 9000\<rparr> demo_client = (s', es, ps)
     \<and> construct demo_config (demo_world (db s')) (stable_sort seq_less) 6000 = Built c
     \<and> token c = \<lparr>access_token = ''a'', refresh_token = ''r'', expires_at_ms = 9000\<rparr> \<and> isLoggedIn c"
proof -
  let ?tok = "\<lparr>access_token = ''a'', refresh_token = ''r'', expires_at_ms = 9000\<rparr>"
  obtain s' es ps where r: "storeToken ?tok demo_client = (s', es, ps)" by (cases "storeToken ?tok demo_client")
  have not_nul: "nul \<noteq> CHR ''a''" "nul \<noteq> CHR ''r''"
    by (auto simp: nul_def dest!: arg_cong [where f = "of_char :: char \<Rightarrow> nat"])
  have "is_i64 (9000 :: int)" by (simp add: is_i64_def)
  with token_survives_restart [OF demo_client_sel(1) r, of "stable_sort seq_less" 6000] r not_nul show ?thesis
    by auto
qed

section \<open>Login and logout\<close>

text \<open>The token a response stands for.\<close>

definition granted :: "int \<Rightarrow> auth_token_payload \<Rightarrow> auth_token" where
  "granted now p = \<lparr>access_token = at_access_token p, refresh_token = at_refresh_token p,
     expires_at_ms = if at_expires_in p > 0 then wrap64 (now + at_expires_in p * 1000) else 0\<rparr>"

lemma login_continuation:
  assumes "client_login E account pw dt cv (user_callback VAuthToken u) s = (s', es, [Pending q k])"
  shows "k = (\<lambda>resp. handleAuthResponse (j_auth E) resp
       \<lparr>on_success = Some (\<lambda>tok. initializeWebSocket E (access_token tok)
           (perform [conn_act E Connect, succeed (user_callback VAuthToken u) tok])),
        on_error = Some (\<lambda>code err. fail (user_callback VAuthToken u) code err)\<rparr>)"
  using assms
  by (auto simp: client_login_def auth_login_def reading_def with_json_def http_defs await_def fail_def
      user_callback_def emit_def skip_def split: sum.splits option.splits if_splits)

lemma handleAuthResponse_ok:
  assumes "resp_error resp = []" "body resp \<noteq> []" "r_token J (body resp) = Inr env" "env_code env = 0"
    and "at_access_token (env_data env) \<noteq> []"
  shows "handleAuthResponse J resp cb s = perform [storeToken (granted (now_ms s) (env_data env)),
      set_http_token (at_access_token (env_data env)), succeed cb (granted (now_ms s) (env_data env))] s"
  using assms
  by (simp add: handleAuthResponse_def on_envelope_def parseApiEnvelopeResponse_def reading_def granted_def Let_def)

lemmas login_defs = storeToken_def set_http_token_def seq_def modify_def on_db_def succeed_def initializeWebSocket_def
  reading_def granted_def retired_states_def conn_act_def new_link_def connect_def conn_ops new_conn_def
  for_each_def conn_out_act_def onStateChanged_def act_if_def emit_def skip_def set_ws_def on_ws_def
  user_callback_def setAuthToken_def


definition demo_token_payload :: auth_token_payload where
  "demo_token_payload = \<lparr>at_access_token = ''tok'', at_refresh_token = ''ref'', at_expires_in = 3600\<rparr>"

text \<open>A server whose JSON is read and written without errors.\<close>

definition granting :: "client_env \<Rightarrow> client_env" where
  "granting E = E\<lparr>j_auth := (j_auth E)\<lparr>w_login := (\<lambda>_. Inr ''{}''), w_logout := (\<lambda>_. Inr ''{}''),
     r_token := (\<lambda>_. Inr \<lparr>env_code = 0, env_message = [], env_data = demo_token_payload\<rparr>),
     r_result := (\<lambda>_. Inr \<lparr>env_code = 0, env_message = [], env_data = ()\<rparr>)\<rparr>\<rparr>"

definition ok_response :: http_response where
  "ok_response = \<lparr>status_code = 200, body = ''{}'', resp_error = []\<rparr>"

lemma demo_ws_url: "\<exists>w. new_ws_client (buildWsUrl ''wss://gw'' ''tok'') = Some w"
proof -
  have "new_ws_client (buildWsUrl ''wss://gw'' ''tok'') \<noteq> None" by code_simp
  then show ?thesis by blast
qed


lemma disconnect_run:
  assumes "link s = Some l"
  shows "\<exists>s' es. conn_act E Disconnect s = (s', es, []) \<and> connectionState s' = Disconnected \<and> device_id s' = device_id s"
  using assms
  by (cases "has_monitor (lk_conn l)"; cases "cm_state (lk_conn l) = Disconnected"; cases "state_cb s")
    (simp_all add: conn_act_def reading_def disconnect_def conn_ops for_each_def conn_out_act_def onStateChanged_def
      act_if_def emit_def skip_def set_ws_def on_ws_def seq_def modify_def connectionState_def)

text \<open>
  C17: A logout closes the connection at once: the state is \<open>Disconnected\<close>, no frame is sent
  any more (sent messages wait in the queue). When the server agrees, the token is gone from
  memory, from the requests and from the database, so that a restart is not logged in either;
  when it refuses, the token stays while the connection is already closed.
\<close>

theorem logout_outcome:
  assumes "client_logout E (user_callback (\<lambda>_. VUnit) u) s = (s1, es, [Pending q k])" and "link s \<noteq> None"
    and "has_success u" "has_error u" "db s2 \<noteq> None"
    and "(s3, es', ps) = k resp s2"
  shows "connectionState s1 = Disconnected \<and> \<not> send_fn s1
    \<and> (case parseApiEnvelopeResponse (r_result (j_auth E)) resp ''logout failed'' False False of
         Inr _ \<Rightarrow> token s3 = new_auth_token \<and> auth_token (http s3) = [] \<and> getMeta ''auth.access_token'' [] (db s3) = []
           \<and> es' = [Succeeded (cb_id u) VUnit]
       | Inl e \<Rightarrow> token s3 = token s2 \<and> http s3 = http s2 \<and> db s3 = db s2 \<and> es' = [Failed (cb_id u) (fst e) (snd e)])"
proof -
  obtain l where l: "link s = Some l" using assms(2) by blast
  obtain sd ed where d: "conn_act E Disconnect s = (sd, ed, [])" and off: "connectionState sd = Disconnected"
    using disconnect_run [OF l] by blast
  have k: "k = (\<lambda>resp. handleResultResponse (j_auth E) resp ''logout failed''
           \<lparr>on_success = Some (\<lambda>_. perform [clearToken, clear_http_token, succeed (user_callback (\<lambda>_. VUnit) u) ()]),
            on_error = Some (\<lambda>code err. fail (user_callback (\<lambda>_. VUnit) u) code err)\<rparr>)"
    and s1: "s1 = sd\<lparr>send_fn := False\<rparr>"
    using assms(1) l d
    by (auto simp: client_logout_def auth_logout_def reading_def seq_def act_if_def with_json_def http_defs await_def
        fail_def user_callback_def emit_def skip_def oq_onDisconnected_def modify_def
        split: sum.splits option.splits if_splits)
  have "connectionState s1 = Disconnected \<and> \<not> send_fn s1"
    using off by (simp add: s1 connectionState_def)
  moreover have run: "handleResultResponse (j_auth E) resp ''logout failed''
           \<lparr>on_success = Some (\<lambda>_. perform [clearToken, clear_http_token, succeed (user_callback (\<lambda>_. VUnit) u) ()]),
            on_error = Some (\<lambda>code err. fail (user_callback (\<lambda>_. VUnit) u) code err)\<rparr> s2 = (s3, es', ps)"
    using assms(6) [symmetric] k by metis
  have "case parseApiEnvelopeResponse (r_result (j_auth E)) resp ''logout failed'' False False of
         Inr _ \<Rightarrow> token s3 = new_auth_token \<and> auth_token (http s3) = [] \<and> getMeta ''auth.access_token'' [] (db s3) = []
           \<and> es' = [Succeeded (cb_id u) VUnit]
       | Inl e \<Rightarrow> token s3 = token s2 \<and> http s3 = http s2 \<and> db s3 = db s2 \<and> es' = [Failed (cb_id u) (fst e) (snd e)]"
    using assms(3-5) run
    by (auto simp: handleResultResponse_def on_envelope_def succeed_def fail_def user_callback_def emit_def seq_def
        clearToken_def clear_http_token_def modify_def on_db_def clearAuthToken_def c_str_def split: sum.split)
  ultimately show ?thesis by simp
qed

definition online_client :: client where
  "online_client = demo_client\<lparr>link := Some (new_link None (blank_ws_client ''wss://gw'')), send_fn := True\<rparr>"

theorem logout_outcome_witness:
  "\<forall>E. \<exists>s1 es q k s3 ps. client_logout (granting E) (user_callback (\<lambda>_. VUnit) (full_cb 4)) online_client = (s1, es, [Pending q k])
     \<and> connectionState s1 = Disconnected \<and> k ok_response online_client = (s3, [Succeeded 4 VUnit], ps)
     \<and> getMeta ''auth.access_token'' [] (db s3) = []"
proof
  fix E
  obtain sd ed where d: "conn_act (granting E) Disconnect online_client = (sd, ed, [])"
    using disconnect_run [of online_client _ "granting E"] by (auto simp: online_client_def)
  obtain s1 es q k where call: "client_logout (granting E) (user_callback (\<lambda>_. VUnit) (full_cb 4)) online_client
      = (s1, es, [Pending q k])"
    using d by (auto simp: client_logout_def auth_logout_def reading_def seq_def act_if_def with_json_def http_defs
        await_def online_client_def oq_onDisconnected_def modify_def granting_def)
  obtain s3 es' ps where run: "(s3, es', ps) = k ok_response online_client" by (cases "k ok_response online_client") auto
  have "link online_client \<noteq> None" "db online_client \<noteq> None" by (simp_all add: online_client_def)
  from logout_outcome [OF call this(1) _ _ this(2) run] call run [symmetric]
  show "\<exists>s1 es q k s3 ps. client_logout (granting E) (user_callback (\<lambda>_. VUnit) (full_cb 4)) online_client = (s1, es, [Pending q k])
     \<and> connectionState s1 = Disconnected \<and> k ok_response online_client = (s3, [Succeeded 4 VUnit], ps)
     \<and> getMeta ''auth.access_token'' [] (db s3) = []"
    by (auto simp: full_cb_def granting_def ok_response_def parseApiEnvelopeResponse_def)
qed

section \<open>The connection of every reachable client\<close>

text \<open>Everything that may happen, where the timer thread is not interrupted between its check
  and its connect (\<open>conn_timer_race\<close> is what happens then).\<close>

definition undivided :: "happening \<Rightarrow> bool" where
  "undivided h \<longleftrightarrow> (\<forall>e. h = Link (Conn e) \<longrightarrow> atomic_event e)"


definition login_system :: "client_env \<Rightarrow> client_system" where
  "login_system E = deliver 0 ok_response (start (happening_act (granting E) (Login ''me'' ''pw'' 1 ''1.0'' (full_cb 3)))
     \<lparr>sys_state = demo_client, sys_pending = [], sys_trace = []\<rparr>)"

lemma login_system_link: "\<exists>l. link (sys_state (login_system E)) = Some l \<and> cm_state (lk_conn l) = Connecting"
proof -
  obtain w where w: "new_ws_client (buildWsUrl ''wss://gw'' ''tok'') = Some w" using demo_ws_url by blast
  obtain q k where call: "client_login (granting E) ''me'' ''pw'' 1 ''1.0'' (user_callback VAuthToken (full_cb 3)) demo_client
      = (demo_client, [], [Pending q k])"
    by (simp add: client_login_def auth_login_def reading_def granting_def with_json_def http_defs await_def)
  note k = login_continuation [OF call]
  have sel: "gateway_url demo_client = ''wss://gw''" "monitor demo_client = None" "state_cb demo_client = False"
    by (simp_all add: demo_client_def new_client_def)
  have "r_token (j_auth (granting E)) (body ok_response) = Inr \<lparr>env_code = 0, env_message = [], env_data = demo_token_payload\<rparr>"
    by (simp add: granting_def)
  then have run: "handleAuthResponse (j_auth (granting E)) ok_response cb demo_client
      = perform [storeToken (granted 5000 demo_token_payload), set_http_token ''tok'',
          succeed cb (granted 5000 demo_token_payload)] demo_client" for cb
    using handleAuthResponse_ok [of ok_response "j_auth (granting E)"] by (simp add: ok_response_def demo_token_payload_def)
  have "sys_state (login_system E) = fst (k ok_response demo_client)"
    by (simp add: login_system_def start_def call deliver_def split: prod.split)
  then show ?thesis
    by (simp add: k run) (simp add: demo_token_payload_def login_defs sel w)
qed


end
